(* ===== verification/Prelude.thy ===== *)
theory Prelude
  imports Main "HOL-Library.Word" "HOL-Library.Sublist"
begin

text \<open>
  Shared vocabulary of the development: the machine types of the Rust code, its strings as
  UTF-8 byte strings, the string functions of the Rust standard library that the gateway calls,
  the result type that separates an error value from a panic, and the sequencing combinators
  that stand for the question-mark operator, \<open>map_err\<close> and discarded results.
\<close>

section \<open>Machine types\<close>

type_synonym u8 = "8 word"
type_synonym u16 = "16 word"
type_synonym u32 = "32 word"
type_synonym u64 = "64 word"

text \<open>A Rust \<open>String\<close> is a UTF-8 byte string, and so is a \<open>Vec<u8>\<close>: one \<open>char\<close> is one byte.\<close>

type_synonym bytes = string

definition byte_val :: "char \<Rightarrow> u8" where
  "byte_val c = of_char c"

definition byte_chr :: "u8 \<Rightarrow> char" where
  "byte_chr b = char_of (uint b)"

definition chr_nat :: "nat \<Rightarrow> char" where
  "chr_nat n = char_of n"

definition chr_code :: "char \<Rightarrow> nat" where
  "chr_code c = of_char c"

lemma chr_code_less: "chr_code c < 256"
  by (simp add: chr_code_def)

lemma chr_code_inject [simp]: "chr_code c = chr_code d \<longleftrightarrow> c = d"
  by (simp add: chr_code_def)

lemma chr_nat_code [simp]: "chr_nat (chr_code c) = c"
  by (simp add: chr_code_def chr_nat_def)

lemma chr_code_nat [simp]: "n < 256 \<Longrightarrow> chr_code (chr_nat n) = n"
  by (simp add: chr_code_def chr_nat_def of_char_of)

lemma chr_code_Char: "chr_code (Char b0 b1 b2 b3 b4 b5 b6 b7) =
    of_bool b0 + 2 * of_bool b1 + 4 * of_bool b2 + 8 * of_bool b3 + 16 * of_bool b4 + 32 * of_bool b5 + 64 * of_bool b6 + 128 * of_bool b7"
  by (simp add: chr_code_def)

section \<open>Lemma collections\<close>

named_theorems io_defs "unfolding of the effect combinators"
named_theorems io_elims "inversion of successful effectful runs"
named_theorems serde_simps "equations of the serialised forms"

section \<open>Strings\<close>

abbreviation starts_with :: "string \<Rightarrow> string \<Rightarrow> bool" where
  "starts_with p s \<equiv> prefix p s"

abbreviation ends_with :: "string \<Rightarrow> string \<Rightarrow> bool" where
  "ends_with p s \<equiv> suffix p s"

fun contains_str :: "string \<Rightarrow> string \<Rightarrow> bool" where
  "contains_str sub [] = (sub = [])"
| "contains_str sub (c # cs) = (prefix sub (c # cs) \<or> contains_str sub cs)"

lemma contains_str_iff: "contains_str sub s \<longleftrightarrow> (\<exists>pre post. s = pre @ sub @ post)"
proof (induction s)
  case Nil
  then show ?case by auto
next
  case (Cons c cs)
  show ?case
  proof
    assume "contains_str sub (c # cs)"
    then consider "prefix sub (c # cs)" | "contains_str sub cs" by auto
    then show "\<exists>pre post. c # cs = pre @ sub @ post"
    proof cases
      case 1
      then obtain post where "c # cs = [] @ sub @ post" by (auto simp: prefix_def)
      then show ?thesis by blast
    next
      case 2
      then obtain pre post where "cs = pre @ sub @ post" using Cons.IH by blast
      then have "c # cs = (c # pre) @ sub @ post" by simp
      then show ?thesis by blast
    qed
  next
    assume "\<exists>pre post. c # cs = pre @ sub @ post"
    then obtain pre post where eq: "c # cs = pre @ sub @ post" by blast
    show "contains_str sub (c # cs)"
    proof (cases pre)
      case Nil
      with eq have "prefix sub (c # cs)" by (auto simp: prefix_def)
      then show ?thesis by simp
    next
      case (Cons d pre')
      with eq have "cs = pre' @ sub @ post" by simp
      then show ?thesis using Cons.IH by auto
    qed
  qed
qed

lemma contains_str_append_left: "contains_str sub s \<Longrightarrow> contains_str sub (p @ s)"
  by (metis append.assoc contains_str_iff)

definition strip_prefix :: "string \<Rightarrow> string \<Rightarrow> string option" where
  "strip_prefix p s = (if prefix p s then Some (drop (length p) s) else None)"

lemma strip_prefix_append [simp]: "strip_prefix p (p @ s) = Some s"
  by (simp add: strip_prefix_def)

lemma strip_prefix_Some: "strip_prefix p s = Some r \<Longrightarrow> s = p @ r"
  by (auto simp: strip_prefix_def prefix_def split: if_splits)

text \<open>A name in an error message.\<close>

definition quoted :: "string \<Rightarrow> string" where
  "quoted s = CHR 0x27 # s @ [CHR 0x27]"

text \<open>\<open>str::split(pred)\<close>: the pieces between separators, never empty.\<close>

fun split_pred :: "(char \<Rightarrow> bool) \<Rightarrow> string \<Rightarrow> string list" where
  "split_pred p [] = [[]]"
| "split_pred p (c # cs) =
     (if p c then [] # split_pred p cs
      else (case split_pred p cs of [] \<Rightarrow> [[c]] | w # ws \<Rightarrow> (c # w) # ws))"

abbreviation split_on :: "char \<Rightarrow> string \<Rightarrow> string list" where
  "split_on d \<equiv> split_pred (\<lambda>c. c = d)"

lemma split_pred_not_Nil [simp]: "split_pred p s \<noteq> []"
  by (induction s) (auto split: list.splits)

lemma split_pred_pieces: "w \<in> set (split_pred p s) \<Longrightarrow> c \<in> set w \<Longrightarrow> \<not> p c"
proof (induction s arbitrary: w)
  case Nil
  then show ?case by simp
next
  case (Cons a s)
  obtain v vs where v: "split_pred p s = v # vs"
    by (cases "split_pred p s") simp_all
  show ?case
  proof (cases "p a")
    case True
    with Cons v show ?thesis by auto
  next
    case False
    with Cons.prems v consider "w = a # v" | "w \<in> set vs" by auto
    then show ?thesis
    proof cases
      case 1
      with Cons False v show ?thesis by auto
    next
      case 2
      with Cons v show ?thesis by auto
    qed
  qed
qed

text \<open>\<open>str::split_once(c)\<close>: at the first occurrence.\<close>

fun split_once :: "char \<Rightarrow> string \<Rightarrow> (string \<times> string) option" where
  "split_once d [] = None"
| "split_once d (c # cs) =
     (if c = d then Some ([], cs) else map_option (\<lambda>(a, b). (c # a, b)) (split_once d cs))"

lemma split_once_Some: "split_once d s = Some (a, b) \<longleftrightarrow> s = a @ d # b \<and> d \<notin> set a"
proof (induction s arbitrary: a)
  case Nil
  then show ?case by simp
next
  case (Cons c cs)
  note IH = Cons.IH
  show ?case
  proof (cases a)
    case Nil
    then show ?thesis by auto
  next
    case (Cons e a')
    then show ?thesis using IH [of a'] by auto
  qed
qed

lemma split_once_None: "split_once d s = None \<longleftrightarrow> d \<notin> set s"
  by (induction s) auto

text \<open>\<open>str::splitn(3, c)\<close> of which the code uses only a result with exactly three parts.\<close>

definition splitn3 :: "char \<Rightarrow> string \<Rightarrow> (string \<times> string \<times> string) option" where
  "splitn3 d s = (case split_once d s of None \<Rightarrow> None
     | Some (a, r) \<Rightarrow> (case split_once d r of None \<Rightarrow> None | Some (b, c) \<Rightarrow> Some (a, b, c)))"

lemma splitn3_Some: "splitn3 d s = Some (a, b, c) \<Longrightarrow> s = a @ d # b @ d # c"
  by (auto simp: splitn3_def split_once_Some split: option.splits prod.splits)

definition is_ws :: "char \<Rightarrow> bool" where
  "is_ws c \<longleftrightarrow> chr_code c = 32 \<or> (9 \<le> chr_code c \<and> chr_code c \<le> 13)"

text \<open>\<open>trim\<close> and \<open>split_whitespace\<close>, on the ASCII white space characters.\<close>

definition trim :: "string \<Rightarrow> string" where
  "trim s = rev (dropWhile is_ws (rev (dropWhile is_ws s)))"

definition split_whitespace :: "string \<Rightarrow> string list" where
  "split_whitespace s = List.filter (\<lambda>w. w \<noteq> []) (split_pred is_ws s)"

definition trim_end_matches :: "char \<Rightarrow> string \<Rightarrow> string" where
  "trim_end_matches d s = rev (dropWhile (\<lambda>c. c = d) (rev s))"

text \<open>ASCII case folding; other bytes are left alone.\<close>

definition lower_chr :: "char \<Rightarrow> char" where
  "lower_chr c = (if 65 \<le> chr_code c \<and> chr_code c \<le> 90 then chr_nat (chr_code c + 32) else c)"

definition upper_chr :: "char \<Rightarrow> char" where
  "upper_chr c = (if 97 \<le> chr_code c \<and> chr_code c \<le> 122 then chr_nat (chr_code c - 32) else c)"

definition to_lowercase :: "string \<Rightarrow> string" where
  "to_lowercase = map lower_chr"

definition to_uppercase :: "string \<Rightarrow> string" where
  "to_uppercase = map upper_chr"

definition eq_ignore_ascii_case :: "string \<Rightarrow> string \<Rightarrow> bool" where
  "eq_ignore_ascii_case a b \<longleftrightarrow> to_lowercase a = to_lowercase b"

text \<open>Evaluation on the bits of a byte.\<close>

lemma lower_chr_code [code]:
  "lower_chr (Char b0 b1 b2 b3 b4 b5 b6 b7) =
     (if \<not> b7 \<and> b6 \<and> \<not> b5 \<and> (b0 \<or> b1 \<or> b2 \<or> b3 \<or> b4) \<and> \<not> (b4 \<and> b3 \<and> (b2 \<or> b1 \<and> b0))
      then Char b0 b1 b2 b3 b4 True b6 b7 else Char b0 b1 b2 b3 b4 b5 b6 b7)"
  by (cases b0; cases b1; cases b2; cases b3; cases b4; cases b5; cases b6; cases b7)
     (simp_all add: lower_chr_def chr_code_Char chr_nat_def char_of_def bit_0)

lemma lower_chr_idem [simp]: "lower_chr (lower_chr c) = lower_chr c"
proof (cases "65 \<le> chr_code c \<and> chr_code c \<le> 90")
  case True
  then have "chr_code (lower_chr c) = chr_code c + 32"
    by (simp add: lower_chr_def)
  with True show ?thesis by (subst lower_chr_def) simp
next
  case False
  then have "lower_chr c = c" by (auto simp: lower_chr_def)
  then show ?thesis by simp
qed

lemma to_lowercase_idem [simp]: "to_lowercase (to_lowercase s) = to_lowercase s"
  by (simp add: to_lowercase_def)

lemma to_lowercase_append [simp]: "to_lowercase (a @ b) = to_lowercase a @ to_lowercase b"
  by (simp add: to_lowercase_def)

section \<open>Decimal numbers\<close>

fun show_nat :: "nat \<Rightarrow> string" where
  "show_nat n = (if n < 10 then [chr_nat (48 + n)]
     else show_nat (n div 10) @ [chr_nat (48 + n mod 10)])"

declare show_nat.simps [simp del]

abbreviation show_u64 :: "u64 \<Rightarrow> string" where
  "show_u64 x \<equiv> show_nat (unat x)"

definition is_digit :: "char \<Rightarrow> bool" where
  "is_digit c \<longleftrightarrow> 48 \<le> chr_code c \<and> chr_code c \<le> 57"

lemma is_digit_code [code]:
  "is_digit (Char b0 b1 b2 b3 b4 b5 b6 b7) \<longleftrightarrow> \<not> b7 \<and> \<not> b6 \<and> b5 \<and> b4 \<and> (\<not> b3 \<or> \<not> b2 \<and> \<not> b1)"
  by (cases b0; cases b1; cases b2; cases b3; cases b4; cases b5; cases b6; cases b7)
     (simp_all add: is_digit_def chr_code_Char)

definition digits_val :: "string \<Rightarrow> nat" where
  "digits_val = foldl (\<lambda>n c. 10 * n + (chr_code c - 48)) 0"

lemma digits_val_snoc [simp]: "digits_val (s @ [c]) = 10 * digits_val s + (chr_code c - 48)"
  by (simp add: digits_val_def)

lemma digits_val_Nil [simp]: "digits_val [] = 0"
  by (simp add: digits_val_def)

text \<open>Evaluation of decimal text works on binary integers.\<close>

primrec show_dec :: "nat \<Rightarrow> int \<Rightarrow> string" where
  "show_dec 0 i = []"
| "show_dec (Suc f) i =
     (if i < 10 then [chr_nat (48 + nat i)] else show_dec f (i div 10) @ [chr_nat (48 + nat (i mod 10))])"

lemma show_dec: "n < 10 ^ f \<Longrightarrow> show_dec f (int n) = (if f = 0 then [] else show_nat n)"
proof (induction f arbitrary: n)
  case 0
  then show ?case by simp
next
  case (Suc f)
  have d: "int n div 10 = int (n div 10)" "int n mod 10 = int (n mod 10)" by (simp_all add: zdiv_int zmod_int)
  show ?case
  proof (cases "n < 10")
    case True
    then show ?thesis by (subst show_nat.simps) simp
  next
    case False
    with Suc.prems have "f \<noteq> 0" by (cases f) auto
    moreover have "n div 10 < 10 ^ f" using Suc.prems by (simp add: less_mult_imp_div_less mult.commute)
    ultimately have "show_dec f (int (n div 10)) = show_nat (n div 10)" using Suc.IH by simp
    with False show ?thesis by (subst show_nat.simps) (simp add: d)
  qed
qed

definition show_int :: "int \<Rightarrow> string" where
  "show_int i = show_dec 20 i"

lemma show_int_code [code]:
  "show_int 0 = show_dec 20 0" "show_int (Int.Pos n) = show_dec 20 (Int.Pos n)" "show_int (Int.Neg n) = show_dec 20 (Int.Neg n)"
  by (simp_all add: show_int_def)

lemma show_nat_code [code]: "show_nat n = show_dec (Suc n) (int n)"
proof -
  have "n < 10 ^ Suc n" by (induction n) auto
  then show ?thesis using show_dec [of n "Suc n"] by simp
qed

definition show_word :: "u64 \<Rightarrow> string" where
  "show_word w = show_int (uint w)"

lemma show_u64_word [code_unfold]: "show_u64 w = show_word w"
proof -
  have "unat w < 2 ^ LENGTH(64)" by (rule unsigned_less)
  then have "unat w < 10 ^ 20" by simp
  then show ?thesis using show_dec [of "unat w" 20] by (simp add: show_word_def show_int_def)
qed

abbreviation show_u32 :: "u32 \<Rightarrow> string" where
  "show_u32 x \<equiv> show_nat (unat x)"

definition show_word32 :: "u32 \<Rightarrow> string" where
  "show_word32 w = show_int (uint w)"

lemma show_u32_word [code_unfold]: "show_u32 w = show_word32 w"
proof -
  have "unat w < 2 ^ LENGTH(32)" by (rule unsigned_less)
  then have "unat w < 10 ^ 20" by simp
  then show ?thesis using show_dec [of "unat w" 20] by (simp add: show_word32_def show_int_def)
qed

lemma show_nat_digits: "list_all is_digit (show_nat n)"
proof (induction n rule: show_nat.induct)
  case (1 n)
  have last: "is_digit (chr_nat (48 + m))" if "m < 10" for m
    using that by (simp add: is_digit_def)
  show ?case
  proof (cases "n < 10")
    case True
    with last show ?thesis by (subst show_nat.simps) simp
  next
    case False
    with 1 last [of "n mod 10"] show ?thesis by (subst show_nat.simps) simp
  qed
qed

lemma show_nat_not_Nil [simp]: "show_nat n \<noteq> []"
  by (subst show_nat.simps) simp

lemma digits_val_show [simp]: "digits_val (show_nat n) = n"
proof (induction n rule: show_nat.induct)
  case (1 n)
  show ?case
  proof (cases "n < 10")
    case True
    then show ?thesis by (subst show_nat.simps) (simp add: digits_val_def)
  next
    case False
    with 1 have "digits_val (show_nat (n div 10)) = n div 10" by simp
    with False show ?thesis by (subst show_nat.simps) simp
  qed
qed

lemma show_nat_inject [simp]: "show_nat a = show_nat b \<longleftrightarrow> a = b"
  by (metis digits_val_show)

text \<open>\<open>str::parse::<u64>()\<close>: an optional plus sign, at least one digit, no overflow.\<close>

definition parse_nat_below :: "nat \<Rightarrow> string \<Rightarrow> nat option" where
  "parse_nat_below b s =
     (let ds = (case s of [] \<Rightarrow> [] | c # cs \<Rightarrow> if c = CHR ''+'' then cs else s)
      in if ds = [] \<or> \<not> list_all is_digit ds \<or> b \<le> digits_val ds then None
         else Some (digits_val ds))"

definition parse_u64 :: "string \<Rightarrow> u64 option" where
  "parse_u64 s = map_option of_nat (parse_nat_below (2 ^ 64) s)"

definition parse_u32 :: "string \<Rightarrow> u32 option" where
  "parse_u32 s = map_option of_nat (parse_nat_below (2 ^ 32) s)"

definition digits_int :: "string \<Rightarrow> int" where
  "digits_int = foldl (\<lambda>n c. 10 * n + (int (chr_code c) - 48)) 0"

lemma digits_int: "list_all is_digit s \<Longrightarrow> digits_int s = int (digits_val s)"
proof (induction s rule: rev_induct)
  case Nil
  then show ?case by (simp add: digits_int_def)
next
  case (snoc c s)
  then have "48 \<le> chr_code c" by (simp add: is_digit_def)
  with snoc show ?case by (simp add: digits_int_def of_nat_diff)
qed

lemma parse_u64_code [code]:
  "parse_u64 s = (let ds = (case s of [] \<Rightarrow> [] | c # cs \<Rightarrow> if c = CHR ''+'' then cs else s) in
     if ds = [] \<or> \<not> list_all is_digit ds then None
     else let v = digits_int ds in if v < 18446744073709551616 then Some (of_int v) else None)"
  by (simp add: parse_u64_def parse_nat_below_def Let_def digits_int not_le)

lemma parse_u32_code [code]:
  "parse_u32 s = (let ds = (case s of [] \<Rightarrow> [] | c # cs \<Rightarrow> if c = CHR ''+'' then cs else s) in
     if ds = [] \<or> \<not> list_all is_digit ds then None
     else let v = digits_int ds in if v < 4294967296 then Some (of_int v) else None)"
  by (simp add: parse_u32_def parse_nat_below_def Let_def digits_int not_le)

lemma show_nat_no_plus: "show_nat n = c # cs \<Longrightarrow> c \<noteq> CHR ''+''"
  using show_nat_digits [of n] by (auto simp: is_digit_def chr_code_def)

lemma parse_show_below: "n < b \<Longrightarrow> parse_nat_below b (show_nat n) = Some n"
proof -
  assume n: "n < b"
  obtain c cs where s: "show_nat n = c # cs"
    by (cases "show_nat n") simp_all
  have "digits_val (c # cs) = n" using digits_val_show [of n] by (simp add: s)
  moreover have "list_all is_digit (c # cs)" using show_nat_digits [of n] by (simp add: s)
  ultimately show ?thesis
    using n show_nat_no_plus [OF s] by (simp add: parse_nat_below_def s)
qed

lemma parse_show_u64 [simp]: "parse_u64 (show_u64 x) = Some x"
proof -
  have "unat x < 2 ^ 64" using unsigned_less [of x] by simp
  then show ?thesis by (simp add: parse_u64_def parse_show_below)
qed

text \<open>\<open>format!("{b:02x}")\<close> over a byte slice.\<close>

definition hex_digit :: "nat \<Rightarrow> char" where
  "hex_digit n = (if n < 10 then chr_nat (48 + n) else chr_nat (87 + n))"

definition hex_byte :: "char \<Rightarrow> string" where
  "hex_byte c = [hex_digit (chr_code c div 16), hex_digit (chr_code c mod 16)]"

definition nibble :: "bool \<Rightarrow> bool \<Rightarrow> bool \<Rightarrow> bool \<Rightarrow> char" where
  "nibble b0 b1 b2 b3 =
     (if b3 \<and> (b2 \<or> b1)
      then (if b2 then (if b1 then (if b0 then CHR ''f'' else CHR ''e'') else (if b0 then CHR ''d'' else CHR ''c''))
            else (if b0 then CHR ''b'' else CHR ''a''))
      else Char b0 b1 b2 b3 True True False False)"

lemma hex_byte_code [code]:
  "hex_byte (Char b0 b1 b2 b3 b4 b5 b6 b7) = [nibble b4 b5 b6 b7, nibble b0 b1 b2 b3]"
  by (cases b0; cases b1; cases b2; cases b3; cases b4; cases b5; cases b6; cases b7)
     (simp_all add: hex_byte_def hex_digit_def chr_code_Char chr_nat_def char_of_def bit_0 nibble_def)
definition hex_lower :: "bytes \<Rightarrow> string" where
  "hex_lower bs = concat (map hex_byte bs)"

lemma length_hex_lower [simp]: "length (hex_lower bs) = 2 * length bs"
  by (induction bs) (simp_all add: hex_lower_def hex_byte_def)

lemma hex_digit_inject: "a < 16 \<Longrightarrow> b < 16 \<Longrightarrow> hex_digit a = hex_digit b \<Longrightarrow> a = b"
  by (auto simp: hex_digit_def dest!: arg_cong [where f = chr_code] split: if_splits)

lemma hex_byte_inject: "hex_byte c = hex_byte d \<Longrightarrow> c = d"
proof -
  assume "hex_byte c = hex_byte d"
  then have "hex_digit (chr_code c div 16) = hex_digit (chr_code d div 16)"
    and "hex_digit (chr_code c mod 16) = hex_digit (chr_code d mod 16)"
    by (simp_all add: hex_byte_def)
  moreover have "chr_code c div 16 < 16" "chr_code d div 16 < 16"
    using chr_code_less [of c] chr_code_less [of d] by simp_all
  moreover have "chr_code c mod 16 < 16" "chr_code d mod 16 < 16" by simp_all
  ultimately have "chr_code c div 16 = chr_code d div 16" "chr_code c mod 16 = chr_code d mod 16"
    using hex_digit_inject by blast+
  then have "chr_code c = chr_code d" by (metis div_mod_decomp)
  then show "c = d" by simp
qed

lemma hex_lower_inject: "hex_lower xs = hex_lower ys \<Longrightarrow> xs = ys"
proof (induction xs arbitrary: ys)
  case Nil
  then show ?case by (cases ys) (auto simp: hex_lower_def hex_byte_def)
next
  case (Cons x xs)
  then obtain y ys' where ys: "ys = y # ys'"
    by (cases ys) (auto simp: hex_lower_def hex_byte_def)
  with Cons.prems have "hex_byte x = hex_byte y" "hex_lower xs = hex_lower ys'"
    by (auto simp: hex_lower_def hex_byte_def)
  with Cons.IH ys show ?case by (auto dest: hex_byte_inject)
qed

section \<open>Results\<close>

text \<open>
  \<open>Result<T, String>\<close>, with one more outcome: a panic is not an error value, no
  \<open>match\<close> or \<open>map_err\<close> of the code sees it, and it ends the request.
\<close>

datatype 'a res = Ok 'a | Err string | Panic string

definition res_bind :: "'a res \<Rightarrow> ('a \<Rightarrow> 'b res) \<Rightarrow> 'b res" where
  "res_bind r f = (case r of Ok x \<Rightarrow> f x | Err e \<Rightarrow> Err e | Panic p \<Rightarrow> Panic p)"

lemma res_bind_simps [simp]:
  "res_bind (Ok x) f = f x" "res_bind (Err e) f = Err e" "res_bind (Panic p) f = Panic p"
  by (simp_all add: res_bind_def)

lemma res_bind_Ok: "res_bind r f = Ok y \<longleftrightarrow> (\<exists>x. r = Ok x \<and> f x = Ok y)"
  by (cases r) auto

definition ok_or :: "'a option \<Rightarrow> string \<Rightarrow> 'a res" where
  "ok_or x e = (case x of None \<Rightarrow> Err e | Some y \<Rightarrow> Ok y)"

lemma ok_or_simps [simp]: "ok_or None e = Err e" "ok_or (Some y) e = Ok y"
  by (simp_all add: ok_or_def)

lemma ok_or_Ok: "ok_or x e = Ok y \<longleftrightarrow> x = Some y"
  by (cases x) auto

definition res_map_err :: "(string \<Rightarrow> string) \<Rightarrow> 'a res \<Rightarrow> 'a res" where
  "res_map_err f r = (case r of Ok x \<Rightarrow> Ok x | Err e \<Rightarrow> Err (f e) | Panic p \<Rightarrow> Panic p)"

lemma res_map_err_simps [simp]:
  "res_map_err f (Ok x) = Ok x" "res_map_err f (Err e) = Err (f e)"
  "res_map_err f (Panic p) = Panic p"
  by (simp_all add: res_map_err_def)

lemma res_map_err_Ok: "res_map_err f r = Ok y \<longleftrightarrow> r = Ok y"
  by (cases r) auto

section \<open>Effects\<close>

text \<open>
  An effectful function takes the world and returns a result and the next world.
  \<open>try_io m k\<close> is \<open>let x = m.await?; k x\<close>; \<open>match_io m k h\<close> is a \<open>match\<close> on the result
  of \<open>m\<close>; \<open>ignore_io m k\<close> is \<open>let _ = m.await; k\<close>.
\<close>

type_synonym ('a, 'w) io = "'w \<Rightarrow> 'a res \<times> 'w"

definition ret :: "'a \<Rightarrow> ('a, 'w) io" where
  "ret x = (\<lambda>w. (Ok x, w))"

definition fail :: "string \<Rightarrow> ('a, 'w) io" where
  "fail e = (\<lambda>w. (Err e, w))"

definition panic :: "string \<Rightarrow> ('a, 'w) io" where
  "panic p = (\<lambda>w. (Panic p, w))"

definition lift :: "'a res \<Rightarrow> ('a, 'w) io" where
  "lift r = (\<lambda>w. (r, w))"

definition try_io :: "('a, 'w) io \<Rightarrow> ('a \<Rightarrow> ('b, 'w) io) \<Rightarrow> ('b, 'w) io" where
  "try_io m k = (\<lambda>w. case m w of
       (Ok x, w') \<Rightarrow> k x w' | (Err e, w') \<Rightarrow> (Err e, w') | (Panic p, w') \<Rightarrow> (Panic p, w'))"

definition match_io :: "('a, 'w) io \<Rightarrow> ('a \<Rightarrow> ('b, 'w) io) \<Rightarrow> (string \<Rightarrow> ('b, 'w) io) \<Rightarrow> ('b, 'w) io" where
  "match_io m k h = (\<lambda>w. case m w of
       (Ok x, w') \<Rightarrow> k x w' | (Err e, w') \<Rightarrow> h e w' | (Panic p, w') \<Rightarrow> (Panic p, w'))"

definition ignore_io :: "('a, 'w) io \<Rightarrow> ('b, 'w) io \<Rightarrow> ('b, 'w) io" where
  "ignore_io m k = match_io m (\<lambda>_. k) (\<lambda>_. k)"

definition map_err :: "(string \<Rightarrow> string) \<Rightarrow> ('a, 'w) io \<Rightarrow> ('a, 'w) io" where
  "map_err f m = match_io m ret (\<lambda>e. fail (f e))"

text \<open>\<open>.await.ok()\<close>, \<open>.await.unwrap_or_default()\<close> and the like.\<close>

definition or_else_io :: "('a, 'w) io \<Rightarrow> 'a \<Rightarrow> ('a, 'w) io" where
  "or_else_io m d = match_io m ret (\<lambda>_. ret d)"

text \<open>Evaluation turns a run into a case distinction on the run of its first call.\<close>

lemmas io_runs [code_unfold] = try_io_def match_io_def ignore_io_def map_err_def or_else_io_def
  lift_def ret_def fail_def panic_def res_bind_def res_map_err_def ok_or_def

lemma ret_app [simp]: "ret x w = (Ok x, w)" by (simp add: ret_def)
lemma fail_app [simp]: "fail e w = (Err e, w)" by (simp add: fail_def)
lemma panic_app [simp]: "panic p w = (Panic p, w)" by (simp add: panic_def)
lemma lift_app [simp]: "lift r w = (r, w)" by (simp add: lift_def)

lemma try_io_simps [simp]:
  "m w = (Ok x, w') \<Longrightarrow> try_io m k w = k x w'"
  "m w = (Err e, w') \<Longrightarrow> try_io m k w = (Err e, w')"
  "m w = (Panic p, w') \<Longrightarrow> try_io m k w = (Panic p, w')"
  by (simp_all add: try_io_def)

lemma match_io_simps [simp]:
  "m w = (Ok x, w') \<Longrightarrow> match_io m k h w = k x w'"
  "m w = (Err e, w') \<Longrightarrow> match_io m k h w = h e w'"
  "m w = (Panic p, w') \<Longrightarrow> match_io m k h w = (Panic p, w')"
  by (simp_all add: match_io_def)

lemma try_io_ret [simp]: "try_io (ret x) k = k x"
  by (simp add: try_io_def ret_def)

lemma try_io_Ok:
  assumes "try_io m k w = (Ok y, w')"
  obtains x w1 where "m w = (Ok x, w1)" and "k x w1 = (Ok y, w')"
proof (cases "m w")
  case (Pair r w1)
  show ?thesis
  proof (cases r)
    case (Ok x)
    with Pair assms that show ?thesis by (simp add: try_io_def)
  next
    case (Err e)
    with Pair assms show ?thesis by (simp add: try_io_def)
  next
    case (Panic p)
    with Pair assms show ?thesis by (simp add: try_io_def)
  qed
qed

lemma match_io_cases:
  assumes "match_io m k h w = (Ok y, w')"
  obtains (ok) x w1 where "m w = (Ok x, w1)" and "k x w1 = (Ok y, w')"
    | (err) e w1 where "m w = (Err e, w1)" and "h e w1 = (Ok y, w')"
proof (cases "m w")
  case (Pair r w1)
  show ?thesis
  proof (cases r)
    case (Ok x)
    with Pair assms show ?thesis by (intro ok [of x w1]) (simp_all add: match_io_def)
  next
    case (Err e)
    with Pair assms show ?thesis by (intro err [of e w1]) (simp_all add: match_io_def)
  next
    case (Panic p)
    with Pair assms show ?thesis by (simp add: match_io_def)
  qed
qed

lemma ignore_io_Ok:
  assumes "ignore_io m k w = (Ok y, w')"
  obtains r w1 where "m w = (r, w1)" and "k w1 = (Ok y, w')"
  using assms unfolding ignore_io_def
  by (elim match_io_cases) blast+

lemma map_err_Ok: "map_err f m w = (Ok y, w') \<longleftrightarrow> m w = (Ok y, w')"
  by (auto simp: map_err_def match_io_def split: prod.splits res.splits)

lemma lift_Ok: "lift r w = (Ok y, w') \<longleftrightarrow> r = Ok y \<and> w' = w"
  by auto

lemma or_else_io_Ok:
  assumes "or_else_io m d w = (Ok y, w')"
  obtains (ok) "m w = (Ok y, w')" | (err) e where "m w = (Err e, w')" and "y = d"
  using assms unfolding or_else_io_def by (elim match_io_cases) auto

lemmas io_simps = try_io_def match_io_def ignore_io_def map_err_def or_else_io_def

end
