(* ===== verification/Utf8.thy ===== *)
theory Utf8
  imports Prelude
begin

text \<open>
  UTF-8 validity and lossy decoding as the Rust standard library performs them: an invalid
  sequence is replaced, per maximal invalid prefix, by the three bytes of U+FFFD.
\<close>

definition in_range :: "nat \<Rightarrow> nat \<Rightarrow> char \<Rightarrow> bool" where
  "in_range lo hi c \<longleftrightarrow> lo \<le> chr_code c \<and> chr_code c \<le> hi"

abbreviation cont_byte :: "char \<Rightarrow> bool" where
  "cont_byte \<equiv> in_range 128 191"

text \<open>The bounds of the byte after a lead byte of a 3- or 4-byte sequence.\<close>

definition second_ok :: "nat \<Rightarrow> char \<Rightarrow> bool" where
  "second_ok b c =
    (if b = 224 then in_range 160 191 c
     else if b = 237 then in_range 128 159 c
     else if b = 240 then in_range 144 191 c
     else if b = 244 then in_range 128 143 c
     else cont_byte c)"

definition nth_ok :: "(char \<Rightarrow> bool) \<Rightarrow> nat \<Rightarrow> string \<Rightarrow> bool" where
  "nth_ok p i s \<longleftrightarrow> i < length s \<and> p (s ! i)"

text \<open>Length and validity of the first chunk of a non-empty byte string.\<close>

definition utf8_step :: "string \<Rightarrow> nat \<times> bool" where
  "utf8_step s =
    (let b = chr_code (hd s) in
     if b < 128 then (1, True)
     else if 194 \<le> b \<and> b \<le> 223 then (if nth_ok cont_byte 1 s then (2, True) else (1, False))
     else if 224 \<le> b \<and> b \<le> 239 then
       (if \<not> nth_ok (second_ok b) 1 s then (1, False)
        else if \<not> nth_ok cont_byte 2 s then (2, False) else (3, True))
     else if 240 \<le> b \<and> b \<le> 244 then
       (if \<not> nth_ok (second_ok b) 1 s then (1, False)
        else if \<not> nth_ok cont_byte 2 s then (2, False)
        else if \<not> nth_ok cont_byte 3 s then (3, False) else (4, True))
     else (1, False))"

lemma utf8_step_pos: "0 < fst (utf8_step s)"
  by (simp add: utf8_step_def Let_def)

definition replacement_chr :: string where
  "replacement_chr = [chr_nat 239, chr_nat 191, chr_nat 189]"

lemma drop_step_less: "s \<noteq> [] \<Longrightarrow> length s - fst (utf8_step s) < length s"
  using utf8_step_pos [of s] by (cases s) auto

function from_utf8_lossy :: "bytes \<Rightarrow> string" where
  "from_utf8_lossy s = (if s = [] then []
     else (if snd (utf8_step s) then take (fst (utf8_step s)) s else replacement_chr)
       @ from_utf8_lossy (drop (fst (utf8_step s)) s))"
  by pat_completeness auto
termination
  by (relation "measure length") (simp_all add: drop_step_less)

declare from_utf8_lossy.simps [simp del]

function utf8_valid :: "bytes \<Rightarrow> bool" where
  "utf8_valid s = (if s = [] then True
     else if snd (utf8_step s) then utf8_valid (drop (fst (utf8_step s)) s) else False)"
  by pat_completeness auto
termination
  by (relation "measure length") (simp_all add: drop_step_less)

declare utf8_valid.simps [simp del]

lemma utf8_code [code]:
  "from_utf8_lossy [] = []"
  "from_utf8_lossy (c # cs) = (let (n, ok) = utf8_step (c # cs) in
     (if ok then take n (c # cs) else replacement_chr) @ from_utf8_lossy (drop n (c # cs)))"
  "utf8_valid [] = True"
  "utf8_valid (c # cs) = (let (n, ok) = utf8_step (c # cs) in
     if ok then utf8_valid (drop n (c # cs)) else False)"
  by (subst from_utf8_lossy.simps utf8_valid.simps; simp add: case_prod_beta Let_def)+

definition from_utf8 :: "bytes \<Rightarrow> string option" where
  "from_utf8 s = (if utf8_valid s then Some s else None)"

lemma from_utf8_lossy_valid: "utf8_valid s \<Longrightarrow> from_utf8_lossy s = s"
proof (induction s rule: from_utf8_lossy.induct)
  case (1 s)
  show ?case
  proof (cases "s = []")
    case True
    then show ?thesis by (subst from_utf8_lossy.simps) simp
  next
    case False
    with 1(2) have "snd (utf8_step s)" and "utf8_valid (drop (fst (utf8_step s)) s)"
      by (simp_all add: utf8_valid.simps [of s] split: if_splits)
    with 1(1) [OF False] False show ?thesis
      by (subst from_utf8_lossy.simps) simp
  qed
qed

lemma from_utf8_lossy_Nil [simp]: "from_utf8_lossy [] = []"
  by (subst from_utf8_lossy.simps) simp

lemma utf8_valid_ascii: "\<forall>c \<in> set s. chr_code c < 128 \<Longrightarrow> utf8_valid s"
proof (induction s)
  case Nil
  then show ?case by (subst utf8_valid.simps) simp
next
  case (Cons c s)
  then have "utf8_step (c # s) = (1, True)" by (simp add: utf8_step_def)
  with Cons show ?case by (subst utf8_valid.simps) simp
qed

lemma from_utf8_lossy_ascii: "\<forall>c \<in> set s. chr_code c < 128 \<Longrightarrow> from_utf8_lossy s = s"
  by (simp add: from_utf8_lossy_valid utf8_valid_ascii)

end
