(* ===== verification/Ip_Addr.thy ===== *)
theory Ip_Addr
  imports Prelude
begin

text \<open>
  \<open>std::net::IpAddr\<close> parsing as the Rust standard library performs it, and the private and
  reserved address ranges of \<open>util.rs\<close>.
\<close>

unbundle bit_operations_syntax

datatype ip_addr = V4 u8 u8 u8 u8 | V6 "u16 list"

section \<open>Parsing\<close>

definition hex_val :: "char \<Rightarrow> nat option" where
  "hex_val c = (let b = chr_code c in
     if 48 \<le> b \<and> b \<le> 57 then Some (b - 48)
     else if 97 \<le> b \<and> b \<le> 102 then Some (b - 97 + 10)
     else if 65 \<le> b \<and> b \<le> 70 then Some (b - 65 + 10)
     else None)"

lemma hex_val_less: "hex_val c = Some v \<Longrightarrow> v < 16"
  by (auto simp: hex_val_def Let_def split: if_splits)

definition is_hex :: "char \<Rightarrow> bool" where
  "is_hex c \<longleftrightarrow> hex_val c \<noteq> None"

definition hex_num :: "string \<Rightarrow> nat" where
  "hex_num = foldl (\<lambda>n c. 16 * n + (case hex_val c of Some v \<Rightarrow> v | None \<Rightarrow> 0)) 0"

definition read_dec :: "string \<Rightarrow> (nat \<times> string) option" where
  "read_dec s = (let ds = takeWhile is_digit s in
     if ds = [] \<or> 3 < length ds \<or> (hd ds = CHR ''0'' \<and> 1 < length ds) \<or> 255 < digits_val ds then None
     else Some (digits_val ds, dropWhile is_digit s))"

definition read_hex4 :: "string \<Rightarrow> (nat \<times> string) option" where
  "read_hex4 s = (let ds = takeWhile is_hex s in
     if ds = [] \<or> 4 < length ds then None else Some (hex_num ds, dropWhile is_hex s))"

definition read_char :: "char \<Rightarrow> string \<Rightarrow> string option" where
  "read_char d s = (case s of [] \<Rightarrow> None | c # r \<Rightarrow> if c = d then Some r else None)"

text \<open>\<open>read_separator\<close>: a separator before every group but the first.\<close>

definition read_sep :: "char \<Rightarrow> nat \<Rightarrow> (string \<Rightarrow> ('a \<times> string) option) \<Rightarrow> string \<Rightarrow> ('a \<times> string) option" where
  "read_sep d i p s = (if i = 0 then p s else Option.bind (read_char d s) p)"

definition read_ipv4 :: "string \<Rightarrow> ((nat \<times> nat \<times> nat \<times> nat) \<times> string) option" where
  "read_ipv4 s =
     Option.bind (read_sep (CHR ''.'') 0 read_dec s) (\<lambda>(a, s).
     Option.bind (read_sep (CHR ''.'') 1 read_dec s) (\<lambda>(b, s).
     Option.bind (read_sep (CHR ''.'') 2 read_dec s) (\<lambda>(c, s).
     Option.bind (read_sep (CHR ''.'') 3 read_dec s) (\<lambda>(d, s). Some ((a, b, c, d), s)))))"

text \<open>\<open>read_groups\<close> with \<open>n\<close> groups left of a limit \<open>i + n\<close>; the flag tells of an IPv4 tail.\<close>

fun read_groups :: "nat \<Rightarrow> nat \<Rightarrow> string \<Rightarrow> nat list \<times> bool \<times> string" where
  "read_groups i 0 s = ([], False, s)"
| "read_groups i (Suc n) s =
     (case (if 0 < n then read_sep (CHR '':'') i read_ipv4 s else None) of
        Some ((a, b, c, d), r) \<Rightarrow> ([256 * a + b, 256 * c + d], True, r)
      | None \<Rightarrow>
          (case read_sep (CHR '':'') i read_hex4 s of
             None \<Rightarrow> ([], False, s)
           | Some (g, r) \<Rightarrow> (case read_groups (Suc i) n r of (gs, v4, r') \<Rightarrow> (g # gs, v4, r'))))"

definition read_ipv6 :: "string \<Rightarrow> (nat list \<times> string) option" where
  "read_ipv6 s = (case read_groups 0 8 s of (hd_groups, v4, r) \<Rightarrow>
     if length hd_groups = 8 then Some (hd_groups, r)
     else if v4 then None
     else Option.bind (read_char (CHR '':'') r) (\<lambda>r.
          Option.bind (read_char (CHR '':'') r) (\<lambda>r.
          case read_groups 0 (8 - (length hd_groups + 1)) r of (tl_groups, _, r) \<Rightarrow>
            Some (hd_groups @ replicate (8 - length hd_groups - length tl_groups) 0 @ tl_groups, r))))"

definition parse_ip :: "string \<Rightarrow> ip_addr option" where
  "parse_ip s = (case read_ipv4 s of
       Some ((a, b, c, d), []) \<Rightarrow> Some (V4 (of_nat a) (of_nat b) (of_nat c) (of_nat d))
     | Some (_, _ # _) \<Rightarrow> None
     | None \<Rightarrow> (case read_ipv6 s of
         Some (gs, []) \<Rightarrow> Some (V6 (map of_nat gs)) | _ \<Rightarrow> None))"

section \<open>Display\<close>

fun show_hex :: "nat \<Rightarrow> string" where
  "show_hex n = (if n < 16 then [hex_digit n] else show_hex (n div 16) @ [hex_digit (n mod 16)])"

declare show_hex.simps [simp del]

fun join_with :: "string \<Rightarrow> string list \<Rightarrow> string" where
  "join_with d [] = []"
| "join_with d [w] = w"
| "join_with d (w # ws) = w @ d @ join_with d ws"

text \<open>The longest run of zero segments, the first of several: its start and its length.\<close>

fun zero_run :: "nat \<Rightarrow> nat \<times> nat \<Rightarrow> nat \<times> nat \<Rightarrow> u16 list \<Rightarrow> nat \<times> nat" where
  "zero_run i cur best [] = best"
| "zero_run i (st, len) best (g # gs) =
     (if g = 0 then
        (let cur' = (if len = 0 then i else st, len + 1) in
         zero_run (i + 1) cur' (if snd best < snd cur' then cur' else best) gs)
      else zero_run (i + 1) (0, 0) best gs)"

definition show_v4 :: "u8 \<Rightarrow> u8 \<Rightarrow> u8 \<Rightarrow> u8 \<Rightarrow> string" where
  "show_v4 a b c d = join_with ''.'' (map (\<lambda>o'. show_nat (unat o')) [a, b, c, d])"

fun show_ip :: "ip_addr \<Rightarrow> string" where
  "show_ip (V4 a b c d) = show_v4 a b c d"
| "show_ip (V6 segs) =
    (if take 6 segs = [0, 0, 0, 0, 0, 0xffff] then
       ''::ffff:'' @ show_v4 (ucast (drop_bit 8 (segs ! 6))) (ucast (segs ! 6))
         (ucast (drop_bit 8 (segs ! 7))) (ucast (segs ! 7))
     else
       (let hexes = (\<lambda>gs. join_with '':'' (map (\<lambda>g. show_hex (unat g)) gs));
            (st, len) = zero_run 0 (0, 0) (0, 0) segs
        in if 1 < len then hexes (take st segs) @ ''::'' @ hexes (drop (st + len) segs)
           else hexes segs))"

section \<open>Private and reserved ranges\<close>

definition private_v4 :: "u8 \<Rightarrow> u8 \<Rightarrow> u8 \<Rightarrow> u8 \<Rightarrow> bool" where
  "private_v4 o0 o1 o2 o3 \<longleftrightarrow>
     o0 = 0 \<or> o0 = 10 \<or> o0 = 127
     \<or> (o0 = 169 \<and> o1 = 254)
     \<or> (o0 = 172 \<and> 16 \<le> o1 \<and> o1 \<le> 31)
     \<or> (o0 = 192 \<and> o1 = 168)
     \<or> (o0 = 100 \<and> 64 \<le> o1 \<and> o1 \<le> 127)
     \<or> (o0 = 192 \<and> o1 = 0 \<and> o2 = 2) \<or> (o0 = 198 \<and> o1 = 51 \<and> o2 = 100)
     \<or> (o0 = 203 \<and> o1 = 0 \<and> o2 = 113)
     \<or> 224 \<le> o0"

fun is_private_or_reserved_ip :: "ip_addr \<Rightarrow> bool" where
  "is_private_or_reserved_ip (V4 o0 o1 o2 o3) = private_v4 o0 o1 o2 o3"
| "is_private_or_reserved_ip (V6 segs) =
    (if segs = [0, 0, 0, 0, 0, 0, 0, 1] \<or> segs = [0, 0, 0, 0, 0, 0, 0, 0] then True
     else if segs ! 0 AND 0xffc0 = 0xfe80 then True
     else if segs ! 0 AND 0xfe00 = 0xfc00 then True
     else if segs ! 0 AND 0xff00 = 0xff00 then True
     else if take 6 segs = [0, 0, 0, 0, 0, 0xffff] then
       private_v4 (ucast (drop_bit 8 (segs ! 6))) (ucast (segs ! 6))
         (ucast (drop_bit 8 (segs ! 7))) (ucast (segs ! 7))
     else False)"

lemma read_groups_length: "length (fst (read_groups i n s)) \<le> n"
proof (induction i n s rule: read_groups.induct)
  case (1 i s)
  then show ?case by simp
next
  case (2 i n s)
  show ?case
  proof (cases "if 0 < n then read_sep (CHR '':'') i read_ipv4 s else None")
    case None
    then show ?thesis
      using 2 by (auto split: option.splits prod.splits)
  next
    case (Some q)
    obtain a b c d r where "q = ((a, b, c, d), r)" by (cases q) auto
    with Some have "read_groups i (Suc n) s = ([256 * a + b, 256 * c + d], True, r)" by simp
    moreover from Some have "0 < n" by (cases n) simp_all
    ultimately show ?thesis by simp
  qed
qed

text \<open>A parsed IPv6 address always has eight segments, so the indexing above stays in range.\<close>

lemma parse_ip_v6: "parse_ip s = Some (V6 segs) \<Longrightarrow> length segs = 8"
proof -
  assume "parse_ip s = Some (V6 segs)"
  then obtain gs where gs: "read_ipv6 s = Some (gs, [])" "segs = map of_nat gs"
    by (auto simp: parse_ip_def split: option.splits list.splits)
  obtain h v r where h: "read_groups 0 8 s = (h, v, r)" by (cases "read_groups 0 8 s")
  have len: "length h \<le> 8" using read_groups_length [of 0 8 s] h by simp
  show ?thesis
  proof (cases "length h = 8")
    case True
    with gs h show ?thesis by (simp add: read_ipv6_def)
  next
    case False
    with gs h obtain r0 r1 where r1: "\<not> v" "read_char (CHR '':'') r = Some r0"
      "read_char (CHR '':'') r0 = Some r1"
      by (simp add: read_ipv6_def bind_eq_Some_conv split: if_splits) blast
    obtain tg t v' where t: "read_groups 0 (8 - (length h + 1)) r1 = (tg, t, v')"
      by (cases "read_groups 0 (8 - (length h + 1)) r1")
    from False gs h r1 t have t2: "gs = h @ replicate (8 - length h - length tg) 0 @ tg"
      by (simp add: read_ipv6_def)
    have "length tg \<le> 8 - (length h + 1)"
      using read_groups_length [of 0 "8 - (length h + 1)" r1] t by simp
    with t2 gs(2) len False show ?thesis by simp
  qed
qed

text \<open>IPv4-mapped IPv6 addresses are judged as the IPv4 address they carry.\<close>

lemma v4_mapped_private:
  assumes "segs = [0, 0, 0, 0, 0, 0xffff, hi, lo]"
  shows "is_private_or_reserved_ip (V6 segs) \<longleftrightarrow>
    private_v4 (ucast (drop_bit 8 hi)) (ucast hi) (ucast (drop_bit 8 lo)) (ucast lo)"
  using assms by simp

section \<open>Dotted quads parse back\<close>

lemma show_nat_small: "n < 10 \<Longrightarrow> show_nat n = [chr_nat (48 + n)]"
  by (subst show_nat.simps) simp

lemma show_nat_step: "10 \<le> n \<Longrightarrow> show_nat n = show_nat (n div 10) @ [chr_nat (48 + n mod 10)]"
  by (subst show_nat.simps) simp

lemma show_nat_byte:
  assumes "n < 1000"
  shows "length (show_nat n) \<le> 3"
    and "hd (show_nat n) = CHR ''0'' \<Longrightarrow> length (show_nat n) = 1"
proof -
  have zero: "chr_nat (48 + m) = CHR ''0'' \<Longrightarrow> m < 10 \<Longrightarrow> m = 0" for m
    by (drule arg_cong [where f = chr_code]) (simp add: chr_code_def [of "CHR ''0''"])
  consider "n < 10" | "10 \<le> n" "n div 10 < 10" | "10 \<le> n div 10" "n div 10 div 10 < 10"
    using assms by linarith
  then have "length (show_nat n) \<le> 3
    \<and> (hd (show_nat n) = CHR ''0'' \<longrightarrow> length (show_nat n) = 1)"
  proof cases
    case 1
    then show ?thesis by (simp add: show_nat_small)
  next
    case 2
    then have "show_nat n = [chr_nat (48 + n div 10), chr_nat (48 + n mod 10)]"
      by (simp add: show_nat_step show_nat_small)
    with 2 zero [of "n div 10"] show ?thesis by auto
  next
    case 3
    then have "show_nat n = [chr_nat (48 + n div 10 div 10), chr_nat (48 + n div 10 mod 10),
        chr_nat (48 + n mod 10)]"
      by (simp add: show_nat_step show_nat_small)
    moreover have "0 < n div 10 div 10" using 3 by simp
    ultimately show ?thesis using 3 zero [of "n div 10 div 10"] by auto
  qed
  then show "length (show_nat n) \<le> 3"
    and "hd (show_nat n) = CHR ''0'' \<Longrightarrow> length (show_nat n) = 1" by blast+
qed

lemma read_dec_show:
  assumes "n \<le> 255" and "r = [] \<or> \<not> is_digit (hd r)"
  shows "read_dec (show_nat n @ r) = Some (n, r)"
proof -
  have digs: "\<forall>c \<in> set (show_nat n). is_digit c" using show_nat_digits [of n] by (simp add: list_all_iff)
  have r: "takeWhile is_digit r = []" "dropWhile is_digit r = r"
    using assms(2) by (cases r; simp)+
  have t: "takeWhile is_digit (show_nat n @ r) = show_nat n"
    "dropWhile is_digit (show_nat n @ r) = r"
    using digs r by simp_all
  show ?thesis
    using show_nat_byte [of n] assms(1) by (auto simp: read_dec_def Let_def t)
qed

lemma not_digit_dot: "\<not> is_digit (CHR ''.'')"
  by (simp add: is_digit_def chr_code_def)

lemma unat_u8: "unat (a :: u8) \<le> 255"
proof -
  have "unat a < 2 ^ LENGTH(8)" by (rule unsigned_less)
  then show ?thesis by simp
qed

lemma read_ipv4_show:
  assumes "r = [] \<or> \<not> is_digit (hd r)"
  shows "read_ipv4 (show_v4 a b c d @ r) = Some ((unat a, unat b, unat c, unat d), r)"
  using assms by (simp add: read_ipv4_def show_v4_def read_sep_def read_char_def read_dec_show
      unat_u8 not_digit_dot)

lemma parse_ip_show_v4: "parse_ip (show_v4 a b c d) = Some (V4 a b c d)"
  using read_ipv4_show [of "[]" a b c d] by (simp add: parse_ip_def)

lemma show_v4_chars: "ch \<in> set (show_v4 a b c d) \<Longrightarrow> is_digit ch \<or> ch = CHR ''.''"
proof -
  have "x \<in> set (show_nat n) \<Longrightarrow> is_digit x" for x n
    using show_nat_digits [of n] by (simp add: list_all_iff)
  then show "ch \<in> set (show_v4 a b c d) \<Longrightarrow> is_digit ch \<or> ch = CHR ''.''"
    by (auto simp: show_v4_def)
qed

lemma show_v4_ends: "is_digit (hd (show_v4 a b c d))" "is_digit (last (show_v4 a b c d))"
  "show_v4 a b c d \<noteq> []" "CHR ''.'' \<in> set (show_v4 a b c d)"
proof -
  have h: "is_digit (hd (show_nat n))" "is_digit (last (show_nat n))" for n
    using show_nat_digits [of n] by (simp_all add: list_all_iff)
  then show "is_digit (hd (show_v4 a b c d))" "is_digit (last (show_v4 a b c d))"
    "show_v4 a b c d \<noteq> []" "CHR ''.'' \<in> set (show_v4 a b c d)"
    by (simp_all add: show_v4_def)
qed

end
