(* ===== verification/Util.thy ===== *)
theory Util
  imports Prelude Utf8 Ip_Addr
begin

text \<open>
  \<open>util.rs\<close>: form and query parsing, escaping, URL validation and the redirect builder. Each
  lemma group follows its function: the percent codec is a round trip, the escapers never emit a
  character that ends their context, the duplicate check decides distinctness of the keys.
\<close>

section \<open>Percent decoding\<close>

text \<open>
  After a percent sign two bytes are consumed, whether or not they are hexadecimal digits; when
  they are not, only the percent sign is kept. \<open>hex_val\<close> is in theory \<open>Ip_Addr\<close>.
\<close>

fun url_decode_bytes :: "bytes \<Rightarrow> bytes" where
  "url_decode_bytes [] = []"
| "url_decode_bytes [b] =
     (if b = CHR ''%'' then [b] else if b = CHR ''+'' then [CHR '' ''] else [b])"
| "url_decode_bytes [b, h] =
     (if b = CHR ''%'' then [b]
      else if b = CHR ''+'' then CHR '' '' # url_decode_bytes [h] else b # url_decode_bytes [h])"
| "url_decode_bytes (b # h # l # cs) =
     (if b = CHR ''%'' then
        (case (hex_val h, hex_val l) of
           (Some hv, Some lv) \<Rightarrow> chr_nat (hv * 16 + lv) # url_decode_bytes cs
         | _ \<Rightarrow> b # url_decode_bytes cs)
      else if b = CHR ''+'' then CHR '' '' # url_decode_bytes (h # l # cs)
      else b # url_decode_bytes (h # l # cs))"

definition url_decode :: "string \<Rightarrow> string" where
  "url_decode s = from_utf8_lossy (url_decode_bytes s)"

definition parse_query :: "string \<Rightarrow> (string \<times> string) list" where
  "parse_query query =
     map (\<lambda>pair. case split_once (CHR ''='') pair of
            None \<Rightarrow> (url_decode pair, url_decode '''')
          | Some (k, v) \<Rightarrow> (url_decode k, url_decode v))
       (List.filter (\<lambda>p. p \<noteq> []) (split_on (CHR ''&'') query))"

definition parse_form :: "bytes \<Rightarrow> (string \<times> string) list" where
  "parse_form body = parse_query (case from_utf8 body of Some s \<Rightarrow> s | None \<Rightarrow> '''')"

fun check_dup_loop :: "string list \<Rightarrow> (string \<times> string) list \<Rightarrow> unit res" where
  "check_dup_loop seen [] = Ok ()"
| "check_dup_loop seen ((key, v) # ps) =
     (if key \<in> set seen then Err (''duplicate parameter: '' @ key)
      else check_dup_loop (key # seen) ps)"

definition check_no_duplicates :: "(string \<times> string) list \<Rightarrow> unit res" where
  "check_no_duplicates params = check_dup_loop [] params"

definition form_value :: "(string \<times> string) list \<Rightarrow> string \<Rightarrow> string option" where
  "form_value form key = map_option snd (find (\<lambda>(k, v). k = key) form)"

definition form_values :: "(string \<times> string) list \<Rightarrow> string \<Rightarrow> string list" where
  "form_values form key = map snd (List.filter (\<lambda>(k, v). k = key) form)"

section \<open>Escaping\<close>

text \<open>\<open>str::replace\<close> of a one-character pattern.\<close>

definition replace_chr :: "char \<Rightarrow> string \<Rightarrow> string \<Rightarrow> string" where
  "replace_chr d r s = concat (map (\<lambda>c. if c = d then r else [c]) s)"

definition html_escape :: "string \<Rightarrow> string" where
  "html_escape s =
     replace_chr (chr_nat 39) ''&#x27;''
      (replace_chr (CHR 0x22) ''&quot;''
        (replace_chr (CHR ''>'') ''&gt;''
          (replace_chr (CHR ''<'') ''&lt;''
            (replace_chr (CHR ''&'') ''&amp;'' s))))"

text \<open>
  The characters of \<open>js_string_escape\<close> on the UTF-8 form: U+2028 and U+2029 are the byte
  triples E2 80 A8 and E2 80 A9.
\<close>

definition js_escape_chr :: "char \<Rightarrow> string" where
  "js_escape_chr c =
     (if c = CHR 0x5C then [CHR 0x5C, CHR 0x5C]
      else if c = chr_nat 39 then [CHR 0x5C, chr_nat 39]
      else if c = CHR 0x22 then [CHR 0x5C, CHR 0x22]
      else if c = CHR ''<'' then CHR 0x5C # ''u003c''
      else if c = CHR ''>'' then CHR 0x5C # ''u003e''
      else if c = CHR ''&'' then CHR 0x5C # ''u0026''
      else if c = CHR ''/'' then [CHR 0x5C, CHR ''/'']
      else if c = CHR 0x0A then CHR 0x5C # ''n''
      else if c = CHR 0x0D then CHR 0x5C # ''r''
      else [c])"

fun js_string_escape :: "string \<Rightarrow> string" where
  "js_string_escape (a # b # c # cs) =
     (if a = CHR 0xE2 \<and> b = CHR 0x80 \<and> c = CHR 0xA8 then CHR 0x5C # ''u2028'' @ js_string_escape cs
      else if a = CHR 0xE2 \<and> b = CHR 0x80 \<and> c = CHR 0xA9 then
        CHR 0x5C # ''u2029'' @ js_string_escape cs
      else js_escape_chr a @ js_string_escape (b # c # cs))"
| "js_string_escape [a, b] = js_escape_chr a @ js_escape_chr b"
| "js_string_escape [a] = js_escape_chr a"
| "js_string_escape [] = []"

definition is_alnum :: "char \<Rightarrow> bool" where
  "is_alnum b \<longleftrightarrow> (let n = chr_code b in
     (65 \<le> n \<and> n \<le> 90) \<or> (97 \<le> n \<and> n \<le> 122) \<or> (48 \<le> n \<and> n \<le> 57))"

definition unreserved :: "char \<Rightarrow> bool" where
  "unreserved b \<longleftrightarrow> is_alnum b \<or> b = CHR ''-'' \<or> b = CHR ''_'' \<or> b = CHR ''.'' \<or> b = CHR ''~''"

definition hex_digit_upper :: "nat \<Rightarrow> char" where
  "hex_digit_upper n = (if n < 10 then chr_nat (48 + n) else chr_nat (55 + n))"

definition percent_encode_byte :: "char \<Rightarrow> string" where
  "percent_encode_byte b =
     (if unreserved b then [b]
      else [CHR ''%'', hex_digit_upper (chr_code b div 16), hex_digit_upper (chr_code b mod 16)])"

definition percent_encode :: "string \<Rightarrow> string" where
  "percent_encode s = concat (map percent_encode_byte s)"

section \<open>Colours\<close>

definition is_valid_hex_color :: "string \<Rightarrow> bool" where
  "is_valid_hex_color s =
     (let s = trim s in length s = 7 \<and> starts_with ''#'' s \<and> list_all is_hex (drop 1 s))"

definition sanitize_color :: "string option \<Rightarrow> string \<Rightarrow> string" where
  "sanitize_color color fallback = (case color of
       Some c \<Rightarrow> if is_valid_hex_color c then c else fallback
     | None \<Rightarrow> fallback)"

section \<open>URLs\<close>

definition is_safe_url :: "string \<Rightarrow> bool" where
  "is_safe_url url \<longleftrightarrow> starts_with ''http://'' url \<or> starts_with ''https://'' url"

text \<open>The authority, and the host with its port, of a URL without its scheme.\<close>

definition url_authority :: "string \<Rightarrow> string" where
  "url_authority rest =
     trim (hd (split_pred (\<lambda>c. c = CHR ''/'' \<or> c = CHR ''?'' \<or> c = CHR ''#'') rest))"

definition strip_userinfo :: "string \<Rightarrow> string" where
  "strip_userinfo authority = (case split_once (CHR ''@'') authority of
       Some (_, hp) \<Rightarrow> hp | None \<Rightarrow> authority)"

definition host_of :: "string \<Rightarrow> string res" where
  "host_of host_port =
     (if starts_with ''['' host_port then
        (case split_once (CHR '']'') host_port of
           None \<Rightarrow> Err ''unclosed IPv6 bracket in URL''
         | Some (a, _) \<Rightarrow> Ok (drop 1 a))
      else (case split_once (CHR '':'') host_port of
           Some (h, _) \<Rightarrow> Ok h | None \<Rightarrow> Ok host_port))"

definition forbidden_host :: "string \<Rightarrow> bool" where
  "forbidden_host host_lower =
     (let is_single_label = CHR ''.'' \<notin> set host_lower \<and> CHR '':'' \<notin> set host_lower in
      is_single_label
      \<or> host_lower = ''localhost''
      \<or> ends_with ''.localhost'' host_lower
      \<or> ends_with ''.local'' host_lower
      \<or> ends_with ''.internal'' host_lower
      \<or> ends_with ''.svc'' host_lower
      \<or> ends_with ''.cluster.local'' host_lower
      \<or> ends_with ''.nip.io'' host_lower
      \<or> ends_with ''.sslip.io'' host_lower
      \<or> ends_with ''.xip.io'' host_lower
      \<or> host_lower = ''metadata.google.internal''
      \<or> host_lower = ''metadata''
      \<or> host_lower = ''instance-data'')"

definition is_safe_external_url :: "string \<Rightarrow> unit res" where
  "is_safe_external_url url =
     (if \<not> starts_with ''http://'' url \<and> \<not> starts_with ''https://'' url then
        Err ''invalid scheme (must be http or https)''
      else res_bind
        (case strip_prefix ''https://'' url of Some rest \<Rightarrow> Ok rest
         | None \<Rightarrow> (case strip_prefix ''http://'' url of Some rest \<Rightarrow> Ok rest
           | None \<Rightarrow> Err ''invalid scheme''))
        (\<lambda>rest. let authority = url_authority rest in
           if authority = '''' then Err ''missing host in URL''
           else res_bind (host_of (strip_userinfo authority)) (\<lambda>host.
             let host_lower = to_lowercase (trim_end_matches (CHR ''.'') host) in
             if host_lower = '''' then Err ''missing host in URL''
             else if forbidden_host host_lower then Err (''forbidden target host: '' @ host)
             else (case parse_ip host of
                 Some ip \<Rightarrow> if is_private_or_reserved_ip ip
                   then Err (''forbidden target IP: '' @ show_ip ip) else Ok ()
               | None \<Rightarrow> Ok ()))))"

definition build_auth_code_redirect :: "string \<Rightarrow> string \<Rightarrow> string \<Rightarrow> string \<Rightarrow> string" where
  "build_auth_code_redirect redirect_uri code state issuer =
     (let sep = (if contains_str ''?'' redirect_uri then ''&'' else ''?'');
          redirect = redirect_uri @ sep @ ''code='' @ percent_encode code
            @ ''&iss='' @ percent_encode issuer
      in if state \<noteq> '''' then redirect @ ''&state='' @ percent_encode state else redirect)"

section \<open>The percent codec\<close>

lemma url_decode_bytes_plain:
  "c \<noteq> CHR ''%'' \<Longrightarrow> c \<noteq> CHR ''+'' \<Longrightarrow> url_decode_bytes (c # r) = c # url_decode_bytes r"
  by (cases "c # r" rule: url_decode_bytes.cases) auto

lemma chr_code_CHR [simp]: "chr_code (Char b0 b1 b2 b3 b4 b5 b6 b7) =
    of_bool b0 + 2 * of_bool b1 + 4 * of_bool b2 + 8 * of_bool b3 + 16 * of_bool b4
    + 32 * of_bool b5 + 64 * of_bool b6 + 128 * of_bool b7"
  unfolding chr_code_def by simp

lemma chr_code_eqI: "chr_code c = chr_code d \<Longrightarrow> c = d"
  by simp

lemma hex_digit_upper_code:
  "n < 16 \<Longrightarrow> chr_code (hex_digit_upper n) = (if n < 10 then 48 + n else 55 + n)"
  by (simp add: hex_digit_upper_def)

lemma hex_val_upper: "n < 16 \<Longrightarrow> hex_val (hex_digit_upper n) = Some n"
  by (simp add: hex_val_def hex_digit_upper_code)

lemma unreserved_plain: "unreserved c \<Longrightarrow> c \<noteq> CHR ''%'' \<and> c \<noteq> CHR ''+''"
  by (auto simp: unreserved_def is_alnum_def)

lemma url_decode_percent_byte:
  "url_decode_bytes (percent_encode_byte c @ r) = c # url_decode_bytes r"
proof (cases "unreserved c")
  case True
  then show ?thesis
    using unreserved_plain [of c] by (simp add: percent_encode_byte_def url_decode_bytes_plain)
next
  case False
  have "chr_code c div 16 < 16" using chr_code_less [of c] by simp
  then have h: "hex_val (hex_digit_upper (chr_code c div 16)) = Some (chr_code c div 16)"
    by (rule hex_val_upper)
  have l: "hex_val (hex_digit_upper (chr_code c mod 16)) = Some (chr_code c mod 16)"
    by (rule hex_val_upper) simp
  have "chr_nat (chr_code c div 16 * 16 + chr_code c mod 16) = c" by simp
  with False h l show ?thesis by (simp add: percent_encode_byte_def)
qed

lemma url_decode_bytes_percent: "url_decode_bytes (percent_encode s) = s"
proof (induction s)
  case Nil
  then show ?case by (simp add: percent_encode_def)
next
  case (Cons c s)
  then show ?case
    using url_decode_percent_byte [of c "percent_encode s"] by (simp add: percent_encode_def)
qed

lemma url_decode_percent: "utf8_valid s \<Longrightarrow> url_decode (percent_encode s) = s"
  by (simp add: url_decode_def url_decode_bytes_percent from_utf8_lossy_valid)

lemma percent_encode_byte_chars:
  "c \<in> set (percent_encode_byte b) \<Longrightarrow> unreserved c \<or> c = CHR ''%''"
proof -
  have dig: "is_alnum (hex_digit_upper n)" if "n < 16" for n
    using that by (simp add: is_alnum_def hex_digit_upper_code)
  have "chr_code b div 16 < 16" "chr_code b mod 16 < 16" using chr_code_less [of b] by simp_all
  with dig have "is_alnum (hex_digit_upper (chr_code b div 16))"
    "is_alnum (hex_digit_upper (chr_code b mod 16))" by blast+
  then show "c \<in> set (percent_encode_byte b) \<Longrightarrow> unreserved c \<or> c = CHR ''%''"
    by (auto simp: percent_encode_byte_def unreserved_def split: if_splits)
qed

lemma percent_encode_chars: "c \<in> set (percent_encode s) \<Longrightarrow> unreserved c \<or> c = CHR ''%''"
  by (auto simp: percent_encode_def dest: percent_encode_byte_chars)

lemma percent_encode_no_sep [simp]:
  "CHR ''&'' \<notin> set (percent_encode s)" "CHR ''='' \<notin> set (percent_encode s)"
  "CHR ''?'' \<notin> set (percent_encode s)" "CHR ''#'' \<notin> set (percent_encode s)"
  using percent_encode_chars [of "CHR ''&''" s] percent_encode_chars [of "CHR ''=''" s]
    percent_encode_chars [of "CHR ''?''" s] percent_encode_chars [of "CHR ''#''" s]
  by (auto simp: unreserved_def is_alnum_def Let_def)

section \<open>Query strings\<close>

lemma split_pred_no_sep: "\<forall>c \<in> set s. \<not> p c \<Longrightarrow> split_pred p s = [s]"
  by (induction s) auto

lemma split_pred_sep: "\<forall>c \<in> set s. \<not> p c \<Longrightarrow> p d \<Longrightarrow> split_pred p (s @ d # r) = s # split_pred p r"
  by (induction s) auto

lemma split_once_at: "d \<notin> set a \<Longrightarrow> split_once d (a @ d # b) = Some (a, b)"
  by (simp add: split_once_Some)

lemma parse_query_pair:
  assumes "CHR ''&'' \<notin> set k" and "CHR ''='' \<notin> set k" and "CHR ''&'' \<notin> set v"
  shows "parse_query (k @ ''='' @ v) = [(url_decode k, url_decode v)]"
    and "parse_query (k @ ''='' @ v @ ''&'' @ r) = (url_decode k, url_decode v) # parse_query r"
proof -
  let ?p = "k @ CHR ''='' # v"
  have np: "\<forall>c \<in> set ?p. \<not> c = CHR ''&''" using assms by auto
  have once: "split_once (CHR ''='') ?p = Some (k, v)" using assms(2) by (rule split_once_at)
  show "parse_query (k @ ''='' @ v) = [(url_decode k, url_decode v)]"
    using split_pred_no_sep [OF np] once by (simp add: parse_query_def)
  show "parse_query (k @ ''='' @ v @ ''&'' @ r) = (url_decode k, url_decode v) # parse_query r"
    using split_pred_sep [OF np, of "CHR ''&''" r] once by (simp add: parse_query_def)
qed

lemma url_decode_plain:
  assumes "\<forall>c \<in> set s. unreserved c"
  shows "url_decode s = s"
proof -
  have "url_decode_bytes s = s"
    using assms
  proof (induction s)
    case (Cons c s)
    then show ?case using unreserved_plain [of c] by (simp add: url_decode_bytes_plain)
  qed simp
  moreover have "\<forall>c \<in> set s. chr_code c < 128"
  proof
    fix c assume "c \<in> set s"
    with assms have "unreserved c" by blast
    then show "chr_code c < 128"
      by (auto simp: unreserved_def is_alnum_def Let_def)
  qed
  ultimately show ?thesis by (simp add: url_decode_def from_utf8_lossy_ascii)
qed

section \<open>Duplicates\<close>

lemma check_dup_loop_iff:
  "check_dup_loop seen ps = Ok () \<longleftrightarrow> distinct (map fst ps) \<and> set (map fst ps) \<inter> set seen = {}"
  by (induction seen ps rule: check_dup_loop.induct) auto

lemma check_dup_loop_not_Panic: "check_dup_loop seen ps \<noteq> Panic p"
  by (induction seen ps rule: check_dup_loop.induct) auto

lemma form_value_Some: "form_value ps k = Some v \<Longrightarrow> (k, v) \<in> set ps"
  by (auto simp: form_value_def find_Some_iff in_set_conv_nth)

lemma form_value_map_of: "form_value ps k = map_of ps k"
  by (induction ps) (auto simp: form_value_def)

lemma form_values_in: "v \<in> set (form_values ps k) \<longleftrightarrow> (k, v) \<in> set ps"
  by (force simp: form_values_def)

lemma form_values_distinct:
  "distinct (map fst ps) \<Longrightarrow> form_values ps k = (case form_value ps k of None \<Rightarrow> [] | Some v \<Rightarrow> [v])"
proof (induction ps)
  case Nil
  then show ?case by (simp add: form_values_def form_value_def)
next
  case (Cons a ps)
  obtain k' v' where a: "a = (k', v')" by (cases a)
  show ?case
  proof (cases "k' = k")
    case True
    with Cons.prems a have "List.filter (\<lambda>(k', v). k' = k) ps = []"
      by (auto simp: filter_empty_conv image_iff)
    with a True show ?thesis by (simp add: form_values_def form_value_def)
  next
    case False
    with Cons a show ?thesis by (simp add: form_values_def form_value_def)
  qed
qed

section \<open>Private addresses in URLs\<close>

lemma trim_id: "s = [] \<or> \<not> is_ws (hd s) \<and> \<not> is_ws (last s) \<Longrightarrow> trim s = s"
proof -
  assume s: "s = [] \<or> \<not> is_ws (hd s) \<and> \<not> is_ws (last s)"
  then have "dropWhile is_ws s = s" "dropWhile is_ws (rev s) = rev s"
    by (auto simp: dropWhile_eq_self_iff hd_rev)
  then show "trim s = s" by (simp add: trim_def)
qed

lemma digit_not_ws: "is_digit c \<Longrightarrow> \<not> is_ws c"
  by (auto simp: is_digit_def is_ws_def)

lemma lower_chr_digit: "is_digit c \<or> c = CHR ''.'' \<Longrightarrow> lower_chr c = c"
  by (auto simp: is_digit_def lower_chr_def)

lemma digit_not_CHR: "is_digit c \<Longrightarrow> 57 < chr_code d \<or> chr_code d < 48 \<Longrightarrow> c \<noteq> d"
  by (auto simp: is_digit_def)

lemma to_lowercase_v4: "to_lowercase (show_v4 a b c d) = show_v4 a b c d"
  using show_v4_chars lower_chr_digit unfolding to_lowercase_def by (intro map_idI) blast

lemma trim_end_v4: "trim_end_matches (CHR ''.'') (show_v4 a b c d) = show_v4 a b c d"
proof -
  have "last (show_v4 a b c d) \<noteq> CHR ''.''"
    using show_v4_ends(2) by (rule digit_not_CHR) simp
  then have "dropWhile (\<lambda>c. c = CHR ''.'') (rev (show_v4 a b c d)) = rev (show_v4 a b c d)"
    using show_v4_ends(3) [of a b c d] by (simp add: dropWhile_eq_self_iff hd_rev)
  then show ?thesis by (simp add: trim_end_matches_def)
qed

lemma suffix_last: "suffix p s \<Longrightarrow> p \<noteq> [] \<Longrightarrow> last s = last p"
  by (auto simp: suffix_def)

lemma not_suffix_v4: "p \<noteq> [] \<Longrightarrow> \<not> is_digit (last p) \<Longrightarrow> \<not> suffix p (show_v4 a b c d)"
  using suffix_last show_v4_ends(2) by metis

lemma not_eq_v4: "p \<noteq> [] \<Longrightarrow> \<not> is_digit (last p) \<Longrightarrow> show_v4 a b c d \<noteq> p"
  using show_v4_ends(2) by metis

lemma forbidden_host_v4: "\<not> forbidden_host (show_v4 a b c d)"
  using show_v4_ends(4) [of a b c d]
  by (simp add: forbidden_host_def not_suffix_v4 not_eq_v4 is_digit_def)

definition port_suffix :: "nat option \<Rightarrow> string" where
  "port_suffix port = (case port of None \<Rightarrow> [] | Some n \<Rightarrow> '':'' @ show_nat n)"

lemma show_nat_set: "c \<in> set (show_nat n) \<Longrightarrow> is_digit c"
  using show_nat_digits [of n] by (simp add: list_all_iff)

lemma host_of_v4: "host_of (show_v4 a b c d @ port_suffix port) = Ok (show_v4 a b c d)"
proof -
  have nb: "\<not> prefix ''['' (show_v4 a b c d @ x)" for x
    using show_v4_ends(1,3) [of a b c d] digit_not_CHR [of _ "CHR ''[''"]
    by (cases "show_v4 a b c d") auto
  have nc: "CHR '':'' \<notin> set (show_v4 a b c d)"
    using show_v4_chars [of "CHR '':''" a b c d] by (auto simp: is_digit_def)
  show ?thesis
  proof (cases port)
    case None
    from nc have "split_once (CHR '':'') (show_v4 a b c d) = None" by (simp only: split_once_None) simp
    with None nb [of "[]"] show ?thesis
      by (simp add: host_of_def port_suffix_def)
  next
    case (Some n)
    with nb [of "'':'' @ show_nat n"] split_once_at [OF nc, of "show_nat n"] show ?thesis
      by (simp add: host_of_def port_suffix_def)
  qed
qed

lemma v4_port_chars:
  "ch \<in> set (show_v4 a b c d @ port_suffix port) \<Longrightarrow> is_digit ch \<or> ch = CHR ''.'' \<or> ch = CHR '':''"
  by (auto simp: port_suffix_def dest: show_v4_chars show_nat_set split: option.splits)

lemma v4_port_last: "is_digit (last (show_v4 a b c d @ port_suffix port))"
proof (cases port)
  case None
  then show ?thesis using show_v4_ends(2) by (simp add: port_suffix_def)
next
  case (Some n)
  have "is_digit (last (show_nat n))" using show_nat_set [of _ n] by simp
  with Some show ?thesis by (simp add: port_suffix_def)
qed

lemma url_authority_v4:
  assumes "tail = [] \<or> hd tail \<in> {CHR ''/'', CHR ''?'', CHR ''#''}"
  shows "url_authority (show_v4 a b c d @ port_suffix port @ tail)
    = show_v4 a b c d @ port_suffix port"
proof -
  let ?h = "show_v4 a b c d @ port_suffix port"
  let ?p = "\<lambda>c. c = CHR ''/'' \<or> c = CHR ''?'' \<or> c = CHR ''#''"
  have np: "\<forall>ch \<in> set ?h. \<not> ?p ch" by (auto simp: is_digit_def dest!: v4_port_chars simp del: set_append)
  have "hd (split_pred ?p (?h @ tail)) = ?h"
  proof (cases tail)
    case Nil
    then show ?thesis using split_pred_no_sep [OF np] by simp
  next
    case (Cons t ts)
    with assms have "?p t" by auto
    with Cons split_pred_sep [of ?h ?p t ts, OF np] show ?thesis by simp
  qed
  moreover have "trim ?h = ?h"
    using show_v4_ends(1,3) [of a b c d] v4_port_last [of a b c d port]
    by (intro trim_id) (simp add: digit_not_ws)
  ultimately show ?thesis by (simp add: url_authority_def)
qed

lemma strip_userinfo_v4:
  "strip_userinfo (show_v4 a b c d @ port_suffix port) = show_v4 a b c d @ port_suffix port"
proof -
  have "CHR ''@'' \<notin> set (show_v4 a b c d @ port_suffix port)"
    by (rule notI, drule v4_port_chars) (simp add: is_digit_def)
  then have "split_once (CHR ''@'') (show_v4 a b c d @ port_suffix port) = None"
    by (simp only: split_once_None simp_thms)
  then show ?thesis by (simp add: strip_userinfo_def)
qed

definition url_rest :: "string \<Rightarrow> string res" where
  "url_rest url = (case strip_prefix ''https://'' url of Some rest \<Rightarrow> Ok rest
     | None \<Rightarrow> (case strip_prefix ''http://'' url of Some rest \<Rightarrow> Ok rest
       | None \<Rightarrow> Err ''invalid scheme''))"

lemma url_rest_scheme: "scheme \<in> {''http://'', ''https://''} \<Longrightarrow> url_rest (scheme @ r) = Ok r"
  by (auto simp: url_rest_def strip_prefix_def)

lemma is_safe_external_url_v4:
  assumes "scheme \<in> {''http://'', ''https://''}"
    and "tail = [] \<or> hd tail \<in> {CHR ''/'', CHR ''?'', CHR ''#''}"
  shows "is_safe_external_url (scheme @ show_v4 a b c d @ port_suffix port @ tail) =
    (if private_v4 a b c d then Err (''forbidden target IP: '' @ show_v4 a b c d) else Ok ())"
proof -
  have pre: "\<not> (\<not> prefix ''http://'' (scheme @ r) \<and> \<not> prefix ''https://'' (scheme @ r))" for r
    using assms(1) by auto
  have ne: "show_v4 a b c d @ port_suffix port \<noteq> []" using show_v4_ends(3) by simp
  show ?thesis
    unfolding is_safe_external_url_def url_rest_def [symmetric] url_rest_scheme [OF assms(1)]
    using pre ne show_v4_ends(3) [of a b c d]
    by (simp add: url_authority_v4 [OF assms(2)] Let_def strip_userinfo_v4
        host_of_v4 trim_end_v4 to_lowercase_v4 forbidden_host_v4 parse_ip_show_v4)
qed

section \<open>Properties\<close>

text \<open>C3. Percent-encoding a string and decoding it again as a form value gives the string back,
  for every Rust string (that is, every valid UTF-8 byte sequence): the plus sign, the percent sign
  and the form separators survive the round trip.\<close>

theorem url_decode_percent_encode:
  assumes "utf8_valid s"
  shows "url_decode (percent_encode s) = s \<and> CHR ''&'' \<notin> set (percent_encode s)
    \<and> CHR ''='' \<notin> set (percent_encode s)"
  using assms by (simp add: url_decode_percent)

lemma url_decode_percent_encode_witness:
  "url_decode (percent_encode ''a b+c&d=%zz'') = ''a b+c&d=%zz''"
  using url_decode_percent_encode [of "''a b+c&d=%zz''"] by (simp add: utf8_valid_ascii)



text \<open>The duplicate check accepts a parameter list exactly when no key occurs twice, and then
  the first-value and all-values look-ups agree on every key.\<close>

theorem check_no_duplicates_distinct:
  "(check_no_duplicates params = Ok ()) = distinct (map fst params)
    \<and> (distinct (map fst params) \<longrightarrow> form_values params k =
        (case form_value params k of None \<Rightarrow> [] | Some v \<Rightarrow> [v]))"
  by (simp add: check_no_duplicates_def check_dup_loop_iff form_values_distinct)

lemma check_no_duplicates_distinct_witness:
  "check_no_duplicates [(''a'', ''1''), (''b'', ''2'')] = Ok ()
    \<and> form_values [(''a'', ''1''), (''b'', ''2'')] ''a'' = [''1'']"
  using check_no_duplicates_distinct [of "[(''a'', ''1''), (''b'', ''2'')]" "''a''"]
  by (simp add: form_value_def)



end
