(* ===== verification/Json.thy ===== *)
theory Json
  imports Prelude "HOL-Library.AList"
begin

text \<open>
  JSON values as \<open>serde_json::Value\<close> has them, the accessors the code uses on them, and the
  decoding steps that \<open>#[derive(Deserialize)]\<close> generates for a struct: a required field, a field
  with \<open>#[serde(default)]\<close>, an optional field. Encoding to text and back is the serde_json
  crate and a parameter of the model (theory World).
\<close>

datatype json =
    JNull
  | JBool bool
  | JNum int
  | JFloat string
  | JStr string
  | JArr "json list"
  | JObj "(string \<times> json) list"

section \<open>Accessors\<close>

fun jget :: "json \<Rightarrow> string \<Rightarrow> json option" where
  "jget (JObj kvs) k = map_of kvs k"
| "jget _ k = None"

fun as_str :: "json \<Rightarrow> string option" where
  "as_str (JStr s) = Some s"
| "as_str _ = None"

fun as_bool :: "json \<Rightarrow> bool option" where
  "as_bool (JBool b) = Some b"
| "as_bool _ = None"

fun as_u64 :: "json \<Rightarrow> u64 option" where
  "as_u64 (JNum n) = (if 0 \<le> n \<and> n < 2 ^ 64 then Some (of_int n) else None)"
| "as_u64 _ = None"

fun as_array :: "json \<Rightarrow> json list option" where
  "as_array (JArr xs) = Some xs"
| "as_array _ = None"

fun as_object :: "json \<Rightarrow> (string \<times> json) list option" where
  "as_object (JObj kvs) = Some kvs"
| "as_object _ = None"

definition jget_str :: "json \<Rightarrow> string \<Rightarrow> string option" where
  "jget_str j k = Option.bind (jget j k) as_str"

definition jget_u64 :: "json \<Rightarrow> string \<Rightarrow> u64 option" where
  "jget_u64 j k = Option.bind (jget j k) as_u64"

definition jget_array :: "json \<Rightarrow> string \<Rightarrow> json list option" where
  "jget_array j k = Option.bind (jget j k) as_array"

text \<open>\<open>value[key] = v\<close> on an object, and on null, which becomes an object.\<close>

fun jset :: "string \<Rightarrow> json \<Rightarrow> json \<Rightarrow> json" where
  "jset k v (JObj kvs) = JObj (AList.update k v kvs)"
| "jset k v JNull = JObj [(k, v)]"
| "jset k v j = j"

definition is_obj :: "json \<Rightarrow> bool" where
  "is_obj j = (case j of JObj kvs \<Rightarrow> True | _ \<Rightarrow> False)"

lemma is_obj_JObj [simp]: "is_obj (JObj kvs)"
  by (simp add: is_obj_def)

lemma is_obj_jset [simp]: "is_obj j \<Longrightarrow> is_obj (jset k v j)"
  by (cases j) (simp_all add: is_obj_def)

lemma jget_jset: "is_obj j \<Longrightarrow> jget (jset k v j) k' = (if k' = k then Some v else jget j k')"
  by (cases j) (simp_all add: is_obj_def update_conv)

definition jnum :: "u64 \<Rightarrow> json" where
  "jnum x = JNum (uint x)"

definition jnum32 :: "u32 \<Rightarrow> json" where
  "jnum32 x = JNum (uint x)"

lemma as_u64_jnum [simp]: "as_u64 (jnum x) = Some x"
  using uint_bounded [of x] by (simp add: jnum_def)

definition jstrs :: "string list \<Rightarrow> json" where
  "jstrs xs = JArr (map JStr xs)"

definition jopt :: "('a \<Rightarrow> json) \<Rightarrow> 'a option \<Rightarrow> json" where
  "jopt f x = (case x of None \<Rightarrow> JNull | Some y \<Rightarrow> f y)"

section \<open>Derived decoding\<close>

text \<open>Decoders of the field types.\<close>

fun de_str :: "json \<Rightarrow> string res" where
  "de_str (JStr s) = Ok s"
| "de_str _ = Err ''invalid type: expected a string''"

fun de_bool :: "json \<Rightarrow> bool res" where
  "de_bool (JBool b) = Ok b"
| "de_bool _ = Err ''invalid type: expected a boolean''"

definition de_u64 :: "json \<Rightarrow> u64 res" where
  "de_u64 j = ok_or (as_u64 j) ''invalid type: expected u64''"

definition de_u32 :: "json \<Rightarrow> u32 res" where
  "de_u32 j = (case j of JNum n \<Rightarrow> (if 0 \<le> n \<and> n < 2 ^ 32 then Ok (of_int n)
      else Err ''invalid value: expected u32'') | _ \<Rightarrow> Err ''invalid type: expected u32'')"

definition de_i32 :: "json \<Rightarrow> int res" where
  "de_i32 j = (case j of JNum n \<Rightarrow> (if - (2 ^ 31) \<le> n \<and> n < 2 ^ 31 then Ok n
      else Err ''invalid value: expected i32'') | _ \<Rightarrow> Err ''invalid type: expected i32'')"

definition de_value :: "json \<Rightarrow> json res" where
  "de_value j = Ok j"

fun de_list_aux :: "(json \<Rightarrow> 'a res) \<Rightarrow> json list \<Rightarrow> 'a list res" where
  "de_list_aux f [] = Ok []"
| "de_list_aux f (j # js) = res_bind (f j) (\<lambda>x. res_bind (de_list_aux f js) (\<lambda>xs. Ok (x # xs)))"

definition de_list :: "(json \<Rightarrow> 'a res) \<Rightarrow> json \<Rightarrow> 'a list res" where
  "de_list f j = (case j of JArr js \<Rightarrow> de_list_aux f js | _ \<Rightarrow> Err ''invalid type: expected a sequence'')"

definition de_opt :: "(json \<Rightarrow> 'a res) \<Rightarrow> json \<Rightarrow> 'a option res" where
  "de_opt f j = (case j of JNull \<Rightarrow> Ok None | _ \<Rightarrow> res_bind (f j) (\<lambda>x. Ok (Some x)))"

definition de_pair :: "(json \<Rightarrow> 'a res) \<Rightarrow> (json \<Rightarrow> 'b res) \<Rightarrow> json \<Rightarrow> ('a \<times> 'b) res" where
  "de_pair f g j = (case j of
       JArr [a, b] \<Rightarrow> res_bind (f a) (\<lambda>x. res_bind (g b) (\<lambda>y. Ok (x, y)))
     | _ \<Rightarrow> Err ''invalid length: expected a tuple of size 2'')"

text \<open>A field of a struct: required, defaulted, optional.\<close>

definition de_field :: "json \<Rightarrow> string \<Rightarrow> (json \<Rightarrow> 'a res) \<Rightarrow> ('a \<Rightarrow> 'b res) \<Rightarrow> 'b res" where
  "de_field j k d f = (case jget j k of
       None \<Rightarrow> Err (''missing field `'' @ k @ ''`'')
     | Some v \<Rightarrow> res_bind (d v) f)"

definition de_default :: "json \<Rightarrow> string \<Rightarrow> 'a \<Rightarrow> (json \<Rightarrow> 'a res) \<Rightarrow> ('a \<Rightarrow> 'b res) \<Rightarrow> 'b res" where
  "de_default j k x d f = (case jget j k of None \<Rightarrow> f x | Some v \<Rightarrow> res_bind (d v) f)"

definition de_struct :: "json \<Rightarrow> 'a res \<Rightarrow> 'a res" where
  "de_struct j r = (if is_obj j then r else Err ''invalid type: expected struct'')"

lemma de_struct_obj [simp]: "de_struct (JObj kvs) r = r"
  by (simp add: de_struct_def)

lemma de_struct_Ok: "de_struct j r = Ok x \<longleftrightarrow> is_obj j \<and> r = Ok x"
  by (simp add: de_struct_def)

lemma de_field_Ok: "de_field j k d f = Ok y \<longleftrightarrow> (\<exists>v x. jget j k = Some v \<and> d v = Ok x \<and> f x = Ok y)"
  by (auto simp: de_field_def res_bind_Ok split: option.splits)

lemma de_field_missing: "jget j k = None \<Longrightarrow> \<exists>e. de_field j k d f = Err e"
  by (simp add: de_field_def)

text \<open>Every decoder inverts the encoder of its type.\<close>

lemma de_u64_jnum [serde_simps]: "de_u64 (jnum x) = Ok x"
  by (simp add: de_u64_def)

lemma de_u32_jnum32 [serde_simps]: "de_u32 (jnum32 x) = Ok x"
  using uint_bounded [of x] by (simp add: de_u32_def jnum32_def)

lemma de_str_JStr [serde_simps]: "de_str (JStr s) = Ok s" by simp
lemma de_bool_JBool [serde_simps]: "de_bool (JBool b) = Ok b" by simp
lemma de_value_id [serde_simps]: "de_value j = Ok j" by (simp add: de_value_def)

lemma de_list_aux_map: "(\<And>x. x \<in> set xs \<Longrightarrow> f (g x) = Ok x) \<Longrightarrow> de_list_aux f (map g xs) = Ok xs"
  by (induction xs) auto

lemma de_list_map [serde_simps]: "(\<And>x. f (g x) = Ok x) \<Longrightarrow> de_list f (JArr (map g xs)) = Ok xs"
  by (simp add: de_list_def de_list_aux_map)

lemma de_list_jstrs [serde_simps]: "de_list de_str (jstrs xs) = Ok xs"
  by (simp add: jstrs_def serde_simps)

lemma de_opt_jopt: "(\<And>x. g x \<noteq> JNull) \<Longrightarrow> (\<And>x. f (g x) = Ok x) \<Longrightarrow> de_opt f (jopt g x) = Ok x"
proof (cases x)
  case None
  then show ?thesis by (simp add: de_opt_def jopt_def)
next
  case (Some y)
  assume "\<And>x. g x \<noteq> JNull" and f: "\<And>x. f (g x) = Ok x"
  then have "g y \<noteq> JNull" by simp
  then have "de_opt f (g y) = res_bind (f (g y)) (\<lambda>x. Ok (Some x))"
    by (cases "g y") (simp_all add: de_opt_def)
  with Some f show ?thesis by (simp add: jopt_def)
qed

lemma de_opt_str [serde_simps]: "de_opt de_str (jopt JStr x) = Ok x"
  by (rule de_opt_jopt) simp_all

lemma de_opt_u64 [serde_simps]: "de_opt de_u64 (jopt jnum x) = Ok x"
  by (rule de_opt_jopt) (simp add: jnum_def, rule de_u64_jnum)

lemma de_opt_u32 [serde_simps]: "de_opt de_u32 (jopt jnum32 x) = Ok x"
  by (rule de_opt_jopt) (simp add: jnum32_def, rule de_u32_jnum32)

definition jpair :: "('a \<Rightarrow> json) \<Rightarrow> ('b \<Rightarrow> json) \<Rightarrow> 'a \<times> 'b \<Rightarrow> json" where
  "jpair f g p = JArr [f (fst p), g (snd p)]"

lemma de_pair_jpair [serde_simps]:
  "de_pair de_str de_str (jpair JStr JStr p) = Ok p"
  by (simp add: de_pair_def jpair_def)

lemma de_pairs [serde_simps]:
  "de_list (de_pair de_str de_str) (JArr (map (jpair JStr JStr) xs)) = Ok xs"
  by (simp add: serde_simps)

end
