(* ===== verification/Store_Types.thy ===== *)
theory Store_Types
  imports Json
begin

text \<open>
  The persistent records of \<open>oidc-gateway/src/store.rs\<close>: each struct as a record with the
  source's fields in the source's order, and the JSON encoding and decoding that
  \<open>#[derive(Serialize, Deserialize)]\<close> generates for it (a field with \<open>#[serde(default)]\<close> or of
  type \<open>Option\<close> may be absent, any other field is required, unknown fields are ignored). Every
  decoder inverts its encoder; a record type cannot be read from a consumption marker.
\<close>

text \<open>A \<open>HashMap<String, String>\<close> as an association list with the newest binding first.\<close>

definition de_str_map :: "json \<Rightarrow> (string \<times> string) list res" where
  "de_str_map j = (case j of
       JObj kvs \<Rightarrow> res_bind (de_list_aux (\<lambda>v. de_str v) (map snd kvs)) (\<lambda>vs. Ok (zip (map fst kvs) vs))
     | _ \<Rightarrow> Err ''invalid type: expected a map'')"

lemma de_str_map_roundtrip [serde_simps]:
  "de_str_map (JObj (map (\<lambda>(k, v). (k, JStr v)) m)) = Ok m"
proof -
  have "de_list_aux (\<lambda>v. de_str v) (map JStr (map snd m)) = Ok (map snd m)"
    by (rule de_list_aux_map) simp
  moreover have "map snd (map (\<lambda>(k, v). (k, JStr v)) m) = map JStr (map snd m)"
    and "map fst (map (\<lambda>(k, v). (k, JStr v)) m) = map fst m"
    by (induction m) auto
  ultimately show ?thesis
    by (simp add: de_str_map_def zip_map_fst_snd del: map_map)
qed

lemma de_opt_value_roundtrip [serde_simps]: "x \<noteq> Some JNull \<Longrightarrow> de_opt de_value (jopt id x) = Ok x"
  by (cases x) (auto simp: de_opt_def jopt_def de_value_def split: json.splits)

record passkey_credential =
  pk_credential_id :: "string"
  pk_public_key :: "string"
  pk_sign_count :: "u32"
  pk_name :: "string"
  pk_created_at :: "u64"

definition passkey_credential_to_json :: "passkey_credential \<Rightarrow> json" where
  "passkey_credential_to_json x = JObj [
     (''credential_id'', JStr (pk_credential_id x)),
     (''public_key'', JStr (pk_public_key x)),
     (''sign_count'', jnum32 (pk_sign_count x)),
     (''name'', JStr (pk_name x)),
     (''created_at'', jnum (pk_created_at x))]"

definition passkey_credential_of_json :: "json \<Rightarrow> passkey_credential res" where
  "passkey_credential_of_json j = de_struct j (
     de_field j ''credential_id'' de_str (\<lambda>v_credential_id.
     de_field j ''public_key'' de_str (\<lambda>v_public_key.
     de_field j ''sign_count'' de_u32 (\<lambda>v_sign_count.
     de_field j ''name'' de_str (\<lambda>v_name.
     de_field j ''created_at'' de_u64 (\<lambda>v_created_at.
     Ok \<lparr>pk_credential_id = v_credential_id,
       pk_public_key = v_public_key,
       pk_sign_count = v_sign_count,
       pk_name = v_name,
       pk_created_at = v_created_at\<rparr>))))))"

lemma passkey_credential_roundtrip [serde_simps]: "passkey_credential_of_json (passkey_credential_to_json x) = Ok x"
  by (simp add: passkey_credential_to_json_def passkey_credential_of_json_def de_field_def de_default_def serde_simps)

lemma passkey_credential_list_roundtrip [serde_simps]: "de_list passkey_credential_of_json (JArr (map passkey_credential_to_json xs)) = Ok xs"
  by (rule de_list_map) (rule passkey_credential_roundtrip)

record user =
  usr_id :: "string"
  usr_email :: "string"
  usr_name :: "string"
  usr_password_hash :: "string"
  usr_status :: "string"
  usr_created_at :: "u64"
  usr_superadmin :: "bool"
  usr_totp_secret :: "string option"
  usr_totp_enabled :: "bool"
  usr_recovery_codes :: "string list"
  usr_passkey_credentials :: "passkey_credential list"

definition user_to_json :: "user \<Rightarrow> json" where
  "user_to_json x = JObj [
     (''id'', JStr (usr_id x)),
     (''email'', JStr (usr_email x)),
     (''name'', JStr (usr_name x)),
     (''password_hash'', JStr (usr_password_hash x)),
     (''status'', JStr (usr_status x)),
     (''created_at'', jnum (usr_created_at x)),
     (''superadmin'', JBool (usr_superadmin x)),
     (''totp_secret'', jopt JStr (usr_totp_secret x)),
     (''totp_enabled'', JBool (usr_totp_enabled x)),
     (''recovery_codes'', jstrs (usr_recovery_codes x)),
     (''passkey_credentials'', JArr (map passkey_credential_to_json (usr_passkey_credentials x)))]"

definition user_of_json :: "json \<Rightarrow> user res" where
  "user_of_json j = de_struct j (
     de_field j ''id'' de_str (\<lambda>v_id.
     de_field j ''email'' de_str (\<lambda>v_email.
     de_field j ''name'' de_str (\<lambda>v_name.
     de_field j ''password_hash'' de_str (\<lambda>v_password_hash.
     de_field j ''status'' de_str (\<lambda>v_status.
     de_field j ''created_at'' de_u64 (\<lambda>v_created_at.
     de_default j ''superadmin'' False de_bool (\<lambda>v_superadmin.
     de_default j ''totp_secret'' None (de_opt de_str) (\<lambda>v_totp_secret.
     de_default j ''totp_enabled'' False de_bool (\<lambda>v_totp_enabled.
     de_default j ''recovery_codes'' [] (de_list de_str) (\<lambda>v_recovery_codes.
     de_default j ''passkey_credentials'' [] (de_list passkey_credential_of_json) (\<lambda>v_passkey_credentials.
     Ok \<lparr>usr_id = v_id,
       usr_email = v_email,
       usr_name = v_name,
       usr_password_hash = v_password_hash,
       usr_status = v_status,
       usr_created_at = v_created_at,
       usr_superadmin = v_superadmin,
       usr_totp_secret = v_totp_secret,
       usr_totp_enabled = v_totp_enabled,
       usr_recovery_codes = v_recovery_codes,
       usr_passkey_credentials = v_passkey_credentials\<rparr>))))))))))))"

lemma user_roundtrip [serde_simps]: "user_of_json (user_to_json x) = Ok x"
  by (simp add: user_to_json_def user_of_json_def de_field_def de_default_def serde_simps)

record auth_session =
  as_client_id :: "string"
  as_redirect_uri :: "string"
  as_code_challenge :: "string"
  as_code_challenge_method :: "string"
  as_state :: "string"
  as_scope :: "string"
  as_nonce :: "string"
  as_max_age :: "u64 option"
  as_acr_values :: "string list"
  as_requested_id_token_claims :: "string list"
  as_requested_userinfo_claims :: "string list"
  as_hinted_user_id :: "string option"
  as_hinted_email :: "string option"
  as_created_at :: "u64"
  as_needs_consent :: "bool"
  as_prompt :: "string option"
  as_sid :: "string option"

definition auth_session_to_json :: "auth_session \<Rightarrow> json" where
  "auth_session_to_json x = JObj [
     (''client_id'', JStr (as_client_id x)),
     (''redirect_uri'', JStr (as_redirect_uri x)),
     (''code_challenge'', JStr (as_code_challenge x)),
     (''code_challenge_method'', JStr (as_code_challenge_method x)),
     (''state'', JStr (as_state x)),
     (''scope'', JStr (as_scope x)),
     (''nonce'', JStr (as_nonce x)),
     (''max_age'', jopt jnum (as_max_age x)),
     (''acr_values'', jstrs (as_acr_values x)),
     (''requested_id_token_claims'', jstrs (as_requested_id_token_claims x)),
     (''requested_userinfo_claims'', jstrs (as_requested_userinfo_claims x)),
     (''hinted_user_id'', jopt JStr (as_hinted_user_id x)),
     (''hinted_email'', jopt JStr (as_hinted_email x)),
     (''created_at'', jnum (as_created_at x)),
     (''needs_consent'', JBool (as_needs_consent x)),
     (''prompt'', jopt JStr (as_prompt x)),
     (''sid'', jopt JStr (as_sid x))]"

definition auth_session_of_json :: "json \<Rightarrow> auth_session res" where
  "auth_session_of_json j = de_struct j (
     de_field j ''client_id'' de_str (\<lambda>v_client_id.
     de_field j ''redirect_uri'' de_str (\<lambda>v_redirect_uri.
     de_field j ''code_challenge'' de_str (\<lambda>v_code_challenge.
     de_field j ''code_challenge_method'' de_str (\<lambda>v_code_challenge_method.
     de_field j ''state'' de_str (\<lambda>v_state.
     de_field j ''scope'' de_str (\<lambda>v_scope.
     de_field j ''nonce'' de_str (\<lambda>v_nonce.
     de_default j ''max_age'' None (de_opt de_u64) (\<lambda>v_max_age.
     de_default j ''acr_values'' [] (de_list de_str) (\<lambda>v_acr_values.
     de_default j ''requested_id_token_claims'' [] (de_list de_str) (\<lambda>v_requested_id_token_claims.
     de_default j ''requested_userinfo_claims'' [] (de_list de_str) (\<lambda>v_requested_userinfo_claims.
     de_default j ''hinted_user_id'' None (de_opt de_str) (\<lambda>v_hinted_user_id.
     de_default j ''hinted_email'' None (de_opt de_str) (\<lambda>v_hinted_email.
     de_field j ''created_at'' de_u64 (\<lambda>v_created_at.
     de_default j ''needs_consent'' False de_bool (\<lambda>v_needs_consent.
     de_default j ''prompt'' None (de_opt de_str) (\<lambda>v_prompt.
     de_default j ''sid'' None (de_opt de_str) (\<lambda>v_sid.
     Ok \<lparr>as_client_id = v_client_id,
       as_redirect_uri = v_redirect_uri,
       as_code_challenge = v_code_challenge,
       as_code_challenge_method = v_code_challenge_method,
       as_state = v_state,
       as_scope = v_scope,
       as_nonce = v_nonce,
       as_max_age = v_max_age,
       as_acr_values = v_acr_values,
       as_requested_id_token_claims = v_requested_id_token_claims,
       as_requested_userinfo_claims = v_requested_userinfo_claims,
       as_hinted_user_id = v_hinted_user_id,
       as_hinted_email = v_hinted_email,
       as_created_at = v_created_at,
       as_needs_consent = v_needs_consent,
       as_prompt = v_prompt,
       as_sid = v_sid\<rparr>))))))))))))))))))"

lemma auth_session_roundtrip [serde_simps]: "auth_session_of_json (auth_session_to_json x) = Ok x"
  by (simp add: auth_session_to_json_def auth_session_of_json_def de_field_def de_default_def serde_simps)

record user_consent =
  uc_user_id :: "string"
  uc_client_id :: "string"
  uc_scopes :: "string list"
  uc_granted_at :: "u64"
  uc_updated_at :: "u64"

definition user_consent_to_json :: "user_consent \<Rightarrow> json" where
  "user_consent_to_json x = JObj [
     (''user_id'', JStr (uc_user_id x)),
     (''client_id'', JStr (uc_client_id x)),
     (''scopes'', jstrs (uc_scopes x)),
     (''granted_at'', jnum (uc_granted_at x)),
     (''updated_at'', jnum (uc_updated_at x))]"

definition user_consent_of_json :: "json \<Rightarrow> user_consent res" where
  "user_consent_of_json j = de_struct j (
     de_field j ''user_id'' de_str (\<lambda>v_user_id.
     de_field j ''client_id'' de_str (\<lambda>v_client_id.
     de_field j ''scopes'' (de_list de_str) (\<lambda>v_scopes.
     de_field j ''granted_at'' de_u64 (\<lambda>v_granted_at.
     de_default j ''updated_at'' 0 de_u64 (\<lambda>v_updated_at.
     Ok \<lparr>uc_user_id = v_user_id,
       uc_client_id = v_client_id,
       uc_scopes = v_scopes,
       uc_granted_at = v_granted_at,
       uc_updated_at = v_updated_at\<rparr>))))))"

lemma user_consent_roundtrip [serde_simps]: "user_consent_of_json (user_consent_to_json x) = Ok x"
  by (simp add: user_consent_to_json_def user_consent_of_json_def de_field_def de_default_def serde_simps)

record auth_code =
  ac_user_id :: "string"
  ac_client_id :: "string"
  ac_redirect_uri :: "string"
  ac_code_challenge :: "string"
  ac_code_challenge_method :: "string"
  ac_nonce :: "string"
  ac_scope :: "string"
  ac_auth_time :: "u64"
  ac_amr :: "string list"
  ac_acr :: "string option"
  ac_requested_id_token_claims :: "string list"
  ac_requested_userinfo_claims :: "string list"
  ac_extra_claims :: "(string \<times> string) list"
  ac_expires_at :: "u64"
  ac_csrf_token :: "string"
  ac_state :: "string"
  ac_sid :: "string option"
  ac_pending_consent :: "bool"

definition auth_code_to_json :: "auth_code \<Rightarrow> json" where
  "auth_code_to_json x = JObj [
     (''user_id'', JStr (ac_user_id x)),
     (''client_id'', JStr (ac_client_id x)),
     (''redirect_uri'', JStr (ac_redirect_uri x)),
     (''code_challenge'', JStr (ac_code_challenge x)),
     (''code_challenge_method'', JStr (ac_code_challenge_method x)),
     (''nonce'', JStr (ac_nonce x)),
     (''scope'', JStr (ac_scope x)),
     (''auth_time'', jnum (ac_auth_time x)),
     (''amr'', jstrs (ac_amr x)),
     (''acr'', jopt JStr (ac_acr x)),
     (''requested_id_token_claims'', jstrs (ac_requested_id_token_claims x)),
     (''requested_userinfo_claims'', jstrs (ac_requested_userinfo_claims x)),
     (''extra_claims'', JArr (map (jpair JStr JStr) (ac_extra_claims x))),
     (''expires_at'', jnum (ac_expires_at x)),
     (''csrf_token'', JStr (ac_csrf_token x)),
     (''state'', JStr (ac_state x)),
     (''sid'', jopt JStr (ac_sid x)),
     (''pending_consent'', JBool (ac_pending_consent x))]"

definition auth_code_of_json :: "json \<Rightarrow> auth_code res" where
  "auth_code_of_json j = de_struct j (
     de_field j ''user_id'' de_str (\<lambda>v_user_id.
     de_field j ''client_id'' de_str (\<lambda>v_client_id.
     de_field j ''redirect_uri'' de_str (\<lambda>v_redirect_uri.
     de_field j ''code_challenge'' de_str (\<lambda>v_code_challenge.
     de_field j ''code_challenge_method'' de_str (\<lambda>v_code_challenge_method.
     de_field j ''nonce'' de_str (\<lambda>v_nonce.
     de_default j ''scope'' [] de_str (\<lambda>v_scope.
     de_default j ''auth_time'' 0 de_u64 (\<lambda>v_auth_time.
     de_default j ''amr'' [] (de_list de_str) (\<lambda>v_amr.
     de_default j ''acr'' None (de_opt de_str) (\<lambda>v_acr.
     de_default j ''requested_id_token_claims'' [] (de_list de_str) (\<lambda>v_requested_id_token_claims.
     de_default j ''requested_userinfo_claims'' [] (de_list de_str) (\<lambda>v_requested_userinfo_claims.
     de_default j ''extra_claims'' [] (de_list (de_pair de_str de_str)) (\<lambda>v_extra_claims.
     de_field j ''expires_at'' de_u64 (\<lambda>v_expires_at.
     de_default j ''csrf_token'' [] de_str (\<lambda>v_csrf_token.
     de_default j ''state'' [] de_str (\<lambda>v_state.
     de_default j ''sid'' None (de_opt de_str) (\<lambda>v_sid.
     de_default j ''pending_consent'' False de_bool (\<lambda>v_pending_consent.
     Ok \<lparr>ac_user_id = v_user_id,
       ac_client_id = v_client_id,
       ac_redirect_uri = v_redirect_uri,
       ac_code_challenge = v_code_challenge,
       ac_code_challenge_method = v_code_challenge_method,
       ac_nonce = v_nonce,
       ac_scope = v_scope,
       ac_auth_time = v_auth_time,
       ac_amr = v_amr,
       ac_acr = v_acr,
       ac_requested_id_token_claims = v_requested_id_token_claims,
       ac_requested_userinfo_claims = v_requested_userinfo_claims,
       ac_extra_claims = v_extra_claims,
       ac_expires_at = v_expires_at,
       ac_csrf_token = v_csrf_token,
       ac_state = v_state,
       ac_sid = v_sid,
       ac_pending_consent = v_pending_consent\<rparr>)))))))))))))))))))"

lemma auth_code_roundtrip [serde_simps]: "auth_code_of_json (auth_code_to_json x) = Ok x"
  by (simp add: auth_code_to_json_def auth_code_of_json_def de_field_def de_default_def serde_simps)

record refresh_entry =
  re_user_id :: "string"
  re_client_id :: "string"
  re_expires_at :: "u64"
  re_scope :: "string"
  re_version :: "u64"
  re_auth_time :: "u64"
  re_amr :: "string list"
  re_acr :: "string option"
  re_requested_id_token_claims :: "string list"
  re_requested_userinfo_claims :: "string list"
  re_issued_at :: "u64"
  re_sid :: "string option"
  re_dpop_jkt :: "string option"

definition refresh_entry_to_json :: "refresh_entry \<Rightarrow> json" where
  "refresh_entry_to_json x = JObj [
     (''user_id'', JStr (re_user_id x)),
     (''client_id'', JStr (re_client_id x)),
     (''expires_at'', jnum (re_expires_at x)),
     (''scope'', JStr (re_scope x)),
     (''version'', jnum (re_version x)),
     (''auth_time'', jnum (re_auth_time x)),
     (''amr'', jstrs (re_amr x)),
     (''acr'', jopt JStr (re_acr x)),
     (''requested_id_token_claims'', jstrs (re_requested_id_token_claims x)),
     (''requested_userinfo_claims'', jstrs (re_requested_userinfo_claims x)),
     (''issued_at'', jnum (re_issued_at x)),
     (''sid'', jopt JStr (re_sid x)),
     (''dpop_jkt'', jopt JStr (re_dpop_jkt x))]"

definition refresh_entry_of_json :: "json \<Rightarrow> refresh_entry res" where
  "refresh_entry_of_json j = de_struct j (
     de_field j ''user_id'' de_str (\<lambda>v_user_id.
     de_field j ''client_id'' de_str (\<lambda>v_client_id.
     de_field j ''expires_at'' de_u64 (\<lambda>v_expires_at.
     de_default j ''scope'' [] de_str (\<lambda>v_scope.
     de_default j ''version'' 0 de_u64 (\<lambda>v_version.
     de_default j ''auth_time'' 0 de_u64 (\<lambda>v_auth_time.
     de_default j ''amr'' [] (de_list de_str) (\<lambda>v_amr.
     de_default j ''acr'' None (de_opt de_str) (\<lambda>v_acr.
     de_default j ''requested_id_token_claims'' [] (de_list de_str) (\<lambda>v_requested_id_token_claims.
     de_default j ''requested_userinfo_claims'' [] (de_list de_str) (\<lambda>v_requested_userinfo_claims.
     de_default j ''issued_at'' 0 de_u64 (\<lambda>v_issued_at.
     de_default j ''sid'' None (de_opt de_str) (\<lambda>v_sid.
     de_default j ''dpop_jkt'' None (de_opt de_str) (\<lambda>v_dpop_jkt.
     Ok \<lparr>re_user_id = v_user_id,
       re_client_id = v_client_id,
       re_expires_at = v_expires_at,
       re_scope = v_scope,
       re_version = v_version,
       re_auth_time = v_auth_time,
       re_amr = v_amr,
       re_acr = v_acr,
       re_requested_id_token_claims = v_requested_id_token_claims,
       re_requested_userinfo_claims = v_requested_userinfo_claims,
       re_issued_at = v_issued_at,
       re_sid = v_sid,
       re_dpop_jkt = v_dpop_jkt\<rparr>))))))))))))))"

lemma refresh_entry_roundtrip [serde_simps]: "refresh_entry_of_json (refresh_entry_to_json x) = Ok x"
  by (simp add: refresh_entry_to_json_def refresh_entry_of_json_def de_field_def de_default_def serde_simps)

record client_theme =
  th_app_name :: "string"
  th_logo_url :: "string option"
  th_logo_height :: "string option"
  th_favicon_url :: "string option"
  th_theme_preset :: "string option"
  th_primary_color :: "string option"
  th_primary_hover_color :: "string option"
  th_background_color :: "string option"
  th_background_image_url :: "string option"
  th_card_background :: "string option"
  th_card_border :: "string option"
  th_card_shadow :: "string option"
  th_card_backdrop_blur :: "string option"
  th_text_color :: "string option"
  th_text_muted_color :: "string option"
  th_input_background :: "string option"
  th_input_border_color :: "string option"
  th_input_text_color :: "string option"
  th_button_text_color :: "string option"
  th_border_radius :: "string option"
  th_font_family :: "string option"
  th_font_url :: "string option"
  th_footer_text :: "string option"
  th_powered_by_text :: "string option"
  th_hide_powered_by :: "bool"
  th_terms_url :: "string option"
  th_privacy_url :: "string option"
  th_help_url :: "string option"
  th_custom_css :: "string option"

definition client_theme_to_json :: "client_theme \<Rightarrow> json" where
  "client_theme_to_json x = JObj [
     (''app_name'', JStr (th_app_name x)),
     (''logo_url'', jopt JStr (th_logo_url x)),
     (''logo_height'', jopt JStr (th_logo_height x)),
     (''favicon_url'', jopt JStr (th_favicon_url x)),
     (''theme_preset'', jopt JStr (th_theme_preset x)),
     (''primary_color'', jopt JStr (th_primary_color x)),
     (''primary_hover_color'', jopt JStr (th_primary_hover_color x)),
     (''background_color'', jopt JStr (th_background_color x)),
     (''background_image_url'', jopt JStr (th_background_image_url x)),
     (''card_background'', jopt JStr (th_card_background x)),
     (''card_border'', jopt JStr (th_card_border x)),
     (''card_shadow'', jopt JStr (th_card_shadow x)),
     (''card_backdrop_blur'', jopt JStr (th_card_backdrop_blur x)),
     (''text_color'', jopt JStr (th_text_color x)),
     (''text_muted_color'', jopt JStr (th_text_muted_color x)),
     (''input_background'', jopt JStr (th_input_background x)),
     (''input_border_color'', jopt JStr (th_input_border_color x)),
     (''input_text_color'', jopt JStr (th_input_text_color x)),
     (''button_text_color'', jopt JStr (th_button_text_color x)),
     (''border_radius'', jopt JStr (th_border_radius x)),
     (''font_family'', jopt JStr (th_font_family x)),
     (''font_url'', jopt JStr (th_font_url x)),
     (''footer_text'', jopt JStr (th_footer_text x)),
     (''powered_by_text'', jopt JStr (th_powered_by_text x)),
     (''hide_powered_by'', JBool (th_hide_powered_by x)),
     (''terms_url'', jopt JStr (th_terms_url x)),
     (''privacy_url'', jopt JStr (th_privacy_url x)),
     (''help_url'', jopt JStr (th_help_url x)),
     (''custom_css'', jopt JStr (th_custom_css x))]"

definition client_theme_of_json :: "json \<Rightarrow> client_theme res" where
  "client_theme_of_json j = de_struct j (
     de_default j ''app_name'' [] de_str (\<lambda>v_app_name.
     de_default j ''logo_url'' None (de_opt de_str) (\<lambda>v_logo_url.
     de_default j ''logo_height'' None (de_opt de_str) (\<lambda>v_logo_height.
     de_default j ''favicon_url'' None (de_opt de_str) (\<lambda>v_favicon_url.
     de_default j ''theme_preset'' None (de_opt de_str) (\<lambda>v_theme_preset.
     de_default j ''primary_color'' None (de_opt de_str) (\<lambda>v_primary_color.
     de_default j ''primary_hover_color'' None (de_opt de_str) (\<lambda>v_primary_hover_color.
     de_default j ''background_color'' None (de_opt de_str) (\<lambda>v_background_color.
     de_default j ''background_image_url'' None (de_opt de_str) (\<lambda>v_background_image_url.
     de_default j ''card_background'' None (de_opt de_str) (\<lambda>v_card_background.
     de_default j ''card_border'' None (de_opt de_str) (\<lambda>v_card_border.
     de_default j ''card_shadow'' None (de_opt de_str) (\<lambda>v_card_shadow.
     de_default j ''card_backdrop_blur'' None (de_opt de_str) (\<lambda>v_card_backdrop_blur.
     de_default j ''text_color'' None (de_opt de_str) (\<lambda>v_text_color.
     de_default j ''text_muted_color'' None (de_opt de_str) (\<lambda>v_text_muted_color.
     de_default j ''input_background'' None (de_opt de_str) (\<lambda>v_input_background.
     de_default j ''input_border_color'' None (de_opt de_str) (\<lambda>v_input_border_color.
     de_default j ''input_text_color'' None (de_opt de_str) (\<lambda>v_input_text_color.
     de_default j ''button_text_color'' None (de_opt de_str) (\<lambda>v_button_text_color.
     de_default j ''border_radius'' None (de_opt de_str) (\<lambda>v_border_radius.
     de_default j ''font_family'' None (de_opt de_str) (\<lambda>v_font_family.
     de_default j ''font_url'' None (de_opt de_str) (\<lambda>v_font_url.
     de_default j ''footer_text'' None (de_opt de_str) (\<lambda>v_footer_text.
     de_default j ''powered_by_text'' None (de_opt de_str) (\<lambda>v_powered_by_text.
     de_default j ''hide_powered_by'' False de_bool (\<lambda>v_hide_powered_by.
     de_default j ''terms_url'' None (de_opt de_str) (\<lambda>v_terms_url.
     de_default j ''privacy_url'' None (de_opt de_str) (\<lambda>v_privacy_url.
     de_default j ''help_url'' None (de_opt de_str) (\<lambda>v_help_url.
     de_default j ''custom_css'' None (de_opt de_str) (\<lambda>v_custom_css.
     Ok \<lparr>th_app_name = v_app_name,
       th_logo_url = v_logo_url,
       th_logo_height = v_logo_height,
       th_favicon_url = v_favicon_url,
       th_theme_preset = v_theme_preset,
       th_primary_color = v_primary_color,
       th_primary_hover_color = v_primary_hover_color,
       th_background_color = v_background_color,
       th_background_image_url = v_background_image_url,
       th_card_background = v_card_background,
       th_card_border = v_card_border,
       th_card_shadow = v_card_shadow,
       th_card_backdrop_blur = v_card_backdrop_blur,
       th_text_color = v_text_color,
       th_text_muted_color = v_text_muted_color,
       th_input_background = v_input_background,
       th_input_border_color = v_input_border_color,
       th_input_text_color = v_input_text_color,
       th_button_text_color = v_button_text_color,
       th_border_radius = v_border_radius,
       th_font_family = v_font_family,
       th_font_url = v_font_url,
       th_footer_text = v_footer_text,
       th_powered_by_text = v_powered_by_text,
       th_hide_powered_by = v_hide_powered_by,
       th_terms_url = v_terms_url,
       th_privacy_url = v_privacy_url,
       th_help_url = v_help_url,
       th_custom_css = v_custom_css\<rparr>))))))))))))))))))))))))))))))"

lemma client_theme_roundtrip [serde_simps]: "client_theme_of_json (client_theme_to_json x) = Ok x"
  by (simp add: client_theme_to_json_def client_theme_of_json_def de_field_def de_default_def serde_simps)

lemma client_theme_opt_roundtrip [serde_simps]: "de_opt client_theme_of_json (jopt client_theme_to_json x) = Ok x"
  by (rule de_opt_jopt) (simp add: client_theme_to_json_def, rule client_theme_roundtrip)

record oidc_client =
  cl_client_id :: "string"
  cl_client_secret :: "string option"
  cl_redirect_uris :: "string list"
  cl_post_logout_redirect_uris :: "string list"
  cl_grant_types :: "string list"
  cl_name :: "string"
  cl_theme :: "client_theme option"
  cl_backchannel_logout_uri :: "string option"
  cl_backchannel_logout_session_required :: "bool"
  cl_id_token_signed_response_alg :: "string option"
  cl_first_party :: "bool"
  cl_token_endpoint_auth_method :: "string option"
  cl_jwks :: "json option"
  cl_require_pushed_authorization_requests :: "bool"

definition oidc_client_to_json :: "oidc_client \<Rightarrow> json" where
  "oidc_client_to_json x = JObj [
     (''client_id'', JStr (cl_client_id x)),
     (''client_secret'', jopt JStr (cl_client_secret x)),
     (''redirect_uris'', jstrs (cl_redirect_uris x)),
     (''post_logout_redirect_uris'', jstrs (cl_post_logout_redirect_uris x)),
     (''grant_types'', jstrs (cl_grant_types x)),
     (''name'', JStr (cl_name x)),
     (''theme'', jopt client_theme_to_json (cl_theme x)),
     (''backchannel_logout_uri'', jopt JStr (cl_backchannel_logout_uri x)),
     (''backchannel_logout_session_required'', JBool (cl_backchannel_logout_session_required x)),
     (''id_token_signed_response_alg'', jopt JStr (cl_id_token_signed_response_alg x)),
     (''first_party'', JBool (cl_first_party x)),
     (''token_endpoint_auth_method'', jopt JStr (cl_token_endpoint_auth_method x)),
     (''jwks'', jopt id (cl_jwks x)),
     (''require_pushed_authorization_requests'', JBool (cl_require_pushed_authorization_requests x))]"

definition oidc_client_of_json :: "json \<Rightarrow> oidc_client res" where
  "oidc_client_of_json j = de_struct j (
     de_field j ''client_id'' de_str (\<lambda>v_client_id.
     de_default j ''client_secret'' None (de_opt de_str) (\<lambda>v_client_secret.
     de_field j ''redirect_uris'' (de_list de_str) (\<lambda>v_redirect_uris.
     de_default j ''post_logout_redirect_uris'' [] (de_list de_str) (\<lambda>v_post_logout_redirect_uris.
     de_field j ''grant_types'' (de_list de_str) (\<lambda>v_grant_types.
     de_field j ''name'' de_str (\<lambda>v_name.
     de_default j ''theme'' None (de_opt client_theme_of_json) (\<lambda>v_theme.
     de_default j ''backchannel_logout_uri'' None (de_opt de_str) (\<lambda>v_backchannel_logout_uri.
     de_default j ''backchannel_logout_session_required'' False de_bool (\<lambda>v_backchannel_logout_session_required.
     de_default j ''id_token_signed_response_alg'' None (de_opt de_str) (\<lambda>v_id_token_signed_response_alg.
     de_default j ''first_party'' False de_bool (\<lambda>v_first_party.
     de_default j ''token_endpoint_auth_method'' None (de_opt de_str) (\<lambda>v_token_endpoint_auth_method.
     de_default j ''jwks'' None (de_opt de_value) (\<lambda>v_jwks.
     de_default j ''require_pushed_authorization_requests'' False de_bool (\<lambda>v_require_pushed_authorization_requests.
     Ok \<lparr>cl_client_id = v_client_id,
       cl_client_secret = v_client_secret,
       cl_redirect_uris = v_redirect_uris,
       cl_post_logout_redirect_uris = v_post_logout_redirect_uris,
       cl_grant_types = v_grant_types,
       cl_name = v_name,
       cl_theme = v_theme,
       cl_backchannel_logout_uri = v_backchannel_logout_uri,
       cl_backchannel_logout_session_required = v_backchannel_logout_session_required,
       cl_id_token_signed_response_alg = v_id_token_signed_response_alg,
       cl_first_party = v_first_party,
       cl_token_endpoint_auth_method = v_token_endpoint_auth_method,
       cl_jwks = v_jwks,
       cl_require_pushed_authorization_requests = v_require_pushed_authorization_requests\<rparr>)))))))))))))))"

lemma oidc_client_roundtrip: "cl_jwks x \<noteq> Some JNull \<Longrightarrow> oidc_client_of_json (oidc_client_to_json x) = Ok x"
  by (simp add: oidc_client_to_json_def oidc_client_of_json_def de_field_def de_default_def serde_simps)

record tenant =
  tn_id :: "string"
  tn_name :: "string"
  tn_display_name :: "string"
  tn_status :: "string"
  tn_created_at :: "u64"

definition tenant_to_json :: "tenant \<Rightarrow> json" where
  "tenant_to_json x = JObj [
     (''id'', JStr (tn_id x)),
     (''name'', JStr (tn_name x)),
     (''display_name'', JStr (tn_display_name x)),
     (''status'', JStr (tn_status x)),
     (''created_at'', jnum (tn_created_at x))]"

definition tenant_of_json :: "json \<Rightarrow> tenant res" where
  "tenant_of_json j = de_struct j (
     de_field j ''id'' de_str (\<lambda>v_id.
     de_field j ''name'' de_str (\<lambda>v_name.
     de_field j ''display_name'' de_str (\<lambda>v_display_name.
     de_field j ''status'' de_str (\<lambda>v_status.
     de_field j ''created_at'' de_u64 (\<lambda>v_created_at.
     Ok \<lparr>tn_id = v_id,
       tn_name = v_name,
       tn_display_name = v_display_name,
       tn_status = v_status,
       tn_created_at = v_created_at\<rparr>))))))"

lemma tenant_roundtrip [serde_simps]: "tenant_of_json (tenant_to_json x) = Ok x"
  by (simp add: tenant_to_json_def tenant_of_json_def de_field_def de_default_def serde_simps)

record membership =
  mb_tenant_id :: "string"
  mb_user_id :: "string"
  mb_role :: "string"
  mb_joined_at :: "u64"

definition membership_to_json :: "membership \<Rightarrow> json" where
  "membership_to_json x = JObj [
     (''tenant_id'', JStr (mb_tenant_id x)),
     (''user_id'', JStr (mb_user_id x)),
     (''role'', JStr (mb_role x)),
     (''joined_at'', jnum (mb_joined_at x))]"

definition membership_of_json :: "json \<Rightarrow> membership res" where
  "membership_of_json j = de_struct j (
     de_field j ''tenant_id'' de_str (\<lambda>v_tenant_id.
     de_field j ''user_id'' de_str (\<lambda>v_user_id.
     de_field j ''role'' de_str (\<lambda>v_role.
     de_field j ''joined_at'' de_u64 (\<lambda>v_joined_at.
     Ok \<lparr>mb_tenant_id = v_tenant_id,
       mb_user_id = v_user_id,
       mb_role = v_role,
       mb_joined_at = v_joined_at\<rparr>)))))"

lemma membership_roundtrip [serde_simps]: "membership_of_json (membership_to_json x) = Ok x"
  by (simp add: membership_to_json_def membership_of_json_def de_field_def de_default_def serde_simps)

record invitation =
  iv_tenant_id :: "string"
  iv_email :: "string"
  iv_role :: "string"
  iv_token :: "string"
  iv_invited_by :: "string"
  iv_expires_at :: "u64"

definition invitation_to_json :: "invitation \<Rightarrow> json" where
  "invitation_to_json x = JObj [
     (''tenant_id'', JStr (iv_tenant_id x)),
     (''email'', JStr (iv_email x)),
     (''role'', JStr (iv_role x)),
     (''token'', JStr (iv_token x)),
     (''invited_by'', JStr (iv_invited_by x)),
     (''expires_at'', jnum (iv_expires_at x))]"

definition invitation_of_json :: "json \<Rightarrow> invitation res" where
  "invitation_of_json j = de_struct j (
     de_field j ''tenant_id'' de_str (\<lambda>v_tenant_id.
     de_field j ''email'' de_str (\<lambda>v_email.
     de_field j ''role'' de_str (\<lambda>v_role.
     de_field j ''token'' de_str (\<lambda>v_token.
     de_field j ''invited_by'' de_str (\<lambda>v_invited_by.
     de_field j ''expires_at'' de_u64 (\<lambda>v_expires_at.
     Ok \<lparr>iv_tenant_id = v_tenant_id,
       iv_email = v_email,
       iv_role = v_role,
       iv_token = v_token,
       iv_invited_by = v_invited_by,
       iv_expires_at = v_expires_at\<rparr>)))))))"

lemma invitation_roundtrip [serde_simps]: "invitation_of_json (invitation_to_json x) = Ok x"
  by (simp add: invitation_to_json_def invitation_of_json_def de_field_def de_default_def serde_simps)

record device_code =
  dc_device_code :: "string"
  dc_user_code :: "string"
  dc_client_id :: "string"
  dc_scope :: "string"
  dc_expires_at :: "u64"
  dc_status :: "string"
  dc_user_id :: "string option"
  dc_sid :: "string option"

definition device_code_to_json :: "device_code \<Rightarrow> json" where
  "device_code_to_json x = JObj [
     (''device_code'', JStr (dc_device_code x)),
     (''user_code'', JStr (dc_user_code x)),
     (''client_id'', JStr (dc_client_id x)),
     (''scope'', JStr (dc_scope x)),
     (''expires_at'', jnum (dc_expires_at x)),
     (''status'', JStr (dc_status x)),
     (''user_id'', jopt JStr (dc_user_id x)),
     (''sid'', jopt JStr (dc_sid x))]"

definition device_code_of_json :: "json \<Rightarrow> device_code res" where
  "device_code_of_json j = de_struct j (
     de_field j ''device_code'' de_str (\<lambda>v_device_code.
     de_field j ''user_code'' de_str (\<lambda>v_user_code.
     de_field j ''client_id'' de_str (\<lambda>v_client_id.
     de_field j ''scope'' de_str (\<lambda>v_scope.
     de_field j ''expires_at'' de_u64 (\<lambda>v_expires_at.
     de_field j ''status'' de_str (\<lambda>v_status.
     de_default j ''user_id'' None (de_opt de_str) (\<lambda>v_user_id.
     de_default j ''sid'' None (de_opt de_str) (\<lambda>v_sid.
     Ok \<lparr>dc_device_code = v_device_code,
       dc_user_code = v_user_code,
       dc_client_id = v_client_id,
       dc_scope = v_scope,
       dc_expires_at = v_expires_at,
       dc_status = v_status,
       dc_user_id = v_user_id,
       dc_sid = v_sid\<rparr>)))))))))"

lemma device_code_roundtrip [serde_simps]: "device_code_of_json (device_code_to_json x) = Ok x"
  by (simp add: device_code_to_json_def device_code_of_json_def de_field_def de_default_def serde_simps)

record login_attempts =
  la_failures :: "u32"
  la_locked_until :: "u64"

definition login_attempts_to_json :: "login_attempts \<Rightarrow> json" where
  "login_attempts_to_json x = JObj [
     (''failures'', jnum32 (la_failures x)),
     (''locked_until'', jnum (la_locked_until x))]"

definition login_attempts_of_json :: "json \<Rightarrow> login_attempts res" where
  "login_attempts_of_json j = de_struct j (
     de_field j ''failures'' de_u32 (\<lambda>v_failures.
     de_field j ''locked_until'' de_u64 (\<lambda>v_locked_until.
     Ok \<lparr>la_failures = v_failures,
       la_locked_until = v_locked_until\<rparr>)))"

lemma login_attempts_roundtrip [serde_simps]: "login_attempts_of_json (login_attempts_to_json x) = Ok x"
  by (simp add: login_attempts_to_json_def login_attempts_of_json_def de_field_def de_default_def serde_simps)

record idp_session =
  is_user_id :: "string"
  is_auth_time :: "u64"
  is_expires_at :: "u64"
  is_amr :: "string list"

definition idp_session_to_json :: "idp_session \<Rightarrow> json" where
  "idp_session_to_json x = JObj [
     (''user_id'', JStr (is_user_id x)),
     (''auth_time'', jnum (is_auth_time x)),
     (''expires_at'', jnum (is_expires_at x)),
     (''amr'', jstrs (is_amr x))]"

definition idp_session_of_json :: "json \<Rightarrow> idp_session res" where
  "idp_session_of_json j = de_struct j (
     de_field j ''user_id'' de_str (\<lambda>v_user_id.
     de_field j ''auth_time'' de_u64 (\<lambda>v_auth_time.
     de_field j ''expires_at'' de_u64 (\<lambda>v_expires_at.
     de_default j ''amr'' [] (de_list de_str) (\<lambda>v_amr.
     Ok \<lparr>is_user_id = v_user_id,
       is_auth_time = v_auth_time,
       is_expires_at = v_expires_at,
       is_amr = v_amr\<rparr>)))))"

lemma idp_session_roundtrip [serde_simps]: "idp_session_of_json (idp_session_to_json x) = Ok x"
  by (simp add: idp_session_to_json_def idp_session_of_json_def de_field_def de_default_def serde_simps)

record mfa_pending =
  mp_user_id :: "string"
  mp_session_id :: "string"
  mp_primary_amr :: "string list"
  mp_expires_at :: "u64"
  mp_remote_ip :: "string"

definition mfa_pending_to_json :: "mfa_pending \<Rightarrow> json" where
  "mfa_pending_to_json x = JObj [
     (''user_id'', JStr (mp_user_id x)),
     (''session_id'', JStr (mp_session_id x)),
     (''primary_amr'', jstrs (mp_primary_amr x)),
     (''expires_at'', jnum (mp_expires_at x)),
     (''remote_ip'', JStr (mp_remote_ip x))]"

definition mfa_pending_of_json :: "json \<Rightarrow> mfa_pending res" where
  "mfa_pending_of_json j = de_struct j (
     de_field j ''user_id'' de_str (\<lambda>v_user_id.
     de_field j ''session_id'' de_str (\<lambda>v_session_id.
     de_default j ''primary_amr'' [] (de_list de_str) (\<lambda>v_primary_amr.
     de_field j ''expires_at'' de_u64 (\<lambda>v_expires_at.
     de_default j ''remote_ip'' [] de_str (\<lambda>v_remote_ip.
     Ok \<lparr>mp_user_id = v_user_id,
       mp_session_id = v_session_id,
       mp_primary_amr = v_primary_amr,
       mp_expires_at = v_expires_at,
       mp_remote_ip = v_remote_ip\<rparr>))))))"

lemma mfa_pending_roundtrip [serde_simps]: "mfa_pending_of_json (mfa_pending_to_json x) = Ok x"
  by (simp add: mfa_pending_to_json_def mfa_pending_of_json_def de_field_def de_default_def serde_simps)

record passkey_challenge =
  pc_challenge :: "string"
  pc_purpose :: "string"
  pc_user_id :: "string"
  pc_session_id :: "string"
  pc_expires_at :: "u64"

definition passkey_challenge_to_json :: "passkey_challenge \<Rightarrow> json" where
  "passkey_challenge_to_json x = JObj [
     (''challenge'', JStr (pc_challenge x)),
     (''purpose'', JStr (pc_purpose x)),
     (''user_id'', JStr (pc_user_id x)),
     (''session_id'', JStr (pc_session_id x)),
     (''expires_at'', jnum (pc_expires_at x))]"

definition passkey_challenge_of_json :: "json \<Rightarrow> passkey_challenge res" where
  "passkey_challenge_of_json j = de_struct j (
     de_field j ''challenge'' de_str (\<lambda>v_challenge.
     de_field j ''purpose'' de_str (\<lambda>v_purpose.
     de_default j ''user_id'' [] de_str (\<lambda>v_user_id.
     de_default j ''session_id'' [] de_str (\<lambda>v_session_id.
     de_field j ''expires_at'' de_u64 (\<lambda>v_expires_at.
     Ok \<lparr>pc_challenge = v_challenge,
       pc_purpose = v_purpose,
       pc_user_id = v_user_id,
       pc_session_id = v_session_id,
       pc_expires_at = v_expires_at\<rparr>))))))"

lemma passkey_challenge_roundtrip [serde_simps]: "passkey_challenge_of_json (passkey_challenge_to_json x) = Ok x"
  by (simp add: passkey_challenge_to_json_def passkey_challenge_of_json_def de_field_def de_default_def serde_simps)

record account_session =
  av_user_id :: "string"
  av_created_at :: "u64"
  av_expires_at :: "u64"
  av_csrf_token :: "string"

definition account_session_to_json :: "account_session \<Rightarrow> json" where
  "account_session_to_json x = JObj [
     (''user_id'', JStr (av_user_id x)),
     (''created_at'', jnum (av_created_at x)),
     (''expires_at'', jnum (av_expires_at x)),
     (''csrf_token'', JStr (av_csrf_token x))]"

definition account_session_of_json :: "json \<Rightarrow> account_session res" where
  "account_session_of_json j = de_struct j (
     de_field j ''user_id'' de_str (\<lambda>v_user_id.
     de_field j ''created_at'' de_u64 (\<lambda>v_created_at.
     de_field j ''expires_at'' de_u64 (\<lambda>v_expires_at.
     de_default j ''csrf_token'' [] de_str (\<lambda>v_csrf_token.
     Ok \<lparr>av_user_id = v_user_id,
       av_created_at = v_created_at,
       av_expires_at = v_expires_at,
       av_csrf_token = v_csrf_token\<rparr>)))))"

lemma account_session_roundtrip [serde_simps]: "account_session_of_json (account_session_to_json x) = Ok x"
  by (simp add: account_session_to_json_def account_session_of_json_def de_field_def de_default_def serde_simps)

record pushed_auth_request =
  par_client_id :: "string"
  par_parameters :: "(string \<times> string) list"
  par_created_at :: "u64"
  par_expires_at :: "u64"

definition pushed_auth_request_to_json :: "pushed_auth_request \<Rightarrow> json" where
  "pushed_auth_request_to_json x = JObj [
     (''client_id'', JStr (par_client_id x)),
     (''parameters'', JObj (map (\<lambda>(k, v). (k, JStr v)) (par_parameters x))),
     (''created_at'', jnum (par_created_at x)),
     (''expires_at'', jnum (par_expires_at x))]"

definition pushed_auth_request_of_json :: "json \<Rightarrow> pushed_auth_request res" where
  "pushed_auth_request_of_json j = de_struct j (
     de_field j ''client_id'' de_str (\<lambda>v_client_id.
     de_field j ''parameters'' de_str_map (\<lambda>v_parameters.
     de_field j ''created_at'' de_u64 (\<lambda>v_created_at.
     de_field j ''expires_at'' de_u64 (\<lambda>v_expires_at.
     Ok \<lparr>par_client_id = v_client_id,
       par_parameters = v_parameters,
       par_created_at = v_created_at,
       par_expires_at = v_expires_at\<rparr>)))))"

lemma pushed_auth_request_roundtrip [serde_simps]: "pushed_auth_request_of_json (pushed_auth_request_to_json x) = Ok x"
  by (simp add: pushed_auth_request_to_json_def pushed_auth_request_of_json_def de_field_def de_default_def serde_simps)

record runtime_settings =
  rs_allow_registration :: "bool"
  rs_default_theme :: "client_theme option"
  rs_idp_session_ttl_seconds :: "u64 option"

definition runtime_settings_to_json :: "runtime_settings \<Rightarrow> json" where
  "runtime_settings_to_json x = JObj [
     (''allow_registration'', JBool (rs_allow_registration x)),
     (''default_theme'', jopt client_theme_to_json (rs_default_theme x)),
     (''idp_session_ttl_seconds'', jopt jnum (rs_idp_session_ttl_seconds x))]"

definition runtime_settings_of_json :: "json \<Rightarrow> runtime_settings res" where
  "runtime_settings_of_json j = de_struct j (
     de_default j ''allow_registration'' False de_bool (\<lambda>v_allow_registration.
     de_default j ''default_theme'' None (de_opt client_theme_of_json) (\<lambda>v_default_theme.
     de_default j ''idp_session_ttl_seconds'' None (de_opt de_u64) (\<lambda>v_idp_session_ttl_seconds.
     Ok \<lparr>rs_allow_registration = v_allow_registration,
       rs_default_theme = v_default_theme,
       rs_idp_session_ttl_seconds = v_idp_session_ttl_seconds\<rparr>))))"

lemma runtime_settings_roundtrip [serde_simps]: "runtime_settings_of_json (runtime_settings_to_json x) = Ok x"
  by (simp add: runtime_settings_to_json_def runtime_settings_of_json_def de_field_def de_default_def serde_simps)
section \<open>Defaults\<close>

definition default_client :: oidc_client where
  "default_client = \<lparr>cl_client_id = [], cl_client_secret = None, cl_redirect_uris = [],
     cl_post_logout_redirect_uris = [], cl_grant_types = [], cl_name = ''Unknown'', cl_theme = None,
     cl_backchannel_logout_uri = None, cl_backchannel_logout_session_required = False,
     cl_id_token_signed_response_alg = None, cl_first_party = False,
     cl_token_endpoint_auth_method = None, cl_jwks = None,
     cl_require_pushed_authorization_requests = False\<rparr>"

definition default_runtime_settings :: runtime_settings where
  "default_runtime_settings = \<lparr>rs_allow_registration = False, rs_default_theme = None,
     rs_idp_session_ttl_seconds = None\<rparr>"

section \<open>Consumption markers\<close>

text \<open>
  A consumed authorization code and a consumed refresh token stay in the store as small JSON
  objects that lack the required fields of the record they replace, so reading them as that
  record is a \<open>deserialize\<close> error: this is what makes consumption visible to later readers.
\<close>

definition code_marker :: json where
  "code_marker = JObj [(''consumed'', JBool True)]"

definition refresh_marker :: "string \<Rightarrow> json" where
  "refresh_marker user_id = JObj [(''consumed'', JBool True), (''user_id'', JStr user_id)]"

lemma auth_code_of_marker: "auth_code_of_json code_marker = Err ''missing field `user_id`''"
  by (simp add: auth_code_of_json_def code_marker_def de_field_def)

lemma refresh_entry_of_marker:
  "refresh_entry_of_json (refresh_marker u) = Err ''missing field `client_id`''"
  by (simp add: refresh_entry_of_json_def refresh_marker_def de_field_def)

end
