(* ===== verification/World.thy ===== *)
theory World
  imports Store_Types
begin

text \<open>
  The environment of a request: the libraries and services the gateway calls (the record
  \<open>ext\<close>, a parameter of every definition that uses one), and the state a request reads and
  changes (the record \<open>world\<close>): the storage service behind the loopback socket, the readings of
  the system clock, the random bytes drawn, the log, the outgoing HTTP requests, the configuration
  cache and the per-request consistency context of \<open>store.rs\<close>.
\<close>

section \<open>Libraries and services\<close>

text \<open>
  \<open>x_tcp op payload\<close> is the reply of the storage service to one framed request
  (\<open>store::try_ldb_tcp\<close>, pure socket I/O). \<open>x_to_vec\<close> and \<open>x_from_slice\<close> are the serde_json
  crate, the base64 functions the two alphabets of the base64 crate, the digests the sha1/sha2/hmac
  crates, \<open>x_verify_*\<close> the rsa and p256 crates given key material, message and signature
  (the error is that of whichever step rejects), \<open>x_rsa_generate n\<close> and \<open>x_ec_generate n\<close> a fresh
  private key drawn at random step n (modulus, exponents and primes, a scalar), \<open>x_rsa_parse\<close> and
  \<open>x_ec_parse\<close> the checks on loading one, \<open>x_ec_point\<close> the two coordinates of its public point,
  \<open>x_rs256_sign\<close> and \<open>x_es256_sign\<close> the signatures, \<open>x_pw_hash n\<close> and \<open>x_pw_verify\<close> the
  password-hashing component, \<open>x_uri\<close> the address parser of the http crate and \<open>x_http n\<close> the
  answer of the host's outgoing handler to the n-th request.
  \<open>x_pages\<close> bounds the pages of one key listing (a loop the service drives) and
  \<open>x_draws n\<close> the random draws of a rejection-sampled identifier of n characters.
\<close>

record rsa_key =
  rk_n :: bytes
  rk_e :: bytes
  rk_d :: bytes
  rk_primes :: "bytes list"

text \<open>An outgoing request.\<close>

record http_request =
  hq_method :: string
  hq_url :: string
  hq_headers :: "(string \<times> string) list"
  hq_body :: string

record 's ext =
  x_tcp :: "string \<Rightarrow> json \<Rightarrow> 's \<Rightarrow> (string + json) \<times> 's"
  x_to_vec :: "json \<Rightarrow> bytes"
  x_from_slice :: "bytes \<Rightarrow> string + json"
  x_b64_encode :: "bytes \<Rightarrow> string"
  x_b64_decode :: "string \<Rightarrow> string + bytes"
  x_b64url_encode :: "bytes \<Rightarrow> string"
  x_b64url_decode :: "string \<Rightarrow> string + bytes"
  x_sha256 :: "bytes \<Rightarrow> bytes"
  x_hmac_sha256 :: "bytes \<Rightarrow> bytes \<Rightarrow> bytes"
  x_hmac_sha1 :: "bytes \<Rightarrow> bytes \<Rightarrow> bytes"
  x_verify_rs256 :: "bytes \<Rightarrow> bytes \<Rightarrow> bytes \<Rightarrow> bytes \<Rightarrow> string + unit"
  x_verify_es256 :: "bytes \<Rightarrow> bytes \<Rightarrow> bytes \<Rightarrow> string + unit"
  x_rsa_generate :: "nat \<Rightarrow> string + rsa_key"
  x_rsa_parse :: "rsa_key \<Rightarrow> string + unit"
  x_rs256_sign :: "rsa_key \<Rightarrow> bytes \<Rightarrow> bytes"
  x_ec_generate :: "nat \<Rightarrow> bytes"
  x_ec_parse :: "bytes \<Rightarrow> string + unit"
  x_ec_point :: "bytes \<Rightarrow> bytes \<times> bytes"
  x_es256_sign :: "bytes \<Rightarrow> bytes \<Rightarrow> bytes"
  x_pw_hash :: "nat \<Rightarrow> string \<Rightarrow> string + string"
  x_pw_verify :: "string \<Rightarrow> string \<Rightarrow> string + bool"
  x_uri :: "string \<Rightarrow> string + unit"
  x_http :: "nat \<Rightarrow> http_request \<Rightarrow> string + (nat \<times> bytes)"
  x_pages :: nat
  x_draws :: "nat \<Rightarrow> nat"

definition of_sum :: "(string \<Rightarrow> string) \<Rightarrow> string + 'a \<Rightarrow> 'a res" where
  "of_sum f r = (case r of Inl e \<Rightarrow> Err (f e) | Inr x \<Rightarrow> Ok x)"

lemma of_sum_simps [simp]: "of_sum f (Inl e) = Err (f e)" "of_sum f (Inr y) = Ok y"
  by (simp_all add: of_sum_def)

lemma of_sum_Ok: "of_sum f r = Ok y \<longleftrightarrow> r = Inr y"
  by (cases r) auto

section \<open>Configuration cache\<close>

record config =
  cf_ldb_instance :: string
  cf_lockout_threshold :: "string option"
  cf_lockout_duration_secs :: "string option"
  cf_keys_bucket :: "string option"
  cf_tenant_bucket :: "string option"
  cf_region_id :: "string option"
  cf_internal_auth_secret :: "string option"
  cf_region_domains :: "string option"
  cf_region_internal_urls :: "string option"
  cf_issuer_url :: "string option"
  cf_dev_mode :: "string option"
  cf_require_email_verification :: "string option"
  cf_allow_registration :: "string option"
  cf_bootstrap_hook :: "string option"
  cf_refresh_absolute_max_secs :: "string option"
  cf_email_pepper :: "string option"
  cf_client_secret_pepper :: "string option"
  cf_client_registration_mode :: "string option"
  cf_client_registration_token :: "string option"
  cf_saml_enabled :: "string option"
  cf_scim_enabled :: "string option"
  cf_encrypt_tables :: "string option"

text \<open>
  The configuration source: \<open>wasi:config/store.get\<close> is a map; a value is trimmed, and an empty
  one counts as absent (\<open>store::config_value_async\<close>).
\<close>

definition config_value_async :: "(string \<Rightarrow> string option) \<Rightarrow> string \<Rightarrow> string option" where
  "config_value_async get key = (case get key of None \<Rightarrow> None
     | Some v \<Rightarrow> (let t = trim v in if t = [] then None else Some t))"

definition init_config :: "(string \<Rightarrow> string option) \<Rightarrow> config" where
  "init_config get = (let c = config_value_async get in
     \<lparr>cf_ldb_instance =
        (case c ''jetauth_instance'' of Some v \<Rightarrow> v | None \<Rightarrow>
        (case c ''jetcache_instance'' of Some v \<Rightarrow> v | None \<Rightarrow>
        (case c ''cache_instance'' of Some v \<Rightarrow> v | None \<Rightarrow>
        (case c ''ldb_instance'' of Some v \<Rightarrow> v | None \<Rightarrow> ''lid'')))),
      cf_lockout_threshold = c ''lockout_threshold'',
      cf_lockout_duration_secs = c ''lockout_duration_secs'',
      cf_keys_bucket = c ''keys_bucket'',
      cf_tenant_bucket = c ''tenant_bucket'',
      cf_region_id = c ''region_id'',
      cf_internal_auth_secret = c ''internal_auth_secret'',
      cf_region_domains = c ''region_domains'',
      cf_region_internal_urls = c ''region_internal_urls'',
      cf_issuer_url = c ''issuer_url'',
      cf_dev_mode = c ''dev_mode'',
      cf_require_email_verification = c ''require_email_verification'',
      cf_allow_registration = c ''allow_registration'',
      cf_bootstrap_hook = c ''bootstrap_hook'',
      cf_refresh_absolute_max_secs = c ''refresh_absolute_max_secs'',
      cf_email_pepper = c ''email_pepper'',
      cf_client_secret_pepper = c ''client_secret_pepper'',
      cf_client_registration_mode = c ''client_registration_mode'',
      cf_client_registration_token = c ''client_registration_token'',
      cf_saml_enabled = c ''saml_enabled'',
      cf_scim_enabled = c ''scim_enabled'',
      cf_encrypt_tables = c ''encrypt_tables''\<rparr>)"

text \<open>\<open>config_value\<close> answers for the cached keys only; any other key is absent.\<close>

definition config_field :: "config \<Rightarrow> string \<Rightarrow> string option" where
  "config_field c key =
    (if key = ''ldb_instance'' then Some (cf_ldb_instance c)
     else if key = ''lockout_threshold'' then cf_lockout_threshold c
     else if key = ''lockout_duration_secs'' then cf_lockout_duration_secs c
     else if key = ''keys_bucket'' then cf_keys_bucket c
     else if key = ''tenant_bucket'' then cf_tenant_bucket c
     else if key = ''region_id'' then cf_region_id c
     else if key = ''internal_auth_secret'' then cf_internal_auth_secret c
     else if key = ''region_domains'' then cf_region_domains c
     else if key = ''region_internal_urls'' then cf_region_internal_urls c
     else if key = ''issuer_url'' then cf_issuer_url c
     else if key = ''dev_mode'' then cf_dev_mode c
     else if key = ''require_email_verification'' then cf_require_email_verification c
     else if key = ''allow_registration'' then cf_allow_registration c
     else if key = ''bootstrap_hook'' then cf_bootstrap_hook c
     else if key = ''refresh_absolute_max_secs'' then cf_refresh_absolute_max_secs c
     else if key = ''email_pepper'' then cf_email_pepper c
     else if key = ''client_secret_pepper'' then cf_client_secret_pepper c
     else if key = ''client_registration_mode'' then cf_client_registration_mode c
     else if key = ''client_registration_token'' then cf_client_registration_token c
     else if key = ''saml_enabled'' then cf_saml_enabled c
     else if key = ''scim_enabled'' then cf_scim_enabled c
     else if key = ''encrypt_tables'' then cf_encrypt_tables c
     else None)"

definition config_value :: "config option \<Rightarrow> string \<Rightarrow> string option" where
  "config_value c key = Option.bind c (\<lambda>cfg. config_field cfg key)"

text \<open>The configuration accessors of \<open>store.rs\<close> and \<open>lib.rs\<close>.\<close>

definition client_registration_mode :: "config option \<Rightarrow> string" where
  "client_registration_mode c =
     to_lowercase (case config_value c ''client_registration_mode'' of Some v \<Rightarrow> v | None \<Rightarrow> ''disabled'')"

definition client_registration_token :: "config option \<Rightarrow> string option" where
  "client_registration_token c = (case config_value c ''client_registration_token'' of
     None \<Rightarrow> None | Some s \<Rightarrow> if trim s = [] then None else Some s)"

definition refresh_absolute_max_secs :: "config option \<Rightarrow> u64" where
  "refresh_absolute_max_secs c =
     (case Option.bind (config_value c ''refresh_absolute_max_secs'') parse_u64 of
        Some v \<Rightarrow> v | None \<Rightarrow> 86400 * 90)"

definition max_login_failures :: "config option \<Rightarrow> u32" where
  "max_login_failures c =
     (case Option.bind (config_value c ''lockout_threshold'') parse_u32 of Some v \<Rightarrow> v | None \<Rightarrow> 5)"

definition lockout_duration :: "config option \<Rightarrow> u64" where
  "lockout_duration c =
     (case Option.bind (config_value c ''lockout_duration_secs'') parse_u64 of Some v \<Rightarrow> v | None \<Rightarrow> 900)"

definition get_issuer :: "config option \<Rightarrow> string" where
  "get_issuer c = (case config_value c ''issuer_url'' of Some v \<Rightarrow> v | None \<Rightarrow> ''http://localhost:8000'')"

definition is_dev_mode :: "config option \<Rightarrow> bool" where
  "is_dev_mode c = (case config_value c ''dev_mode'' of
     Some v \<Rightarrow> v = ''true'' \<or> v = ''1'' | None \<Rightarrow> False)"

definition require_email_verification :: "config option \<Rightarrow> bool" where
  "require_email_verification c = (case config_value c ''require_email_verification'' of
     Some v \<Rightarrow> v \<noteq> ''false'' \<and> v \<noteq> ''0'' | None \<Rightarrow> True)"

definition encrypt_tables_enabled :: "config option \<Rightarrow> bool" where
  "encrypt_tables_enabled c = (case config_value c ''encrypt_tables'' of
     Some v \<Rightarrow> v = ''true'' \<or> v = ''1'' | None \<Rightarrow> False)"

definition clients_store :: "config option \<Rightarrow> string" where
  "clients_store c = (case config_value c ''client_bucket'' of Some v \<Rightarrow> v | None \<Rightarrow> ''clients'')"

definition tenants_store :: "config option \<Rightarrow> string" where
  "tenants_store c = (case config_value c ''tenant_bucket'' of Some v \<Rightarrow> v | None \<Rightarrow> ''tenants'')"

abbreviation users_store :: string where "users_store \<equiv> ''users''"
abbreviation user_idx_store :: string where "user_idx_store \<equiv> ''user-idx''"
abbreviation sessions_store :: string where "sessions_store \<equiv> ''sessions''"
abbreviation memberships_store :: string where "memberships_store \<equiv> ''memberships''"

section \<open>World\<close>

record 's world =
  w_kv :: 's
  w_clock :: "nat \<Rightarrow> u64"
  w_ticks :: nat
  w_rand :: "nat \<Rightarrow> nat \<Rightarrow> char"
  w_draws :: nat
  w_log :: "(string \<times> json) list"
  w_http :: "http_request list"
  w_config :: "config option"
  w_revs :: "(string \<times> u64) list"
  w_inbound :: "string option"
  w_epoch :: "string option"
  w_validated :: bool

type_synonym ('a, 's) act = "('a, 's world) io"

text \<open>The n-th clock reading is an arbitrary value: a theorem holds for every clock.\<close>

definition unix_now :: "(u64, 's) act" where
  "unix_now w = (Ok (w_clock w (w_ticks w)), w\<lparr>w_ticks := Suc (w_ticks w)\<rparr>)"

definition random_bytes :: "nat \<Rightarrow> (bytes, 's) act" where
  "random_bytes n w = (Ok (map (w_rand w (w_draws w)) [0..<n]), w\<lparr>w_draws := Suc (w_draws w)\<rparr>)"

definition random_hex :: "nat \<Rightarrow> (string, 's) act" where
  "random_hex n = try_io (random_bytes n) (\<lambda>buf. ret (hex_lower buf))"

definition log_event :: "string \<Rightarrow> json \<Rightarrow> (unit, 's) act" where
  "log_event name j w = (Ok (), w\<lparr>w_log := w_log w @ [(name, j)]\<rparr>)"

definition log_audit :: "string \<Rightarrow> string \<Rightarrow> string \<Rightarrow> string \<Rightarrow> (unit, 's) act" where
  "log_audit event_type actor_id target_id details =
     try_io unix_now (\<lambda>now. log_event ''audit'' (JObj [
       (''event_type'', JStr event_type), (''actor_id'', JStr actor_id),
       (''target_id'', JStr target_id), (''details'', JStr details), (''timestamp'', jnum now)]))"

lemmas world_runs [code] =
  random_hex_def [THEN fun_cong] log_audit_def [THEN fun_cong]

definition get_config :: "(config option, 's) act" where
  "get_config w = (Ok (w_config w), w)"

text \<open>Only the storage service state is persistent; these actions leave it alone.\<close>

lemma unix_now_Ok: "unix_now w = (Ok t, w') \<longleftrightarrow>
    t = w_clock w (w_ticks w) \<and> w' = w\<lparr>w_ticks := Suc (w_ticks w)\<rparr>"
  by (auto simp: unix_now_def)

lemma unix_now_kv [simp]: "w_kv (snd (unix_now w)) = w_kv w"
  by (simp add: unix_now_def)

lemma random_hex_Ok: "random_hex n w = (Ok s, w') \<longleftrightarrow>
    s = hex_lower (map (w_rand w (w_draws w)) [0..<n]) \<and> w' = w\<lparr>w_draws := Suc (w_draws w)\<rparr>"
  by (auto simp: random_hex_def random_bytes_def try_io_def)

lemma random_hex_length: "random_hex n w = (Ok s, w') \<Longrightarrow> length s = 2 * n"
  by (simp add: random_hex_Ok)

lemma log_event_Ok: "log_event name j w = (r, w') \<longleftrightarrow>
    r = Ok () \<and> w' = w\<lparr>w_log := w_log w @ [(name, j)]\<rparr>"
  by (auto simp: log_event_def)

lemma get_config_Ok: "get_config w = (r, w') \<longleftrightarrow> r = Ok (w_config w) \<and> w' = w"
  by (auto simp: get_config_def)

text \<open>A client bucket override is documented (MULTI_REGION.md) but its key is not cached.\<close>

lemma config_value_client_bucket: "config_value c ''client_bucket'' = None"
  by (cases c) (simp_all add: config_value_def config_field_def)

lemma clients_store_fixed [simp]: "clients_store c = ''clients''"
  by (simp add: clients_store_def config_value_client_bucket)

end
