(* ===== verification/Kv.thy ===== *)
theory Kv
  imports World "HOL-Library.List_Lexorder" "HOL-Library.Char_ord"
begin

text \<open>
  The storage client of \<open>store.rs\<close>: \<open>ldb_request\<close> with its session-consistency bookkeeping, and
  the typed and raw key-value operations built on it. The contract of the storage service is the
  locale \<open>jetcache\<close> over an abstraction of its state to a map from (table, key) to (stored text,
  revision); the locale is interpreted in theory Test_Server on the in-memory server that
  \<open>store.rs\<close> itself contains.
\<close>

section \<open>Requests and session consistency\<close>

definition bump_revision :: "(string \<times> u64) list \<Rightarrow> string \<Rightarrow> u64 \<Rightarrow> (string \<times> u64) list" where
  "bump_revision revs table r =
     (let cur = (case map_of revs table of Some c \<Rightarrow> c | None \<Rightarrow> 0)
      in AList.update table (if cur < r then r else cur) revs)"

definition seed_session_revisions :: "(string \<times> u64) list \<Rightarrow> string option \<Rightarrow> 's world \<Rightarrow> 's world" where
  "seed_session_revisions revisions epoch w =
     w\<lparr>w_inbound := epoch,
       w_revs := fold (\<lambda>(table, r) m. bump_revision m table r) revisions (w_revs w)\<rparr>"

definition validate_epoch :: "string \<Rightarrow> 's world \<Rightarrow> 's world" where
  "validate_epoch server_epoch w =
     (let w1 = w\<lparr>w_epoch := Some server_epoch\<rparr> in
      if w_validated w1 then w1
      else (let w2 = w1\<lparr>w_validated := True\<rparr> in
        case w_inbound w2 of
          Some inbound_epoch \<Rightarrow>
            if inbound_epoch \<noteq> server_epoch then w2\<lparr>w_revs := []\<rparr> else w2
        | None \<Rightarrow> w2))"

definition with_consistency :: "'s world \<Rightarrow> json \<Rightarrow> json" where
  "with_consistency w payload =
     (case jget_str payload ''table'' of
        Some table \<Rightarrow>
          (case map_of (w_revs w) table of
             Some r \<Rightarrow> jset ''consistency'' (JObj [(''min_revision'', jnum r)]) payload
           | None \<Rightarrow> payload)
      | None \<Rightarrow> payload)"

definition note_revisions :: "json \<Rightarrow> 's world \<Rightarrow> 's world" where
  "note_revisions val w =
     (let session = jget val ''session'';
          revisions = (case Option.bind session (\<lambda>s. jget s ''revisions'') of
                         Some r \<Rightarrow> Some r | None \<Rightarrow> jget val ''revisions'')
      in case Option.bind revisions as_object of
           Some kvs \<Rightarrow> w\<lparr>w_revs := fold (\<lambda>(table, j) m.
               case as_u64 j of Some r \<Rightarrow> bump_revision m table r | None \<Rightarrow> m) kvs (w_revs w)\<rparr>
         | None \<Rightarrow> w)"

definition note_epoch :: "json \<Rightarrow> 's world \<Rightarrow> 's world" where
  "note_epoch val w =
     (let session = jget val ''session'';
          epoch = (case Option.bind session (\<lambda>s. jget s ''epoch'') of
                     Some e \<Rightarrow> Some e | None \<Rightarrow> jget val ''epoch'')
      in case Option.bind epoch as_str of
           Some e \<Rightarrow> validate_epoch e w
         | None \<Rightarrow> w)"

text \<open>One exchange with the service: a transport or status error, an error reply, or a value.\<close>

definition ldb_reply :: "'s ext \<Rightarrow> string \<Rightarrow> json \<Rightarrow> 's \<Rightarrow> (string + json) \<times> 's" where
  "ldb_reply x op payload s =
     (case x_tcp x op payload s of
        (Inl e, s') \<Rightarrow> (Inl (''ldb_request error on '' @ op @ '' (tcp): '' @ e), s')
      | (Inr val, s') \<Rightarrow>
          (case jget_str val ''error'' of Some err \<Rightarrow> (Inl err, s') | None \<Rightarrow> (Inr val, s')))"

definition ldb_request :: "'s ext \<Rightarrow> string \<Rightarrow> json \<Rightarrow> (json, 's) act" where
  "ldb_request x op payload w =
     (case ldb_reply x op (with_consistency w payload) (w_kv w) of
        (Inl e, s') \<Rightarrow> (Err e, w\<lparr>w_kv := s'\<rparr>)
      | (Inr val, s') \<Rightarrow> (Ok val, note_epoch val (note_revisions val (w\<lparr>w_kv := s'\<rparr>))))"

definition is_not_found :: "string \<Rightarrow> bool" where
  "is_not_found e \<longleftrightarrow> contains_str ''not found'' e"

section \<open>Key-value operations\<close>

definition reply_bytes :: "'s ext \<Rightarrow> json \<Rightarrow> bytes res" where
  "reply_bytes x resp =
     res_bind (ok_or (jget_str resp ''value'') ''missing value'') (\<lambda>value_b64.
       of_sum (\<lambda>e. ''base64 decode: '' @ e) (x_b64_decode x value_b64))"

definition from_slice :: "'s ext \<Rightarrow> (json \<Rightarrow> 'a res) \<Rightarrow> bytes \<Rightarrow> 'a res" where
  "from_slice x d b = res_bind (of_sum id (x_from_slice x b)) d"

definition reply_revision :: "json \<Rightarrow> u64" where
  "reply_revision resp = (case jget_u64 resp ''revision'' of Some r \<Rightarrow> r | None \<Rightarrow> 0)"

definition kv_get :: "'s ext \<Rightarrow> (json \<Rightarrow> 'a res) \<Rightarrow> string \<Rightarrow> string \<Rightarrow> ('a option, 's) act" where
  "kv_get x d store_name key =
     match_io (ldb_request x ''get'' (JObj [(''table'', JStr store_name), (''key'', JStr key)]))
       (\<lambda>resp. try_io (lift (reply_bytes x resp)) (\<lambda>b.
          try_io (lift (res_map_err (\<lambda>e. ''deserialize: '' @ e) (from_slice x d b))) (\<lambda>v.
          ret (Some v))))
       (\<lambda>e. if is_not_found e then ret None else fail (''get '' @ key @ '': '' @ e))"

definition kv_get_raw :: "'s ext \<Rightarrow> string \<Rightarrow> string \<Rightarrow> (bytes option, 's) act" where
  "kv_get_raw x store_name key =
     match_io (ldb_request x ''get'' (JObj [(''table'', JStr store_name), (''key'', JStr key)]))
       (\<lambda>resp. try_io (lift (reply_bytes x resp)) (\<lambda>b. ret (Some b)))
       (\<lambda>e. if is_not_found e then ret None else fail (''get '' @ key @ '': '' @ e))"

definition kv_get_raw_with_revision ::
    "'s ext \<Rightarrow> string \<Rightarrow> string \<Rightarrow> ((bytes \<times> u64) option, 's) act" where
  "kv_get_raw_with_revision x store_name key =
     match_io (ldb_request x ''get'' (JObj [(''table'', JStr store_name), (''key'', JStr key)]))
       (\<lambda>resp. try_io (lift (reply_bytes x resp)) (\<lambda>b. ret (Some (b, reply_revision resp))))
       (\<lambda>e. if is_not_found e then ret None else fail (''get '' @ key @ '': '' @ e))"

definition kv_get_revision ::
    "'s ext \<Rightarrow> (json \<Rightarrow> 'a res) \<Rightarrow> string \<Rightarrow> string \<Rightarrow> (('a \<times> u64) option, 's) act" where
  "kv_get_revision x d store_name key =
     match_io (ldb_request x ''get'' (JObj [(''table'', JStr store_name), (''key'', JStr key)]))
       (\<lambda>resp. try_io (lift (reply_bytes x resp)) (\<lambda>b.
          try_io (lift (res_map_err (\<lambda>e. ''deserialize: '' @ e) (from_slice x d b))) (\<lambda>v.
          ret (Some (v, reply_revision resp)))))
       (\<lambda>e. if is_not_found e then ret None else fail (''get '' @ key @ '': '' @ e))"

definition kv_set_raw :: "'s ext \<Rightarrow> string \<Rightarrow> string \<Rightarrow> bytes \<Rightarrow> (unit, 's) act" where
  "kv_set_raw x store_name key value =
     try_io (ldb_request x ''put'' (JObj [(''table'', JStr store_name), (''key'', JStr key),
       (''value'', JStr (x_b64_encode x value))])) (\<lambda>_. ret ())"

definition kv_set :: "'s ext \<Rightarrow> string \<Rightarrow> string \<Rightarrow> json \<Rightarrow> (unit, 's) act" where
  "kv_set x store_name key value =
     try_io (ldb_request x ''put'' (JObj [(''table'', JStr store_name), (''key'', JStr key),
       (''value'', JStr (x_b64_encode x (x_to_vec x value)))])) (\<lambda>_. ret ())"

definition kv_create_raw ::
    "'s ext \<Rightarrow> string \<Rightarrow> string \<Rightarrow> bytes \<Rightarrow> u64 option \<Rightarrow> (unit, 's) act" where
  "kv_create_raw x store_name key value ttl_secs =
     (let payload = JObj [(''table'', JStr store_name), (''key'', JStr key),
            (''value'', JStr (x_b64_encode x value))];
          payload = (case ttl_secs of Some ttl \<Rightarrow> jset ''ttl_seconds'' (jnum ttl) payload | None \<Rightarrow> payload)
      in try_io (ldb_request x ''create'' payload) (\<lambda>_. ret ()))"

definition kv_cas_raw ::
    "'s ext \<Rightarrow> string \<Rightarrow> string \<Rightarrow> bytes \<Rightarrow> u64 \<Rightarrow> u64 option \<Rightarrow> (unit, 's) act" where
  "kv_cas_raw x store_name key value revision ttl_seconds =
     (let payload = JObj [(''table'', JStr store_name), (''key'', JStr key),
            (''value'', JStr (x_b64_encode x value)), (''revision'', jnum revision)];
          payload = (case ttl_seconds of Some ttl \<Rightarrow> jset ''ttl_seconds'' (jnum ttl) payload | None \<Rightarrow> payload)
      in try_io (ldb_request x ''cas'' payload) (\<lambda>_. ret ()))"

definition kv_exists :: "'s ext \<Rightarrow> string \<Rightarrow> string \<Rightarrow> (bool, 's) act" where
  "kv_exists x store_name key =
     try_io (ldb_request x ''exists'' (JObj [(''table'', JStr store_name), (''key'', JStr key)]))
       (\<lambda>resp. ret (case Option.bind (jget resp ''exists'') as_bool of Some b \<Rightarrow> b | None \<Rightarrow> False))"

definition kv_set_raw_ttl :: "'s ext \<Rightarrow> string \<Rightarrow> string \<Rightarrow> bytes \<Rightarrow> u64 \<Rightarrow> (unit, 's) act" where
  "kv_set_raw_ttl x store_name key value ttl_secs =
     try_io (ldb_request x ''put'' (JObj [(''table'', JStr store_name), (''key'', JStr key),
       (''value'', JStr (x_b64_encode x value)), (''ttl_seconds'', jnum ttl_secs)])) (\<lambda>_. ret ())"

definition kv_set_ttl :: "'s ext \<Rightarrow> string \<Rightarrow> string \<Rightarrow> json \<Rightarrow> u64 \<Rightarrow> (unit, 's) act" where
  "kv_set_ttl x store_name key value ttl_secs =
     try_io (ldb_request x ''put'' (JObj [(''table'', JStr store_name), (''key'', JStr key),
       (''value'', JStr (x_b64_encode x (x_to_vec x value))), (''ttl_seconds'', jnum ttl_secs)]))
       (\<lambda>_. ret ())"

definition kv_delete :: "'s ext \<Rightarrow> string \<Rightarrow> string \<Rightarrow> (unit, 's) act" where
  "kv_delete x store_name key =
     try_io (ldb_request x ''delete'' (JObj [(''table'', JStr store_name), (''key'', JStr key)]))
       (\<lambda>_. ret ())"

text \<open>
  The paged key listing follows the cursor the service returns; the number of pages is bounded
  by the fuel argument, and running out of it is a panic, never a result.
\<close>

definition next_cursor :: "json \<Rightarrow> u64 option" where
  "next_cursor resp = Option.bind (jget resp ''next_cursor'') (\<lambda>v.
     case Option.bind (as_str v) parse_u64 of Some c \<Rightarrow> Some c | None \<Rightarrow> as_u64 v)"

fun kv_list_pages :: "'s ext \<Rightarrow> nat \<Rightarrow> string \<Rightarrow> u64 option \<Rightarrow> string list \<Rightarrow> (string list, 's) act" where
  "kv_list_pages x 0 store_name cursor all_keys = panic ''kv_list_keys: page bound''"
| "kv_list_pages x (Suc n) store_name cursor all_keys =
     (let payload = JObj [(''table'', JStr store_name)];
          payload = (case cursor of Some c \<Rightarrow> jset ''cursor'' (jnum c) payload | None \<Rightarrow> payload)
      in try_io (ldb_request x ''keys'' payload) (\<lambda>resp.
         let keys = all_keys @ (case jget_array resp ''keys'' of
               Some ks \<Rightarrow> List.map_filter as_str ks | None \<Rightarrow> [])
         in case next_cursor resp of
              Some c \<Rightarrow> kv_list_pages x n store_name (Some c) keys
            | None \<Rightarrow> ret keys))"

definition kv_list_keys :: "'s ext \<Rightarrow> string \<Rightarrow> (string list, 's) act" where
  "kv_list_keys x store_name = kv_list_pages x (x_pages x) store_name None []"

fun decode_rows :: "'s ext \<Rightarrow> (json \<Rightarrow> 'a res) \<Rightarrow> json list \<Rightarrow> (string \<times> 'a) list res" where
  "decode_rows x d [] = Ok []"
| "decode_rows x d (row # rows) =
     res_bind (ok_or (jget_str row ''key'') ''missing key in prefix row'') (\<lambda>key.
     res_bind (ok_or (jget_str row ''value'') ''missing value in prefix row'') (\<lambda>value_b64.
     res_bind (of_sum (\<lambda>e. ''base64 decode '' @ key @ '': '' @ e) (x_b64_decode x value_b64)) (\<lambda>b.
     res_bind (res_map_err (\<lambda>e. ''deserialize '' @ key @ '': '' @ e) (from_slice x d b)) (\<lambda>v.
     res_bind (decode_rows x d rows) (\<lambda>rest. Ok ((key, v) # rest))))))"

fun get_matching :: "'s ext \<Rightarrow> (json \<Rightarrow> 'a res) \<Rightarrow> string \<Rightarrow> string \<Rightarrow> string list \<Rightarrow>
    ((string \<times> 'a) list, 's) act" where
  "get_matching x d store_name pre [] = ret []"
| "get_matching x d store_name pre (key # keys) =
     (if starts_with pre key then
        try_io (kv_get x d store_name key) (\<lambda>o1.
        try_io (get_matching x d store_name pre keys) (\<lambda>rest.
        ret (case o1 of Some v \<Rightarrow> (key, v) # rest | None \<Rightarrow> rest)))
      else get_matching x d store_name pre keys)"

definition old_service :: "string \<Rightarrow> bool" where
  "old_service e \<longleftrightarrow> contains_str ''unsupported'' e \<or> contains_str ''unknown'' e"

definition kv_prefix :: "'s ext \<Rightarrow> (json \<Rightarrow> 'a res) \<Rightarrow> string \<Rightarrow> string \<Rightarrow>
    ((string \<times> 'a) list, 's) act" where
  "kv_prefix x d store_name pre =
     match_io (ldb_request x ''prefix'' (JObj [(''table'', JStr store_name), (''prefix'', JStr pre)]))
       (\<lambda>resp. lift (res_bind (ok_or (jget_array resp ''rows'') ''missing rows in prefix response'')
          (\<lambda>rows. decode_rows x d rows)))
       (\<lambda>e. if old_service e then
              try_io (kv_list_keys x store_name) (\<lambda>keys. get_matching x d store_name pre keys)
            else fail (''prefix '' @ pre @ '' on '' @ store_name @ '': '' @ e))"

definition kv_prefix_keys :: "'s ext \<Rightarrow> string \<Rightarrow> string \<Rightarrow> (string list, 's) act" where
  "kv_prefix_keys x store_name pre =
     match_io (ldb_request x ''prefix'' (JObj [(''table'', JStr store_name), (''prefix'', JStr pre)]))
       (\<lambda>resp. try_io (lift (ok_or (jget_array resp ''rows'') ''missing rows in prefix response''))
          (\<lambda>rows. ret (List.map_filter (\<lambda>row. jget_str row ''key'') rows)))
       (\<lambda>e. if old_service e then
              try_io (kv_list_keys x store_name) (\<lambda>keys. ret (List.filter (starts_with pre) keys))
            else fail (''prefix keys '' @ pre @ '' on '' @ store_name @ '': '' @ e))"

definition kv_cas_swap :: "'s ext \<Rightarrow> string \<Rightarrow> string \<Rightarrow> json \<Rightarrow> u64 \<Rightarrow> (u64, 's) act" where
  "kv_cas_swap x store_name key value revision =
     try_io (ldb_request x ''cas'' (JObj [(''table'', JStr store_name), (''key'', JStr key),
       (''value'', JStr (x_b64_encode x (x_to_vec x value))), (''revision'', jnum revision)]))
       (\<lambda>resp. ret (reply_revision resp))"

definition kv_cas_swap_ttl ::
    "'s ext \<Rightarrow> string \<Rightarrow> string \<Rightarrow> json \<Rightarrow> u64 \<Rightarrow> u64 \<Rightarrow> (u64, 's) act" where
  "kv_cas_swap_ttl x store_name key value revision ttl_secs =
     try_io (ldb_request x ''cas'' (JObj [(''table'', JStr store_name), (''key'', JStr key),
       (''value'', JStr (x_b64_encode x (x_to_vec x value))), (''revision'', jnum revision),
       (''ttl_seconds'', jnum ttl_secs)]))
       (\<lambda>resp. ret (reply_revision resp))"

definition kv_cas_create :: "'s ext \<Rightarrow> string \<Rightarrow> string \<Rightarrow> json \<Rightarrow> (u64, 's) act" where
  "kv_cas_create x store_name key value =
     try_io (ldb_request x ''create'' (JObj [(''table'', JStr store_name), (''key'', JStr key),
       (''value'', JStr (x_b64_encode x (x_to_vec x value)))])) (\<lambda>resp. ret (reply_revision resp))"

definition kv_cas_create_raw :: "'s ext \<Rightarrow> string \<Rightarrow> string \<Rightarrow> bytes \<Rightarrow> (u64, 's) act" where
  "kv_cas_create_raw x store_name key value =
     try_io (ldb_request x ''create'' (JObj [(''table'', JStr store_name), (''key'', JStr key),
       (''value'', JStr (x_b64_encode x value))])) (\<lambda>resp. ret (reply_revision resp))"

definition kv_cas_delete :: "'s ext \<Rightarrow> string \<Rightarrow> string \<Rightarrow> u64 \<Rightarrow> (unit, 's) act" where
  "kv_cas_delete x store_name key revision =
     try_io (ldb_request x ''cas_delete'' (JObj [(''table'', JStr store_name), (''key'', JStr key),
       (''revision'', jnum revision)])) (\<lambda>_. ret ())"

text \<open>The shared cache table: a value wrapped with its own expiry time (\<open>CacheEntry<T>\<close>).\<close>

definition cache_entry_to_json :: "json \<Rightarrow> u64 \<Rightarrow> json" where
  "cache_entry_to_json value expires_at = JObj [(''value'', value), (''expires_at'', jnum expires_at)]"

definition cache_entry_of_json :: "(json \<Rightarrow> 'a res) \<Rightarrow> json \<Rightarrow> ('a \<times> u64) res" where
  "cache_entry_of_json d j = de_struct j (de_field j ''value'' d (\<lambda>v.
     de_field j ''expires_at'' de_u64 (\<lambda>t. Ok (v, t))))"

definition kv_cache_get :: "'s ext \<Rightarrow> (json \<Rightarrow> 'a res) \<Rightarrow> string \<Rightarrow> ('a option, 's) act" where
  "kv_cache_get x d key =
     try_io (kv_get_raw x ''cache'' key) (\<lambda>o1. case o1 of
       Some b \<Rightarrow>
         try_io (lift (res_map_err (\<lambda>e. ''cache deserialize: '' @ e)
             (from_slice x (cache_entry_of_json d) b))) (\<lambda>(value, expires_at).
         try_io unix_now (\<lambda>now.
         if now < expires_at then ret (Some value)
         else ignore_io (kv_delete x ''cache'' key) (ret None)))
     | None \<Rightarrow> ret None)"

definition kv_cache_set :: "'s ext \<Rightarrow> string \<Rightarrow> json \<Rightarrow> u64 \<Rightarrow> (unit, 's) act" where
  "kv_cache_set x key value ttl_secs =
     try_io unix_now (\<lambda>now.
       kv_set_raw_ttl x ''cache'' key (x_to_vec x (cache_entry_to_json value (now + ttl_secs))) ttl_secs)"

lemmas kv_runs [code] =
  kv_get_def [THEN fun_cong] kv_get_raw_def [THEN fun_cong] kv_get_raw_with_revision_def [THEN fun_cong]
  kv_get_revision_def [THEN fun_cong] kv_set_raw_def [THEN fun_cong] kv_set_def [THEN fun_cong]
  kv_create_raw_def [THEN fun_cong] kv_cas_raw_def [THEN fun_cong] kv_exists_def [THEN fun_cong]
  kv_set_raw_ttl_def [THEN fun_cong] kv_set_ttl_def [THEN fun_cong] kv_delete_def [THEN fun_cong]
  kv_list_pages.simps [THEN fun_cong] kv_list_keys_def [THEN fun_cong] get_matching.simps [THEN fun_cong]
  kv_prefix_def [THEN fun_cong] kv_prefix_keys_def [THEN fun_cong] kv_cas_swap_def [THEN fun_cong]
  kv_cas_swap_ttl_def [THEN fun_cong] kv_cas_create_def [THEN fun_cong]
  kv_cas_create_raw_def [THEN fun_cong] kv_cas_delete_def [THEN fun_cong] kv_cache_get_def [THEN fun_cong]
  kv_cache_set_def [THEN fun_cong]

end
