(* ===== verification/Kv_Contract.thy ===== *)
theory Kv_Contract
  imports Kv
begin

text \<open>
  The contract of the storage service, as the locale \<open>jetcache\<close>, and the behaviour of every
  key-value operation of theory Kv under it. The view of a service state maps an address
  (table, key) to the stored text and its revision. Entries carry a time to live, so a request may
  make any entry disappear; apart from that a request changes its own address only. The locale
  \<open>codec\<close> is the contract of the text codecs, and \<open>gateway\<close> joins the two.
\<close>

section \<open>Addresses and views\<close>

type_synonym addr = "string \<times> string"
type_synonym 's view = "'s \<Rightarrow> addr \<Rightarrow> (string \<times> u64) option"

definition addr_of :: "json \<Rightarrow> addr" where
  "addr_of p = (case jget_str p ''table'' of Some t \<Rightarrow> t | None \<Rightarrow> [],
                case jget_str p ''key'' of Some k \<Rightarrow> k | None \<Rightarrow> [])"

definition table_ok :: "addr \<Rightarrow> bool" where
  "table_ok a \<longleftrightarrow> CHR '':'' \<notin> set (fst a)"

definition survives :: "'s view \<Rightarrow> 's \<Rightarrow> 's \<Rightarrow> addr \<Rightarrow> bool" where
  "survives view s s' a \<longleftrightarrow> view s' a = view s a \<or> view s' a = None"

text \<open>Between two worlds, everything outside \<open>A\<close> is as it was or has expired.\<close>

definition touches :: "'s view \<Rightarrow> addr set \<Rightarrow> 's world \<Rightarrow> 's world \<Rightarrow> bool" where
  "touches view A w w' \<longleftrightarrow>
     (\<forall>a. table_ok a \<longrightarrow> a \<notin> A \<longrightarrow> survives view (w_kv w) (w_kv w') a)"

lemma survives_refl [simp]: "survives view s s a"
  by (simp add: survives_def)

lemma survives_trans: "survives view s s1 a \<Longrightarrow> survives view s1 s2 a \<Longrightarrow> survives view s s2 a"
  by (auto simp: survives_def)

lemma survives_Some: "survives view s s' a \<Longrightarrow> view s' a = Some e \<Longrightarrow> view s a = Some e"
  by (auto simp: survives_def)

lemma survives_None: "survives view s s' a \<Longrightarrow> view s a = None \<Longrightarrow> view s' a = None"
  by (auto simp: survives_def)

lemma touches_same [simp]: "w_kv w' = w_kv w \<Longrightarrow> touches view A w w'"
  by (simp add: touches_def)

lemma touches_trans [trans]:
  "touches view A w w1 \<Longrightarrow> touches view B w1 w2 \<Longrightarrow> touches view (A \<union> B) w w2"
  unfolding touches_def by (blast intro: survives_trans)

lemma touches_mono: "touches view A w w' \<Longrightarrow> A \<subseteq> B \<Longrightarrow> touches view B w w'"
  unfolding touches_def by blast

lemma touches_step: "touches view A w w1 \<Longrightarrow> touches view A w1 w2 \<Longrightarrow> touches view A w w2"
  using touches_trans [of view A w w1 A w2] by simp

lemma touchesD: "touches view A w w' \<Longrightarrow> table_ok a \<Longrightarrow> a \<notin> A \<Longrightarrow> survives view (w_kv w) (w_kv w') a"
  unfolding touches_def by blast

text \<open>What an address holds: bytes, or a record, with the revision.\<close>

definition bytes_at :: "'s ext \<Rightarrow> 's view \<Rightarrow> 's \<Rightarrow> addr \<Rightarrow> (bytes \<times> u64) option" where
  "bytes_at x view s a = (case view s a of None \<Rightarrow> None
     | Some (b, r) \<Rightarrow> (case x_b64_decode x b of Inl _ \<Rightarrow> None | Inr bs \<Rightarrow> Some (bs, r)))"

definition rec_at :: "'s ext \<Rightarrow> 's view \<Rightarrow> (json \<Rightarrow> 'a res) \<Rightarrow> 's \<Rightarrow> addr \<Rightarrow> ('a \<times> u64) option" where
  "rec_at x view d s a = (case bytes_at x view s a of None \<Rightarrow> None
     | Some (bs, r) \<Rightarrow> (case from_slice x d bs of Ok v \<Rightarrow> Some (v, r) | _ \<Rightarrow> None))"

lemma bytes_at_None: "view s a = None \<Longrightarrow> bytes_at x view s a = None"
  by (simp add: bytes_at_def)

lemma rec_at_None: "view s a = None \<Longrightarrow> rec_at x view d s a = None"
  by (simp add: rec_at_def bytes_at_None)

lemma rec_at_view: "rec_at x view d s a = Some (v, r) \<Longrightarrow> \<exists>b. view s a = Some (b, r)"
  by (auto simp: rec_at_def bytes_at_def split: option.splits sum.splits res.splits prod.splits)

lemma rec_at_cong: "view s' a = view s a \<Longrightarrow> rec_at x view d s' a = rec_at x view d s a"
  by (simp add: rec_at_def bytes_at_def)

lemma bytes_at_cong: "view s' a = view s a \<Longrightarrow> bytes_at x view s' a = bytes_at x view s a"
  by (simp add: bytes_at_def)

lemma survives_rec_at:
  "survives view s s' a \<Longrightarrow> rec_at x view d s' a = Some e \<Longrightarrow> rec_at x view d s a = Some e"
  by (auto simp: survives_def rec_at_None dest: rec_at_cong [where x = x and d = d])

section \<open>The contract\<close>

locale jetcache =
  fixes x :: "'s ext" and view :: "'s view"
  assumes frame: "ldb_reply x op p s = (r, s') \<Longrightarrow> table_ok a \<Longrightarrow> table_ok (addr_of p) \<Longrightarrow>
      a \<noteq> addr_of p \<Longrightarrow> survives view s s' a"
    and read_only: "ldb_reply x op p s = (r, s') \<Longrightarrow>
      op \<in> {''get'', ''exists'', ''keys'', ''prefix''} \<Longrightarrow> survives view s s' (addr_of p)"
    and get_found: "ldb_reply x ''get'' p s = (Inr v, s') \<Longrightarrow>
      \<exists>b n. view s (addr_of p) = Some (b, n) \<and> jget_str v ''value'' = Some b \<and>
        jget_u64 v ''revision'' = Some n"
    and get_missing: "ldb_reply x ''get'' p s = (Inl e, s') \<Longrightarrow> is_not_found e \<Longrightarrow>
      view s (addr_of p) = None"
    and exists_ok: "ldb_reply x ''exists'' p s = (Inr v, s') \<Longrightarrow>
      Option.bind (jget v ''exists'') as_bool = Some (view s (addr_of p) \<noteq> None)"
    and put_ok: "ldb_reply x ''put'' p s = (Inr v, s') \<Longrightarrow> jget_str p ''value'' = Some b \<Longrightarrow>
      \<exists>n. view s' (addr_of p) = Some (b, n)"
    and create_ok: "ldb_reply x ''create'' p s = (Inr v, s') \<Longrightarrow> jget_str p ''value'' = Some b \<Longrightarrow>
      view s (addr_of p) = None \<and> (\<exists>n. view s' (addr_of p) = Some (b, n))"
    and create_taken: "ldb_reply x ''create'' p s = (Inl e, s') \<Longrightarrow>
      contains_str ''already exists'' e \<Longrightarrow>
      view s (addr_of p) \<noteq> None \<and> survives view s s' (addr_of p)"
    and cas_ok: "ldb_reply x ''cas'' p s = (Inr v, s') \<Longrightarrow> jget_str p ''value'' = Some b \<Longrightarrow>
      jget_u64 p ''revision'' = Some n \<Longrightarrow>
      ((\<exists>b0. view s (addr_of p) = Some (b0, n)) \<or> n = 0 \<and> view s (addr_of p) = None) \<and>
      (\<exists>n'. n' \<noteq> n \<and> view s' (addr_of p) = Some (b, n'))"
    and cas_stale: "ldb_reply x ''cas'' p s = (Inl e, s') \<Longrightarrow>
      contains_str ''revision mismatch'' e \<Longrightarrow> survives view s s' (addr_of p)"
    and cas_failed: "ldb_reply x ''cas'' p s = (Inl e, s') \<Longrightarrow> jget_str p ''value'' = Some b \<Longrightarrow>
      jget_u64 p ''revision'' = Some n \<Longrightarrow>
      survives view s s' (addr_of p) \<or>
      ((\<exists>b0. view s (addr_of p) = Some (b0, n)) \<or> n = 0 \<and> view s (addr_of p) = None) \<and>
      (\<exists>n'. n' \<noteq> n \<and> view s' (addr_of p) = Some (b, n'))"
    and delete_ok: "ldb_reply x ''delete'' p s = (Inr v, s') \<Longrightarrow> view s' (addr_of p) = None"
    and cas_delete_ok: "ldb_reply x ''cas_delete'' p s = (Inr v, s') \<Longrightarrow>
      jget_u64 p ''revision'' = Some n \<Longrightarrow>
      (\<exists>b0. view s (addr_of p) = Some (b0, n)) \<and> view s' (addr_of p) = None"
    and failed_write: "ldb_reply x op p s = (Inl e, s') \<Longrightarrow> op \<in> {''put'', ''create'', ''cas''} \<Longrightarrow>
      survives view s s' (addr_of p) \<or>
      (\<exists>b n. jget_str p ''value'' = Some b \<and> view s' (addr_of p) = Some (b, n))"
    and failed_delete: "ldb_reply x op p s = (Inl e, s') \<Longrightarrow> op \<in> {''delete'', ''cas_delete''} \<Longrightarrow>
      survives view s s' (addr_of p)"
    and prefix_ok: "ldb_reply x ''prefix'' p s = (Inr v, s') \<Longrightarrow> jget_str p ''table'' = Some t \<Longrightarrow>
      jget_str p ''prefix'' = Some pre \<Longrightarrow>
      \<exists>rows. jget_array v ''rows'' = Some rows \<and>
        (\<forall>row \<in> set rows. \<exists>k b n. jget_str row ''key'' = Some k \<and> jget_str row ''value'' = Some b \<and>
            prefix pre k \<and> view s (t, k) = Some (b, n)) \<and>
        (\<forall>k b n. prefix pre k \<longrightarrow> view s (t, k) = Some (b, n) \<longrightarrow>
            (\<exists>row \<in> set rows. jget_str row ''key'' = Some k \<and> jget_str row ''value'' = Some b))"

locale codec =
  fixes x :: "'s ext"
  assumes from_slice_to_vec: "x_from_slice x (x_to_vec x j) = Inr j"
    and b64_roundtrip: "x_b64_decode x (x_b64_encode x b) = Inr b"

locale gateway = jetcache x view + codec x
  for x :: "'s ext" and view :: "'s view"

section \<open>Requests under the contract\<close>

lemma jget_with_consistency:
  "is_obj p \<Longrightarrow> k \<noteq> ''consistency'' \<Longrightarrow> jget (with_consistency w p) k = jget p k"
  by (simp add: with_consistency_def jget_jset split: option.splits)

lemma jget_str_with_consistency:
  "is_obj p \<Longrightarrow> k \<noteq> ''consistency'' \<Longrightarrow> jget_str (with_consistency w p) k = jget_str p k"
  by (simp add: jget_str_def jget_with_consistency)

lemma jget_u64_with_consistency:
  "is_obj p \<Longrightarrow> k \<noteq> ''consistency'' \<Longrightarrow> jget_u64 (with_consistency w p) k = jget_u64 p k"
  by (simp add: jget_u64_def jget_with_consistency)

lemma addr_with_consistency [simp]: "is_obj p \<Longrightarrow> addr_of (with_consistency w p) = addr_of p"
  by (simp add: addr_of_def jget_str_with_consistency)

lemma note_revisions_kv [simp]: "w_kv (note_revisions v w) = w_kv w"
  by (simp add: note_revisions_def Let_def split: option.splits)

lemma validate_epoch_kv [simp]: "w_kv (validate_epoch e w) = w_kv w"
  by (simp add: validate_epoch_def Let_def split: option.splits)

lemma note_epoch_kv [simp]: "w_kv (note_epoch v w) = w_kv w"
  by (simp add: note_epoch_def Let_def split: option.splits)

text \<open>Every outcome of a request is a reply of the service on a payload equal up to consistency.\<close>

lemma ldb_request_reply:
  assumes "ldb_request x op p w = (r, w')"
  obtains (ok) v where "r = Ok v"
      and "ldb_reply x op (with_consistency w p) (w_kv w) = (Inr v, w_kv w')"
    | (err) e where "r = Err e"
      and "ldb_reply x op (with_consistency w p) (w_kv w) = (Inl e, w_kv w')"
proof (cases "ldb_reply x op (with_consistency w p) (w_kv w)")
  case (Pair q s')
  show ?thesis
  proof (cases q)
    case (Inl e)
    with Pair assms show ?thesis by (intro err [of e]) (auto simp: ldb_request_def)
  next
    case (Inr v)
    with Pair assms show ?thesis by (intro ok [of v]) (auto simp: ldb_request_def)
  qed
qed

lemma addr_of_obj [simp]:
  "addr_of (JObj ((''table'', JStr t) # (''key'', JStr k) # kvs)) = (t, k)"
  by (simp add: addr_of_def jget_str_def)

lemma addr_of_jset [simp]:
  "is_obj p \<Longrightarrow> k \<noteq> ''table'' \<Longrightarrow> k \<noteq> ''key'' \<Longrightarrow> addr_of (jset k v p) = addr_of p"
  by (simp add: addr_of_def jget_str_def jget_jset)

context jetcache
begin

lemma request_touches:
  assumes "ldb_request x op p w = (r, w')" and "is_obj p" and "table_ok (addr_of p)"
  shows "touches view {addr_of p} w w'"
  using assms unfolding touches_def
  by (auto elim!: ldb_request_reply intro: frame [where p = "with_consistency w p"])

lemma request_reads:
  assumes req: "ldb_request x op p w = (r, w')" and obj: "is_obj p" and tab: "table_ok (addr_of p)"
    and op: "op \<in> {''get'', ''exists'', ''keys'', ''prefix''}"
  shows "touches view {} w w'"
proof -
  have here: "survives view (w_kv w) (w_kv w') (addr_of p)"
    using req obj op read_only [where p = "with_consistency w p" and op = op]
    by (auto elim!: ldb_request_reply)
  show ?thesis
    unfolding touches_def
  proof (intro allI impI)
    fix a :: addr
    assume "table_ok a"
    with here request_touches [OF req obj tab] show "survives view (w_kv w) (w_kv w') a"
      by (cases "a = addr_of p") (auto dest: touchesD)
  qed
qed

text \<open>Reading an address.\<close>

lemma get_request_Ok:
  assumes "ldb_request x ''get'' (JObj [(''table'', JStr t), (''key'', JStr k)]) w = (Ok v, w')"
  shows "\<exists>b. view (w_kv w) (t, k) = Some (b, reply_revision v) \<and> jget_str v ''value'' = Some b"
  using assms get_found [of "with_consistency w (JObj [(''table'', JStr t), (''key'', JStr k)])"]
  by (force elim!: ldb_request_reply simp: reply_revision_def)

lemma get_request_Err:
  assumes "ldb_request x ''get'' (JObj [(''table'', JStr t), (''key'', JStr k)]) w = (Err e, w')"
    and "is_not_found e"
  shows "view (w_kv w) (t, k) = None"
  using assms get_missing [of "with_consistency w (JObj [(''table'', JStr t), (''key'', JStr k)])"]
  by (force elim!: ldb_request_reply)

lemma get_request_touches:
  assumes "ldb_request x ''get'' (JObj [(''table'', JStr t), (''key'', JStr k)]) w = (r, w')"
    and "CHR '':'' \<notin> set t"
  shows "touches view {} w w'"
  using request_reads [OF assms(1)] assms(2) by (simp add: table_ok_def)

lemma reply_bytes_at:
  assumes "view s a = Some (b, n)" and "jget_str v ''value'' = Some b"
    and "reply_bytes x v = Ok bs"
  shows "bytes_at x view s a = Some (bs, n)"
  using assms by (simp add: reply_bytes_def bytes_at_def of_sum_Ok)

lemma kv_get_raw_with_revision_Ok:
  assumes "kv_get_raw_with_revision x t k w = (Ok o1, w')"
  shows "o1 = bytes_at x view (w_kv w) (t, k)"
  using assms unfolding kv_get_raw_with_revision_def
proof (cases rule: match_io_cases)
  case (ok v w1)
  from ok(2) obtain bs where bs: "reply_bytes x v = Ok bs" "o1 = Some (bs, reply_revision v)"
    by (auto elim!: try_io_Ok)
  with get_request_Ok [OF ok(1)] show ?thesis by (auto dest: reply_bytes_at)
next
  case (err e w1)
  then show ?thesis
    using get_request_Err [OF err(1)] by (auto simp: bytes_at_None split: if_splits)
qed

lemma kv_get_raw_Ok:
  assumes "kv_get_raw x t k w = (Ok o1, w')"
  shows "o1 = map_option fst (bytes_at x view (w_kv w) (t, k))"
  using assms unfolding kv_get_raw_def
proof (cases rule: match_io_cases)
  case (ok v w1)
  from ok(2) obtain bs where bs: "reply_bytes x v = Ok bs" "o1 = Some bs"
    by (auto elim!: try_io_Ok)
  with get_request_Ok [OF ok(1)] show ?thesis by (auto dest: reply_bytes_at)
next
  case (err e w1)
  then show ?thesis
    using get_request_Err [OF err(1)] by (auto simp: bytes_at_None split: if_splits)
qed

lemma kv_get_revision_Ok:
  assumes "kv_get_revision x d t k w = (Ok o1, w')"
  shows "o1 = rec_at x view d (w_kv w) (t, k)"
  using assms unfolding kv_get_revision_def
proof (cases rule: match_io_cases)
  case (ok v w1)
  from ok(2) obtain bs y where bs: "reply_bytes x v = Ok bs" "from_slice x d bs = Ok y"
      "o1 = Some (y, reply_revision v)"
    by (auto elim!: try_io_Ok simp: res_map_err_Ok)
  with get_request_Ok [OF ok(1)] show ?thesis by (auto simp: rec_at_def dest: reply_bytes_at)
next
  case (err e w1)
  then show ?thesis
    using get_request_Err [OF err(1)] by (auto simp: rec_at_None split: if_splits)
qed

lemma kv_get_Ok:
  assumes "kv_get x d t k w = (Ok o1, w')"
  shows "o1 = map_option fst (rec_at x view d (w_kv w) (t, k))"
  using assms unfolding kv_get_def
proof (cases rule: match_io_cases)
  case (ok v w1)
  from ok(2) obtain bs y where bs: "reply_bytes x v = Ok bs" "from_slice x d bs = Ok y" "o1 = Some y"
    by (auto elim!: try_io_Ok simp: res_map_err_Ok)
  with get_request_Ok [OF ok(1)] show ?thesis by (auto simp: rec_at_def dest: reply_bytes_at)
next
  case (err e w1)
  then show ?thesis
    using get_request_Err [OF err(1)] by (auto simp: rec_at_None split: if_splits)
qed

text \<open>A read answers that nothing is there only when nothing is.\<close>

lemma kv_get_None:
  "kv_get_raw_with_revision x t k w = (Ok None, w') \<Longrightarrow> view (w_kv w) (t, k) = None"
  "kv_get_raw x t k w = (Ok None, w') \<Longrightarrow> view (w_kv w) (t, k) = None"
  "kv_get_revision x d t k w = (Ok None, w') \<Longrightarrow> view (w_kv w) (t, k) = None"
  "kv_get x d t k w = (Ok None, w') \<Longrightarrow> view (w_kv w) (t, k) = None"
  unfolding kv_get_raw_with_revision_def kv_get_raw_def kv_get_revision_def kv_get_def
  by (auto elim!: match_io_cases try_io_Ok dest: get_request_Err split: if_splits)

lemma kv_exists_Ok:
  assumes "kv_exists x t k w = (Ok b, w')"
  shows "b \<longleftrightarrow> view (w_kv w) (t, k) \<noteq> None"
  using assms exists_ok [of "with_consistency w (JObj [(''table'', JStr t), (''key'', JStr k)])"]
  unfolding kv_exists_def by (fastforce elim!: try_io_Ok ldb_request_reply)

end

text \<open>The world after a request that only looks at the result is the world of the request.\<close>

lemma match_lift_world:
  assumes "match_io m (\<lambda>v. lift (f v)) (\<lambda>e. lift (g e)) w = (r, w')"
  obtains q where "m w = (q, w')"
  using assms by (cases "m w") (auto simp: match_io_def split: res.splits)

lemma lift_try_lift: "try_io (lift r) (\<lambda>b. lift (f b)) = lift (res_bind r f)"
  by (rule ext) (simp add: try_io_def res_bind_def split: res.splits)

lemma ret_lift: "ret v = lift (Ok v)"
  by (rule ext) simp

lemma fail_lift: "fail e = lift (Err e)"
  by (rule ext) simp

lemma if_lift: "(if c then lift a else lift b) = lift (if c then a else b)"
  by simp

lemmas lift_simps = lift_try_lift ret_lift fail_lift if_lift

context jetcache
begin

lemma get_then_lift_touches:
  assumes "match_io (ldb_request x ''get'' (JObj [(''table'', JStr t), (''key'', JStr k)]))
      (\<lambda>v. lift (f v)) (\<lambda>e. lift (g e)) w = (r, w')"
    and "CHR '':'' \<notin> set t"
  shows "touches view {} w w'"
  using assms by (auto elim!: match_lift_world intro: get_request_touches)

lemma kv_get_touches: "kv_get x d t k w = (r, w') \<Longrightarrow> CHR '':'' \<notin> set t \<Longrightarrow> touches view {} w w'"
  unfolding kv_get_def lift_simps by (rule get_then_lift_touches)

lemma kv_get_raw_touches: "kv_get_raw x t k w = (r, w') \<Longrightarrow> CHR '':'' \<notin> set t \<Longrightarrow> touches view {} w w'"
  unfolding kv_get_raw_def lift_simps by (rule get_then_lift_touches)

lemma kv_get_revision_touches:
  "kv_get_revision x d t k w = (r, w') \<Longrightarrow> CHR '':'' \<notin> set t \<Longrightarrow> touches view {} w w'"
  unfolding kv_get_revision_def lift_simps by (rule get_then_lift_touches)

lemma kv_get_raw_with_revision_touches:
  "kv_get_raw_with_revision x t k w = (r, w') \<Longrightarrow> CHR '':'' \<notin> set t \<Longrightarrow> touches view {} w w'"
  unfolding kv_get_raw_with_revision_def lift_simps by (rule get_then_lift_touches)

end

section \<open>Writing operations\<close>

lemma try_ret_world:
  assumes "try_io m (\<lambda>v. ret (f v)) w = (r, w')"
  obtains (ok) v where "m w = (Ok v, w')" and "r = Ok (f v)"
    | (err) e where "m w = (Err e, w')" and "r = Err e"
    | (panic) p where "m w = (Panic p, w')" and "r = Panic p"
proof (cases "m w")
  case (Pair q w1)
  with assms ok err panic show ?thesis by (cases q) (auto simp: try_io_def)
qed

context jetcache
begin

lemma write_touches:
  assumes "try_io (ldb_request x op p) (\<lambda>v. ret (f v)) w = (r, w')"
    and "is_obj p" and "addr_of p = (t, k)" and "CHR '':'' \<notin> set t"
  shows "touches view {(t, k)} w w'"
  using assms request_touches [where p = p and w = w and w' = w' and op = op]
  by (auto elim!: try_ret_world simp: table_ok_def)

lemma kv_set_touches: "kv_set x t k v w = (r, w') \<Longrightarrow> CHR '':'' \<notin> set t \<Longrightarrow> touches view {(t, k)} w w'"
  unfolding kv_set_def by (erule write_touches) simp_all

lemma kv_set_raw_touches:
  "kv_set_raw x t k v w = (r, w') \<Longrightarrow> CHR '':'' \<notin> set t \<Longrightarrow> touches view {(t, k)} w w'"
  unfolding kv_set_raw_def by (erule write_touches) simp_all

lemma kv_set_ttl_touches:
  "kv_set_ttl x t k v ttl w = (r, w') \<Longrightarrow> CHR '':'' \<notin> set t \<Longrightarrow> touches view {(t, k)} w w'"
  unfolding kv_set_ttl_def by (erule write_touches) simp_all

lemma kv_set_raw_ttl_touches:
  "kv_set_raw_ttl x t k v ttl w = (r, w') \<Longrightarrow> CHR '':'' \<notin> set t \<Longrightarrow> touches view {(t, k)} w w'"
  unfolding kv_set_raw_ttl_def by (erule write_touches) simp_all

lemma kv_create_raw_touches:
  "kv_create_raw x t k v ttl w = (r, w') \<Longrightarrow> CHR '':'' \<notin> set t \<Longrightarrow> touches view {(t, k)} w w'"
  unfolding kv_create_raw_def Let_def by (erule write_touches) (simp_all split: option.split)

lemma kv_cas_raw_touches:
  "kv_cas_raw x t k v n ttl w = (r, w') \<Longrightarrow> CHR '':'' \<notin> set t \<Longrightarrow> touches view {(t, k)} w w'"
  unfolding kv_cas_raw_def Let_def by (erule write_touches) (simp_all split: option.split)

lemma kv_cas_swap_touches:
  "kv_cas_swap x t k v n w = (r, w') \<Longrightarrow> CHR '':'' \<notin> set t \<Longrightarrow> touches view {(t, k)} w w'"
  unfolding kv_cas_swap_def by (erule write_touches) simp_all

lemma kv_cas_swap_ttl_touches:
  "kv_cas_swap_ttl x t k v n ttl w = (r, w') \<Longrightarrow> CHR '':'' \<notin> set t \<Longrightarrow> touches view {(t, k)} w w'"
  unfolding kv_cas_swap_ttl_def by (erule write_touches) simp_all

lemma kv_cas_create_touches:
  "kv_cas_create x t k v w = (r, w') \<Longrightarrow> CHR '':'' \<notin> set t \<Longrightarrow> touches view {(t, k)} w w'"
  unfolding kv_cas_create_def by (erule write_touches) simp_all

lemma kv_cas_create_raw_touches:
  "kv_cas_create_raw x t k v w = (r, w') \<Longrightarrow> CHR '':'' \<notin> set t \<Longrightarrow> touches view {(t, k)} w w'"
  unfolding kv_cas_create_raw_def by (erule write_touches) simp_all

lemma kv_cas_delete_touches:
  "kv_cas_delete x t k n w = (r, w') \<Longrightarrow> CHR '':'' \<notin> set t \<Longrightarrow> touches view {(t, k)} w w'"
  unfolding kv_cas_delete_def by (erule write_touches) simp_all

lemma kv_delete_touches:
  "kv_delete x t k w = (r, w') \<Longrightarrow> CHR '':'' \<notin> set t \<Longrightarrow> touches view {(t, k)} w w'"
  unfolding kv_delete_def by (erule write_touches) simp_all

lemma kv_exists_touches: "kv_exists x t k w = (r, w') \<Longrightarrow> CHR '':'' \<notin> set t \<Longrightarrow> touches view {} w w'"
  unfolding kv_exists_def
  using request_reads [where op = "''exists''" and p = "JObj [(''table'', JStr t), (''key'', JStr k)]"]
  by (auto elim!: try_ret_world simp: table_ok_def)

lemmas kv_touches =
  kv_get_touches kv_get_raw_touches kv_get_revision_touches kv_get_raw_with_revision_touches
  kv_set_touches kv_set_raw_touches kv_set_ttl_touches kv_set_raw_ttl_touches
  kv_create_raw_touches kv_cas_raw_touches kv_cas_swap_touches kv_cas_swap_ttl_touches
  kv_cas_create_touches kv_cas_create_raw_touches kv_cas_delete_touches kv_delete_touches
  kv_exists_touches

text \<open>What a successful write leaves at its address.\<close>

lemma put_result:
  assumes "try_io (ldb_request x ''put'' p) (\<lambda>v. ret (f v)) w = (Ok y, w')"
    and "is_obj p" and "addr_of p = a" and "jget_str p ''value'' = Some b"
  shows "\<exists>n. view (w_kv w') a = Some (b, n)"
  using assms put_ok [of "with_consistency w p"]
  by (auto elim!: try_ret_world ldb_request_reply simp: jget_str_with_consistency)

lemma create_result:
  assumes "try_io (ldb_request x ''create'' p) (\<lambda>v. ret (f v)) w = (Ok y, w')"
    and "is_obj p" and "addr_of p = a" and "jget_str p ''value'' = Some b"
  shows "view (w_kv w) a = None \<and> (\<exists>n. view (w_kv w') a = Some (b, n))"
  using assms create_ok [of "with_consistency w p"]
  by (fastforce elim!: try_ret_world ldb_request_reply simp: jget_str_with_consistency)

lemma create_refused:
  assumes "try_io (ldb_request x ''create'' p) (\<lambda>v. ret (f v)) w = (Err e, w')"
    and "is_obj p" and "addr_of p = a" and "contains_str ''already exists'' e"
  shows "view (w_kv w) a \<noteq> None \<and> survives view (w_kv w) (w_kv w') a"
  using assms create_taken [of "with_consistency w p"]
  by (fastforce elim!: try_ret_world ldb_request_reply)

lemma cas_result:
  assumes "try_io (ldb_request x ''cas'' p) (\<lambda>v. ret (f v)) w = (Ok y, w')"
    and "is_obj p" and "addr_of p = a" and "jget_str p ''value'' = Some b"
    and "jget_u64 p ''revision'' = Some n"
  shows "((\<exists>b0. view (w_kv w) a = Some (b0, n)) \<or> n = 0 \<and> view (w_kv w) a = None) \<and>
    (\<exists>n'. n' \<noteq> n \<and> view (w_kv w') a = Some (b, n'))"
  using assms cas_ok [of "with_consistency w p"]
  by (fastforce elim!: try_ret_world ldb_request_reply
      simp: jget_str_with_consistency jget_u64_with_consistency)

text \<open>Whatever a compare-and-swap answers, it replaces the entry of its revision or nothing.\<close>

lemma cas_outcome:
  assumes run: "try_io (ldb_request x ''cas'' p) (\<lambda>v. ret (f v)) w = (r, w')"
    and p: "is_obj p" "addr_of p = a" "jget_str p ''value'' = Some b" "jget_u64 p ''revision'' = Some n"
  shows "survives view (w_kv w) (w_kv w') a \<or>
    ((\<exists>b0. view (w_kv w) a = Some (b0, n)) \<or> n = 0 \<and> view (w_kv w) a = None) \<and>
    (\<exists>n'. n' \<noteq> n \<and> view (w_kv w') a = Some (b, n'))"
proof -
  obtain q where req: "ldb_request x ''cas'' p w = (q, w')"
    using run by (elim try_ret_world) blast+
  have pl: "addr_of (with_consistency w p) = a" "jget_str (with_consistency w p) ''value'' = Some b"
    "jget_u64 (with_consistency w p) ''revision'' = Some n"
    using p by (simp_all add: jget_str_with_consistency jget_u64_with_consistency)
  from req show ?thesis
  proof (cases rule: ldb_request_reply)
    case (ok v)
    show ?thesis using cas_ok [OF ok(2) pl(2,3)] unfolding pl(1) by blast
  next
    case (err e)
    show ?thesis using cas_failed [OF err(2) pl(2,3)] unfolding pl(1) by blast
  qed
qed

lemma kv_cas_swap_ttl_outcome:
  assumes "kv_cas_swap_ttl x t k v n ttl w = (r, w')"
  shows "survives view (w_kv w) (w_kv w') (t, k) \<or>
    ((\<exists>b0. view (w_kv w) (t, k) = Some (b0, n)) \<or> n = 0 \<and> view (w_kv w) (t, k) = None) \<and>
    (\<exists>n'. n' \<noteq> n \<and> view (w_kv w') (t, k) = Some (x_b64_encode x (x_to_vec x v), n'))"
  using assms unfolding kv_cas_swap_ttl_def
  by (rule cas_outcome) (simp_all add: jget_str_def jget_u64_def)

text \<open>A revision-checked delete removes the entry of its revision or nothing.\<close>

lemma kv_cas_delete_survives:
  assumes del: "kv_cas_delete x t k n w = (r, w')"
  shows "survives view (w_kv w) (w_kv w') (t, k)"
proof -
  let ?p = "JObj [(''table'', JStr t), (''key'', JStr k), (''revision'', jnum n)]"
  obtain q where req: "ldb_request x ''cas_delete'' ?p w = (q, w')"
    using del unfolding kv_cas_delete_def by (elim try_ret_world) blast+
  have rev: "jget_u64 (with_consistency w ?p) ''revision'' = Some n"
    by (simp add: jget_u64_with_consistency) (simp add: jget_u64_def)
  from req show ?thesis
  proof (cases rule: ldb_request_reply)
    case (ok v)
    with cas_delete_ok [OF ok(2) rev] show ?thesis by (simp add: survives_def)
  next
    case (err e)
    with failed_delete [OF err(2)] show ?thesis by simp
  qed
qed

lemma kv_set_Ok: "kv_set x t k v w = (Ok u, w') \<Longrightarrow>
    \<exists>n. view (w_kv w') (t, k) = Some (x_b64_encode x (x_to_vec x v), n)"
  unfolding kv_set_def by (erule put_result) (simp_all add: jget_str_def)

lemma kv_set_raw_Ok: "kv_set_raw x t k b w = (Ok u, w') \<Longrightarrow>
    \<exists>n. view (w_kv w') (t, k) = Some (x_b64_encode x b, n)"
  unfolding kv_set_raw_def by (erule put_result) (simp_all add: jget_str_def)

lemma kv_set_ttl_Ok: "kv_set_ttl x t k v ttl w = (Ok u, w') \<Longrightarrow>
    \<exists>n. view (w_kv w') (t, k) = Some (x_b64_encode x (x_to_vec x v), n)"
  unfolding kv_set_ttl_def by (erule put_result) (simp_all add: jget_str_def)

lemma kv_set_raw_ttl_Ok: "kv_set_raw_ttl x t k b ttl w = (Ok u, w') \<Longrightarrow>
    \<exists>n. view (w_kv w') (t, k) = Some (x_b64_encode x b, n)"
  unfolding kv_set_raw_ttl_def by (erule put_result) (simp_all add: jget_str_def)

lemma kv_create_raw_Ok: "kv_create_raw x t k b ttl w = (Ok u, w') \<Longrightarrow>
    view (w_kv w) (t, k) = None \<and> (\<exists>n. view (w_kv w') (t, k) = Some (x_b64_encode x b, n))"
  unfolding kv_create_raw_def Let_def
  by (erule create_result) (simp_all add: jget_str_def split: option.split)

lemma kv_create_raw_taken: "kv_create_raw x t k b ttl w = (Err e, w') \<Longrightarrow>
    contains_str ''already exists'' e \<Longrightarrow>
    view (w_kv w) (t, k) \<noteq> None \<and> survives view (w_kv w) (w_kv w') (t, k)"
  unfolding kv_create_raw_def Let_def
  by (erule create_refused) (simp_all split: option.split)

lemma kv_cas_create_Ok: "kv_cas_create x t k v w = (Ok u, w') \<Longrightarrow>
    view (w_kv w) (t, k) = None \<and>
    (\<exists>n. view (w_kv w') (t, k) = Some (x_b64_encode x (x_to_vec x v), n))"
  unfolding kv_cas_create_def by (erule create_result) (simp_all add: jget_str_def)

lemma kv_cas_create_raw_Ok: "kv_cas_create_raw x t k b w = (Ok u, w') \<Longrightarrow>
    view (w_kv w) (t, k) = None \<and> (\<exists>n. view (w_kv w') (t, k) = Some (x_b64_encode x b, n))"
  unfolding kv_cas_create_raw_def by (erule create_result) (simp_all add: jget_str_def)

lemma kv_cas_create_raw_taken: "kv_cas_create_raw x t k b w = (Err e, w') \<Longrightarrow>
    contains_str ''already exists'' e \<Longrightarrow>
    view (w_kv w) (t, k) \<noteq> None \<and> survives view (w_kv w) (w_kv w') (t, k)"
  unfolding kv_cas_create_raw_def by (erule create_refused) simp_all

lemma kv_cas_swap_Ok: "kv_cas_swap x t k v n w = (Ok u, w') \<Longrightarrow>
    ((\<exists>b0. view (w_kv w) (t, k) = Some (b0, n)) \<or> n = 0 \<and> view (w_kv w) (t, k) = None) \<and>
    (\<exists>n'. n' \<noteq> n \<and> view (w_kv w') (t, k) = Some (x_b64_encode x (x_to_vec x v), n'))"
  unfolding kv_cas_swap_def by (erule cas_result) (simp_all add: jget_str_def jget_u64_def)

lemma kv_cas_swap_ttl_Ok: "kv_cas_swap_ttl x t k v n ttl w = (Ok u, w') \<Longrightarrow>
    ((\<exists>b0. view (w_kv w) (t, k) = Some (b0, n)) \<or> n = 0 \<and> view (w_kv w) (t, k) = None) \<and>
    (\<exists>n'. n' \<noteq> n \<and> view (w_kv w') (t, k) = Some (x_b64_encode x (x_to_vec x v), n'))"
  unfolding kv_cas_swap_ttl_def by (erule cas_result) (simp_all add: jget_str_def jget_u64_def)

lemma kv_cas_raw_Ok: "kv_cas_raw x t k b n ttl w = (Ok u, w') \<Longrightarrow>
    ((\<exists>b0. view (w_kv w) (t, k) = Some (b0, n)) \<or> n = 0 \<and> view (w_kv w) (t, k) = None) \<and>
    (\<exists>n'. n' \<noteq> n \<and> view (w_kv w') (t, k) = Some (x_b64_encode x b, n'))"
  unfolding kv_cas_raw_def Let_def
  by (erule cas_result) (simp_all add: jget_str_def jget_u64_def split: option.split)

lemma kv_delete_Ok: "kv_delete x t k w = (Ok u, w') \<Longrightarrow> view (w_kv w') (t, k) = None"
  using delete_ok [of "with_consistency w (JObj [(''table'', JStr t), (''key'', JStr k)])"]
  unfolding kv_delete_def by (fastforce elim!: try_ret_world ldb_request_reply)

lemma kv_delete_survives:
  assumes del: "kv_delete x t k w = (r, w')"
  shows "survives view (w_kv w) (w_kv w') (t, k)"
proof -
  let ?p = "JObj [(''table'', JStr t), (''key'', JStr k)]"
  obtain q where req: "ldb_request x ''delete'' ?p w = (q, w')"
    using del unfolding kv_delete_def by (elim try_ret_world) blast+
  then show ?thesis
  proof (cases rule: ldb_request_reply)
    case (ok v)
    with delete_ok [OF ok(2)] show ?thesis by (simp add: survives_def)
  next
    case (err e)
    with failed_delete [OF err(2)] show ?thesis by simp
  qed
qed

lemma cas_delete_result:
  assumes "try_io (ldb_request x ''cas_delete'' p) (\<lambda>v. ret (f v)) w = (Ok y, w')"
    and "is_obj p" and "addr_of p = a" and "jget_u64 p ''revision'' = Some n"
  shows "(\<exists>b0. view (w_kv w) a = Some (b0, n)) \<and> view (w_kv w') a = None"
  using assms cas_delete_ok [of "with_consistency w p"]
  by (fastforce elim!: try_ret_world ldb_request_reply simp: jget_u64_with_consistency)

lemma kv_cas_delete_Ok: "kv_cas_delete x t k n w = (Ok u, w') \<Longrightarrow>
    (\<exists>b0. view (w_kv w) (t, k) = Some (b0, n)) \<and> view (w_kv w') (t, k) = None"
  unfolding kv_cas_delete_def by (erule cas_delete_result) (simp_all add: jget_u64_def)

end

text \<open>With the codecs: what was written is what a later read decodes.\<close>

context codec
begin

lemma bytes_at_encoded:
  "view s a = Some (x_b64_encode x b, n) \<Longrightarrow> bytes_at x view s a = Some (b, n)"
  by (simp add: bytes_at_def b64_roundtrip)

lemma from_slice_encoded: "from_slice x d (x_to_vec x j) = d j"
  by (simp add: from_slice_def from_slice_to_vec)

lemma rec_at_encoded:
  "view s a = Some (x_b64_encode x (x_to_vec x j), n) \<Longrightarrow>
     rec_at x view d s a = (case d j of Ok v \<Rightarrow> Some (v, n) | _ \<Rightarrow> None)"
  by (simp add: rec_at_def bytes_at_encoded from_slice_encoded)

end

end
