(* ===== verification/Frames.thy ===== *)
theory Frames
  imports Kv_Contract
begin

text \<open>
  Framing of composite operations. \<open>frames view A m\<close> says that a run of \<open>m\<close>, whatever its
  outcome, leaves every address outside \<open>A\<close> as it was, up to expiry, and changes neither the
  configuration nor the sources of time and randomness. The rules follow the sequencing
  combinators, so that the frame of an operation is found by introduction.
\<close>

named_theorems steady_intro "environment rules"
named_theorems frames_intro "frame rules"

section \<open>The environment\<close>

definition same_env :: "'s world \<Rightarrow> 's world \<Rightarrow> bool" where
  "same_env w w' \<longleftrightarrow> w_config w' = w_config w \<and> w_clock w' = w_clock w \<and> w_rand w' = w_rand w"

lemma same_env_refl [simp]: "same_env w w"
  by (simp add: same_env_def)

lemma same_env_trans: "same_env w w1 \<Longrightarrow> same_env w1 w2 \<Longrightarrow> same_env w w2"
  by (simp add: same_env_def)

lemma same_envD: "same_env w w' \<Longrightarrow> w_config w' = w_config w"
  "same_env w w' \<Longrightarrow> w_clock w' = w_clock w" "same_env w w' \<Longrightarrow> w_rand w' = w_rand w"
  by (simp_all add: same_env_def)

definition steady :: "('a, 's) act \<Rightarrow> bool" where
  "steady m \<longleftrightarrow> (\<forall>w r w'. m w = (r, w') \<longrightarrow> same_env w w')"

lemma steadyI: "(\<And>w r w'. m w = (r, w') \<Longrightarrow> same_env w w') \<Longrightarrow> steady m"
  by (simp add: steady_def)

lemma steadyD: "steady m \<Longrightarrow> m w = (r, w') \<Longrightarrow> same_env w w'"
  by (simp add: steady_def)

lemma steady_basic [steady_intro]:
  "steady (ret y)" "steady (fail e)" "steady (panic e)" "steady (lift r)" "steady unix_now"
  "steady (random_bytes n)" "steady (log_event e j)" "steady get_config"
  by (auto intro!: steadyI simp: unix_now_def random_bytes_def log_event_def get_config_def same_env_def)

lemma steady_match [steady_intro]:
  assumes "steady m" and "\<And>y. steady (k y)" and "\<And>e. steady (h e)"
  shows "steady (match_io m k h)"
proof (rule steadyI)
  fix w r w'
  assume run: "match_io m k h w = (r, w')"
  obtain q w1 where m: "m w = (q, w1)" by (cases "m w")
  then have t1: "same_env w w1" using assms(1) by (blast dest: steadyD)
  have t2: "same_env w1 w'"
    using run m assms(2,3) by (cases q) (auto simp: match_io_def dest: steadyD)
  from t1 t2 show "same_env w w'" by (rule same_env_trans)
qed

lemma try_io_match: "try_io m k = match_io m k fail"
  by (rule ext) (auto simp: try_io_def match_io_def split: prod.splits res.splits)

lemma steady_try [steady_intro]: "steady m \<Longrightarrow> (\<And>y. steady (k y)) \<Longrightarrow> steady (try_io m k)"
  unfolding try_io_match by (intro steady_match steady_basic)

lemma steady_control [steady_intro]:
  "(c \<Longrightarrow> steady m) \<Longrightarrow> (\<not> c \<Longrightarrow> steady n) \<Longrightarrow> steady (if c then m else n)"
  "steady m \<Longrightarrow> (\<And>y. steady (f y)) \<Longrightarrow> steady (case v of None \<Rightarrow> m | Some y \<Rightarrow> f y)"
  "(\<And>y. steady (f y)) \<Longrightarrow> steady (let y = z in f y)"
  by (simp_all split: option.split)

lemma note_env [simp]: "same_env w (note_revisions v w)" "same_env w (validate_epoch e w)"
  "same_env w (note_epoch v w)"
  by (simp_all add: same_env_def note_revisions_def validate_epoch_def note_epoch_def Let_def
      split: option.splits)

lemma steady_request [steady_intro]: "steady (ldb_request x op p)"
proof (rule steadyI)
  fix w :: "'a world" and r w'
  assume run: "ldb_request x op p w = (r, w')"
  obtain q s' where q: "ldb_reply x op (with_consistency w p) (w_kv w) = (q, s')"
    by (cases "ldb_reply x op (with_consistency w p) (w_kv w)")
  have kv: "same_env w (w\<lparr>w_kv := s'\<rparr>)" by (simp add: same_env_def)
  show "same_env w w'"
  proof (cases q)
    case (Inl e)
    with run q kv show ?thesis by (simp add: ldb_request_def)
  next
    case (Inr v)
    with run q have "w' = note_epoch v (note_revisions v (w\<lparr>w_kv := s'\<rparr>))"
      by (simp add: ldb_request_def)
    with kv show ?thesis by (metis same_env_trans note_env(1,3))
  qed
qed

lemma steady_list_pages: "steady (kv_list_pages x n t c acc)"
proof (induction n arbitrary: c acc)
  case 0
  show ?case unfolding kv_list_pages.simps by (intro steady_intro)
next
  case (Suc n)
  show ?case unfolding kv_list_pages.simps by (intro steady_intro Suc.IH)
qed

lemma steady_get_matching: "steady (get_matching x d t pre keys)"
proof (induction keys)
  case Nil
  show ?case unfolding get_matching.simps by (intro steady_intro)
next
  case (Cons k keys)
  show ?case unfolding get_matching.simps kv_get_def by (intro steady_intro Cons.IH)
qed

lemma steady_kv [steady_intro]:
  "steady (kv_get x d t k)" "steady (kv_get_raw x t k)" "steady (kv_get_revision x d t k)"
  "steady (kv_get_raw_with_revision x t k)" "steady (kv_exists x t k)"
  "steady (kv_set x t k v)" "steady (kv_set_raw x t k b)" "steady (kv_set_ttl x t k v ttl)"
  "steady (kv_set_raw_ttl x t k b ttl)" "steady (kv_create_raw x t k b o1)"
  "steady (kv_cas_raw x t k b n o1)" "steady (kv_cas_swap x t k v n)"
  "steady (kv_cas_swap_ttl x t k v n ttl)" "steady (kv_cas_create x t k v)"
  "steady (kv_cas_create_raw x t k b)" "steady (kv_cas_delete x t k n)" "steady (kv_delete x t k)"
  "steady (kv_list_keys x t)" "steady (kv_prefix x d t pre)" "steady (kv_prefix_keys x t pre)"
  unfolding kv_get_def kv_get_raw_def kv_get_revision_def kv_get_raw_with_revision_def kv_exists_def
    kv_set_def kv_set_raw_def kv_set_ttl_def kv_set_raw_ttl_def kv_create_raw_def kv_cas_raw_def
    kv_cas_swap_def kv_cas_swap_ttl_def kv_cas_create_def kv_cas_create_raw_def kv_cas_delete_def
    kv_delete_def kv_list_keys_def kv_prefix_def kv_prefix_keys_def
  by (intro steady_intro steady_list_pages steady_get_matching)+

section \<open>Frames\<close>

definition frames :: "'s view \<Rightarrow> addr set \<Rightarrow> ('a, 's) act \<Rightarrow> bool" where
  "frames view A m \<longleftrightarrow> steady m \<and> (\<forall>w r w'. m w = (r, w') \<longrightarrow> touches view A w w')"

lemma framesI: "(\<And>w r w'. m w = (r, w') \<Longrightarrow> touches view A w w') \<Longrightarrow> steady m \<Longrightarrow> frames view A m"
  by (simp add: frames_def)

lemma framesD: "frames view A m \<Longrightarrow> m w = (r, w') \<Longrightarrow> touches view A w w'"
  by (simp add: frames_def)

lemma frames_steady: "frames view A m \<Longrightarrow> steady m"
  by (simp add: frames_def)

lemma frames_env: "frames view A m \<Longrightarrow> m w = (r, w') \<Longrightarrow> same_env w w'"
  by (simp add: frames_def steady_def)

lemma frames_mono: "frames view B m \<Longrightarrow> B \<subseteq> A \<Longrightarrow> frames view A m"
  unfolding frames_def by (blast intro: touches_mono)

lemma frames_survives:
  "frames view A m \<Longrightarrow> m w = (r, w') \<Longrightarrow> table_ok a \<Longrightarrow> a \<notin> A \<Longrightarrow> survives view (w_kv w) (w_kv w') a"
  by (blast dest: framesD touchesD)

lemma frames_ret [frames_intro]: "frames view A (ret x)"
  by (rule framesI) (auto intro: steady_basic)

lemma frames_fail [frames_intro]: "frames view A (fail e)"
  by (rule framesI) (auto intro: steady_basic)

lemma frames_panic [frames_intro]: "frames view A (panic e)"
  by (rule framesI) (auto intro: steady_basic)

lemma frames_lift [frames_intro]: "frames view A (lift r)"
  by (rule framesI) (auto intro: steady_basic)

lemma frames_unix_now [frames_intro]: "frames view A unix_now"
  by (rule framesI) (auto simp: unix_now_def intro: steady_basic)

lemma frames_random_bytes [frames_intro]: "frames view A (random_bytes n)"
  by (rule framesI) (auto simp: random_bytes_def intro: steady_basic)

lemma frames_log_event [frames_intro]: "frames view A (log_event n j)"
  by (rule framesI) (auto simp: log_event_def intro: steady_basic)

lemma frames_get_config [frames_intro]: "frames view A get_config"
  by (rule framesI) (auto simp: get_config_def intro: steady_basic)

lemma frames_match [frames_intro]:
  assumes "frames view A m" and "\<And>y. frames view A (k y)" and "\<And>e. frames view A (h e)"
  shows "frames view A (match_io m k h)"
proof (rule framesI)
  fix w r w'
  assume run: "match_io m k h w = (r, w')"
  obtain q w1 where m: "m w = (q, w1)" by (cases "m w")
  then have t1: "touches view A w w1" using assms(1) by (blast dest: framesD)
  have t2: "touches view A w1 w'"
    using run m assms(2,3) by (cases q) (auto simp: match_io_def dest: framesD)
  from t1 t2 show "touches view A w w'" by (rule touches_step)
next
  show "steady (match_io m k h)" using assms by (intro steady_match frames_steady)
qed

lemma frames_try [frames_intro]:
  "frames view A m \<Longrightarrow> (\<And>y. frames view A (k y)) \<Longrightarrow> frames view A (try_io m k)"
  unfolding try_io_match by (intro frames_match frames_fail)

lemma frames_ignore [frames_intro]:
  "frames view A m \<Longrightarrow> frames view A k \<Longrightarrow> frames view A (ignore_io m k)"
  unfolding ignore_io_def by (intro frames_match)

lemma frames_map_err [frames_intro]: "frames view A m \<Longrightarrow> frames view A (map_err f m)"
  unfolding map_err_def by (intro frames_match frames_ret frames_fail)

lemma frames_or_else [frames_intro]: "frames view A m \<Longrightarrow> frames view A (or_else_io m d)"
  unfolding or_else_io_def by (intro frames_match frames_ret)

lemma frames_random_hex [frames_intro]: "frames view A (random_hex n)"
  unfolding random_hex_def by (intro frames_intro)

lemma frames_log_audit [frames_intro]: "frames view A (log_audit a b c d)"
  unfolding log_audit_def by (intro frames_intro)

lemma frames_if [frames_intro]:
  "(c \<Longrightarrow> frames view A m) \<Longrightarrow> (\<not> c \<Longrightarrow> frames view A n) \<Longrightarrow> frames view A (if c then m else n)"
  by simp

lemma frames_option [frames_intro]:
  "frames view A m \<Longrightarrow> (\<And>y. frames view A (f y)) \<Longrightarrow>
    frames view A (case v of None \<Rightarrow> m | Some y \<Rightarrow> f y)"
  by (simp split: option.split)

lemma frames_prod [frames_intro]:
  "(\<And>a b. frames view A (f a b)) \<Longrightarrow> frames view A (case v of (a, b) \<Rightarrow> f a b)"
  by (simp split: prod.split)

lemma frames_sum [frames_intro]:
  "(\<And>a. frames view A (f a)) \<Longrightarrow> (\<And>a. frames view A (g a)) \<Longrightarrow>
    frames view A (case v of Inl a \<Rightarrow> f a | Inr b \<Rightarrow> g b)"
  by (simp split: sum.split)

lemma frames_res [frames_intro]:
  "(\<And>a. frames view A (f a)) \<Longrightarrow> (\<And>a. frames view A (g a)) \<Longrightarrow> (\<And>a. frames view A (h a)) \<Longrightarrow>
    frames view A (case v of Ok a \<Rightarrow> f a | Err b \<Rightarrow> g b | Panic c \<Rightarrow> h c)"
  by (simp split: res.split)

lemma frames_let [frames_intro]: "(\<And>y. frames view A (f y)) \<Longrightarrow> frames view A (let y = v in f y)"
  by simp

text \<open>Steps whose outcome is known.\<close>

lemma try_unix_now [simp]:
  "try_io unix_now k w = k (w_clock w (w_ticks w)) (w\<lparr>w_ticks := Suc (w_ticks w)\<rparr>)"
  by (simp add: try_io_def unix_now_def)

lemma try_get_config [simp]: "try_io get_config k w = k (w_config w) w"
  by (simp add: try_io_def get_config_def)

lemma try_log_event [simp]: "try_io (log_event n j) k w = k () (w\<lparr>w_log := w_log w @ [(n, j)]\<rparr>)"
  by (simp add: try_io_def log_event_def)

text \<open>Every operation of the storage client is framed by its own address.\<close>

context jetcache
begin

lemma kv_get_frames [frames_intro]: "CHR '':'' \<notin> set t \<Longrightarrow> frames view A (kv_get x d t k)"
  by (rule frames_mono [OF framesI [OF kv_get_touches]]) (auto intro: steady_kv)

lemma kv_get_raw_frames [frames_intro]: "CHR '':'' \<notin> set t \<Longrightarrow> frames view A (kv_get_raw x t k)"
  by (rule frames_mono [OF framesI [OF kv_get_raw_touches]]) (auto intro: steady_kv)

lemma kv_get_revision_frames [frames_intro]:
  "CHR '':'' \<notin> set t \<Longrightarrow> frames view A (kv_get_revision x d t k)"
  by (rule frames_mono [OF framesI [OF kv_get_revision_touches]]) (auto intro: steady_kv)

lemma kv_get_raw_with_revision_frames [frames_intro]:
  "CHR '':'' \<notin> set t \<Longrightarrow> frames view A (kv_get_raw_with_revision x t k)"
  by (rule frames_mono [OF framesI [OF kv_get_raw_with_revision_touches]]) (auto intro: steady_kv)

lemma kv_exists_frames [frames_intro]: "CHR '':'' \<notin> set t \<Longrightarrow> frames view A (kv_exists x t k)"
  by (rule frames_mono [OF framesI [OF kv_exists_touches]]) (auto intro: steady_kv)

lemma kv_set_frames [frames_intro]:
  "CHR '':'' \<notin> set t \<Longrightarrow> (t, k) \<in> A \<Longrightarrow> frames view A (kv_set x t k v)"
  by (rule frames_mono [OF framesI [OF kv_set_touches]]) (auto intro: steady_kv)

lemma kv_set_raw_frames [frames_intro]:
  "CHR '':'' \<notin> set t \<Longrightarrow> (t, k) \<in> A \<Longrightarrow> frames view A (kv_set_raw x t k v)"
  by (rule frames_mono [OF framesI [OF kv_set_raw_touches]]) (auto intro: steady_kv)

lemma kv_set_ttl_frames [frames_intro]:
  "CHR '':'' \<notin> set t \<Longrightarrow> (t, k) \<in> A \<Longrightarrow> frames view A (kv_set_ttl x t k v ttl)"
  by (rule frames_mono [OF framesI [OF kv_set_ttl_touches]]) (auto intro: steady_kv)

lemma kv_set_raw_ttl_frames [frames_intro]:
  "CHR '':'' \<notin> set t \<Longrightarrow> (t, k) \<in> A \<Longrightarrow> frames view A (kv_set_raw_ttl x t k v ttl)"
  by (rule frames_mono [OF framesI [OF kv_set_raw_ttl_touches]]) (auto intro: steady_kv)

lemma kv_create_raw_frames [frames_intro]:
  "CHR '':'' \<notin> set t \<Longrightarrow> (t, k) \<in> A \<Longrightarrow> frames view A (kv_create_raw x t k v ttl)"
  by (rule frames_mono [OF framesI [OF kv_create_raw_touches]]) (auto intro: steady_kv)

lemma kv_cas_raw_frames [frames_intro]:
  "CHR '':'' \<notin> set t \<Longrightarrow> (t, k) \<in> A \<Longrightarrow> frames view A (kv_cas_raw x t k v n ttl)"
  by (rule frames_mono [OF framesI [OF kv_cas_raw_touches]]) (auto intro: steady_kv)

lemma kv_cas_swap_frames [frames_intro]:
  "CHR '':'' \<notin> set t \<Longrightarrow> (t, k) \<in> A \<Longrightarrow> frames view A (kv_cas_swap x t k v n)"
  by (rule frames_mono [OF framesI [OF kv_cas_swap_touches]]) (auto intro: steady_kv)

lemma kv_cas_swap_ttl_frames [frames_intro]:
  "CHR '':'' \<notin> set t \<Longrightarrow> (t, k) \<in> A \<Longrightarrow> frames view A (kv_cas_swap_ttl x t k v n ttl)"
  by (rule frames_mono [OF framesI [OF kv_cas_swap_ttl_touches]]) (auto intro: steady_kv)

lemma kv_cas_create_frames [frames_intro]:
  "CHR '':'' \<notin> set t \<Longrightarrow> (t, k) \<in> A \<Longrightarrow> frames view A (kv_cas_create x t k v)"
  by (rule frames_mono [OF framesI [OF kv_cas_create_touches]]) (auto intro: steady_kv)

lemma kv_cas_create_raw_frames [frames_intro]:
  "CHR '':'' \<notin> set t \<Longrightarrow> (t, k) \<in> A \<Longrightarrow> frames view A (kv_cas_create_raw x t k v)"
  by (rule frames_mono [OF framesI [OF kv_cas_create_raw_touches]]) (auto intro: steady_kv)

lemma kv_cas_delete_frames [frames_intro]:
  "CHR '':'' \<notin> set t \<Longrightarrow> (t, k) \<in> A \<Longrightarrow> frames view A (kv_cas_delete x t k n)"
  by (rule frames_mono [OF framesI [OF kv_cas_delete_touches]]) (auto intro: steady_kv)

lemma kv_delete_frames [frames_intro]:
  "CHR '':'' \<notin> set t \<Longrightarrow> (t, k) \<in> A \<Longrightarrow> frames view A (kv_delete x t k)"
  by (rule frames_mono [OF framesI [OF kv_delete_touches]]) (auto intro: steady_kv)

text \<open>Listings carry a table and no key: their frame holds only reads.\<close>

lemma listing_frames:
  assumes "is_obj p" and "table_ok (addr_of p)" and "op \<in> {''keys'', ''prefix''}"
  shows "frames view A (ldb_request x op p)"
  by (rule frames_mono [of _ "{}"]) (use assms in \<open>auto intro!: framesI steady_request elim: request_reads\<close>)

lemma table_ok_table [simp]:
  "table_ok (addr_of (JObj ((''table'', JStr t) # kvs))) \<longleftrightarrow> CHR '':'' \<notin> set t"
  by (simp add: table_ok_def addr_of_def jget_str_def)

lemma kv_list_pages_frames:
  "CHR '':'' \<notin> set t \<Longrightarrow> frames view A (kv_list_pages x n t c acc)"
proof (induction n arbitrary: c acc)
  case 0
  show ?case unfolding kv_list_pages.simps by (rule frames_panic)
next
  case (Suc n)
  have "frames view A (ldb_request x ''keys'' (case c of None \<Rightarrow> JObj [(''table'', JStr t)]
      | Some c \<Rightarrow> jset ''cursor'' (jnum c) (JObj [(''table'', JStr t)])))"
    using Suc.prems by (intro listing_frames) (auto split: option.split)
  with Suc show ?case by (auto simp: Let_def intro!: frames_try frames_ret split: option.split)
qed

lemma kv_list_keys_frames [frames_intro]:
  "CHR '':'' \<notin> set t \<Longrightarrow> frames view A (kv_list_keys x t)"
  unfolding kv_list_keys_def by (rule kv_list_pages_frames)

lemma get_matching_frames:
  "CHR '':'' \<notin> set t \<Longrightarrow> frames view A (get_matching x d t pre keys)"
  by (induction keys) (auto intro!: frames_intro)

lemma kv_prefix_frames [frames_intro]:
  "CHR '':'' \<notin> set t \<Longrightarrow> frames view A (kv_prefix x d t pre)"
  unfolding kv_prefix_def by (intro frames_intro listing_frames get_matching_frames) auto

lemma kv_prefix_keys_frames [frames_intro]:
  "CHR '':'' \<notin> set t \<Longrightarrow> frames view A (kv_prefix_keys x t pre)"
  unfolding kv_prefix_keys_def by (intro frames_intro listing_frames) auto

end

end
