(* ===== verification/Store_Crypto.thy ===== *)
theory Store_Crypto
  imports Frames
begin

text \<open>
  The helpers of \<open>store.rs\<close>: digests, keyed hashes of email addresses and client secrets with
  their panic on a missing pepper, random identifiers, big-endian integers.
\<close>

definition sha256_hex :: "'s ext \<Rightarrow> string \<Rightarrow> string" where
  "sha256_hex x input = hex_lower (x_sha256 x input)"

definition dev_mode_raw :: "config option \<Rightarrow> bool" where
  "dev_mode_raw c = (case config_value c ''dev_mode'' of
     Some v \<Rightarrow> v = ''true'' \<or> v = ''1'' | None \<Rightarrow> False)"

text \<open>Without a pepper the hash is the lower-cased address in development mode and a panic
  otherwise.\<close>

definition hmac_email :: "'s ext \<Rightarrow> string \<Rightarrow> (string, 's) act" where
  "hmac_email x email =
     (let email_lower = to_lowercase email in
      try_io get_config (\<lambda>c.
        case config_value c ''email_pepper'' of
          Some pepper \<Rightarrow>
            if pepper \<noteq> [] then ret (hex_lower (x_hmac_sha256 x pepper email_lower))
            else if dev_mode_raw c then
              try_io (log_event ''email_pepper.not_configured'' (JObj [])) (\<lambda>_. ret email_lower)
            else panic ''email_pepper config key is required in production''
        | None \<Rightarrow>
            if dev_mode_raw c then
              try_io (log_event ''email_pepper.not_configured'' (JObj [])) (\<lambda>_. ret email_lower)
            else panic ''email_pepper config key is required in production''))"

definition hmac_client_secret :: "'s ext \<Rightarrow> string \<Rightarrow> (string, 's) act" where
  "hmac_client_secret x secret =
     try_io get_config (\<lambda>c.
       case config_value c ''client_secret_pepper'' of
         Some pepper \<Rightarrow>
           if pepper \<noteq> [] then ret (hex_lower (x_hmac_sha256 x pepper secret))
           else if dev_mode_raw c then
             try_io (log_event ''client_secret_pepper.not_configured'' (JObj [])) (\<lambda>_. ret secret)
           else panic ''client_secret_pepper config key is required in production''
       | None \<Rightarrow>
           if dev_mode_raw c then
             try_io (log_event ''client_secret_pepper.not_configured'' (JObj [])) (\<lambda>_. ret secret)
           else panic ''client_secret_pepper config key is required in production'')"

text \<open>
  \<open>random_alphanumeric\<close> draws bytes until enough of them fall below the largest multiple of the
  alphabet size. The number of draws is bounded by the fuel; running out of it is a panic.
\<close>

definition alnum_charset :: string where
  "alnum_charset = ''abcdefghijklmnopqrstuvwxyz0123456789''"

fun alnum_loop :: "nat \<Rightarrow> nat \<Rightarrow> string \<Rightarrow> (string, 's) act" where
  "alnum_loop fuel n result =
     (if n \<le> length result then ret result
      else case fuel of 0 \<Rightarrow> panic ''random_alphanumeric: draw bound''
        | Suc f \<Rightarrow> try_io (random_bytes 1) (\<lambda>buf.
            let b = chr_code (hd buf);
                limit = 256 - 256 mod length alnum_charset
            in if b < limit then alnum_loop f n (result @ [alnum_charset ! (b mod length alnum_charset)])
               else alnum_loop f n result))"

declare alnum_loop.simps [simp del]

lemma alnum_loop_code [code]:
  "alnum_loop 0 n result = (if n \<le> length result then ret result else panic ''random_alphanumeric: draw bound'')"
  "alnum_loop (Suc f) n result = (if n \<le> length result then ret result else
     try_io (random_bytes 1) (\<lambda>buf. let b = chr_code (hd buf);
                limit = 256 - 256 mod length alnum_charset
            in if b < limit then alnum_loop f n (result @ [alnum_charset ! (b mod length alnum_charset)])
               else alnum_loop f n result))"
  by (subst alnum_loop.simps; simp)+

definition random_alphanumeric :: "'s ext \<Rightarrow> nat \<Rightarrow> (string, 's) act" where
  "random_alphanumeric x n = alnum_loop (x_draws x n) n []"

lemmas store_crypto_runs [code] =
  hmac_email_def [THEN fun_cong] hmac_client_secret_def [THEN fun_cong] alnum_loop.simps [THEN fun_cong]
  random_alphanumeric_def [THEN fun_cong]

text \<open>\<open>u64::to_be_bytes\<close> and \<open>from_be_bytes\<close>.\<close>

fun be_bytes :: "nat \<Rightarrow> nat \<Rightarrow> bytes" where
  "be_bytes 0 n = []"
| "be_bytes (Suc k) n = be_bytes k (n div 256) @ [chr_nat (n mod 256)]"

definition to_be_bytes :: "u64 \<Rightarrow> bytes" where
  "to_be_bytes t = be_bytes 8 (unat t)"

definition be_val :: "bytes \<Rightarrow> nat" where
  "be_val bs = foldl (\<lambda>n c. 256 * n + chr_code c) 0 bs"

definition from_be_bytes :: "bytes \<Rightarrow> u64" where
  "from_be_bytes bs = of_nat (be_val bs)"

section \<open>Lemmas\<close>

lemma length_be_bytes [simp]: "length (be_bytes k n) = k"
  by (induction k n rule: be_bytes.induct) simp_all

lemma be_val_bytes: "n < 256 ^ k \<Longrightarrow> be_val (be_bytes k n) = n"
proof (induction k n rule: be_bytes.induct)
  case (1 n)
  then show ?case by (simp add: be_val_def)
next
  case (2 k n)
  then have "n div 256 < 256 ^ k" by (simp add: less_mult_imp_div_less mult.commute)
  with 2 show ?case by (simp add: be_val_def)
qed

lemma from_to_be_bytes [simp]: "from_be_bytes (to_be_bytes t) = t"
proof -
  have "unat t < 2 ^ LENGTH(64)" by (rule unsigned_less)
  then have "unat t < 256 ^ 8" by simp
  then show ?thesis by (simp add: from_be_bytes_def to_be_bytes_def be_val_bytes)
qed

text \<open>Evaluation works on binary integers.\<close>

fun be_int :: "nat \<Rightarrow> int \<Rightarrow> bytes \<Rightarrow> bytes" where
  "be_int 0 i acc = acc"
| "be_int (Suc k) i acc = be_int k (i div 256) (char_of (i mod 256) # acc)"

lemma char_of_int_nat: "char_of (int m) = chr_nat m"
  by (simp add: chr_nat_def char_of_def bit_of_nat_iff_bit)

lemma be_int: "be_int k (int n) acc = be_bytes k n @ acc"
proof (induction k arbitrary: n acc)
  case (Suc k)
  have c: "char_of (int n mod 256) = chr_nat (n mod 256)"
    using char_of_int_nat [of "n mod 256"] by (simp only: zmod_int) simp
  have d: "int n div 256 = int (n div 256)" by (simp add: zdiv_int)
  show ?case unfolding be_int.simps c d Suc.IH by simp
qed simp

lemma to_be_bytes_code [code]: "to_be_bytes t = be_int 8 (uint t) []"
  using be_int [of 8 "unat t" "[]"] by (simp add: to_be_bytes_def)

lemma from_be_bytes_code [code]:
  "from_be_bytes bs = of_int (foldl (\<lambda>n c. 256 * n + of_char c) 0 bs)"
proof -
  have "int (foldl (\<lambda>n c. 256 * n + chr_code c) m bs) = foldl (\<lambda>n c. 256 * n + of_char c) (int m) bs" for m
    by (induction bs arbitrary: m) (simp_all add: chr_code_def of_nat_of_char)
  from this [of 0] have "int (be_val bs) = foldl (\<lambda>n c. 256 * n + of_char c) 0 bs" by (simp add: be_val_def)
  then show ?thesis unfolding from_be_bytes_def by (metis of_int_of_nat_eq of_nat_of_char)
qed

lemma length_to_be_bytes [simp]: "length (to_be_bytes t) = 8"
  by (simp add: to_be_bytes_def)

lemma hmac_email_frames [frames_intro]: "frames view A (hmac_email x e)"
  unfolding hmac_email_def by (intro frames_intro)

lemma hmac_client_secret_frames [frames_intro]: "frames view A (hmac_client_secret x e)"
  unfolding hmac_client_secret_def by (intro frames_intro)

lemma alnum_loop_frames: "frames view A (alnum_loop f n acc)"
proof (induction f arbitrary: acc)
  case 0
  show ?case by (subst alnum_loop.simps, simp only: nat.case) (intro frames_intro)
next
  case (Suc f)
  show ?case
    by (subst alnum_loop.simps, simp only: nat.case) (intro frames_intro Suc.IH)
qed

lemma random_alphanumeric_frames [frames_intro]: "frames view A (random_alphanumeric x n)"
  unfolding random_alphanumeric_def by (rule alnum_loop_frames)

lemma alnum_loop_Ok: "length acc \<le> n \<Longrightarrow> alnum_loop f n acc w = (Ok s, w') \<Longrightarrow>
    length s = n \<and> (\<exists>r. s = acc @ r \<and> set r \<subseteq> set alnum_charset)"
proof (induction f arbitrary: acc w)
  case 0
  then show ?case by (auto simp: alnum_loop.simps split: if_splits)
next
  case (Suc f)
  show ?case
  proof (cases "n \<le> length acc")
    case True
    with Suc.prems show ?thesis by (subst (asm) alnum_loop.simps) simp
  next
    case False
    with Suc.prems(2) obtain buf w1 where run:
      "(let b = chr_code (hd buf); limit = 256 - 256 mod length alnum_charset
        in if b < limit then alnum_loop f n (acc @ [alnum_charset ! (b mod length alnum_charset)])
           else alnum_loop f n acc) w1 = (Ok s, w')"
      by (subst (asm) alnum_loop.simps) (auto elim!: try_io_Ok)
    let ?c = "alnum_charset ! (chr_code (hd buf) mod length alnum_charset)"
    have mem: "?c \<in> set alnum_charset" by (rule nth_mem) (simp add: alnum_charset_def)
    from run consider "alnum_loop f n (acc @ [?c]) w1 = (Ok s, w')" | "alnum_loop f n acc w1 = (Ok s, w')"
      by (auto simp: Let_def split: if_splits)
    then show ?thesis
    proof cases
      case 1
      from Suc.IH [OF _ 1] False obtain r where "length s = n" "s = acc @ ?c # r"
        "set r \<subseteq> set alnum_charset" by auto
      with mem show ?thesis by (intro conjI exI [of _ "?c # r"]) auto
    next
      case 2
      from Suc.IH [OF Suc.prems(1) 2] show ?thesis .
    qed
  qed
qed

text \<open>An identifier has the requested length and uses the alphabet only.\<close>

lemma random_alphanumeric_Ok:
  "random_alphanumeric x n w = (Ok s, w') \<Longrightarrow> length s = n \<and> set s \<subseteq> set alnum_charset"
  using alnum_loop_Ok [of "[]" n "x_draws x n" w s w'] by (auto simp: random_alphanumeric_def)

text \<open>Nothing but the outcome depends on the pepper: a success leaves the stored state alone.\<close>

lemma hmac_client_secret_Ok:
  assumes "hmac_client_secret x s w = (Ok h, w')"
  shows "w_kv w' = w_kv w \<and> w_config w' = w_config w \<and> w_clock w' = w_clock w \<and>
    h = (case config_value (w_config w) ''client_secret_pepper'' of
       Some p \<Rightarrow> if p \<noteq> [] then hex_lower (x_hmac_sha256 x p s) else s | None \<Rightarrow> s)"
  using assms unfolding hmac_client_secret_def
  by (auto elim!: try_io_Ok simp: get_config_Ok log_event_Ok split: option.splits if_splits)

end
