(* ===== verification/Store_Oauth.thy ===== *)
theory Store_Oauth
  imports Store_Crypto Utf8
begin

text \<open>
  The protocol records of \<open>store.rs\<close> in the sessions and clients tables: authentication sessions,
  single-use CSRF and PKCE values, authorization codes, refresh tokens with their consumption
  markers, revocation markers, clients, pushed requests, replay markers and device codes.
  Every single-use value is read with its revision and consumed by a compare-and-swap.
\<close>

section \<open>Times to live\<close>

abbreviation ttl_auth_code :: u64 where "ttl_auth_code \<equiv> 300"
abbreviation ttl_auth_session :: u64 where "ttl_auth_session \<equiv> 600"
abbreviation ttl_refresh_token :: u64 where "ttl_refresh_token \<equiv> 86400 * 30"
abbreviation ttl_consumed_marker :: u64 where "ttl_consumed_marker \<equiv> 86400 * 30"
abbreviation ttl_revocation_marker :: u64 where "ttl_revocation_marker \<equiv> 86400 * 30"
abbreviation ttl_par_request :: u64 where "ttl_par_request \<equiv> 90"
abbreviation ttl_jti :: u64 where "ttl_jti \<equiv> 300"
abbreviation ttl_device_code :: u64 where "ttl_device_code \<equiv> 300"
abbreviation ttl_admin_pkce_verifier :: u64 where "ttl_admin_pkce_verifier \<equiv> ttl_auth_session"

section \<open>Authentication sessions\<close>

definition save_auth_session :: "'s ext \<Rightarrow> string \<Rightarrow> auth_session \<Rightarrow> (unit, 's) act" where
  "save_auth_session x session_id session =
     kv_set_ttl x sessions_store (''session:'' @ session_id) (auth_session_to_json session)
       ttl_auth_session"

definition get_auth_session :: "'s ext \<Rightarrow> string \<Rightarrow> (auth_session option, 's) act" where
  "get_auth_session x session_id = kv_get x auth_session_of_json sessions_store (''session:'' @ session_id)"

definition delete_auth_session :: "'s ext \<Rightarrow> string \<Rightarrow> (unit, 's) act" where
  "delete_auth_session x session_id = kv_delete x sessions_store (''session:'' @ session_id)"

definition consume_auth_session :: "'s ext \<Rightarrow> string \<Rightarrow> (auth_session option, 's) act" where
  "consume_auth_session x session_id =
     (let key = ''session:'' @ session_id in
      try_io (kv_get_revision x auth_session_of_json sessions_store key) (\<lambda>o1. case o1 of
        Some (session, revision) \<Rightarrow>
          match_io (kv_cas_delete x sessions_store key revision) (\<lambda>_. ret (Some session)) (\<lambda>_. ret None)
      | None \<Rightarrow> ret None))"

section \<open>Single-use strings\<close>

definition revision_mismatch :: "string \<Rightarrow> bool" where
  "revision_mismatch e \<longleftrightarrow> contains_str ''revision mismatch'' e"

definition save_google_csrf :: "'s ext \<Rightarrow> string \<Rightarrow> string \<Rightarrow> (unit, 's) act" where
  "save_google_csrf x csrf_token session_id =
     kv_set_ttl x sessions_store (''gcsrf:'' @ csrf_token) (JStr session_id) 600"

definition consume_google_csrf :: "'s ext \<Rightarrow> string \<Rightarrow> (string option, 's) act" where
  "consume_google_csrf x csrf_token =
     (let key = ''gcsrf:'' @ csrf_token in
      try_io (kv_get_revision x de_str sessions_store key) (\<lambda>o1. case o1 of
        Some (session_id, revision) \<Rightarrow>
          match_io (kv_cas_delete x sessions_store key revision) (\<lambda>_. ret (Some session_id))
            (\<lambda>e. if revision_mismatch e then ret None else fail e)
      | None \<Rightarrow> ret None))"

definition save_social_csrf :: "'s ext \<Rightarrow> string \<Rightarrow> string \<Rightarrow> (unit, 's) act" where
  "save_social_csrf x csrf_token session_id =
     kv_set_ttl x sessions_store (''social_csrf:'' @ csrf_token) (JStr session_id) 600"

definition consume_social_csrf :: "'s ext \<Rightarrow> string \<Rightarrow> (string option, 's) act" where
  "consume_social_csrf x csrf_token =
     (let key = ''social_csrf:'' @ csrf_token in
      try_io (kv_get_revision x de_str sessions_store key) (\<lambda>o1. case o1 of
        Some (session_id, revision) \<Rightarrow>
          match_io (kv_cas_delete x sessions_store key revision) (\<lambda>_. ret (Some session_id))
            (\<lambda>e. if revision_mismatch e then ret None else fail e)
      | None \<Rightarrow> ret None))"

definition save_admin_pkce_verifier :: "'s ext \<Rightarrow> string \<Rightarrow> string \<Rightarrow> (unit, 's) act" where
  "save_admin_pkce_verifier x state verifier =
     kv_set_ttl x sessions_store (''adminpkce:'' @ state) (JStr verifier) ttl_admin_pkce_verifier"

definition consume_admin_pkce_verifier :: "'s ext \<Rightarrow> string \<Rightarrow> (string option, 's) act" where
  "consume_admin_pkce_verifier x state =
     (let key = ''adminpkce:'' @ state in
      try_io (kv_get_revision x de_str sessions_store key) (\<lambda>o1. case o1 of
        Some (verifier, revision) \<Rightarrow>
          match_io (kv_cas_delete x sessions_store key revision) (\<lambda>_. ret (Some verifier))
            (\<lambda>e. if revision_mismatch e then ret None else fail e)
      | None \<Rightarrow> ret None))"

section \<open>Authorization codes\<close>

definition save_auth_code :: "'s ext \<Rightarrow> string \<Rightarrow> auth_code \<Rightarrow> (unit, 's) act" where
  "save_auth_code x code ac =
     kv_set_ttl x sessions_store (''code:'' @ code) (auth_code_to_json ac) ttl_auth_code"

definition get_auth_code_cas :: "'s ext \<Rightarrow> string \<Rightarrow> ((auth_code \<times> u64) option, 's) act" where
  "get_auth_code_cas x code = kv_get_revision x auth_code_of_json sessions_store (''code:'' @ code)"

definition consume_auth_code :: "'s ext \<Rightarrow> string \<Rightarrow> u64 \<Rightarrow> (unit, 's) act" where
  "consume_auth_code x code revision =
     try_io (kv_cas_swap_ttl x sessions_store (''code:'' @ code) code_marker revision ttl_auth_code)
       (\<lambda>_. ret ())"

definition delete_auth_code :: "'s ext \<Rightarrow> string \<Rightarrow> (unit, 's) act" where
  "delete_auth_code x code = kv_delete x sessions_store (''code:'' @ code)"

section \<open>Refresh tokens\<close>

definition save_refresh_token :: "'s ext \<Rightarrow> string \<Rightarrow> refresh_entry \<Rightarrow> (unit, 's) act" where
  "save_refresh_token x token_hash entry =
     try_io (kv_set_ttl x sessions_store (''refresh:'' @ token_hash) (refresh_entry_to_json entry)
         ttl_refresh_token) (\<lambda>_.
     kv_set_raw_ttl x sessions_store (''refresh_idx:'' @ re_user_id entry @ '':'' @ token_hash)
       [chr_nat 1] ttl_refresh_token)"

definition get_refresh_token :: "'s ext \<Rightarrow> string \<Rightarrow> (refresh_entry option, 's) act" where
  "get_refresh_token x token_hash =
     kv_get x refresh_entry_of_json sessions_store (''refresh:'' @ token_hash)"

definition get_refresh_token_cas :: "'s ext \<Rightarrow> string \<Rightarrow> ((refresh_entry \<times> u64) option, 's) act" where
  "get_refresh_token_cas x token_hash =
     match_io (kv_get_revision x refresh_entry_of_json sessions_store (''refresh:'' @ token_hash))
       ret (\<lambda>e. if starts_with ''deserialize:'' e then ret None else fail e)"

definition consume_refresh_token :: "'s ext \<Rightarrow> string \<Rightarrow> u64 \<Rightarrow> string \<Rightarrow> (unit, 's) act" where
  "consume_refresh_token x token_hash revision user_id =
     try_io (kv_cas_swap_ttl x sessions_store (''refresh:'' @ token_hash) (refresh_marker user_id)
         revision ttl_consumed_marker) (\<lambda>_. ret ())"

definition mark_refresh_consumed :: "'s ext \<Rightarrow> string \<Rightarrow> string \<Rightarrow> (unit, 's) act" where
  "mark_refresh_consumed x token_hash user_id =
     kv_set_raw_ttl x sessions_store (''consumed:'' @ token_hash) user_id ttl_consumed_marker"

definition get_consumed_refresh :: "'s ext \<Rightarrow> string \<Rightarrow> (string option, 's) act" where
  "get_consumed_refresh x token_hash =
     try_io (kv_get_raw x sessions_store (''consumed:'' @ token_hash)) (\<lambda>o1. case o1 of
       Some bytes \<Rightarrow> ret (Some (from_utf8_lossy bytes))
     | None \<Rightarrow>
         try_io (kv_get_raw x sessions_store (''refresh:'' @ token_hash)) (\<lambda>o2. case o2 of
           Some bytes \<Rightarrow>
             (case x_from_slice x bytes of
                Inl _ \<Rightarrow> ret None
              | Inr marker \<Rightarrow>
                  if Option.bind (jget marker ''consumed'') as_bool = Some True
                  then ret (jget_str marker ''user_id'') else ret None)
         | None \<Rightarrow> ret None))"

definition delete_refresh_token :: "'s ext \<Rightarrow> string \<Rightarrow> (unit, 's) act" where
  "delete_refresh_token x token_hash =
     match_io (get_refresh_token x token_hash)
       (\<lambda>o1. case o1 of
          Some entry \<Rightarrow> ignore_io
            (kv_delete x sessions_store (''refresh_idx:'' @ re_user_id entry @ '':'' @ token_hash))
            (kv_delete x sessions_store (''refresh:'' @ token_hash))
        | None \<Rightarrow> kv_delete x sessions_store (''refresh:'' @ token_hash))
       (\<lambda>_. kv_delete x sessions_store (''refresh:'' @ token_hash))"

definition revoke_user_sessions :: "'s ext \<Rightarrow> string \<Rightarrow> (unit, 's) act" where
  "revoke_user_sessions x user_id =
     (let key = ''revoked:user:'' @ user_id in
      try_io unix_now (\<lambda>now.
        kv_set_raw_ttl x sessions_store key (to_be_bytes now) ttl_revocation_marker))"

definition is_user_revoked :: "'s ext \<Rightarrow> string \<Rightarrow> u64 \<Rightarrow> (bool, 's) act" where
  "is_user_revoked x user_id iat =
     (let key = ''revoked:user:'' @ user_id in
      try_io (kv_get_raw x sessions_store key) (\<lambda>o1. case o1 of
        Some bytes \<Rightarrow>
          if length bytes = 8 then ret (iat < from_be_bytes bytes) else ret True
      | None \<Rightarrow> ret False))"

fun delete_refresh_keys :: "'s ext \<Rightarrow> string \<Rightarrow> string list \<Rightarrow> u32 \<Rightarrow> (u32, 's) act" where
  "delete_refresh_keys x pre [] count = ret count"
| "delete_refresh_keys x pre (key # keys) count =
     (case strip_prefix pre key of
        Some token_hash \<Rightarrow>
          if token_hash \<noteq> [] then
            ignore_io (kv_delete x sessions_store (''refresh:'' @ token_hash))
            (ignore_io (kv_delete x sessions_store key)
            (delete_refresh_keys x pre keys (count + 1)))
          else delete_refresh_keys x pre keys count
      | None \<Rightarrow> delete_refresh_keys x pre keys count)"

definition delete_user_refresh_tokens :: "'s ext \<Rightarrow> string \<Rightarrow> (u32, 's) act" where
  "delete_user_refresh_tokens x user_id =
     (let pre = ''refresh_idx:'' @ user_id @ '':'' in
      try_io (kv_prefix_keys x sessions_store pre) (\<lambda>keys.
      try_io (delete_refresh_keys x pre keys 0) (\<lambda>count.
      try_io (revoke_user_sessions x user_id) (\<lambda>_. ret count))))"

fun collect_client_ids :: "'s ext \<Rightarrow> string \<Rightarrow> string list \<Rightarrow> string list \<Rightarrow> (string list, 's) act" where
  "collect_client_ids x pre [] client_ids = ret client_ids"
| "collect_client_ids x pre (key # keys) client_ids =
     (case strip_prefix pre key of
        Some token_hash \<Rightarrow>
          if token_hash \<noteq> [] then
            match_io (kv_get x refresh_entry_of_json sessions_store (''refresh:'' @ token_hash))
              (\<lambda>o1. case o1 of
                 Some entry \<Rightarrow>
                   if re_client_id entry \<in> set client_ids then collect_client_ids x pre keys client_ids
                   else collect_client_ids x pre keys (client_ids @ [re_client_id entry])
               | None \<Rightarrow> collect_client_ids x pre keys client_ids)
              (\<lambda>_. collect_client_ids x pre keys client_ids)
          else collect_client_ids x pre keys client_ids
      | None \<Rightarrow> collect_client_ids x pre keys client_ids)"

definition list_user_client_ids :: "'s ext \<Rightarrow> string \<Rightarrow> (string list, 's) act" where
  "list_user_client_ids x user_id =
     (let pre = ''refresh_idx:'' @ user_id @ '':'' in
      try_io (kv_prefix_keys x sessions_store pre) (\<lambda>keys. collect_client_ids x pre keys []))"

section \<open>Clients\<close>

definition get_client :: "'s ext \<Rightarrow> string \<Rightarrow> (oidc_client option, 's) act" where
  "get_client x client_id = try_io get_config (\<lambda>c.
     kv_get x oidc_client_of_json (clients_store c) (''client:'' @ client_id))"

definition save_client :: "'s ext \<Rightarrow> oidc_client \<Rightarrow> (unit, 's) act" where
  "save_client x client = try_io get_config (\<lambda>c.
     kv_set x (clients_store c) (''client:'' @ cl_client_id client) (oidc_client_to_json client))"

definition list_clients :: "'s ext \<Rightarrow> (oidc_client list, 's) act" where
  "list_clients x = try_io get_config (\<lambda>c.
     try_io (kv_prefix x oidc_client_of_json (clients_store c) ''client:'') (\<lambda>rows. ret (map snd rows)))"

definition delete_client :: "'s ext \<Rightarrow> string \<Rightarrow> (unit, 's) act" where
  "delete_client x client_id = try_io get_config (\<lambda>c.
     ignore_io (kv_delete x (clients_store c) (''reg_token:'' @ client_id))
       (kv_delete x (clients_store c) (''client:'' @ client_id)))"

definition save_registration_token :: "'s ext \<Rightarrow> string \<Rightarrow> string \<Rightarrow> (unit, 's) act" where
  "save_registration_token x client_id token_hash = try_io get_config (\<lambda>c.
     kv_set x (clients_store c) (''reg_token:'' @ client_id) (JStr token_hash))"

definition get_registration_token :: "'s ext \<Rightarrow> string \<Rightarrow> (string option, 's) act" where
  "get_registration_token x client_id = try_io get_config (\<lambda>c.
     kv_get x de_str (clients_store c) (''reg_token:'' @ client_id))"

definition delete_registration_token :: "'s ext \<Rightarrow> string \<Rightarrow> (unit, 's) act" where
  "delete_registration_token x client_id = try_io get_config (\<lambda>c.
     kv_delete x (clients_store c) (''reg_token:'' @ client_id))"

section \<open>Pushed authorization requests and replay markers\<close>

definition save_pushed_auth_request ::
    "'s ext \<Rightarrow> string \<Rightarrow> pushed_auth_request \<Rightarrow> u64 \<Rightarrow> (unit, 's) act" where
  "save_pushed_auth_request x request_uri req ttl =
     kv_set_ttl x sessions_store (''par:'' @ request_uri) (pushed_auth_request_to_json req) ttl"

definition get_pushed_auth_request :: "'s ext \<Rightarrow> string \<Rightarrow> (pushed_auth_request option, 's) act" where
  "get_pushed_auth_request x request_uri =
     kv_get x pushed_auth_request_of_json sessions_store (''par:'' @ request_uri)"

definition delete_pushed_auth_request :: "'s ext \<Rightarrow> string \<Rightarrow> (unit, 's) act" where
  "delete_pushed_auth_request x request_uri = kv_delete x sessions_store (''par:'' @ request_uri)"

definition check_and_record_jti :: "'s ext \<Rightarrow> string \<Rightarrow> u64 \<Rightarrow> (unit, 's) act" where
  "check_and_record_jti x jti ttl =
     (let key = ''jti:'' @ jti in
      try_io unix_now (\<lambda>now.
      let marker = x_to_vec x (JObj [(''used_at'', jnum now)]) in
      match_io (kv_create_raw x sessions_store key marker (Some ttl)) ret
        (\<lambda>e. if contains_str ''already exists'' e then fail ''replay detected'' else fail e)))"

section \<open>Device codes\<close>

definition save_device_code :: "'s ext \<Rightarrow> device_code \<Rightarrow> (unit, 's) act" where
  "save_device_code x dc =
     try_io (kv_set_ttl x sessions_store (''device:'' @ dc_device_code dc) (device_code_to_json dc)
         ttl_device_code) (\<lambda>_.
     kv_set_raw_ttl x sessions_store (''device_user_code:'' @ to_uppercase (dc_user_code dc))
       (dc_device_code dc) ttl_device_code)"

definition get_device_code :: "'s ext \<Rightarrow> string \<Rightarrow> (device_code option, 's) act" where
  "get_device_code x code = kv_get x device_code_of_json sessions_store (''device:'' @ code)"

definition get_device_code_cas :: "'s ext \<Rightarrow> string \<Rightarrow> ((device_code \<times> u64) option, 's) act" where
  "get_device_code_cas x code = kv_get_revision x device_code_of_json sessions_store (''device:'' @ code)"

definition consume_device_code_cas :: "'s ext \<Rightarrow> string \<Rightarrow> u64 \<Rightarrow> (unit, 's) act" where
  "consume_device_code_cas x code revision =
     kv_cas_delete x sessions_store (''device:'' @ code) revision"

definition delete_device_code :: "'s ext \<Rightarrow> string \<Rightarrow> (unit, 's) act" where
  "delete_device_code x code = kv_delete x sessions_store (''device:'' @ code)"

definition get_device_code_by_user_code :: "'s ext \<Rightarrow> string \<Rightarrow> (device_code option, 's) act" where
  "get_device_code_by_user_code x user_code =
     (let key = ''device_user_code:'' @ to_uppercase user_code in
      try_io (kv_get_raw x sessions_store key) (\<lambda>o1. case o1 of
        None \<Rightarrow> ret None
      | Some device_code_bytes \<Rightarrow>
          (case from_utf8 device_code_bytes of
             None \<Rightarrow> fail ''invalid device code bytes''
           | Some code \<Rightarrow> kv_get x device_code_of_json sessions_store (''device:'' @ code))))"

definition saturating_sub :: "u64 \<Rightarrow> u64 \<Rightarrow> u64" where
  "saturating_sub a b = (if b \<le> a then a - b else 0)"

definition update_device_code_status ::
    "'s ext \<Rightarrow> string \<Rightarrow> string \<Rightarrow> string option \<Rightarrow> string option \<Rightarrow> (unit, 's) act" where
  "update_device_code_status x code status user_id sid =
     try_io (get_device_code_cas x code) (\<lambda>o1. case o1 of
       Some (dc, revision) \<Rightarrow>
         (let dc = dc\<lparr>dc_status := status, dc_user_id := user_id\<rparr>;
              dc = (if sid \<noteq> None then dc\<lparr>dc_sid := sid\<rparr> else dc)
          in try_io unix_now (\<lambda>now.
             let remaining_ttl = saturating_sub (dc_expires_at dc) now in
             try_io (kv_cas_swap_ttl x sessions_store (''device:'' @ code) (device_code_to_json dc)
               revision (max remaining_ttl 1)) (\<lambda>_. ret ())))
     | None \<Rightarrow> ret ())"

lemmas store_oauth_runs [code] =
  save_auth_session_def [THEN fun_cong] get_auth_session_def [THEN fun_cong]
  delete_auth_session_def [THEN fun_cong] consume_auth_session_def [THEN fun_cong]
  save_google_csrf_def [THEN fun_cong] consume_google_csrf_def [THEN fun_cong]
  save_social_csrf_def [THEN fun_cong] consume_social_csrf_def [THEN fun_cong]
  save_admin_pkce_verifier_def [THEN fun_cong] consume_admin_pkce_verifier_def [THEN fun_cong]
  save_auth_code_def [THEN fun_cong] get_auth_code_cas_def [THEN fun_cong]
  consume_auth_code_def [THEN fun_cong] delete_auth_code_def [THEN fun_cong]
  save_refresh_token_def [THEN fun_cong] get_refresh_token_def [THEN fun_cong]
  get_refresh_token_cas_def [THEN fun_cong] consume_refresh_token_def [THEN fun_cong]
  mark_refresh_consumed_def [THEN fun_cong] get_consumed_refresh_def [THEN fun_cong]
  delete_refresh_token_def [THEN fun_cong] revoke_user_sessions_def [THEN fun_cong]
  is_user_revoked_def [THEN fun_cong] delete_refresh_keys.simps [THEN fun_cong]
  delete_user_refresh_tokens_def [THEN fun_cong] collect_client_ids.simps [THEN fun_cong]
  list_user_client_ids_def [THEN fun_cong] get_client_def [THEN fun_cong] save_client_def [THEN fun_cong]
  list_clients_def [THEN fun_cong] delete_client_def [THEN fun_cong]
  save_registration_token_def [THEN fun_cong] get_registration_token_def [THEN fun_cong]
  delete_registration_token_def [THEN fun_cong] save_pushed_auth_request_def [THEN fun_cong]
  get_pushed_auth_request_def [THEN fun_cong] delete_pushed_auth_request_def [THEN fun_cong]
  check_and_record_jti_def [THEN fun_cong] save_device_code_def [THEN fun_cong]
  get_device_code_def [THEN fun_cong] get_device_code_cas_def [THEN fun_cong]
  consume_device_code_cas_def [THEN fun_cong] delete_device_code_def [THEN fun_cong]
  get_device_code_by_user_code_def [THEN fun_cong] update_device_code_status_def [THEN fun_cong]

section \<open>Frames\<close>

abbreviation sess :: "string \<Rightarrow> addr" where "sess k \<equiv> (sessions_store, k)"

context jetcache
begin

lemma session_frames [frames_intro]:
  "sess (''session:'' @ i) \<in> A \<Longrightarrow> frames view A (save_auth_session x i s)"
  "frames view A (get_auth_session x i)"
  "sess (''session:'' @ i) \<in> A \<Longrightarrow> frames view A (delete_auth_session x i)"
  "sess (''session:'' @ i) \<in> A \<Longrightarrow> frames view A (consume_auth_session x i)"
  unfolding save_auth_session_def get_auth_session_def delete_auth_session_def
    consume_auth_session_def Let_def
  by (auto intro!: frames_intro)

lemma csrf_frames [frames_intro]:
  "sess (''gcsrf:'' @ t) \<in> A \<Longrightarrow> frames view A (save_google_csrf x t i)"
  "sess (''gcsrf:'' @ t) \<in> A \<Longrightarrow> frames view A (consume_google_csrf x t)"
  "sess (''social_csrf:'' @ t) \<in> A \<Longrightarrow> frames view A (save_social_csrf x t i)"
  "sess (''social_csrf:'' @ t) \<in> A \<Longrightarrow> frames view A (consume_social_csrf x t)"
  "sess (''adminpkce:'' @ t) \<in> A \<Longrightarrow> frames view A (save_admin_pkce_verifier x t i)"
  "sess (''adminpkce:'' @ t) \<in> A \<Longrightarrow> frames view A (consume_admin_pkce_verifier x t)"
  unfolding save_google_csrf_def consume_google_csrf_def save_social_csrf_def
    consume_social_csrf_def save_admin_pkce_verifier_def consume_admin_pkce_verifier_def Let_def
  by (auto intro!: frames_intro)

lemma auth_code_frames [frames_intro]:
  "sess (''code:'' @ c) \<in> A \<Longrightarrow> frames view A (save_auth_code x c ac)"
  "frames view A (get_auth_code_cas x c)"
  "sess (''code:'' @ c) \<in> A \<Longrightarrow> frames view A (consume_auth_code x c n)"
  "sess (''code:'' @ c) \<in> A \<Longrightarrow> frames view A (delete_auth_code x c)"
  unfolding save_auth_code_def get_auth_code_cas_def consume_auth_code_def delete_auth_code_def
  by (auto intro!: frames_intro)

lemma refresh_frames [frames_intro]:
  "sess (''refresh:'' @ h) \<in> A \<Longrightarrow> sess (''refresh_idx:'' @ re_user_id e @ '':'' @ h) \<in> A \<Longrightarrow>
    frames view A (save_refresh_token x h e)"
  "frames view A (get_refresh_token x h)"
  "frames view A (get_refresh_token_cas x h)"
  "sess (''refresh:'' @ h) \<in> A \<Longrightarrow> frames view A (consume_refresh_token x h n u)"
  "sess (''consumed:'' @ h) \<in> A \<Longrightarrow> frames view A (mark_refresh_consumed x h u)"
  "frames view A (get_consumed_refresh x h)"
  "sess (''revoked:user:'' @ u) \<in> A \<Longrightarrow> frames view A (revoke_user_sessions x u)"
  "frames view A (is_user_revoked x u t)"
  unfolding save_refresh_token_def get_refresh_token_def get_refresh_token_cas_def
    consume_refresh_token_def mark_refresh_consumed_def get_consumed_refresh_def
    revoke_user_sessions_def is_user_revoked_def Let_def
  by (auto intro!: frames_intro)

lemma delete_refresh_token_frames [frames_intro]:
  "sess (''refresh:'' @ h) \<in> A \<Longrightarrow> (\<And>u. sess (''refresh_idx:'' @ u @ '':'' @ h) \<in> A) \<Longrightarrow>
    frames view A (delete_refresh_token x h)"
  unfolding delete_refresh_token_def by (auto intro!: frames_intro)

lemma client_frames [frames_intro]:
  "frames view A (get_client x i)"
  "(''clients'', ''client:'' @ cl_client_id c) \<in> A \<Longrightarrow> frames view A (save_client x c)"
  "frames view A (list_clients x)"
  "(''clients'', ''client:'' @ i) \<in> A \<Longrightarrow> (''clients'', ''reg_token:'' @ i) \<in> A \<Longrightarrow>
    frames view A (delete_client x i)"
  "(''clients'', ''reg_token:'' @ i) \<in> A \<Longrightarrow> frames view A (save_registration_token x i h)"
  "frames view A (get_registration_token x i)"
  "(''clients'', ''reg_token:'' @ i) \<in> A \<Longrightarrow> frames view A (delete_registration_token x i)"
  unfolding get_client_def save_client_def list_clients_def delete_client_def
    save_registration_token_def get_registration_token_def delete_registration_token_def
  by (auto intro!: frames_intro)

lemma par_frames [frames_intro]:
  "sess (''par:'' @ u) \<in> A \<Longrightarrow> frames view A (save_pushed_auth_request x u p ttl)"
  "frames view A (get_pushed_auth_request x u)"
  "sess (''par:'' @ u) \<in> A \<Longrightarrow> frames view A (delete_pushed_auth_request x u)"
  "sess (''jti:'' @ j) \<in> A \<Longrightarrow> frames view A (check_and_record_jti x j ttl)"
  unfolding save_pushed_auth_request_def get_pushed_auth_request_def
    delete_pushed_auth_request_def check_and_record_jti_def Let_def
  by (auto intro!: frames_intro)

lemma device_frames [frames_intro]:
  "sess (''device:'' @ dc_device_code d) \<in> A \<Longrightarrow>
    sess (''device_user_code:'' @ to_uppercase (dc_user_code d)) \<in> A \<Longrightarrow>
    frames view A (save_device_code x d)"
  "frames view A (get_device_code x c)"
  "frames view A (get_device_code_cas x c)"
  "frames view A (get_device_code_by_user_code x uc)"
  "sess (''device:'' @ c) \<in> A \<Longrightarrow> frames view A (consume_device_code_cas x c n)"
  "sess (''device:'' @ c) \<in> A \<Longrightarrow> frames view A (delete_device_code x c)"
  "sess (''device:'' @ c) \<in> A \<Longrightarrow> frames view A (update_device_code_status x c st u sid)"
  unfolding save_device_code_def get_device_code_def get_device_code_cas_def
    get_device_code_by_user_code_def consume_device_code_cas_def delete_device_code_def
    update_device_code_status_def Let_def
  by (auto intro!: frames_intro)

end

section \<open>Single use\<close>

text \<open>
  A value read with its revision and then deleted or swapped at that revision: the record that
  was read is the one that was stored, and no later read decodes it again.
\<close>

context gateway
begin

lemma consume_by_cas_delete:
  assumes "try_io (kv_get_revision x d t k) (\<lambda>o1. case o1 of
        Some (v, n) \<Rightarrow> match_io (kv_cas_delete x t k n) (\<lambda>_. ret (Some v)) h
      | None \<Rightarrow> ret None) w = (Ok (Some v), w')"
    and "\<And>e w1 w2. h e w1 \<noteq> (Ok (Some v), w2)"
  shows "(\<exists>n. rec_at x view d (w_kv w) (t, k) = Some (v, n)) \<and> view (w_kv w') (t, k) = None"
proof -
  from assms(1) obtain o1 w1 where get: "kv_get_revision x d t k w = (Ok o1, w1)"
    and rest: "(case o1 of Some (v, n) \<Rightarrow> match_io (kv_cas_delete x t k n) (\<lambda>_. ret (Some v)) h
      | None \<Rightarrow> ret None) w1 = (Ok (Some v), w')"
    by (rule try_io_Ok)
  from rest obtain v0 n where o1: "o1 = Some (v0, n)"
    and run: "match_io (kv_cas_delete x t k n) (\<lambda>_. ret (Some v0)) h w1 = (Ok (Some v), w')"
    by (auto split: option.splits)
  from run have "v0 = v \<and> view (w_kv w') (t, k) = None"
  proof (cases rule: match_io_cases)
    case (ok y w2)
    then show ?thesis using kv_cas_delete_Ok [OF ok(1)] by simp
  next
    case (err e w2)
    with assms(2) show ?thesis by blast
  qed
  with kv_get_revision_Ok [OF get, symmetric] o1 show ?thesis by blast
qed

lemma consume_auth_session_Ok:
  "consume_auth_session x i w = (Ok (Some s), w') \<Longrightarrow>
    (\<exists>n. rec_at x view auth_session_of_json (w_kv w) (sess (''session:'' @ i)) = Some (s, n)) \<and>
    view (w_kv w') (sess (''session:'' @ i)) = None"
  unfolding consume_auth_session_def Let_def by (erule consume_by_cas_delete) simp

lemma consume_google_csrf_Ok:
  "consume_google_csrf x i w = (Ok (Some s), w') \<Longrightarrow>
    (\<exists>n. rec_at x view de_str (w_kv w) (sess (''gcsrf:'' @ i)) = Some (s, n)) \<and>
    view (w_kv w') (sess (''gcsrf:'' @ i)) = None"
  unfolding consume_google_csrf_def Let_def by (erule consume_by_cas_delete) simp

lemma consume_social_csrf_Ok:
  "consume_social_csrf x i w = (Ok (Some s), w') \<Longrightarrow>
    (\<exists>n. rec_at x view de_str (w_kv w) (sess (''social_csrf:'' @ i)) = Some (s, n)) \<and>
    view (w_kv w') (sess (''social_csrf:'' @ i)) = None"
  unfolding consume_social_csrf_def Let_def by (erule consume_by_cas_delete) simp

lemma consume_admin_pkce_verifier_Ok:
  "consume_admin_pkce_verifier x i w = (Ok (Some s), w') \<Longrightarrow>
    (\<exists>n. rec_at x view de_str (w_kv w) (sess (''adminpkce:'' @ i)) = Some (s, n)) \<and>
    view (w_kv w') (sess (''adminpkce:'' @ i)) = None"
  unfolding consume_admin_pkce_verifier_def Let_def by (erule consume_by_cas_delete) simp

lemma save_auth_code_Ok:
  "save_auth_code x c ac w = (Ok u, w') \<Longrightarrow>
    \<exists>n. rec_at x view auth_code_of_json (w_kv w') (sess (''code:'' @ c)) = Some (ac, n)"
  unfolding save_auth_code_def
  by (drule kv_set_ttl_Ok) (auto simp: rec_at_encoded auth_code_roundtrip)

lemma get_auth_code_cas_Ok:
  "get_auth_code_cas x c w = (Ok o1, w') \<Longrightarrow>
    o1 = rec_at x view auth_code_of_json (w_kv w) (sess (''code:'' @ c))"
  unfolding get_auth_code_cas_def by (rule kv_get_revision_Ok)

text \<open>The stored text of a consumed code.\<close>

definition code_marker_text :: string where
  "code_marker_text = x_b64_encode x (x_to_vec x code_marker)"

lemma consume_auth_code_Ok:
  assumes "consume_auth_code x c n w = (Ok u, w')"
  shows "((\<exists>b. view (w_kv w) (sess (''code:'' @ c)) = Some (b, n)) \<or>
      n = 0 \<and> view (w_kv w) (sess (''code:'' @ c)) = None) \<and>
    (\<exists>n'. n' \<noteq> n \<and> view (w_kv w') (sess (''code:'' @ c)) = Some (code_marker_text, n'))"
  using assms unfolding consume_auth_code_def code_marker_text_def
  by (auto elim!: try_io_Ok dest!: kv_cas_swap_ttl_Ok)

lemma rec_at_marker:
  "view s a = Some (code_marker_text, n) \<Longrightarrow> rec_at x view auth_code_of_json s a = None"
  by (simp add: code_marker_text_def rec_at_encoded auth_code_of_marker)

lemma get_auth_code_of_marker:
  assumes "view (w_kv w) (sess (''code:'' @ c)) = Some (code_marker_text, n)"
    and "get_auth_code_cas x c w = (Ok o1, w')"
  shows "o1 = None"
  using get_auth_code_cas_Ok [OF assms(2)] assms(1) by (simp add: rec_at_marker)

lemma save_refresh_token_Ok:
  assumes "save_refresh_token x h e w = (Ok u, w')"
  shows "\<exists>s n. rec_at x view refresh_entry_of_json s (sess (''refresh:'' @ h)) = Some (e, n) \<and>
    survives view s (w_kv w') (sess (''refresh:'' @ h))"
proof -
  from assms obtain u1 w1 where s1: "kv_set_ttl x sessions_store (''refresh:'' @ h)
      (refresh_entry_to_json e) ttl_refresh_token w = (Ok u1, w1)"
    and s2: "kv_set_raw_ttl x sessions_store (''refresh_idx:'' @ re_user_id e @ '':'' @ h)
      [chr_nat 1] ttl_refresh_token w1 = (Ok u, w')"
    unfolding save_refresh_token_def by (auto elim!: try_io_Ok)
  from kv_set_ttl_Ok [OF s1] have
    "\<exists>n. rec_at x view refresh_entry_of_json (w_kv w1) (sess (''refresh:'' @ h)) = Some (e, n)"
    by (auto simp: rec_at_encoded refresh_entry_roundtrip)
  moreover have "survives view (w_kv w1) (w_kv w') (sess (''refresh:'' @ h))"
    by (rule touchesD [OF kv_set_raw_ttl_touches [OF s2]]) (simp_all add: table_ok_def)
  ultimately show ?thesis by blast
qed

lemma get_refresh_token_cas_Some:
  "get_refresh_token_cas x h w = (Ok (Some (e, n)), w') \<Longrightarrow>
    rec_at x view refresh_entry_of_json (w_kv w) (sess (''refresh:'' @ h)) = Some (e, n)"
  unfolding get_refresh_token_cas_def
  by (auto elim!: match_io_cases dest!: kv_get_revision_Ok split: if_splits)

definition refresh_marker_text :: "string \<Rightarrow> string" where
  "refresh_marker_text u = x_b64_encode x (x_to_vec x (refresh_marker u))"

lemma consume_refresh_token_Ok:
  assumes "consume_refresh_token x h n u w = (Ok y, w')"
  shows "((\<exists>b. view (w_kv w) (sess (''refresh:'' @ h)) = Some (b, n)) \<or>
      n = 0 \<and> view (w_kv w) (sess (''refresh:'' @ h)) = None) \<and>
    (\<exists>n'. n' \<noteq> n \<and> view (w_kv w') (sess (''refresh:'' @ h)) = Some (refresh_marker_text u, n'))"
  using assms unfolding consume_refresh_token_def refresh_marker_text_def
  by (auto elim!: try_io_Ok dest!: kv_cas_swap_ttl_Ok)

lemma rec_at_refresh_marker:
  "view s a = Some (refresh_marker_text u, n) \<Longrightarrow> rec_at x view refresh_entry_of_json s a = None"
  by (simp add: refresh_marker_text_def rec_at_encoded refresh_entry_of_marker)

text \<open>A consumed token names its user to a replay, as long as either marker is there.\<close>

lemma get_consumed_refresh_marker:
  assumes "view (w_kv w) (sess (''refresh:'' @ h)) = Some (refresh_marker_text u, n)"
    and "view (w_kv w) (sess (''consumed:'' @ h)) = None"
    and "get_consumed_refresh x h w = (Ok o1, w')"
  shows "o1 = Some u \<or> o1 = None \<and> (\<exists>s. survives view (w_kv w) s (sess (''refresh:'' @ h)) \<and>
    view s (sess (''refresh:'' @ h)) = None)"
proof -
  from assms(3) obtain p1 w1 where g1: "kv_get_raw x sessions_store (''consumed:'' @ h) w = (Ok p1, w1)"
    and rest: "(case p1 of Some bytes \<Rightarrow> ret (Some (from_utf8_lossy bytes))
     | None \<Rightarrow> try_io (kv_get_raw x sessions_store (''refresh:'' @ h)) (\<lambda>o2. case o2 of
           Some bytes \<Rightarrow> (case x_from_slice x bytes of Inl _ \<Rightarrow> ret None
              | Inr marker \<Rightarrow> if Option.bind (jget marker ''consumed'') as_bool = Some True
                  then ret (jget_str marker ''user_id'') else ret None)
         | None \<Rightarrow> ret None)) w1 = (Ok o1, w')"
    unfolding get_consumed_refresh_def by (rule try_io_Ok)
  from kv_get_raw_Ok [OF g1] assms(2) have "p1 = None" by (simp add: bytes_at_None)
  with rest obtain p2 w2 where g2: "kv_get_raw x sessions_store (''refresh:'' @ h) w1 = (Ok p2, w2)"
    and last: "(case p2 of
           Some bytes \<Rightarrow> (case x_from_slice x bytes of Inl _ \<Rightarrow> ret None
              | Inr marker \<Rightarrow> if Option.bind (jget marker ''consumed'') as_bool = Some True
                  then ret (jget_str marker ''user_id'') else ret None)
         | None \<Rightarrow> ret None) w2 = (Ok o1, w')"
    by (simp only: option.case) (rule try_io_Ok)
  have surv: "survives view (w_kv w) (w_kv w1) (sess (''refresh:'' @ h))"
    by (rule touchesD [OF kv_get_raw_touches [OF g1]]) (simp_all add: table_ok_def)
  then consider (same) "view (w_kv w1) (sess (''refresh:'' @ h)) = Some (refresh_marker_text u, n)"
    | (gone) "view (w_kv w1) (sess (''refresh:'' @ h)) = None"
    using assms(1) by (auto simp: survives_def)
  then show ?thesis
  proof cases
    case same
    then have "p2 = Some (x_to_vec x (refresh_marker u))"
      using kv_get_raw_Ok [OF g2] by (simp add: refresh_marker_text_def bytes_at_encoded)
    with last show ?thesis by (simp add: from_slice_to_vec refresh_marker_def jget_str_def)
  next
    case gone
    then have "p2 = None" using kv_get_raw_Ok [OF g2] by (simp add: bytes_at_None)
    with last surv gone show ?thesis by auto
  qed
qed

lemma revoke_user_sessions_Ok:
  "revoke_user_sessions x u w = (Ok y, w') \<Longrightarrow>
    \<exists>n. bytes_at x view (w_kv w') (sess (''revoked:user:'' @ u)) = Some (to_be_bytes (w_clock w (w_ticks w)), n)"
  unfolding revoke_user_sessions_def Let_def
  by (auto elim!: try_io_Ok simp: unix_now_Ok dest!: kv_set_raw_ttl_Ok intro: bytes_at_encoded)

lemma is_user_revoked_Ok:
  assumes "is_user_revoked x u iat w = (Ok b, w')"
  shows "b = (case bytes_at x view (w_kv w) (sess (''revoked:user:'' @ u)) of
      None \<Rightarrow> False | Some (bs, n) \<Rightarrow> length bs = 8 \<longrightarrow> iat < from_be_bytes bs)"
proof -
  from assms obtain o1 w1 where g: "kv_get_raw x sessions_store (''revoked:user:'' @ u) w = (Ok o1, w1)"
    and r: "(case o1 of Some bytes \<Rightarrow> if length bytes = 8 then ret (iat < from_be_bytes bytes) else ret True
      | None \<Rightarrow> ret False) w1 = (Ok b, w')"
    unfolding is_user_revoked_def Let_def by (auto elim!: try_io_Ok)
  from kv_get_raw_Ok [OF g] r show ?thesis
    by (auto split: option.splits if_splits)
qed

lemma get_client_Ok:
  assumes "get_client x i w = (Ok o1, w')"
  shows "o1 = map_option fst (rec_at x view oidc_client_of_json (w_kv w) (''clients'', ''client:'' @ i))"
  using assms unfolding get_client_def
  by (auto elim!: try_io_Ok simp: get_config_Ok dest: kv_get_Ok)

lemma check_and_record_jti_Ok:
  assumes "check_and_record_jti x j ttl w = (Ok u, w')"
  shows "view (w_kv w) (sess (''jti:'' @ j)) = None \<and> view (w_kv w') (sess (''jti:'' @ j)) \<noteq> None"
proof -
  from assms have
    m: "match_io (kv_create_raw x sessions_store (''jti:'' @ j)
        (x_to_vec x (JObj [(''used_at'', jnum (w_clock w (w_ticks w)))])) (Some ttl)) ret
        (\<lambda>e. if contains_str ''already exists'' e then fail ''replay detected'' else fail e)
        (w\<lparr>w_ticks := Suc (w_ticks w)\<rparr>) = (Ok u, w')"
    unfolding check_and_record_jti_def Let_def by simp
  from m show ?thesis
  proof (cases rule: match_io_cases)
    case (ok y w2)
    with kv_create_raw_Ok [OF ok(1)] show ?thesis by auto
  next
    case (err e w2)
    then show ?thesis by (auto split: if_splits)
  qed
qed

lemma consume_device_code_cas_Ok:
  "consume_device_code_cas x c n w = (Ok u, w') \<Longrightarrow>
    (\<exists>b. view (w_kv w) (sess (''device:'' @ c)) = Some (b, n)) \<and> view (w_kv w') (sess (''device:'' @ c)) = None"
  unfolding consume_device_code_cas_def by (rule kv_cas_delete_Ok)

lemma get_device_code_cas_Ok:
  "get_device_code_cas x c w = (Ok o1, w') \<Longrightarrow>
    o1 = rec_at x view device_code_of_json (w_kv w) (sess (''device:'' @ c))"
  unfolding get_device_code_cas_def by (rule kv_get_revision_Ok)

end

end
