(* ===== verification/Test_Server.thy ===== *)
theory Test_Server
  imports Kv_Contract
begin

text \<open>
  The in-memory storage server of \<open>store.rs\<close> (\<open>handle_test_ldb_request\<close>), request by request,
  and the proof that it keeps the contract \<open>jetcache\<close>. A concrete text codec stands in for
  serde_json (a tagged, length-prefixed format with a decoder) so that the contract \<open>gateway\<close> has
  an instance on which the properties of the development can be evaluated.
\<close>

section \<open>The in-memory server\<close>

type_synonym kv_map = "(string \<times> (string \<times> u64)) list"

definition str_or_empty :: "json \<Rightarrow> string \<Rightarrow> string" where
  "str_or_empty p k = (case jget_str p k of Some s \<Rightarrow> s | None \<Rightarrow> [])"

definition full_key :: "string \<Rightarrow> string \<Rightarrow> string" where
  "full_key table key = table @ '':'' @ key"

definition test_get :: "string \<Rightarrow> kv_map \<Rightarrow> (string + json) \<times> kv_map" where
  "test_get fk m = (case map_of m fk of
       Some (val_b64, r) \<Rightarrow> (Inr (JObj [(''value'', JStr val_b64), (''revision'', jnum r)]), m)
     | None \<Rightarrow> (Inl ''not found'', m))"

definition test_put :: "string \<Rightarrow> json \<Rightarrow> kv_map \<Rightarrow> (string + json) \<times> kv_map" where
  "test_put fk payload m = (case jget_str payload ''value'' of
       None \<Rightarrow> (Inl ''missing value'', m)
     | Some val_b64 \<Rightarrow>
         (let r = (case map_of m fk of Some (_, r) \<Rightarrow> r + 1 | None \<Rightarrow> 1)
          in (Inr (JObj [(''ok'', JBool True), (''revision'', jnum r)]), AList.update fk (val_b64, r) m)))"

definition test_create :: "string \<Rightarrow> json \<Rightarrow> kv_map \<Rightarrow> (string + json) \<times> kv_map" where
  "test_create fk payload m =
     (if map_of m fk \<noteq> None then (Inl ''already exists'', m)
      else (case jget_str payload ''value'' of
        None \<Rightarrow> (Inl ''missing value'', m)
      | Some val_b64 \<Rightarrow>
          (Inr (JObj [(''ok'', JBool True), (''revision'', jnum 1)]), AList.update fk (val_b64, 1) m)))"

definition test_cas :: "string \<Rightarrow> json \<Rightarrow> kv_map \<Rightarrow> (string + json) \<times> kv_map" where
  "test_cas fk payload m =
     (let expected_rev = (case jget_u64 payload ''revision'' of Some r \<Rightarrow> r | None \<Rightarrow> 0)
      in case jget_str payload ''value'' of
        None \<Rightarrow> (Inl ''missing value'', m)
      | Some val_b64 \<Rightarrow>
          (let mismatch = (case map_of m fk of
                 Some (_, current_rev) \<Rightarrow> current_rev \<noteq> expected_rev
               | None \<Rightarrow> expected_rev \<noteq> 0)
           in if mismatch then (Inl ''revision mismatch'', m)
              else (let new_rev = expected_rev + 1 in
                (Inr (JObj [(''ok'', JBool True), (''revision'', jnum new_rev)]),
                 AList.update fk (val_b64, new_rev) m))))"

definition test_delete :: "string \<Rightarrow> kv_map \<Rightarrow> (string + json) \<times> kv_map" where
  "test_delete fk m = (Inr (JObj [(''ok'', JBool True)]), AList.delete fk m)"

definition test_cas_delete :: "string \<Rightarrow> json \<Rightarrow> kv_map \<Rightarrow> (string + json) \<times> kv_map" where
  "test_cas_delete fk payload m =
     (let expected_rev = (case jget_u64 payload ''revision'' of Some r \<Rightarrow> r | None \<Rightarrow> 0)
      in case map_of m fk of
        Some (_, current_rev) \<Rightarrow>
          if current_rev = expected_rev then (Inr (JObj [(''ok'', JBool True)]), AList.delete fk m)
          else (Inl ''revision mismatch'', m)
      | None \<Rightarrow> (Inl ''not found'', m))"

definition test_exists :: "string \<Rightarrow> kv_map \<Rightarrow> (string + json) \<times> kv_map" where
  "test_exists fk m = (Inr (JObj [(''exists'', JBool (map_of m fk \<noteq> None))]), m)"

definition test_keys :: "string \<Rightarrow> kv_map \<Rightarrow> (string + json) \<times> kv_map" where
  "test_keys table m =
     (let pre = table @ '':'' in
      (Inr (JObj [(''keys'', JArr (map JStr (List.map_filter (strip_prefix pre) (map fst (AList.clearjunk m))))),
                  (''next_cursor'', JStr [])]), m))"

definition test_rows :: "string \<Rightarrow> string \<Rightarrow> kv_map \<Rightarrow> (string \<times> string \<times> u64) list" where
  "test_rows table user_prefix m =
     map (\<lambda>(k, (val_b64, r)). ((case strip_prefix (table @ '':'') k of Some s \<Rightarrow> s | None \<Rightarrow> k), val_b64, r))
       (List.filter (\<lambda>(k, _). starts_with (table @ '':'' @ user_prefix) k) (AList.clearjunk m))"

definition test_prefix :: "string \<Rightarrow> json \<Rightarrow> kv_map \<Rightarrow> (string + json) \<times> kv_map" where
  "test_prefix table payload m =
     (Inr (JObj [(''rows'', JArr (map (\<lambda>(k, val_b64, r).
         JObj [(''key'', JStr k), (''value'', JStr val_b64), (''revision'', jnum r)])
       (sort_key fst (test_rows table (str_or_empty payload ''prefix'') m))))]), m)"

definition handle_test_ldb_request :: "string \<Rightarrow> json \<Rightarrow> kv_map \<Rightarrow> (string + json) \<times> kv_map" where
  "handle_test_ldb_request op payload m =
    (let table = str_or_empty payload ''table'';
         key = str_or_empty payload ''key'';
         fk = full_key table key
     in if op = ''get'' then test_get fk m
        else if op = ''put'' then test_put fk payload m
        else if op = ''create'' then test_create fk payload m
        else if op = ''cas'' then test_cas fk payload m
        else if op = ''delete'' then test_delete fk m
        else if op = ''cas_delete'' then test_cas_delete fk payload m
        else if op = ''exists'' then test_exists fk m
        else if op = ''keys'' then test_keys table m
        else if op = ''prefix'' then test_prefix table payload m
        else (Inl (''unsupported test op '' @ op), m))"

definition mem_view :: "kv_map view" where
  "mem_view m a = map_of m (full_key (fst a) (snd a))"

lemma full_key_inject:
  assumes "CHR '':'' \<notin> set t" and "CHR '':'' \<notin> set t'"
  shows "full_key t k = full_key t' k' \<longleftrightarrow> t = t' \<and> k = k'"
proof
  assume eq: "full_key t k = full_key t' k'"
  have "split_once (CHR '':'') (full_key t k) = Some (t, k)"
    using assms unfolding split_once_Some by (simp add: full_key_def)
  moreover have "split_once (CHR '':'') (full_key t' k') = Some (t', k')"
    using assms unfolding split_once_Some by (simp add: full_key_def)
  ultimately have "Some (t, k) = Some (t', k')" using eq by metis
  then show "t = t' \<and> k = k'" by blast
next
  assume "t = t' \<and> k = k'"
  then show "full_key t k = full_key t' k'" by (elim conjE) (erule ssubst, erule ssubst, rule refl)
qed

lemma full_key_addr:
  "full_key (str_or_empty p ''table'') (str_or_empty p ''key'') = full_key (fst (addr_of p)) (snd (addr_of p))"
  by (simp add: addr_of_def str_or_empty_def)

lemma mem_view_update:
  "mem_view (AList.update (full_key (fst a) (snd a)) v m) b =
     (if full_key (fst b) (snd b) = full_key (fst a) (snd a) then Some v else mem_view m b)"
  by (simp add: mem_view_def update_conv)

lemma mem_view_delete:
  "mem_view (AList.delete (full_key (fst a) (snd a)) m) b =
     (if full_key (fst b) (snd b) = full_key (fst a) (snd a) then None else mem_view m b)"
  by (simp add: mem_view_def delete_conv)

lemmas test_ops = test_get_def test_put_def test_create_def test_cas_def test_delete_def
  test_cas_delete_def test_exists_def test_keys_def test_prefix_def

text \<open>What each request does to the view.\<close>

definition here_only :: "string \<Rightarrow> kv_map \<Rightarrow> kv_map \<Rightarrow> bool" where
  "here_only fk m m' \<longleftrightarrow> m' = m \<or> (\<exists>v. m' = AList.update fk v m) \<or> m' = AList.delete fk m"

lemma test_ops_here_only:
  "test_get fk m = (r, m') \<Longrightarrow> here_only fk m m'"
  "test_put fk p m = (r, m') \<Longrightarrow> here_only fk m m'"
  "test_create fk p m = (r, m') \<Longrightarrow> here_only fk m m'"
  "test_cas fk p m = (r, m') \<Longrightarrow> here_only fk m m'"
  "test_delete fk m = (r, m') \<Longrightarrow> here_only fk m m'"
  "test_cas_delete fk p m = (r, m') \<Longrightarrow> here_only fk m m'"
  "test_exists fk m = (r, m') \<Longrightarrow> here_only fk m m'"
  "test_keys t m = (r, m') \<Longrightarrow> here_only fk m m'"
  "test_prefix t p m = (r, m') \<Longrightarrow> here_only fk m m'"
  "(Inl e, m) = (r, m') \<Longrightarrow> here_only fk m m'"
  by (auto simp: here_only_def test_ops Let_def split: option.splits if_splits)

lemma if_elim: "(if c then a else b) = y \<Longrightarrow> (a = y \<Longrightarrow> P) \<Longrightarrow> (b = y \<Longrightarrow> P) \<Longrightarrow> P"
  by (cases c) simp_all

lemma test_server_same_or_here:
  assumes "handle_test_ldb_request op p m = (r, m')"
  shows "here_only (full_key (fst (addr_of p)) (snd (addr_of p))) m m'"
  using assms unfolding handle_test_ldb_request_def Let_def full_key_addr
  by (elim if_elim) (erule test_ops_here_only)+

lemma test_server_frame:
  assumes "handle_test_ldb_request op p m = (r, m')" and "table_ok a" and "table_ok (addr_of p)"
    and "a \<noteq> addr_of p"
  shows "mem_view m' a = mem_view m a"
proof -
  have "full_key (fst a) (snd a) \<noteq> full_key (fst (addr_of p)) (snd (addr_of p))"
    using assms by (auto simp: full_key_inject table_ok_def prod_eq_iff)
  then show ?thesis
    using test_server_same_or_here [OF assms(1)]
    by (auto simp: here_only_def mem_view_update mem_view_delete)
qed

lemma test_server_ops:
  "handle_test_ldb_request ''get'' p m = test_get (full_key (fst (addr_of p)) (snd (addr_of p))) m"
  "handle_test_ldb_request ''put'' p m = test_put (full_key (fst (addr_of p)) (snd (addr_of p))) p m"
  "handle_test_ldb_request ''create'' p m = test_create (full_key (fst (addr_of p)) (snd (addr_of p))) p m"
  "handle_test_ldb_request ''cas'' p m = test_cas (full_key (fst (addr_of p)) (snd (addr_of p))) p m"
  "handle_test_ldb_request ''delete'' p m = test_delete (full_key (fst (addr_of p)) (snd (addr_of p))) m"
  "handle_test_ldb_request ''cas_delete'' p m =
     test_cas_delete (full_key (fst (addr_of p)) (snd (addr_of p))) p m"
  "handle_test_ldb_request ''exists'' p m = test_exists (full_key (fst (addr_of p)) (snd (addr_of p))) m"
  "handle_test_ldb_request ''keys'' p m = test_keys (str_or_empty p ''table'') m"
  "handle_test_ldb_request ''prefix'' p m = test_prefix (str_or_empty p ''table'') p m"
  by (simp_all add: handle_test_ldb_request_def Let_def full_key_addr)

lemma test_row_iff:
  "(k, b, n) \<in> set (test_rows t pre m) \<longleftrightarrow> prefix pre k \<and> mem_view m (t, k) = Some (b, n)"
proof
  assume "(k, b, n) \<in> set (test_rows t pre m)"
  then obtain k0 where k0: "(k0, b, n) \<in> set (AList.clearjunk m)" "prefix (t @ '':'' @ pre) k0"
      "k = (case strip_prefix (t @ '':'') k0 of Some s \<Rightarrow> s | None \<Rightarrow> k0)"
    by (auto simp: test_rows_def)
  from k0(2) obtain z where z: "k0 = (t @ '':'') @ pre @ z" by (auto simp: prefix_def)
  then have k: "k = pre @ z" using k0(3) by (simp only: strip_prefix_append option.case)
  have "map_of m k0 = Some (b, n)"
    using k0(1) by (metis distinct_clearjunk map_of_clearjunk map_of_is_SomeI)
  then show "prefix pre k \<and> mem_view m (t, k) = Some (b, n)"
    using z k by (simp add: mem_view_def full_key_def)
next
  assume *: "prefix pre k \<and> mem_view m (t, k) = Some (b, n)"
  then have "map_of (AList.clearjunk m) (t @ '':'' @ k) = Some (b, n)"
    by (simp add: mem_view_def full_key_def map_of_clearjunk)
  then have "(t @ '':'' @ k, b, n) \<in> set (AList.clearjunk m)" by (rule map_of_SomeD)
  moreover have "prefix (t @ '':'' @ pre) (t @ '':'' @ k)" using * by simp
  moreover have "strip_prefix (t @ '':'') (t @ '':'' @ k) = Some k"
    using strip_prefix_append [of "t @ '':''" k] by simp
  ultimately show "(k, b, n) \<in> set (test_rows t pre m)"
    unfolding test_rows_def
    by (intro image_eqI [where x = "(t @ '':'' @ k, b, n)"] | simp)+
qed

section \<open>A text codec\<close>

definition enc_str :: "string \<Rightarrow> string" where
  "enc_str s = show_nat (length s) @ '':'' @ s"

text \<open>A number is written in binary, least significant bit first.\<close>

function enc_bits :: "int \<Rightarrow> string" where
  "enc_bits n = (if n \<le> 0 then [] else (if n mod 2 = 1 then CHR ''1'' else CHR ''0'') # enc_bits (n div 2))"
  by pat_completeness auto
termination by (relation "measure nat") auto

declare enc_bits.simps [simp del]

definition bits_val :: "string \<Rightarrow> int" where
  "bits_val s = foldr (\<lambda>c n. 2 * n + (if c = CHR ''1'' then 1 else 0)) s 0"

definition dec_bits :: "string \<Rightarrow> (int \<times> string) option" where
  "dec_bits s = map_option (\<lambda>(b, r). (bits_val b, r)) (split_once (CHR '':'') s)"

lemma enc_bits_ok: "0 \<le> n \<Longrightarrow> bits_val (enc_bits n) = n \<and> CHR '':'' \<notin> set (enc_bits n)"
proof (induction n rule: enc_bits.induct)
  case (1 n)
  show ?case
  proof (cases "n \<le> 0")
    case True
    with 1 show ?thesis by (subst (1 2) enc_bits.simps) (simp add: bits_val_def)
  next
    case False
    with 1 have "bits_val (enc_bits (n div 2)) = n div 2 \<and> CHR '':'' \<notin> set (enc_bits (n div 2))" by simp
    moreover have "n mod 2 = 1 \<Longrightarrow> 2 * (n div 2) + 1 = n" "n mod 2 \<noteq> 1 \<Longrightarrow> 2 * (n div 2) = n" by presburger+
    ultimately show ?thesis using False by (subst (1 2) enc_bits.simps) (auto simp: bits_val_def)
  qed
qed

lemma dec_bits_enc [simp]: "0 \<le> n \<Longrightarrow> dec_bits (enc_bits n @ CHR '':'' # r) = Some (n, r)"
  using enc_bits_ok [of n] split_once_Some [of "CHR '':''" "enc_bits n @ CHR '':'' # r" "enc_bits n" r]
  by (simp add: dec_bits_def)

fun enc_json :: "json \<Rightarrow> string" where
  "enc_json JNull = ''n''"
| "enc_json (JBool b) = (if b then ''t'' else ''f'')"
| "enc_json (JNum i) = (if 0 \<le> i then ''i'' @ enc_bits i @ '':'' else ''j'' @ enc_bits (- i) @ '':'')"
| "enc_json (JFloat s) = ''r'' @ enc_str s"
| "enc_json (JStr s) = ''s'' @ enc_str s"
| "enc_json (JArr xs) = ''l'' @ show_nat (length xs) @ '':'' @ concat (map enc_json xs)"
| "enc_json (JObj kvs) = ''d'' @ show_nat (length kvs) @ '':'' @
     concat (map (\<lambda>(k, v). enc_str k @ enc_json v) kvs)"

definition dec_num :: "string \<Rightarrow> (nat \<times> string) option" where
  "dec_num s = (case dropWhile is_digit s of
       [] \<Rightarrow> None
     | c # r \<Rightarrow> if c = CHR '':'' then Some (digits_val (takeWhile is_digit s), r) else None)"

definition dec_str :: "string \<Rightarrow> (string \<times> string) option" where
  "dec_str s = (case dec_num s of None \<Rightarrow> None | Some (n, r) \<Rightarrow> Some (take n r, drop n r))"

primrec dec_arr :: "(string \<Rightarrow> (json \<times> string) option) \<Rightarrow> nat \<Rightarrow> string \<Rightarrow> (json list \<times> string) option" where
  "dec_arr d 0 s = Some ([], s)"
| "dec_arr d (Suc n) s = (case d s of None \<Rightarrow> None
     | Some (v, r) \<Rightarrow> map_option (\<lambda>(vs, r). (v # vs, r)) (dec_arr d n r))"

primrec dec_obj :: "(string \<Rightarrow> (json \<times> string) option) \<Rightarrow> nat \<Rightarrow> string \<Rightarrow>
    ((string \<times> json) list \<times> string) option" where
  "dec_obj d 0 s = Some ([], s)"
| "dec_obj d (Suc n) s = (case dec_str s of None \<Rightarrow> None
     | Some (k, r) \<Rightarrow> (case d r of None \<Rightarrow> None
       | Some (v, r) \<Rightarrow> map_option (\<lambda>(vs, r). ((k, v) # vs, r)) (dec_obj d n r)))"

definition dec_step :: "(string \<Rightarrow> (json \<times> string) option) \<Rightarrow> string \<Rightarrow> (json \<times> string) option" where
  "dec_step d t = (case t of [] \<Rightarrow> None | c # s \<Rightarrow>
     (if c = CHR ''n'' then Some (JNull, s)
      else if c = CHR ''t'' then Some (JBool True, s)
      else if c = CHR ''f'' then Some (JBool False, s)
      else if c = CHR ''i'' then map_option (\<lambda>(n, r). (JNum n, r)) (dec_bits s)
      else if c = CHR ''j'' then map_option (\<lambda>(n, r). (JNum (- n), r)) (dec_bits s)
      else if c = CHR ''r'' then map_option (\<lambda>(v, r). (JFloat v, r)) (dec_str s)
      else if c = CHR ''s'' then map_option (\<lambda>(v, r). (JStr v, r)) (dec_str s)
      else if c = CHR ''l'' then (case dec_num s of None \<Rightarrow> None
        | Some (n, r) \<Rightarrow> map_option (\<lambda>(v, r). (JArr v, r)) (dec_arr d n r))
      else if c = CHR ''d'' then (case dec_num s of None \<Rightarrow> None
        | Some (n, r) \<Rightarrow> map_option (\<lambda>(v, r). (JObj v, r)) (dec_obj d n r))
      else None))"

primrec dec_json :: "nat \<Rightarrow> string \<Rightarrow> (json \<times> string) option" where
  "dec_json 0 s = None"
| "dec_json (Suc f) s = dec_step (dec_json f) s"

lemma takeWhile_show: "takeWhile is_digit (show_nat n @ CHR '':'' # r) = show_nat n"
  and dropWhile_show: "dropWhile is_digit (show_nat n @ CHR '':'' # r) = CHR '':'' # r"
proof -
  have all: "\<forall>c \<in> set (show_nat n). is_digit c"
    using show_nat_digits [of n] by (simp add: list_all_iff)
  have colon: "\<not> is_digit (CHR '':'')" by (simp add: is_digit_def chr_code_def)
  show "takeWhile is_digit (show_nat n @ CHR '':'' # r) = show_nat n"
    using all colon by (simp add: takeWhile_append2)
  show "dropWhile is_digit (show_nat n @ CHR '':'' # r) = CHR '':'' # r"
    using all colon by (simp add: dropWhile_append2)
qed

lemma dec_num_show [simp]: "dec_num (show_nat n @ CHR '':'' # r) = Some (n, r)"
  by (simp add: dec_num_def takeWhile_show dropWhile_show)

lemma dec_str_enc [simp]: "dec_str (enc_str s @ r) = Some (s, r)"
  by (simp add: dec_str_def enc_str_def)

lemma dec_arr_enc:
  assumes "\<And>v r. v \<in> set xs \<Longrightarrow> d (enc_json v @ r) = Some (v, r)"
  shows "dec_arr d (length xs) (concat (map enc_json xs) @ r) = Some (xs, r)"
  using assms by (induction xs) auto

lemma dec_obj_enc:
  assumes "\<And>k v r. (k, v) \<in> set kvs \<Longrightarrow> d (enc_json v @ r) = Some (v, r)"
  shows "dec_obj d (length kvs) (concat (map (\<lambda>(k, v). enc_str k @ enc_json v) kvs) @ r) = Some (kvs, r)"
  using assms
proof (induction kvs)
  case Nil
  then show ?case by simp
next
  case (Cons p kvs)
  obtain k v where p: "p = (k, v)" by (cases p)
  then have v: "d (enc_json v @ q) = Some (v, q)" for q
    by (intro Cons.prems [of k]) simp
  have IH: "dec_obj d (length kvs)
      (concat (map (\<lambda>(k, v). enc_str k @ enc_json v) kvs) @ r) = Some (kvs, r)"
    using Cons.prems by (intro Cons.IH) (meson list.set_intros(2))
  then show ?case by (simp add: p v)
qed

lemma dec_arr_step:
  "dec_arr d (length xs) (concat (map enc_json xs) @ r) = Some (xs, r) \<Longrightarrow>
     dec_step d (enc_json (JArr xs) @ r) = Some (JArr xs, r)"
  by (simp add: dec_step_def)

lemma dec_obj_step:
  "dec_obj d (length kvs) (concat (map (\<lambda>(k, v). enc_str k @ enc_json v) kvs) @ r) = Some (kvs, r) \<Longrightarrow>
     dec_step d (enc_json (JObj kvs) @ r) = Some (JObj kvs, r)"
  by (simp add: dec_step_def)

lemma dec_step_simple:
  "dec_step d (enc_json JNull @ r) = Some (JNull, r)"
  "dec_step d (enc_json (JBool b) @ r) = Some (JBool b, r)"
  "dec_step d (enc_json (JNum i) @ r) = Some (JNum i, r)"
  "dec_step d (enc_json (JFloat s) @ r) = Some (JFloat s, r)"
  "dec_step d (enc_json (JStr s) @ r) = Some (JStr s, r)"
  by (simp_all add: dec_step_def)

lemma enc_json_pos: "0 < length (enc_json j)"
  by (cases j) simp_all

lemma dec_enc: "length (enc_json j) \<le> f \<Longrightarrow> dec_json f (enc_json j @ r) = Some (j, r)"
proof (induction f arbitrary: j r)
  case 0
  with enc_json_pos [of j] show ?case by simp
next
  case (Suc f)
  show ?case
  proof (cases j)
    case (JArr xs)
    have "dec_json f (enc_json v @ q) = Some (v, q)" if "v \<in> set xs" for v q
    proof (rule Suc.IH)
      have "length (enc_json v) \<le> length (concat (map enc_json xs))"
        using that by (induction xs) auto
      with Suc.prems JArr show "length (enc_json v) \<le> f" by simp
    qed
    then show ?thesis
      unfolding JArr dec_json.simps by (intro dec_arr_step dec_arr_enc)
  next
    case (JObj kvs)
    have "dec_json f (enc_json v @ q) = Some (v, q)" if "(k, v) \<in> set kvs" for k v q
    proof (rule Suc.IH)
      have "length (enc_json v) \<le> length (concat (map (\<lambda>(k, v). enc_str k @ enc_json v) kvs))"
        using that by (induction kvs) auto
      with Suc.prems JObj show "length (enc_json v) \<le> f" by simp
    qed
    then show ?thesis
      unfolding JObj dec_json.simps by (intro dec_obj_step dec_obj_enc)
  qed (simp_all only: dec_json.simps dec_step_simple)
qed

definition dec_text :: "string \<Rightarrow> string + json" where
  "dec_text s = (case dec_json (length s) s of
       Some (j, []) \<Rightarrow> Inr j | _ \<Rightarrow> Inl ''expected value'')"

lemma dec_text_enc [simp]: "dec_text (enc_json j) = Inr j"
  using dec_enc [of j "length (enc_json j)" "[]"] by (simp add: dec_text_def)

section \<open>The server keeps the contract\<close>

text \<open>
  An environment around the in-memory server: the text codec above, base64 as the identity, a
  digest that pads or cuts to the right length, and signatures that are the key and a digest.
\<close>

definition demo_digest :: "nat \<Rightarrow> bytes \<Rightarrow> bytes" where
  "demo_digest n b = take n (b @ replicate n (CHR 0x00))"

text \<open>Base64url is played by an encoding that has no dots either.\<close>

fun undot :: "string \<Rightarrow> string" where
  "undot [] = []"
| "undot (c # cs) = (if c = CHR ''.'' then CHR ''~'' # CHR ''d'' # undot cs
     else if c = CHR ''~'' then CHR ''~'' # CHR ''t'' # undot cs else c # undot cs)"

fun redot :: "string \<Rightarrow> string + bytes" where
  "redot [] = Inr []"
| "redot [c] = (if c = CHR ''~'' then Inl ''invalid length'' else Inr [c])"
| "redot (c # d # s) =
     (if c = CHR ''~'' then map_sum id (\<lambda>r. (if d = CHR ''d'' then CHR ''.'' else CHR ''~'') # r) (redot s)
      else map_sum id (\<lambda>r. c # r) (redot (d # s)))"

lemma redot_other: "c \<noteq> CHR ''~'' \<Longrightarrow> redot (c # s) = map_sum id (\<lambda>r. c # r) (redot s)"
  by (cases s) simp_all

lemma redot_undot [simp]: "redot (undot bs) = Inr bs"
proof (induction bs)
  case (Cons b bs)
  then show ?case by (cases "b = CHR ''~''") (simp_all add: redot_other)
qed simp

lemma undot_no_dot: "CHR ''.'' \<notin> set (undot bs)"
  by (induction bs) auto

definition mem_sha256 :: "bytes \<Rightarrow> bytes" where "mem_sha256 b = demo_digest 32 b"
definition mem_hmac256 :: "bytes \<Rightarrow> bytes \<Rightarrow> bytes" where "mem_hmac256 k b = demo_digest 32 (k @ b)"
definition mem_hmac1 :: "bytes \<Rightarrow> bytes \<Rightarrow> bytes" where "mem_hmac1 k b = demo_digest 20 (k @ b)"

definition mem_verify_rsa :: "bytes \<Rightarrow> bytes \<Rightarrow> bytes \<Rightarrow> bytes \<Rightarrow> string + unit" where
  "mem_verify_rsa n e m sig = (if sig = n @ demo_digest 8 m then Inr () else Inl ''signature error'')"

definition mem_verify_ec :: "bytes \<Rightarrow> bytes \<Rightarrow> bytes \<Rightarrow> string + unit" where
  "mem_verify_ec pt m sig = (if sig = pt @ demo_digest 8 m then Inr () else Inl ''signature error'')"

definition mem_rsa_generate :: "nat \<Rightarrow> string + rsa_key" where
  "mem_rsa_generate n = Inr \<lparr>rk_n = ''n'' @ show_nat n, rk_e = ''e'', rk_d = ''d'', rk_primes = []\<rparr>"

definition mem_rsa_parse :: "rsa_key \<Rightarrow> string + unit" where "mem_rsa_parse k = Inr ()"
definition mem_rs256_sign :: "rsa_key \<Rightarrow> bytes \<Rightarrow> bytes" where "mem_rs256_sign k m = rk_n k @ demo_digest 8 m"
definition mem_ec_generate :: "nat \<Rightarrow> bytes" where "mem_ec_generate n = ''s'' @ show_nat n"
definition mem_ec_parse :: "bytes \<Rightarrow> string + unit" where "mem_ec_parse d = Inr ()"
definition mem_ec_point :: "bytes \<Rightarrow> bytes \<times> bytes" where "mem_ec_point d = (d, d)"
definition mem_es256_sign :: "bytes \<Rightarrow> bytes \<Rightarrow> bytes" where "mem_es256_sign d m = CHR 0x04 # d @ d @ demo_digest 8 m"

definition mem_pw_hash :: "nat \<Rightarrow> string \<Rightarrow> string + string" where "mem_pw_hash n p = Inr (CHR ''$'' # p)"
definition mem_pw_verify :: "string \<Rightarrow> string \<Rightarrow> string + bool" where
  "mem_pw_verify p h = Inr (h = CHR ''$'' # p)"

definition mem_uri :: "string \<Rightarrow> string + unit" where "mem_uri u = Inr ()"
definition mem_http :: "nat \<Rightarrow> http_request \<Rightarrow> string + (nat \<times> bytes)" where "mem_http n q = Inr (200, [])"

definition mem_ext :: "kv_map ext" where
  "mem_ext = \<lparr>x_tcp = handle_test_ldb_request, x_to_vec = enc_json, x_from_slice = dec_text,
     x_b64_encode = id, x_b64_decode = Inr, x_b64url_encode = undot, x_b64url_decode = redot,
     x_sha256 = mem_sha256, x_hmac_sha256 = mem_hmac256, x_hmac_sha1 = mem_hmac1,
     x_verify_rs256 = mem_verify_rsa, x_verify_es256 = mem_verify_ec,
     x_rsa_generate = mem_rsa_generate, x_rsa_parse = mem_rsa_parse, x_rs256_sign = mem_rs256_sign,
     x_ec_generate = mem_ec_generate, x_ec_parse = mem_ec_parse, x_ec_point = mem_ec_point,
     x_es256_sign = mem_es256_sign, x_pw_hash = mem_pw_hash, x_pw_verify = mem_pw_verify,
     x_uri = mem_uri, x_http = mem_http, x_pages = 1, x_draws = id\<rparr>"

lemmas mem_ops = mem_sha256_def mem_hmac256_def mem_hmac1_def mem_verify_rsa_def mem_verify_ec_def
  mem_rsa_generate_def mem_rsa_parse_def mem_rs256_sign_def mem_ec_generate_def mem_ec_parse_def
  mem_ec_point_def mem_es256_sign_def mem_pw_hash_def mem_pw_verify_def mem_uri_def mem_http_def

lemma mem_ext_simps [simp]:
  "x_tcp mem_ext = handle_test_ldb_request" "x_to_vec mem_ext = enc_json"
  "x_from_slice mem_ext = dec_text" "x_b64_encode mem_ext = id" "x_b64_decode mem_ext = Inr"
  "x_b64url_encode mem_ext = undot" "x_b64url_decode mem_ext = redot"
  "x_sha256 mem_ext = mem_sha256" "x_pages mem_ext = 1" "x_draws mem_ext = id"
  by (simp_all add: mem_ext_def)

lemma test_reply_no_error:
  "handle_test_ldb_request op p m = (Inr v, m') \<Longrightarrow> jget_str v ''error'' = None"
  unfolding handle_test_ldb_request_def Let_def
  by (elim if_elim)
    (auto simp: test_ops Let_def jget_str_def split: option.splits if_splits)

lemma mem_reply_Inr: "ldb_reply mem_ext op p m = (Inr v, m') \<longleftrightarrow> handle_test_ldb_request op p m = (Inr v, m')"
  by (auto simp: ldb_reply_def test_reply_no_error split: prod.splits sum.splits option.splits)

lemma mem_reply_Inl: "ldb_reply mem_ext op p m = (Inl e, m') \<longleftrightarrow>
    (\<exists>e0. handle_test_ldb_request op p m = (Inl e0, m') \<and> e = ''ldb_request error on '' @ op @ '' (tcp): '' @ e0)"
  by (auto simp: ldb_reply_def test_reply_no_error split: prod.splits sum.splits option.splits)

lemma mem_reply_same_or_here:
  "ldb_reply mem_ext op p m = (r, m') \<Longrightarrow> \<exists>r0. handle_test_ldb_request op p m = (r0, m')"
  by (auto simp: ldb_reply_def split: prod.splits sum.splits option.splits)


lemma test_reads_keep:
  assumes "handle_test_ldb_request op p m = (r, m')"
    and "op \<in> {''get'', ''exists'', ''keys'', ''prefix''}"
  shows "m' = m"
  using assms by (auto simp: test_server_ops test_ops Let_def split: option.splits)

lemma test_failure_keeps:
  assumes "handle_test_ldb_request op p m = (Inl e, m')"
    and "op \<in> {''put'', ''create'', ''cas'', ''delete'', ''cas_delete''}"
  shows "m' = m"
  using assms by (auto simp: test_server_ops test_ops Let_def split: option.splits if_splits)

lemma test_create_error:
  "handle_test_ldb_request ''create'' p m = (Inl e, m') \<Longrightarrow>
     e = ''already exists'' \<and> mem_view m (addr_of p) \<noteq> None \<or> e = ''missing value''"
  by (auto simp: test_server_ops test_create_def mem_view_def split: option.splits if_splits)

lemma jget_str_row [simp]:
  "jget_str (JObj [(''key'', JStr k), (''value'', JStr b), (''revision'', n)]) ''key'' = Some k"
  "jget_str (JObj [(''key'', JStr k), (''value'', JStr b), (''revision'', n)]) ''value'' = Some b"
  by (simp_all add: jget_str_def)

lemma mem_prefix_ok:
  assumes "handle_test_ldb_request ''prefix'' p m = (Inr v, m')" and t: "jget_str p ''table'' = Some t"
    and pre: "jget_str p ''prefix'' = Some pre"
  shows "\<exists>rows. jget_array v ''rows'' = Some rows \<and>
        (\<forall>row \<in> set rows. \<exists>k b n. jget_str row ''key'' = Some k \<and> jget_str row ''value'' = Some b \<and>
            prefix pre k \<and> mem_view m (t, k) = Some (b, n)) \<and>
        (\<forall>k b n. prefix pre k \<longrightarrow> mem_view m (t, k) = Some (b, n) \<longrightarrow>
            (\<exists>row \<in> set rows. jget_str row ''key'' = Some k \<and> jget_str row ''value'' = Some b))"
proof -
  let ?row = "\<lambda>(k, b, n). JObj [(''key'', JStr k), (''value'', JStr b), (''revision'', jnum n)]"
  let ?rs = "sort_key fst (test_rows t pre m)"
  have v: "v = JObj [(''rows'', JArr (map ?row ?rs))]"
    using assms by (auto simp: test_server_ops test_prefix_def str_or_empty_def)
  show ?thesis
  proof (intro exI conjI)
    show "jget_array v ''rows'' = Some (map ?row ?rs)" by (simp add: v jget_array_def)
    show "\<forall>row \<in> set (map ?row ?rs). \<exists>k b n. jget_str row ''key'' = Some k \<and>
        jget_str row ''value'' = Some b \<and> prefix pre k \<and> mem_view m (t, k) = Some (b, n)"
      by (auto simp: test_row_iff)
    show "\<forall>k b n. prefix pre k \<longrightarrow> mem_view m (t, k) = Some (b, n) \<longrightarrow>
        (\<exists>row \<in> set (map ?row ?rs). jget_str row ''key'' = Some k \<and> jget_str row ''value'' = Some b)"
    proof (intro allI impI)
      fix k b n
      assume "prefix pre k" and "mem_view m (t, k) = Some (b, n)"
      then have "(k, b, n) \<in> set ?rs" by (simp add: test_row_iff)
      then have "?row (k, b, n) \<in> set (map ?row ?rs)" unfolding set_map by (rule imageI)
      then show "\<exists>row \<in> set (map ?row ?rs). jget_str row ''key'' = Some k \<and> jget_str row ''value'' = Some b"
        by (rule rev_bexI) simp
    qed
  qed
qed

interpretation mem: gateway mem_ext mem_view
proof
  fix op p s r s' a
  assume "ldb_reply mem_ext op p s = (r, s')" "table_ok a" "table_ok (addr_of p)" "a \<noteq> addr_of p"
  then show "survives mem_view s s' a"
    by (auto simp: survives_def dest!: mem_reply_same_or_here test_server_frame)
next
  fix op p s r s'
  assume "ldb_reply mem_ext op p s = (r, s')" "op \<in> {''get'', ''exists'', ''keys'', ''prefix''}"
  then show "survives mem_view s s' (addr_of p)"
    by (auto dest!: mem_reply_same_or_here simp del: insert_iff dest: test_reads_keep)
next
  fix p s v s'
  assume "ldb_reply mem_ext ''get'' p s = (Inr v, s')"
  then show "\<exists>b n. mem_view s (addr_of p) = Some (b, n) \<and> jget_str v ''value'' = Some b \<and>
      jget_u64 v ''revision'' = Some n"
    by (auto simp: mem_reply_Inr test_server_ops test_get_def mem_view_def jget_str_def jget_u64_def split: option.splits)
next
  fix p s e s'
  assume "ldb_reply mem_ext ''get'' p s = (Inl e, s')"
  then show "mem_view s (addr_of p) = None"
    by (auto simp: mem_reply_Inl test_server_ops test_get_def mem_view_def split: option.splits)
next
  fix p s v s'
  assume "ldb_reply mem_ext ''exists'' p s = (Inr v, s')"
  then show "Option.bind (jget v ''exists'') as_bool = Some (mem_view s (addr_of p) \<noteq> None)"
    by (auto simp: mem_reply_Inr test_server_ops test_exists_def mem_view_def)
next
  fix p s v s' b
  assume "ldb_reply mem_ext ''put'' p s = (Inr v, s')" "jget_str p ''value'' = Some b"
  then show "\<exists>n. mem_view s' (addr_of p) = Some (b, n)"
    by (auto simp: mem_reply_Inr test_server_ops test_put_def mem_view_update Let_def)
next
  fix p s v s' b
  assume "ldb_reply mem_ext ''create'' p s = (Inr v, s')" "jget_str p ''value'' = Some b"
  then show "mem_view s (addr_of p) = None \<and> (\<exists>n. mem_view s' (addr_of p) = Some (b, n))"
    by (cases "mem_view s (addr_of p)")
      (auto simp: mem_reply_Inr test_server_ops test_create_def mem_view_update,
        auto simp: mem_view_def update_conv)
next
  fix p s e s'
  assume "ldb_reply mem_ext ''create'' p s = (Inl e, s')" "contains_str ''already exists'' e"
  then obtain e0 where e0: "handle_test_ldb_request ''create'' p s = (Inl e0, s')"
      "e = ''ldb_request error on create (tcp): '' @ e0" "contains_str ''already exists'' e"
    by (auto simp: mem_reply_Inl)
  then have "mem_view s (addr_of p) \<noteq> None" by (auto dest!: test_create_error)
  moreover have "s' = s" using e0(1) by (rule test_failure_keeps) simp
  ultimately show "mem_view s (addr_of p) \<noteq> None \<and> survives mem_view s s' (addr_of p)" by simp
next
  fix p s v s' b n
  assume "ldb_reply mem_ext ''cas'' p s = (Inr v, s')" "jget_str p ''value'' = Some b"
    "jget_u64 p ''revision'' = Some n"
  then show "((\<exists>b0. mem_view s (addr_of p) = Some (b0, n)) \<or> n = 0 \<and> mem_view s (addr_of p) = None) \<and>
      (\<exists>n'. n' \<noteq> n \<and> mem_view s' (addr_of p) = Some (b, n'))"
    by (auto simp: mem_reply_Inr test_server_ops test_cas_def mem_view_update Let_def
        split: if_splits option.splits) (auto simp: mem_view_def)
next
  fix p s e s'
  assume "ldb_reply mem_ext ''cas'' p s = (Inl e, s')"
  then show "survives mem_view s s' (addr_of p)"
    by (auto simp: mem_reply_Inl dest: test_failure_keeps)
next
  fix p s e s' b n
  assume "ldb_reply mem_ext ''cas'' p s = (Inl e, s')"
  then have "s' = s" by (auto simp: mem_reply_Inl dest: test_failure_keeps)
  then show "survives mem_view s s' (addr_of p) \<or>
      ((\<exists>b0. mem_view s (addr_of p) = Some (b0, n)) \<or> n = 0 \<and> mem_view s (addr_of p) = None) \<and>
      (\<exists>n'. n' \<noteq> n \<and> mem_view s' (addr_of p) = Some (b, n'))" by simp
next
  fix p s v s'
  assume "ldb_reply mem_ext ''delete'' p s = (Inr v, s')"
  then show "mem_view s' (addr_of p) = None"
    by (auto simp: mem_reply_Inr test_server_ops test_delete_def mem_view_delete)
next
  fix p s v s' n
  assume "ldb_reply mem_ext ''cas_delete'' p s = (Inr v, s')" "jget_u64 p ''revision'' = Some n"
  then show "(\<exists>b0. mem_view s (addr_of p) = Some (b0, n)) \<and> mem_view s' (addr_of p) = None"
    by (auto simp: mem_reply_Inr test_server_ops test_cas_delete_def mem_view_delete Let_def
        split: if_splits option.splits) (auto simp: mem_view_def)
next
  fix op p s e s'
  assume "ldb_reply mem_ext op p s = (Inl e, s')" "op \<in> {''put'', ''create'', ''cas''}"
  then have "s' = s" by (auto simp: mem_reply_Inl dest: test_failure_keeps)
  then show "survives mem_view s s' (addr_of p) \<or>
      (\<exists>b n. jget_str p ''value'' = Some b \<and> mem_view s' (addr_of p) = Some (b, n))" by simp
next
  fix op p s e s'
  assume "ldb_reply mem_ext op p s = (Inl e, s')" "op \<in> {''delete'', ''cas_delete''}"
  then have "s' = s" by (auto simp: mem_reply_Inl dest: test_failure_keeps)
  then show "survives mem_view s s' (addr_of p)" by simp
next
  fix p s v s' t pre
  assume "ldb_reply mem_ext ''prefix'' p s = (Inr v, s')" "jget_str p ''table'' = Some t"
    "jget_str p ''prefix'' = Some pre"
  then show "\<exists>rows. jget_array v ''rows'' = Some rows \<and>
        (\<forall>row \<in> set rows. \<exists>k b n. jget_str row ''key'' = Some k \<and> jget_str row ''value'' = Some b \<and>
            prefix pre k \<and> mem_view s (t, k) = Some (b, n)) \<and>
        (\<forall>k b n. prefix pre k \<longrightarrow> mem_view s (t, k) = Some (b, n) \<longrightarrow>
            (\<exists>row \<in> set rows. jget_str row ''key'' = Some k \<and> jget_str row ''value'' = Some b))"
    unfolding mem_reply_Inr by (rule mem_prefix_ok)
next
  fix j show "x_from_slice mem_ext (x_to_vec mem_ext j) = Inr j" by simp
next
  fix b show "x_b64_decode mem_ext (x_b64_encode mem_ext b) = Inr b" by simp
qed

lemma mem_gateway: "gateway mem_ext mem_view"
  by (rule mem.gateway_axioms)

end
