(* ===== verification/Demo_World.thy ===== *)
theory Demo_World
  imports Frames Test_Server Util
begin

text \<open>
  A concrete environment for closed instances: the in-memory storage server of \<open>store.rs\<close>, a
  fixed clock and random source, and a development configuration.
\<close>

definition demo_config :: config where
  "demo_config = init_config (map_of [(''dev_mode'', ''true''), (''issuer_url'', ''https://id'')])"

definition demo_rand :: "nat \<Rightarrow> nat \<Rightarrow> char" where
  "demo_rand n i = chr_nat (7 * n + i)"

definition demo_clock :: "u64 \<Rightarrow> nat \<Rightarrow> u64" where
  "demo_clock now n = now"

definition demo_world_at :: "u64 \<Rightarrow> kv_map \<Rightarrow> kv_map world" where
  "demo_world_at now m = \<lparr>w_kv = m, w_clock = demo_clock now, w_ticks = 0,
     w_rand = demo_rand, w_draws = 0, w_log = [], w_http = [],
     w_config = Some demo_config, w_revs = [], w_inbound = None, w_epoch = None, w_validated = False\<rparr>"

text \<open>
  A codec that writes some texts as one character, so that a stored record reads as a letter; the
  other texts are those of the tagged format.
\<close>

definition short_text :: "(json \<times> char) list \<Rightarrow> json \<Rightarrow> string" where
  "short_text t j = (case map_of t j of Some c \<Rightarrow> [c] | None \<Rightarrow> enc_json j)"

definition long_text :: "(json \<times> char) list \<Rightarrow> string \<Rightarrow> string + json" where
  "long_text t s = (case s of
       [c] \<Rightarrow> (case map_of (map prod.swap t) c of Some j \<Rightarrow> Inr j | None \<Rightarrow> dec_text s)
     | _ \<Rightarrow> dec_text s)"

definition coded :: "(json \<Rightarrow> bytes) \<Rightarrow> (bytes \<Rightarrow> string + json) \<Rightarrow> kv_map ext" where
  "coded enc dec = mem_ext\<lparr>x_to_vec := enc, x_from_slice := dec\<rparr>"

definition codes_ok :: "(json \<times> char) list \<Rightarrow> bool" where
  "codes_ok t \<longleftrightarrow> distinct (map snd t) \<and> list_all (\<lambda>(j, c). c \<notin> {CHR ''n'', CHR ''t'', CHR ''f''}) t"

lemma enc_json_single: "enc_json j = [c] \<Longrightarrow> c \<in> {CHR ''n'', CHR ''t'', CHR ''f''}"
  by (cases j) (auto simp: enc_str_def split: if_splits)

lemma long_short_text: "codes_ok t \<Longrightarrow> long_text t (short_text t j) = Inr j"
proof (cases "map_of t j")
  case None
  assume ok: "codes_ok t"
  show ?thesis
  proof (cases "\<exists>c. enc_json j = [c]")
    case True
    then obtain c where c: "enc_json j = [c]" by blast
    have "map_of (map prod.swap t) c = None"
      using enc_json_single [OF c] ok by (auto simp: codes_ok_def list_all_iff map_of_eq_None_iff)
    then show ?thesis using None c dec_text_enc [of j] by (simp add: long_text_def short_text_def)
  next
    case False
    then have "long_text t (enc_json j) = dec_text (enc_json j)"
      by (auto simp: long_text_def simp del: dec_text_enc split: list.splits)
    then show ?thesis using None by (simp add: short_text_def)
  qed
next
  case (Some c)
  assume ok: "codes_ok t"
  have "(c, j) \<in> set (map prod.swap t)" using map_of_SomeD [OF Some] by force
  moreover have "distinct (map fst (map prod.swap t))" using ok by (simp add: codes_ok_def o_def)
  ultimately have "map_of (map prod.swap t) c = Some j" by simp
  with Some show ?thesis by (simp add: long_text_def short_text_def)
qed

lemma coded_reply: "ldb_reply (coded enc dec) = ldb_reply mem_ext"
  by (intro ext) (simp add: ldb_reply_def coded_def)

lemma coded_gateway: "(\<And>j. dec (enc j) = Inr j) \<Longrightarrow> gateway (coded enc dec) mem_view"
  using mem_gateway unfolding gateway_def jetcache_def codec_def coded_reply by (simp add: coded_def)

abbreviation demo_world :: "kv_map world" where
  "demo_world \<equiv> demo_world_at 1000 []"

lemma run_Ok: "fst (m w) = Ok y \<Longrightarrow> m w = (Ok y, snd (m w))"
  by (metis prod.collapse)

definition is_ok :: "'a res \<Rightarrow> bool" where
  "is_ok r = (case r of Ok y \<Rightarrow> True | _ \<Rightarrow> False)"

lemma is_ok_run: "is_ok (fst (m w)) \<Longrightarrow> (\<And>y w'. m w = (Ok y, w') \<Longrightarrow> P) \<Longrightarrow> P"
  by (cases "m w"; cases "fst (m w)") (auto simp: is_ok_def)

lemma run_fst: "m w = (fst (m w), snd (m w))"
  by simp

end
