(* ===== verification/Single_Use.thy ===== *)
theory Single_Use
  imports Store_Oauth Demo_World
begin

text \<open>
  Single-use values under concurrency. Requests that try to use the same stored value interleave
  at the granularity of storage operations: each reads the value with its revision and later
  consumes it at that revision, while any other request may run in between. The locale
  \<open>single_use\<close> states what the two operations promise; it is interpreted for authorization codes,
  refresh tokens and device codes.
\<close>

datatype 'v phase = Idle | Holding 'v u64 | Spent 'v | Refused

text \<open>One step of one of the requests, or of a request that leaves the address alone.\<close>

inductive spend_step ::
    "'s view \<Rightarrow> addr \<Rightarrow> (('v \<times> u64) option, 's) act \<Rightarrow> ('v \<Rightarrow> u64 \<Rightarrow> (unit, 's) act) \<Rightarrow>
      (nat \<Rightarrow> 'v phase) \<times> 's world \<Rightarrow> (nat \<Rightarrow> 'v phase) \<times> 's world \<Rightarrow> bool"
  for view :: "'s view" and a :: addr and read :: "(('v \<times> u64) option, 's) act"
    and consume :: "'v \<Rightarrow> u64 \<Rightarrow> (unit, 's) act"
where
  read_hit: "pc i = Idle \<Longrightarrow> read w = (Ok (Some (v, n)), w') \<Longrightarrow>
    spend_step view a read consume (pc, w) (pc(i := Holding v n), w')"
| read_miss: "pc i = Idle \<Longrightarrow> read w = (r, w') \<Longrightarrow> \<forall>p. r \<noteq> Ok (Some p) \<Longrightarrow>
    spend_step view a read consume (pc, w) (pc(i := Refused), w')"
| spend: "pc i = Holding v n \<Longrightarrow> consume v n w = (Ok (), w') \<Longrightarrow>
    spend_step view a read consume (pc, w) (pc(i := Spent v), w')"
| refuse: "pc i = Holding v n \<Longrightarrow> consume v n w = (r, w') \<Longrightarrow> r \<noteq> Ok () \<Longrightarrow>
    spend_step view a read consume (pc, w) (pc(i := Refused), w')"
| other: "survives view (w_kv w) (w_kv w') a \<Longrightarrow>
    spend_step view a read consume (pc, w) (pc, w')"

inductive_cases spend_stepE: "spend_step view a read consume (pc, w) (pc', w')"

abbreviation all_idle :: "nat \<Rightarrow> 'v phase" where
  "all_idle \<equiv> (\<lambda>i. Idle)"

text \<open>
  The value \<open>v0\<close> stored at revision \<open>n0\<close> is \<open>fresh\<close> or it is \<open>dead\<close>, and it never comes back.
\<close>

locale single_use =
  fixes view :: "'s view" and a :: addr
    and read :: "(('v \<times> u64) option, 's) act" and consume :: "'v \<Rightarrow> u64 \<Rightarrow> (unit, 's) act"
    and fresh :: "'s \<Rightarrow> bool" and dead :: "'s \<Rightarrow> bool" and v0 :: 'v and n0 :: u64
  assumes read_fresh: "fresh (w_kv w) \<Longrightarrow> read w = (Ok (Some (v, n)), w') \<Longrightarrow> v = v0 \<and> n = n0"
    and read_dead: "dead (w_kv w) \<Longrightarrow> read w \<noteq> (Ok (Some p), w')"
    and read_keeps: "read w = (q, w') \<Longrightarrow> survives view (w_kv w) (w_kv w') a"
    and consume_ok: "consume v0 n0 w = (Ok (), w') \<Longrightarrow> fresh (w_kv w) \<or> dead (w_kv w) \<Longrightarrow>
      \<not> dead (w_kv w) \<and> dead (w_kv w')"
    and consume_keeps: "consume v0 n0 w = (r, w') \<Longrightarrow> fresh (w_kv w) \<or> dead (w_kv w) \<Longrightarrow>
      (dead (w_kv w) \<longrightarrow> dead (w_kv w')) \<and> (fresh (w_kv w') \<or> dead (w_kv w'))"
    and fresh_survives: "survives view s s' a \<Longrightarrow> fresh s \<Longrightarrow> fresh s' \<or> dead s'"
    and dead_survives: "survives view s s' a \<Longrightarrow> dead s \<Longrightarrow> dead s'"
begin

definition inv :: "(nat \<Rightarrow> 'v phase) \<Rightarrow> 's world \<Rightarrow> bool" where
  "inv pc w \<longleftrightarrow> (\<forall>i v n. pc i = Holding v n \<longrightarrow> v = v0 \<and> n = n0) \<and>
     (\<forall>i v. pc i = Spent v \<longrightarrow> v = v0 \<and> dead (w_kv w) \<and> (\<forall>j v'. pc j = Spent v' \<longrightarrow> j = i)) \<and>
     (fresh (w_kv w) \<or> dead (w_kv w))"

lemma inv_holding: "inv pc w \<Longrightarrow> pc i = Holding v n \<Longrightarrow> v = v0 \<and> n = n0"
  by (simp add: inv_def)

lemma inv_alive: "inv pc w \<Longrightarrow> \<not> dead (w_kv w) \<Longrightarrow> pc j \<noteq> Spent v'"
  by (auto simp: inv_def)

lemma keep_state:
  "survives view s s' a \<Longrightarrow> fresh s \<or> dead s \<Longrightarrow> (fresh s' \<or> dead s') \<and> (dead s \<longrightarrow> dead s')"
  by (blast dest: fresh_survives dead_survives)

text \<open>Updating a request to a phase that is not \<open>Spent\<close> only needs the state to be kept.\<close>

lemma inv_quiet:
  assumes "inv pc w" and "fresh (w_kv w') \<or> dead (w_kv w')" and "dead (w_kv w) \<longrightarrow> dead (w_kv w')"
    and "p = Holding v0 n0 \<or> p = Refused"
  shows "inv (pc(i := p)) w'"
  using assms unfolding inv_def by (auto split: if_splits)

lemma inv_step:
  assumes "spend_step view a read consume (pc, w) (pc', w')" and inv: "inv pc w"
  shows "inv pc' w'"
  using assms(1)
proof cases
  case (read_hit i v n)
  have "\<not> dead (w_kv w)" using read_hit(3) read_dead by blast
  then have "fresh (w_kv w)" using inv by (auto simp: inv_def)
  with read_hit(3) have "v = v0 \<and> n = n0" by (blast dest: read_fresh)
  with read_hit inv keep_state [OF read_keeps [OF read_hit(3)]] show ?thesis
    by (auto intro!: inv_quiet [OF inv] simp: inv_def [of pc w])
next
  case (read_miss i r)
  with inv keep_state [OF read_keeps [OF read_miss(3)]] show ?thesis
    by (auto intro!: inv_quiet [OF inv] simp: inv_def [of pc w])
next
  case (spend i v n)
  have vn: "v = v0" "n = n0" using inv_holding [OF inv spend(2)] by simp_all
  have "fresh (w_kv w) \<or> dead (w_kv w)" using inv by (simp add: inv_def)
  with spend(3) vn have dead: "\<not> dead (w_kv w)" "dead (w_kv w')" by (auto dest: consume_ok)
  then have none: "pc j \<noteq> Spent v'" for j v' using inv by (blast dest: inv_alive)
  have hold: "v' = v0 \<and> n' = n0" if "pc' j = Holding v' n'" for j v' n'
    using that spend(1) inv_holding [OF inv] by (auto split: if_splits)
  have only: "j = i \<and> v' = v0" if "pc' j = Spent v'" for j v'
    using that spend(1) vn none by (auto split: if_splits)
  show ?thesis unfolding inv_def using hold only dead(2) by blast
next
  case (refuse i v n r)
  have "v = v0" "n = n0" using inv_holding [OF inv refuse(2)] by simp_all
  with refuse(3) have run: "consume v0 n0 w = (r, w')" by simp
  have "fresh (w_kv w) \<or> dead (w_kv w)" using inv by (simp add: inv_def)
  from consume_keeps [OF run this] show ?thesis
    unfolding refuse(1) by (intro inv_quiet [OF inv]) blast+
next
  case other
  have alive: "fresh (w_kv w) \<or> dead (w_kv w)" using inv by (simp add: inv_def)
  from keep_state [OF other(2) alive] inv show ?thesis unfolding inv_def other(1) by blast
qed

lemma inv_reachable:
  assumes "(spend_step view a read consume)\<^sup>*\<^sup>* (all_idle, w0) (pc, w)" and "fresh (w_kv w0)"
  shows "inv pc w"
  using assms(1)
proof (induction rule: rtranclp_induct2)
  case refl
  then show ?case using assms(2) by (simp add: inv_def)
next
  case (step pc1 w1 pc2 w2)
  then show ?case using inv_step by blast
qed

lemma at_most_once:
  assumes "(spend_step view a read consume)\<^sup>*\<^sup>* (all_idle, w0) (pc, w)" and "fresh (w_kv w0)"
    and "pc i = Spent v" and "pc j = Spent v'"
  shows "i = j \<and> v = v0"
  using inv_reachable [OF assms(1,2)] assms(3,4) unfolding inv_def by blast

end

section \<open>Swapping to a marker\<close>

text \<open>The two ways the store consumes: a swap to an undecodable marker, and a deletion.\<close>

definition stored_once :: "'s ext \<Rightarrow> 's view \<Rightarrow> (json \<Rightarrow> 'v res) \<Rightarrow> addr \<Rightarrow> 'v \<Rightarrow> u64 \<Rightarrow> 's \<Rightarrow> bool" where
  "stored_once x view d a v0 n0 s \<longleftrightarrow> n0 \<noteq> 0 \<and> rec_at x view d s a = Some (v0, n0)"

definition used_up :: "'s ext \<Rightarrow> 's view \<Rightarrow> (json \<Rightarrow> 'v res) \<Rightarrow> addr \<Rightarrow> u64 \<Rightarrow> 's \<Rightarrow> bool" where
  "used_up x view d a n0 s \<longleftrightarrow> n0 \<noteq> 0 \<and> rec_at x view d s a = None \<and> (\<forall>b. view s a \<noteq> Some (b, n0))"

lemma stored_once_survives:
  "survives view s s' a \<Longrightarrow> stored_once x view d a v0 n0 s \<Longrightarrow>
    stored_once x view d a v0 n0 s' \<or> used_up x view d a n0 s'"
  by (auto simp: survives_def stored_once_def used_up_def rec_at_None
      dest: rec_at_cong [where x = x and d = d])

lemma used_up_survives:
  "survives view s s' a \<Longrightarrow> used_up x view d a n0 s \<Longrightarrow> used_up x view d a n0 s'"
  unfolding survives_def used_up_def
  by (elim disjE) (simp_all add: rec_at_None rec_at_cong [of view s' a s])

context gateway
begin

lemma swap_single_use:
  assumes rd: "\<And>w o1 w'. read w = (Ok (Some o1), w') \<Longrightarrow> rec_at x view d (w_kv w) a = Some o1"
    and keep: "\<And>w q w'. read w = (q, w') \<Longrightarrow> survives view (w_kv w) (w_kv w') a"
    and mark: "d j = Err e"
    and out: "\<And>w r w'. consume v0 n0 w = (r, w') \<Longrightarrow> survives view (w_kv w) (w_kv w') a \<or>
      ((\<exists>b0. view (w_kv w) a = Some (b0, n0)) \<or> n0 = 0 \<and> view (w_kv w) a = None) \<and>
      (\<exists>n'. n' \<noteq> n0 \<and> view (w_kv w') a = Some (x_b64_encode x (x_to_vec x j), n'))"
    and ok: "\<And>w w'. consume v0 n0 w = (Ok (), w') \<Longrightarrow>
      ((\<exists>b0. view (w_kv w) a = Some (b0, n0)) \<or> n0 = 0 \<and> view (w_kv w) a = None) \<and>
      (\<exists>n'. n' \<noteq> n0 \<and> view (w_kv w') a = Some (x_b64_encode x (x_to_vec x j), n'))"
  shows "single_use view a read consume (stored_once x view d a v0 n0) (used_up x view d a n0) v0 n0"
proof
  have marked: "view s a = Some (x_b64_encode x (x_to_vec x j), n') \<Longrightarrow> n' \<noteq> n0 \<Longrightarrow> n0 \<noteq> 0 \<Longrightarrow>
      used_up x view d a n0 s"
    for s n' by (simp add: used_up_def rec_at_encoded mark)
  have n0: "stored_once x view d a v0 n0 s \<or> used_up x view d a n0 s \<Longrightarrow> n0 \<noteq> 0" for s
    by (auto simp: stored_once_def used_up_def)
  fix w v n w'
  show "stored_once x view d a v0 n0 (w_kv w) \<Longrightarrow> read w = (Ok (Some (v, n)), w') \<Longrightarrow> v = v0 \<and> n = n0"
    by (auto dest: rd simp: stored_once_def)
  show "read w \<noteq> (Ok (Some p), w')" if "used_up x view d a n0 (w_kv w)" for p
    using that by (auto dest: rd simp: used_up_def)
  show "survives view (w_kv w) (w_kv w') a" if "read w = (r, w')" for r using that by (rule keep)
  show "\<not> used_up x view d a n0 (w_kv w) \<and> used_up x view d a n0 (w_kv w')"
    if "consume v0 n0 w = (Ok (), w')"
      and st: "stored_once x view d a v0 n0 (w_kv w) \<or> used_up x view d a n0 (w_kv w)"
    using ok [OF that(1)] n0 [OF st] marked by (auto simp: used_up_def)
  show "(used_up x view d a n0 (w_kv w) \<longrightarrow> used_up x view d a n0 (w_kv w')) \<and>
      (stored_once x view d a v0 n0 (w_kv w') \<or> used_up x view d a n0 (w_kv w'))"
    if run: "consume v0 n0 w = (r, w')" and st: "stored_once x view d a v0 n0 (w_kv w) \<or> used_up x view d a n0 (w_kv w)"
    for r
    using out [OF run]
  proof
    assume sv: "survives view (w_kv w) (w_kv w') a"
    with st show ?thesis by (blast dest: stored_once_survives used_up_survives)
  next
    assume "((\<exists>b0. view (w_kv w) a = Some (b0, n0)) \<or> n0 = 0 \<and> view (w_kv w) a = None) \<and>
      (\<exists>n'. n' \<noteq> n0 \<and> view (w_kv w') a = Some (x_b64_encode x (x_to_vec x j), n'))"
    then show ?thesis using marked n0 [OF st] by blast
  qed
next
  fix s s'
  show "survives view s s' a \<Longrightarrow> stored_once x view d a v0 n0 s \<Longrightarrow>
      stored_once x view d a v0 n0 s' \<or> used_up x view d a n0 s'"
    by (rule stored_once_survives)
  show "survives view s s' a \<Longrightarrow> used_up x view d a n0 s \<Longrightarrow> used_up x view d a n0 s'"
    by (rule used_up_survives)
qed

lemma delete_single_use:
  assumes rd: "\<And>w o1 w'. read w = (Ok (Some o1), w') \<Longrightarrow> rec_at x view d (w_kv w) a = Some o1"
    and keep: "\<And>w q w'. read w = (q, w') \<Longrightarrow> survives view (w_kv w) (w_kv w') a"
    and out: "\<And>w r w'. consume v0 n0 w = (r, w') \<Longrightarrow> survives view (w_kv w) (w_kv w') a"
    and ok: "\<And>w w'. consume v0 n0 w = (Ok (), w') \<Longrightarrow>
      (\<exists>b0. view (w_kv w) a = Some (b0, n0)) \<and> view (w_kv w') a = None"
  shows "single_use view a read consume (stored_once x view d a v0 n0) (used_up x view d a n0) v0 n0"
proof
  fix w v n w'
  show "stored_once x view d a v0 n0 (w_kv w) \<Longrightarrow> read w = (Ok (Some (v, n)), w') \<Longrightarrow> v = v0 \<and> n = n0"
    by (auto dest: rd simp: stored_once_def)
  show "read w \<noteq> (Ok (Some p), w')" if "used_up x view d a n0 (w_kv w)" for p
    using that by (auto dest: rd simp: used_up_def)
  show "survives view (w_kv w) (w_kv w') a" if "read w = (r, w')" for r using that by (rule keep)
  show "\<not> used_up x view d a n0 (w_kv w) \<and> used_up x view d a n0 (w_kv w')"
    if "consume v0 n0 w = (Ok (), w')"
      and st: "stored_once x view d a v0 n0 (w_kv w) \<or> used_up x view d a n0 (w_kv w)"
    using ok [OF that(1)] st by (auto simp: used_up_def stored_once_def rec_at_None)
  show "(used_up x view d a n0 (w_kv w) \<longrightarrow> used_up x view d a n0 (w_kv w')) \<and>
      (stored_once x view d a v0 n0 (w_kv w') \<or> used_up x view d a n0 (w_kv w'))"
    if run: "consume v0 n0 w = (r, w')" and st: "stored_once x view d a v0 n0 (w_kv w) \<or> used_up x view d a n0 (w_kv w)"
    for r using out [OF run] st by (blast dest: stored_once_survives used_up_survives)
next
  fix s s'
  show "survives view s s' a \<Longrightarrow> stored_once x view d a v0 n0 s \<Longrightarrow>
      stored_once x view d a v0 n0 s' \<or> used_up x view d a n0 s'"
    by (rule stored_once_survives)
  show "survives view s s' a \<Longrightarrow> used_up x view d a n0 s \<Longrightarrow> used_up x view d a n0 s'"
    by (rule used_up_survives)
qed

end

section \<open>The code's single-use values\<close>

context gateway
begin

lemma sess_ok: "table_ok (sess k)"
  by (simp add: table_ok_def)

lemma auth_code_single_use:
  "single_use view (sess (''code:'' @ c)) (get_auth_code_cas x c) (\<lambda>v. consume_auth_code x c)
    (stored_once x view auth_code_of_json (sess (''code:'' @ c)) v0 n0)
    (used_up x view auth_code_of_json (sess (''code:'' @ c)) n0) v0 n0"
proof (rule swap_single_use [where j = code_marker and e = "''missing field `user_id`''"])
  fix w o1 and w' :: "'s world"
  show "get_auth_code_cas x c w = (Ok (Some o1), w') \<Longrightarrow>
      rec_at x view auth_code_of_json (w_kv w) (sess (''code:'' @ c)) = Some o1"
    by (drule get_auth_code_cas_Ok) simp
next
  fix w q and w' :: "'s world"
  assume "get_auth_code_cas x c w = (q, w')"
  then show "survives view (w_kv w) (w_kv w') (sess (''code:'' @ c))"
    by (rule frames_survives [OF auth_code_frames(2) [of "{}"]]) (simp_all add: sess_ok)
next
  show "auth_code_of_json code_marker = Err ''missing field `user_id`''" by (rule auth_code_of_marker)
next
  fix w r and w' :: "'s world"
  assume "consume_auth_code x c n0 w = (r, w')"
  then obtain q where "kv_cas_swap_ttl x sessions_store (''code:'' @ c) code_marker n0 ttl_auth_code w = (q, w')"
    unfolding consume_auth_code_def by (elim try_ret_world) blast+
  then show "survives view (w_kv w) (w_kv w') (sess (''code:'' @ c)) \<or>
      ((\<exists>b0. view (w_kv w) (sess (''code:'' @ c)) = Some (b0, n0)) \<or>
        n0 = 0 \<and> view (w_kv w) (sess (''code:'' @ c)) = None) \<and>
      (\<exists>n'. n' \<noteq> n0 \<and> view (w_kv w') (sess (''code:'' @ c)) =
        Some (x_b64_encode x (x_to_vec x code_marker), n'))"
    by (rule kv_cas_swap_ttl_outcome)
next
  fix w and w' :: "'s world"
  assume "consume_auth_code x c n0 w = (Ok (), w')"
  then show "((\<exists>b0. view (w_kv w) (sess (''code:'' @ c)) = Some (b0, n0)) \<or>
        n0 = 0 \<and> view (w_kv w) (sess (''code:'' @ c)) = None) \<and>
      (\<exists>n'. n' \<noteq> n0 \<and> view (w_kv w') (sess (''code:'' @ c)) =
        Some (x_b64_encode x (x_to_vec x code_marker), n'))"
    using consume_auth_code_Ok unfolding code_marker_text_def by blast
qed

lemma refresh_token_single_use:
  "single_use view (sess (''refresh:'' @ h)) (get_refresh_token_cas x h)
    (\<lambda>v n. consume_refresh_token x h n (re_user_id v))
    (stored_once x view refresh_entry_of_json (sess (''refresh:'' @ h)) v0 n0)
    (used_up x view refresh_entry_of_json (sess (''refresh:'' @ h)) n0) v0 n0"
proof (rule swap_single_use [where j = "refresh_marker (re_user_id v0)" and e = "''missing field `client_id`''"])
  fix w o1 and w' :: "'s world"
  show "get_refresh_token_cas x h w = (Ok (Some o1), w') \<Longrightarrow>
      rec_at x view refresh_entry_of_json (w_kv w) (sess (''refresh:'' @ h)) = Some o1"
    by (cases o1) (auto dest!: get_refresh_token_cas_Some)
next
  fix w q and w' :: "'s world"
  assume "get_refresh_token_cas x h w = (q, w')"
  then show "survives view (w_kv w) (w_kv w') (sess (''refresh:'' @ h))"
    by (rule frames_survives [OF refresh_frames(3) [of "{}"]]) (simp_all add: sess_ok)
next
  show "refresh_entry_of_json (refresh_marker (re_user_id v0)) = Err ''missing field `client_id`''"
    by (rule refresh_entry_of_marker)
next
  fix w r and w' :: "'s world"
  assume "consume_refresh_token x h n0 (re_user_id v0) w = (r, w')"
  then obtain q where "kv_cas_swap_ttl x sessions_store (''refresh:'' @ h) (refresh_marker (re_user_id v0)) n0
      ttl_consumed_marker w = (q, w')"
    unfolding consume_refresh_token_def by (elim try_ret_world) blast+
  then show "survives view (w_kv w) (w_kv w') (sess (''refresh:'' @ h)) \<or>
      ((\<exists>b0. view (w_kv w) (sess (''refresh:'' @ h)) = Some (b0, n0)) \<or>
        n0 = 0 \<and> view (w_kv w) (sess (''refresh:'' @ h)) = None) \<and>
      (\<exists>n'. n' \<noteq> n0 \<and> view (w_kv w') (sess (''refresh:'' @ h)) =
        Some (x_b64_encode x (x_to_vec x (refresh_marker (re_user_id v0))), n'))"
    by (rule kv_cas_swap_ttl_outcome)
next
  fix w and w' :: "'s world"
  assume "consume_refresh_token x h n0 (re_user_id v0) w = (Ok (), w')"
  then show "((\<exists>b0. view (w_kv w) (sess (''refresh:'' @ h)) = Some (b0, n0)) \<or>
        n0 = 0 \<and> view (w_kv w) (sess (''refresh:'' @ h)) = None) \<and>
      (\<exists>n'. n' \<noteq> n0 \<and> view (w_kv w') (sess (''refresh:'' @ h)) =
        Some (x_b64_encode x (x_to_vec x (refresh_marker (re_user_id v0))), n'))"
    using consume_refresh_token_Ok unfolding refresh_marker_text_def by blast
qed

lemma device_code_single_use:
  "single_use view (sess (''device:'' @ c)) (get_device_code_cas x c) (\<lambda>v. consume_device_code_cas x c)
    (stored_once x view device_code_of_json (sess (''device:'' @ c)) v0 n0)
    (used_up x view device_code_of_json (sess (''device:'' @ c)) n0) v0 n0"
proof (rule delete_single_use)
  fix w o1 and w' :: "'s world"
  show "get_device_code_cas x c w = (Ok (Some o1), w') \<Longrightarrow>
      rec_at x view device_code_of_json (w_kv w) (sess (''device:'' @ c)) = Some o1"
    by (drule get_device_code_cas_Ok) simp
next
  fix w q and w' :: "'s world"
  assume "get_device_code_cas x c w = (q, w')"
  then show "survives view (w_kv w) (w_kv w') (sess (''device:'' @ c))"
    by (rule frames_survives [OF device_frames(3) [of "{}"]]) (simp_all add: sess_ok)
next
  fix w r and w' :: "'s world"
  assume "consume_device_code_cas x c n0 w = (r, w')"
  then show "survives view (w_kv w) (w_kv w') (sess (''device:'' @ c))"
    unfolding consume_device_code_cas_def by (rule kv_cas_delete_survives)
next
  fix w and w' :: "'s world"
  assume "consume_device_code_cas x c n0 w = (Ok (), w')"
  then show "(\<exists>b0. view (w_kv w) (sess (''device:'' @ c)) = Some (b0, n0)) \<and>
      view (w_kv w') (sess (''device:'' @ c)) = None"
    by (rule consume_device_code_cas_Ok)
qed

end

sublocale gateway \<subseteq> codes: single_use view "sess (''code:'' @ c)" "get_auth_code_cas x c"
  "\<lambda>v. consume_auth_code x c" "stored_once x view auth_code_of_json (sess (''code:'' @ c)) v0 n0"
  "used_up x view auth_code_of_json (sess (''code:'' @ c)) n0" v0 n0
  for c v0 n0
  by (rule auth_code_single_use)

sublocale gateway \<subseteq> refreshes: single_use view "sess (''refresh:'' @ h)" "get_refresh_token_cas x h"
  "\<lambda>v n. consume_refresh_token x h n (re_user_id v)"
  "stored_once x view refresh_entry_of_json (sess (''refresh:'' @ h)) v0 n0"
  "used_up x view refresh_entry_of_json (sess (''refresh:'' @ h)) n0" v0 n0
  for h v0 n0
  by (rule refresh_token_single_use)

sublocale gateway \<subseteq> devices: single_use view "sess (''device:'' @ c)" "get_device_code_cas x c"
  "\<lambda>v. consume_device_code_cas x c" "stored_once x view device_code_of_json (sess (''device:'' @ c)) v0 n0"
  "used_up x view device_code_of_json (sess (''device:'' @ c)) n0" v0 n0
  for c v0 n0
  by (rule device_code_single_use)

section \<open>Properties\<close>

definition demo_code :: auth_code where
  "demo_code = \<lparr>ac_user_id = ''u1'', ac_client_id = ''app'', ac_redirect_uri = ''https://app/cb'',
     ac_code_challenge = ''ch'', ac_code_challenge_method = ''S256'', ac_nonce = [], ac_scope = ''openid'',
     ac_auth_time = 900, ac_amr = [''pwd''], ac_acr = None, ac_requested_id_token_claims = [],
     ac_requested_userinfo_claims = [], ac_extra_claims = [], ac_expires_at = 1300, ac_csrf_token = [],
     ac_state = [], ac_sid = None, ac_pending_consent = False\<rparr>"

definition demo_refresh :: refresh_entry where
  "demo_refresh = \<lparr>re_user_id = ''u1'', re_client_id = ''app'', re_expires_at = 5000, re_scope = ''openid'',
     re_version = 0, re_auth_time = 900, re_amr = [''pwd''], re_acr = None,
     re_requested_id_token_claims = [], re_requested_userinfo_claims = [], re_issued_at = 900,
     re_sid = None, re_dpop_jkt = None\<rparr>"

abbreviation "code_w0 \<equiv> snd (save_auth_code mem_ext ''c'' demo_code demo_world)"
abbreviation "code_w1 \<equiv> snd (get_auth_code_cas mem_ext ''c'' code_w0)"
abbreviation "code_w2 \<equiv> snd (consume_auth_code mem_ext ''c'' 1 code_w1)"
abbreviation "refresh_w0 \<equiv> snd (save_refresh_token mem_ext ''h'' demo_refresh demo_world)"
abbreviation "refresh_w1 \<equiv> snd (get_refresh_token_cas mem_ext ''h'' refresh_w0)"
abbreviation "refresh_w2 \<equiv> snd (consume_refresh_token mem_ext ''h'' 1 ''u1'' refresh_w1)"

lemma two_steps:
  assumes "fst (read w0) = Ok (Some (v, n))" and "fst (consume v n (snd (read w0))) = Ok ()"
  shows "(spend_step view a read consume)\<^sup>*\<^sup>* (all_idle, w0)
    (all_idle(0 := Holding v n, 0 := Spent v), snd (consume v n (snd (read w0))))"
proof (rule rtranclp.rtrancl_into_rtrancl [OF r_into_rtranclp])
  show "spend_step view a read consume (all_idle, w0) (all_idle(0 := Holding v n), snd (read w0))"
    by (rule read_hit) (simp, rule run_Ok, rule assms(1))
  show "spend_step view a read consume (all_idle(0 := Holding v n), snd (read w0))
      (all_idle(0 := Holding v n, 0 := Spent v), snd (consume v n (snd (read w0))))"
    by (rule spend [where n = n]) (simp, rule run_Ok, rule assms(2))
qed

text \<open>C1. However many token requests present one authorization code, and however their storage
  operations interleave with each other and with unrelated requests, at most one of them consumes
  the code, and that one holds the record that was issued.\<close>

theorem auth_code_spent_at_most_once:
  assumes "gateway x view" and "rec_at x view auth_code_of_json (w_kv w0) (sess (''code:'' @ c)) = Some (ac, n)"
    and "n \<noteq> 0"
    and "(spend_step view (sess (''code:'' @ c)) (get_auth_code_cas x c) (\<lambda>v. consume_auth_code x c))\<^sup>*\<^sup>*
      (all_idle, w0) (pc, w)"
    and "pc i = Spent v" and "pc j = Spent v'"
  shows "i = j \<and> v = ac"
  using single_use.at_most_once [OF gateway.auth_code_single_use [OF assms(1)] assms(4) _ assms(5,6)]
    assms(2,3) by (simp add: stored_once_def)

lemma auth_code_spent_at_most_once_witness:
  "rec_at mem_ext mem_view auth_code_of_json (w_kv code_w0) (sess (''code:'' @ ''c'')) = Some (demo_code, 1) \<and>
   (spend_step mem_view (sess (''code:'' @ ''c'')) (get_auth_code_cas mem_ext ''c'')
      (\<lambda>v. consume_auth_code mem_ext ''c''))\<^sup>*\<^sup>* (all_idle, code_w0)
      (all_idle(0 := Holding demo_code 1, 0 := Spent demo_code), code_w2) \<and>
   (0 :: nat) = 0 \<and> demo_code = demo_code"
proof -
  have stored: "rec_at mem_ext mem_view auth_code_of_json (w_kv code_w0) (sess (''code:'' @ ''c'')) = Some (demo_code, 1)"
    by code_simp
  have steps: "(spend_step mem_view (sess (''code:'' @ ''c'')) (get_auth_code_cas mem_ext ''c'')
      (\<lambda>v. consume_auth_code mem_ext ''c''))\<^sup>*\<^sup>* (all_idle, code_w0)
      (all_idle(0 := Holding demo_code 1, 0 := Spent demo_code), code_w2)"
  proof (rule two_steps)
    show "fst (get_auth_code_cas mem_ext ''c'' code_w0) = Ok (Some (demo_code, 1))" by code_simp
    show "fst (consume_auth_code mem_ext ''c'' 1 code_w1) = Ok ()" by code_simp
  qed
  have one: "(0 :: nat) = 0 \<and> demo_code = demo_code"
    by (rule auth_code_spent_at_most_once [OF mem_gateway stored _ steps]) simp_all
  show ?thesis by (rule conjI [OF stored conjI [OF steps one]])
qed

text \<open>C2. However many token requests present one refresh token, and however they interleave, at
  most one of them rotates it.\<close>

theorem refresh_token_spent_at_most_once:
  assumes "gateway x view"
    and "rec_at x view refresh_entry_of_json (w_kv w0) (sess (''refresh:'' @ h)) = Some (e, n)" and "n \<noteq> 0"
    and "(spend_step view (sess (''refresh:'' @ h)) (get_refresh_token_cas x h)
      (\<lambda>v n. consume_refresh_token x h n (re_user_id v)))\<^sup>*\<^sup>* (all_idle, w0) (pc, w)"
    and "pc i = Spent v" and "pc j = Spent v'"
  shows "i = j \<and> v = e"
  using single_use.at_most_once [OF gateway.refresh_token_single_use [OF assms(1)] assms(4) _ assms(5,6)]
    assms(2,3) by (simp add: stored_once_def)

lemma refresh_token_spent_at_most_once_witness:
  "rec_at mem_ext mem_view refresh_entry_of_json (w_kv refresh_w0) (sess (''refresh:'' @ ''h'')) = Some (demo_refresh, 1) \<and>
   (spend_step mem_view (sess (''refresh:'' @ ''h'')) (get_refresh_token_cas mem_ext ''h'')
      (\<lambda>v n. consume_refresh_token mem_ext ''h'' n (re_user_id v)))\<^sup>*\<^sup>* (all_idle, refresh_w0)
      (all_idle(0 := Holding demo_refresh 1, 0 := Spent demo_refresh),
       snd (consume_refresh_token mem_ext ''h'' 1 (re_user_id demo_refresh) refresh_w1)) \<and>
   (0 :: nat) = 0 \<and> demo_refresh = demo_refresh"
proof -
  have stored: "rec_at mem_ext mem_view refresh_entry_of_json (w_kv refresh_w0) (sess (''refresh:'' @ ''h''))
      = Some (demo_refresh, 1)"
    by code_simp
  have steps: "(spend_step mem_view (sess (''refresh:'' @ ''h'')) (get_refresh_token_cas mem_ext ''h'')
      (\<lambda>v n. consume_refresh_token mem_ext ''h'' n (re_user_id v)))\<^sup>*\<^sup>* (all_idle, refresh_w0)
      (all_idle(0 := Holding demo_refresh 1, 0 := Spent demo_refresh),
       snd (consume_refresh_token mem_ext ''h'' 1 (re_user_id demo_refresh) refresh_w1))"
  proof (rule two_steps)
    show "fst (get_refresh_token_cas mem_ext ''h'' refresh_w0) = Ok (Some (demo_refresh, 1))" by code_simp
    show "fst (consume_refresh_token mem_ext ''h'' 1 (re_user_id demo_refresh) refresh_w1) = Ok ()" by code_simp
  qed
  have one: "(0 :: nat) = 0 \<and> demo_refresh = demo_refresh"
    by (rule refresh_token_spent_at_most_once [OF mem_gateway stored _ steps]) simp_all
  show ?thesis by (rule conjI [OF stored conjI [OF steps one]])
qed

end
