(* ===== verification/Admin_Types.thy ===== *)
theory Admin_Types
  imports Store_Types
begin

text \<open>
  The administrative records of \<open>oidc-gateway/src/store.rs\<close>, encoded and decoded like those of
  theory Store_Types: identity providers, social and SCIM identities, SAML service providers and
  keys, hooks and their versions, the known addresses of a user.
\<close>

definition jnum_i32 :: "32 word \<Rightarrow> json" where
  "jnum_i32 x = JNum (sint x)"

definition de_i32_word :: "json \<Rightarrow> 32 word res" where
  "de_i32_word j = res_bind (de_i32 j) (\<lambda>n. Ok (of_int n))"

lemma de_i32_word_jnum [serde_simps]: "de_i32_word (jnum_i32 x) = Ok x"
proof -
  have "- (2 ^ (LENGTH(32) - Suc 0)) \<le> sint x" by (rule sint_greater_eq)
  moreover have "sint x < 2 ^ (LENGTH(32) - Suc 0)" by (rule sint_less)
  ultimately have "de_i32 (jnum_i32 x) = Ok (sint x)" by (simp add: de_i32_def jnum_i32_def)
  then show ?thesis by (simp add: de_i32_word_def)
qed

definition default_version :: u32 where
  "default_version = 1"

record identity_provider =
  ip_id :: "string"
  ip_provider_type :: "string"
  ip_client_id :: "string"
  ip_client_secret :: "string"
  ip_enabled :: "bool"
  ip_discovery_url :: "string option"
  ip_display_name :: "string option"

definition identity_provider_to_json :: "identity_provider \<Rightarrow> json" where
  "identity_provider_to_json x = JObj [
     (''id'', JStr (ip_id x)),
     (''provider_type'', JStr (ip_provider_type x)),
     (''client_id'', JStr (ip_client_id x)),
     (''client_secret'', JStr (ip_client_secret x)),
     (''enabled'', JBool (ip_enabled x)),
     (''discovery_url'', jopt JStr (ip_discovery_url x)),
     (''display_name'', jopt JStr (ip_display_name x))]"

definition identity_provider_of_json :: "json \<Rightarrow> identity_provider res" where
  "identity_provider_of_json j = de_struct j (
     de_field j ''id'' de_str (\<lambda>v_id.
     de_field j ''provider_type'' de_str (\<lambda>v_provider_type.
     de_field j ''client_id'' de_str (\<lambda>v_client_id.
     de_field j ''client_secret'' de_str (\<lambda>v_client_secret.
     de_field j ''enabled'' de_bool (\<lambda>v_enabled.
     de_default j ''discovery_url'' None (de_opt de_str) (\<lambda>v_discovery_url.
     de_default j ''display_name'' None (de_opt de_str) (\<lambda>v_display_name.
     Ok \<lparr>ip_id = v_id,
       ip_provider_type = v_provider_type,
       ip_client_id = v_client_id,
       ip_client_secret = v_client_secret,
       ip_enabled = v_enabled,
       ip_discovery_url = v_discovery_url,
       ip_display_name = v_display_name\<rparr>))))))))"

lemma identity_provider_roundtrip [serde_simps]: "identity_provider_of_json (identity_provider_to_json x) = Ok x"
  by (simp add: identity_provider_to_json_def identity_provider_of_json_def de_field_def de_default_def serde_simps)

record social_identity =
  si_provider :: "string"
  si_provider_sub :: "string"
  si_user_id :: "string"
  si_email :: "string"
  si_linked_at :: "u64"

definition social_identity_to_json :: "social_identity \<Rightarrow> json" where
  "social_identity_to_json x = JObj [
     (''provider'', JStr (si_provider x)),
     (''provider_sub'', JStr (si_provider_sub x)),
     (''user_id'', JStr (si_user_id x)),
     (''email'', JStr (si_email x)),
     (''linked_at'', jnum (si_linked_at x))]"

definition social_identity_of_json :: "json \<Rightarrow> social_identity res" where
  "social_identity_of_json j = de_struct j (
     de_field j ''provider'' de_str (\<lambda>v_provider.
     de_field j ''provider_sub'' de_str (\<lambda>v_provider_sub.
     de_field j ''user_id'' de_str (\<lambda>v_user_id.
     de_field j ''email'' de_str (\<lambda>v_email.
     de_field j ''linked_at'' de_u64 (\<lambda>v_linked_at.
     Ok \<lparr>si_provider = v_provider,
       si_provider_sub = v_provider_sub,
       si_user_id = v_user_id,
       si_email = v_email,
       si_linked_at = v_linked_at\<rparr>))))))"

lemma social_identity_roundtrip [serde_simps]: "social_identity_of_json (social_identity_to_json x) = Ok x"
  by (simp add: social_identity_to_json_def social_identity_of_json_def de_field_def de_default_def serde_simps)

record saml_service_provider =
  sp_id :: "string"
  sp_name :: "string"
  sp_entity_id :: "string"
  sp_acs_urls :: "string list"
  sp_enabled :: "bool"
  sp_name_id_format :: "string"
  sp_attribute_mappings :: "(string \<times> string) list"
  sp_request_signing_certificate :: "string option"
  sp_theme :: "client_theme option"
  sp_created_at :: "u64"

definition saml_service_provider_to_json :: "saml_service_provider \<Rightarrow> json" where
  "saml_service_provider_to_json x = JObj [
     (''id'', JStr (sp_id x)),
     (''name'', JStr (sp_name x)),
     (''entity_id'', JStr (sp_entity_id x)),
     (''acs_urls'', jstrs (sp_acs_urls x)),
     (''enabled'', JBool (sp_enabled x)),
     (''name_id_format'', JStr (sp_name_id_format x)),
     (''attribute_mappings'', JArr (map (jpair JStr JStr) (sp_attribute_mappings x))),
     (''request_signing_certificate'', jopt JStr (sp_request_signing_certificate x)),
     (''theme'', jopt client_theme_to_json (sp_theme x)),
     (''created_at'', jnum (sp_created_at x))]"

definition saml_service_provider_of_json :: "json \<Rightarrow> saml_service_provider res" where
  "saml_service_provider_of_json j = de_struct j (
     de_field j ''id'' de_str (\<lambda>v_id.
     de_field j ''name'' de_str (\<lambda>v_name.
     de_field j ''entity_id'' de_str (\<lambda>v_entity_id.
     de_field j ''acs_urls'' (de_list de_str) (\<lambda>v_acs_urls.
     de_field j ''enabled'' de_bool (\<lambda>v_enabled.
     de_field j ''name_id_format'' de_str (\<lambda>v_name_id_format.
     de_field j ''attribute_mappings'' (de_list (de_pair de_str de_str)) (\<lambda>v_attribute_mappings.
     de_default j ''request_signing_certificate'' None (de_opt de_str) (\<lambda>v_request_signing_certificate.
     de_default j ''theme'' None (de_opt client_theme_of_json) (\<lambda>v_theme.
     de_field j ''created_at'' de_u64 (\<lambda>v_created_at.
     Ok \<lparr>sp_id = v_id,
       sp_name = v_name,
       sp_entity_id = v_entity_id,
       sp_acs_urls = v_acs_urls,
       sp_enabled = v_enabled,
       sp_name_id_format = v_name_id_format,
       sp_attribute_mappings = v_attribute_mappings,
       sp_request_signing_certificate = v_request_signing_certificate,
       sp_theme = v_theme,
       sp_created_at = v_created_at\<rparr>)))))))))))"

lemma saml_service_provider_roundtrip [serde_simps]: "saml_service_provider_of_json (saml_service_provider_to_json x) = Ok x"
  by (simp add: saml_service_provider_to_json_def saml_service_provider_of_json_def de_field_def de_default_def serde_simps)

record saml_signing_key =
  sk_version :: "u32"
  sk_private_key_pem :: "string"
  sk_certificate_pem :: "string"
  sk_created_at :: "u64"

definition saml_signing_key_to_json :: "saml_signing_key \<Rightarrow> json" where
  "saml_signing_key_to_json x = JObj [
     (''version'', jnum32 (sk_version x)),
     (''private_key_pem'', JStr (sk_private_key_pem x)),
     (''certificate_pem'', JStr (sk_certificate_pem x)),
     (''created_at'', jnum (sk_created_at x))]"

definition saml_signing_key_of_json :: "json \<Rightarrow> saml_signing_key res" where
  "saml_signing_key_of_json j = de_struct j (
     de_field j ''version'' de_u32 (\<lambda>v_version.
     de_field j ''private_key_pem'' de_str (\<lambda>v_private_key_pem.
     de_field j ''certificate_pem'' de_str (\<lambda>v_certificate_pem.
     de_field j ''created_at'' de_u64 (\<lambda>v_created_at.
     Ok \<lparr>sk_version = v_version,
       sk_private_key_pem = v_private_key_pem,
       sk_certificate_pem = v_certificate_pem,
       sk_created_at = v_created_at\<rparr>)))))"

lemma saml_signing_key_roundtrip [serde_simps]: "saml_signing_key_of_json (saml_signing_key_to_json x) = Ok x"
  by (simp add: saml_signing_key_to_json_def saml_signing_key_of_json_def de_field_def de_default_def serde_simps)

lemma saml_signing_key_opt_roundtrip [serde_simps]: "de_opt saml_signing_key_of_json (jopt saml_signing_key_to_json x) = Ok x"
  by (rule de_opt_jopt) (simp add: saml_signing_key_to_json_def, rule saml_signing_key_roundtrip)

record saml_key_ring =
  kr_current :: "saml_signing_key"
  kr_previous :: "saml_signing_key option"
  kr_previous_grace_expires :: "u64 option"

definition saml_key_ring_to_json :: "saml_key_ring \<Rightarrow> json" where
  "saml_key_ring_to_json x = JObj [
     (''current'', saml_signing_key_to_json (kr_current x)),
     (''previous'', jopt saml_signing_key_to_json (kr_previous x)),
     (''previous_grace_expires'', jopt jnum (kr_previous_grace_expires x))]"

definition saml_key_ring_of_json :: "json \<Rightarrow> saml_key_ring res" where
  "saml_key_ring_of_json j = de_struct j (
     de_field j ''current'' saml_signing_key_of_json (\<lambda>v_current.
     de_default j ''previous'' None (de_opt saml_signing_key_of_json) (\<lambda>v_previous.
     de_default j ''previous_grace_expires'' None (de_opt de_u64) (\<lambda>v_previous_grace_expires.
     Ok \<lparr>kr_current = v_current,
       kr_previous = v_previous,
       kr_previous_grace_expires = v_previous_grace_expires\<rparr>))))"

lemma saml_key_ring_roundtrip [serde_simps]: "saml_key_ring_of_json (saml_key_ring_to_json x) = Ok x"
  by (simp add: saml_key_ring_to_json_def saml_key_ring_of_json_def de_field_def de_default_def serde_simps)

record saml_key_ring_pointer =
  kp_current_version :: "u32"
  kp_previous_version :: "u32 option"
  kp_previous_grace_expires :: "u64 option"

definition saml_key_ring_pointer_to_json :: "saml_key_ring_pointer \<Rightarrow> json" where
  "saml_key_ring_pointer_to_json x = JObj [
     (''current_version'', jnum32 (kp_current_version x)),
     (''previous_version'', jopt jnum32 (kp_previous_version x)),
     (''previous_grace_expires'', jopt jnum (kp_previous_grace_expires x))]"

definition saml_key_ring_pointer_of_json :: "json \<Rightarrow> saml_key_ring_pointer res" where
  "saml_key_ring_pointer_of_json j = de_struct j (
     de_field j ''current_version'' de_u32 (\<lambda>v_current_version.
     de_field j ''previous_version'' (de_opt de_u32) (\<lambda>v_previous_version.
     de_default j ''previous_grace_expires'' None (de_opt de_u64) (\<lambda>v_previous_grace_expires.
     Ok \<lparr>kp_current_version = v_current_version,
       kp_previous_version = v_previous_version,
       kp_previous_grace_expires = v_previous_grace_expires\<rparr>))))"

lemma saml_key_ring_pointer_roundtrip [serde_simps]: "saml_key_ring_pointer_of_json (saml_key_ring_pointer_to_json x) = Ok x"
  by (simp add: saml_key_ring_pointer_to_json_def saml_key_ring_pointer_of_json_def de_field_def de_default_def serde_simps)

record saml_flow =
  sf_sp_id :: "string"
  sf_request_fields :: "(string \<times> string) list"
  sf_binding :: "string"
  sf_created_at :: "u64"

definition saml_flow_to_json :: "saml_flow \<Rightarrow> json" where
  "saml_flow_to_json x = JObj [
     (''sp_id'', JStr (sf_sp_id x)),
     (''request_fields'', JArr (map (jpair JStr JStr) (sf_request_fields x))),
     (''binding'', JStr (sf_binding x)),
     (''created_at'', jnum (sf_created_at x))]"

definition saml_flow_of_json :: "json \<Rightarrow> saml_flow res" where
  "saml_flow_of_json j = de_struct j (
     de_field j ''sp_id'' de_str (\<lambda>v_sp_id.
     de_field j ''request_fields'' (de_list (de_pair de_str de_str)) (\<lambda>v_request_fields.
     de_field j ''binding'' de_str (\<lambda>v_binding.
     de_field j ''created_at'' de_u64 (\<lambda>v_created_at.
     Ok \<lparr>sf_sp_id = v_sp_id,
       sf_request_fields = v_request_fields,
       sf_binding = v_binding,
       sf_created_at = v_created_at\<rparr>)))))"

lemma saml_flow_roundtrip [serde_simps]: "saml_flow_of_json (saml_flow_to_json x) = Ok x"
  by (simp add: saml_flow_to_json_def saml_flow_of_json_def de_field_def de_default_def serde_simps)

record scim_connection =
  sc_id :: "string"
  sc_name :: "string"
  sc_tenant_id :: "string"
  sc_token_hash :: "string"
  sc_enabled :: "bool"
  sc_default_role :: "string"
  sc_created_at :: "u64"

definition scim_connection_to_json :: "scim_connection \<Rightarrow> json" where
  "scim_connection_to_json x = JObj [
     (''id'', JStr (sc_id x)),
     (''name'', JStr (sc_name x)),
     (''tenant_id'', JStr (sc_tenant_id x)),
     (''token_hash'', JStr (sc_token_hash x)),
     (''enabled'', JBool (sc_enabled x)),
     (''default_role'', JStr (sc_default_role x)),
     (''created_at'', jnum (sc_created_at x))]"

definition scim_connection_of_json :: "json \<Rightarrow> scim_connection res" where
  "scim_connection_of_json j = de_struct j (
     de_field j ''id'' de_str (\<lambda>v_id.
     de_field j ''name'' de_str (\<lambda>v_name.
     de_field j ''tenant_id'' de_str (\<lambda>v_tenant_id.
     de_field j ''token_hash'' de_str (\<lambda>v_token_hash.
     de_field j ''enabled'' de_bool (\<lambda>v_enabled.
     de_field j ''default_role'' de_str (\<lambda>v_default_role.
     de_field j ''created_at'' de_u64 (\<lambda>v_created_at.
     Ok \<lparr>sc_id = v_id,
       sc_name = v_name,
       sc_tenant_id = v_tenant_id,
       sc_token_hash = v_token_hash,
       sc_enabled = v_enabled,
       sc_default_role = v_default_role,
       sc_created_at = v_created_at\<rparr>))))))))"

lemma scim_connection_roundtrip [serde_simps]: "scim_connection_of_json (scim_connection_to_json x) = Ok x"
  by (simp add: scim_connection_to_json_def scim_connection_of_json_def de_field_def de_default_def serde_simps)

record scim_identity =
  sd_connection_id :: "string"
  sd_external_id :: "string"
  sd_user_id :: "string"
  sd_version :: "u64"
  sd_created_at :: "u64"
  sd_updated_at :: "u64"

definition scim_identity_to_json :: "scim_identity \<Rightarrow> json" where
  "scim_identity_to_json x = JObj [
     (''connection_id'', JStr (sd_connection_id x)),
     (''external_id'', JStr (sd_external_id x)),
     (''user_id'', JStr (sd_user_id x)),
     (''version'', jnum (sd_version x)),
     (''created_at'', jnum (sd_created_at x)),
     (''updated_at'', jnum (sd_updated_at x))]"

definition scim_identity_of_json :: "json \<Rightarrow> scim_identity res" where
  "scim_identity_of_json j = de_struct j (
     de_field j ''connection_id'' de_str (\<lambda>v_connection_id.
     de_field j ''external_id'' de_str (\<lambda>v_external_id.
     de_field j ''user_id'' de_str (\<lambda>v_user_id.
     de_field j ''version'' de_u64 (\<lambda>v_version.
     de_field j ''created_at'' de_u64 (\<lambda>v_created_at.
     de_field j ''updated_at'' de_u64 (\<lambda>v_updated_at.
     Ok \<lparr>sd_connection_id = v_connection_id,
       sd_external_id = v_external_id,
       sd_user_id = v_user_id,
       sd_version = v_version,
       sd_created_at = v_created_at,
       sd_updated_at = v_updated_at\<rparr>)))))))"

lemma scim_identity_roundtrip [serde_simps]: "scim_identity_of_json (scim_identity_to_json x) = Ok x"
  by (simp add: scim_identity_to_json_def scim_identity_of_json_def de_field_def de_default_def serde_simps)

record hook =
  hk_id :: "string"
  hk_name :: "string"
  hk_trigger :: "string"
  hk_script :: "string"
  hk_enabled :: "bool"
  hk_priority :: "32 word"
  hk_created_at :: "u64"
  hk_version :: "u32"
  hk_script_hash :: "string"
  hk_updated_by :: "string"
  hk_updated_at :: "u64"

definition hook_to_json :: "hook \<Rightarrow> json" where
  "hook_to_json x = JObj [
     (''id'', JStr (hk_id x)),
     (''name'', JStr (hk_name x)),
     (''trigger'', JStr (hk_trigger x)),
     (''script'', JStr (hk_script x)),
     (''enabled'', JBool (hk_enabled x)),
     (''priority'', jnum_i32 (hk_priority x)),
     (''created_at'', jnum (hk_created_at x)),
     (''version'', jnum32 (hk_version x)),
     (''script_hash'', JStr (hk_script_hash x)),
     (''updated_by'', JStr (hk_updated_by x)),
     (''updated_at'', jnum (hk_updated_at x))]"

definition hook_of_json :: "json \<Rightarrow> hook res" where
  "hook_of_json j = de_struct j (
     de_field j ''id'' de_str (\<lambda>v_id.
     de_field j ''name'' de_str (\<lambda>v_name.
     de_field j ''trigger'' de_str (\<lambda>v_trigger.
     de_field j ''script'' de_str (\<lambda>v_script.
     de_field j ''enabled'' de_bool (\<lambda>v_enabled.
     de_field j ''priority'' de_i32_word (\<lambda>v_priority.
     de_field j ''created_at'' de_u64 (\<lambda>v_created_at.
     de_default j ''version'' default_version de_u32 (\<lambda>v_version.
     de_default j ''script_hash'' [] de_str (\<lambda>v_script_hash.
     de_default j ''updated_by'' [] de_str (\<lambda>v_updated_by.
     de_default j ''updated_at'' 0 de_u64 (\<lambda>v_updated_at.
     Ok \<lparr>hk_id = v_id,
       hk_name = v_name,
       hk_trigger = v_trigger,
       hk_script = v_script,
       hk_enabled = v_enabled,
       hk_priority = v_priority,
       hk_created_at = v_created_at,
       hk_version = v_version,
       hk_script_hash = v_script_hash,
       hk_updated_by = v_updated_by,
       hk_updated_at = v_updated_at\<rparr>))))))))))))"

lemma hook_roundtrip [serde_simps]: "hook_of_json (hook_to_json x) = Ok x"
  by (simp add: hook_to_json_def hook_of_json_def de_field_def de_default_def serde_simps)

record hook_version =
  hv_hook_id :: "string"
  hv_version :: "u32"
  hv_name :: "string"
  hv_trigger :: "string"
  hv_script :: "string"
  hv_script_hash :: "string"
  hv_enabled :: "bool"
  hv_priority :: "32 word"
  hv_changed_by :: "string"
  hv_changed_at :: "u64"

definition hook_version_to_json :: "hook_version \<Rightarrow> json" where
  "hook_version_to_json x = JObj [
     (''hook_id'', JStr (hv_hook_id x)),
     (''version'', jnum32 (hv_version x)),
     (''name'', JStr (hv_name x)),
     (''trigger'', JStr (hv_trigger x)),
     (''script'', JStr (hv_script x)),
     (''script_hash'', JStr (hv_script_hash x)),
     (''enabled'', JBool (hv_enabled x)),
     (''priority'', jnum_i32 (hv_priority x)),
     (''changed_by'', JStr (hv_changed_by x)),
     (''changed_at'', jnum (hv_changed_at x))]"

definition hook_version_of_json :: "json \<Rightarrow> hook_version res" where
  "hook_version_of_json j = de_struct j (
     de_field j ''hook_id'' de_str (\<lambda>v_hook_id.
     de_field j ''version'' de_u32 (\<lambda>v_version.
     de_field j ''name'' de_str (\<lambda>v_name.
     de_field j ''trigger'' de_str (\<lambda>v_trigger.
     de_field j ''script'' de_str (\<lambda>v_script.
     de_field j ''script_hash'' de_str (\<lambda>v_script_hash.
     de_field j ''enabled'' de_bool (\<lambda>v_enabled.
     de_field j ''priority'' de_i32_word (\<lambda>v_priority.
     de_field j ''changed_by'' de_str (\<lambda>v_changed_by.
     de_field j ''changed_at'' de_u64 (\<lambda>v_changed_at.
     Ok \<lparr>hv_hook_id = v_hook_id,
       hv_version = v_version,
       hv_name = v_name,
       hv_trigger = v_trigger,
       hv_script = v_script,
       hv_script_hash = v_script_hash,
       hv_enabled = v_enabled,
       hv_priority = v_priority,
       hv_changed_by = v_changed_by,
       hv_changed_at = v_changed_at\<rparr>)))))))))))"

lemma hook_version_roundtrip [serde_simps]: "hook_version_of_json (hook_version_to_json x) = Ok x"
  by (simp add: hook_version_to_json_def hook_version_of_json_def de_field_def de_default_def serde_simps)

record known_ips =
  ki_ips :: "string list"

definition known_ips_to_json :: "known_ips \<Rightarrow> json" where
  "known_ips_to_json x = JObj [
     (''ips'', jstrs (ki_ips x))]"

definition known_ips_of_json :: "json \<Rightarrow> known_ips res" where
  "known_ips_of_json j = de_struct j (
     de_field j ''ips'' (de_list de_str) (\<lambda>v_ips.
     Ok \<lparr>ki_ips = v_ips\<rparr>))"

lemma known_ips_roundtrip [serde_simps]: "known_ips_of_json (known_ips_to_json x) = Ok x"
  by (simp add: known_ips_to_json_def known_ips_of_json_def de_field_def de_default_def serde_simps)

end
