(* ===== verification/Store_Users.thy ===== *)
theory Store_Users
  imports Store_Oauth Admin_Types
begin

text \<open>
  The user side of \<open>store.rs\<close> and \<open>region_authority.rs\<close>: accounts with their e-mail index,
  optimistic updates with retry, deletion, tenants and memberships, invitations, the login lockout
  counter, MFA and passkey state, account and IdP browser sessions, known addresses, runtime
  settings and consent grants.
\<close>

abbreviation ttl_mfa_pending :: u64 where "ttl_mfa_pending \<equiv> 300"
abbreviation ttl_account_session :: u64 where "ttl_account_session \<equiv> 1800"
abbreviation default_idp_session_ttl :: u64 where "default_idp_session_ttl \<equiv> 86400 * 7"
abbreviation ttl_passkey_challenge :: u64 where "ttl_passkey_challenge \<equiv> 300"
abbreviation ttl_lockout :: u64 where "ttl_lockout \<equiv> 3600"
abbreviation ttl_invitation :: u64 where "ttl_invitation \<equiv> 86400 * 7"

abbreviation already_exists :: "string \<Rightarrow> bool" where
  "already_exists e \<equiv> contains_str ''already exists'' e"

section \<open>Region authority\<close>

record lookup_result =
  lr_found :: bool
  lr_region :: "string option"

definition lookup :: "'s ext \<Rightarrow> string \<Rightarrow> (lookup_result, 's) act" where
  "lookup x email_hash =
     (let key = ''email:'' @ email_hash in
      try_io (kv_exists x user_idx_store key) (\<lambda>ex.
        if ex then ret \<lparr>lr_found = True, lr_region = Some ''local''\<rparr>
        else ret \<lparr>lr_found = False, lr_region = None\<rparr>))"

definition email_hash_exists :: "'s ext \<Rightarrow> string \<Rightarrow> (bool, 's) act" where
  "email_hash_exists x email_hash = (let key = ''email:'' @ email_hash in kv_exists x user_idx_store key)"

section \<open>Users\<close>

text \<open>The record \<open>create_user\<close> stores: a self-registered account waits for verification.\<close>

definition new_user_record :: "config option \<Rightarrow> user \<Rightarrow> user" where
  "new_user_record c usr =
     (if usr_status usr = ''active'' \<and> \<not> usr_superadmin usr
         \<and> \<not> (starts_with ''social:'' (usr_password_hash usr) \<or> starts_with ''scim:'' (usr_password_hash usr))
         \<and> require_email_verification c
      then usr\<lparr>usr_status := ''pending''\<rparr> else usr)"

lemma new_user_record_simps [simp]:
  "usr_id (new_user_record c u) = usr_id u" "usr_email (new_user_record c u) = usr_email u"
  by (simp_all add: new_user_record_def)

definition create_user :: "'s ext \<Rightarrow> user \<Rightarrow> (unit, 's) act" where
  "create_user x usr =
     try_io get_config (\<lambda>c.
     let u = new_user_record c usr
     in try_io (kv_set x users_store (''user:'' @ usr_id u) (user_to_json u)) (\<lambda>_.
        try_io (hmac_email x (usr_email u)) (\<lambda>h.
        let email_key = ''email:'' @ h in
        match_io (kv_cas_create_raw x user_idx_store email_key (usr_id u))
          (\<lambda>_. ret ())
          (\<lambda>e. if already_exists e
               then ignore_io (kv_delete x users_store (''user:'' @ usr_id u))
                 (fail ''email already registered'')
               else fail e))))"

definition get_user :: "'s ext \<Rightarrow> string \<Rightarrow> (user option, 's) act" where
  "get_user x i = kv_get x user_of_json users_store (''user:'' @ i)"

definition get_user_cas :: "'s ext \<Rightarrow> string \<Rightarrow> ((user \<times> u64) option, 's) act" where
  "get_user_cas x i = kv_get_revision x user_of_json users_store (''user:'' @ i)"

definition update_user_cas :: "'s ext \<Rightarrow> user \<Rightarrow> u64 \<Rightarrow> (u64, 's) act" where
  "update_user_cas x usr revision =
     kv_cas_swap x users_store (''user:'' @ usr_id usr) (user_to_json usr) revision"

definition require_user :: "(user \<times> u64) option \<Rightarrow> (user \<times> u64) res" where
  "require_user o1 = ok_or o1 ''user not found''"

text \<open>
  The closure of a read-modify-write returns the changed record and whether to commit it.
  The first argument counts the attempts left of \<open>MAX_RETRIES = 5\<close>.
\<close>

fun update_user_loop :: "'s ext \<Rightarrow> nat \<Rightarrow> string \<Rightarrow> (user \<Rightarrow> (user \<times> bool) res) \<Rightarrow> (unit, 's) act" where
  "update_user_loop x 0 user_id modify = fail ''update_user_rmw: too many retries''"
| "update_user_loop x (Suc left) user_id modify =
     try_io (get_user_cas x user_id) (\<lambda>o1.
     try_io (lift (require_user o1)) (\<lambda>(usr, revision).
     try_io (lift (modify usr)) (\<lambda>(usr, commit).
     if \<not> commit then ret ()
     else match_io (update_user_cas x usr revision) (\<lambda>_. ret ())
       (\<lambda>e. if revision_mismatch e \<and> 0 < left then update_user_loop x left user_id modify else fail e))))"

definition update_user_rmw :: "'s ext \<Rightarrow> string \<Rightarrow> (user \<Rightarrow> (user \<times> bool) res) \<Rightarrow> (unit, 's) act" where
  "update_user_rmw x user_id modify = update_user_loop x 5 user_id modify"

definition email_taken_error :: "string \<Rightarrow> string" where
  "email_taken_error e = (if already_exists e then ''email already registered'' else e)"

fun update_provisioned_loop ::
    "'s ext \<Rightarrow> nat \<Rightarrow> string \<Rightarrow> string \<Rightarrow> string \<Rightarrow> string \<Rightarrow> (unit, 's) act" where
  "update_provisioned_loop x 0 user_id email name status =
     fail ''update_user_provisioned: too many retries''"
| "update_provisioned_loop x (Suc left) user_id email name status =
     try_io (get_user_cas x user_id) (\<lambda>o1.
     try_io (lift (require_user o1)) (\<lambda>(usr, revision).
     let old_email = usr_email usr;
         email_changed = (\<not> eq_ignore_ascii_case old_email email)
     in try_io (hmac_email x email) (\<lambda>h.
        let new_email_key = ''email:'' @ h in
        try_io (if email_changed then
            map_err email_taken_error (kv_cas_create_raw x user_idx_store new_email_key user_id)
          else ret 0) (\<lambda>_.
        let usr = usr\<lparr>usr_email := email, usr_name := name, usr_status := status\<rparr> in
        match_io (update_user_cas x usr revision)
          (\<lambda>_. if email_changed then
               try_io (hmac_email x old_email) (\<lambda>old.
               ignore_io (kv_delete x user_idx_store (''email:'' @ old)) (ret ()))
             else ret ())
          (\<lambda>e. ignore_io (if email_changed then kv_delete x user_idx_store new_email_key else ret ())
             (if revision_mismatch e \<and> 0 < left
              then update_provisioned_loop x left user_id email name status
              else fail e))))))"

definition update_user_provisioned ::
    "'s ext \<Rightarrow> string \<Rightarrow> string \<Rightarrow> string \<Rightarrow> string \<Rightarrow> (unit, 's) act" where
  "update_user_provisioned x user_id email name status =
     update_provisioned_loop x 5 user_id email name status"

text \<open>Deletions whose outcome is discarded, over a list of keys.\<close>

fun delete_all :: "'s ext \<Rightarrow> (string \<times> string) list \<Rightarrow> (unit, 's) act" where
  "delete_all x [] = ret ()"
| "delete_all x ((t, k) # rest) = ignore_io (kv_delete x t k) (delete_all x rest)"

fun membership_keys :: "string \<Rightarrow> string \<Rightarrow> string list \<Rightarrow> (string \<times> string) list" where
  "membership_keys user_id pre [] = []"
| "membership_keys user_id pre (key # keys) =
     (case strip_prefix pre key of
        Some tenant_id \<Rightarrow>
          (memberships_store, ''tenant:'' @ tenant_id @ '':user:'' @ user_id)
            # (memberships_store, key) # membership_keys user_id pre keys
      | None \<Rightarrow> membership_keys user_id pre keys)"

definition delete_user_relations :: "'s ext \<Rightarrow> string \<Rightarrow> (unit, 's) act" where
  "delete_user_relations x user_id =
     (let pre = ''user:'' @ user_id @ '':tenant:'' in
      try_io (match_io (kv_prefix_keys x memberships_store pre)
          (\<lambda>keys. delete_all x (membership_keys user_id pre keys)) (\<lambda>_. ret ())) (\<lambda>_.
      let consent_prefix = ''consent:'' @ user_id @ '':'' in
      match_io (kv_prefix_keys x users_store consent_prefix)
        (\<lambda>keys. delete_all x (map (Pair users_store) keys)) (\<lambda>_. ret ())))"

definition delete_user :: "'s ext \<Rightarrow> string \<Rightarrow> (unit, 's) act" where
  "delete_user x user_id =
     try_io (kv_get x user_of_json users_store (''user:'' @ user_id)) (\<lambda>o1. case o1 of
       None \<Rightarrow> ret ()
     | Some usr \<Rightarrow>
         try_io (hmac_email x (usr_email usr)) (\<lambda>h.
         ignore_io (kv_delete x user_idx_store (''email:'' @ h))
         (try_io (delete_all x (map (\<lambda>pk. (user_idx_store, ''passkey:'' @ pk_credential_id pk))
             (usr_passkey_credentials usr))) (\<lambda>_.
         try_io (kv_delete x users_store (''user:'' @ user_id)) (\<lambda>_.
         delete_user_relations x user_id)))))"

definition get_superadmin_flag :: "'s ext \<Rightarrow> (bool option, 's) act" where
  "get_superadmin_flag x = kv_get x de_bool sessions_store ''meta:has_superadmin''"

definition set_superadmin_flag :: "'s ext \<Rightarrow> bool \<Rightarrow> (unit, 's) act" where
  "set_superadmin_flag x val =
     match_io (kv_cas_create x sessions_store ''meta:has_superadmin'' (JBool val)) (\<lambda>_. ret ())
       (\<lambda>e. if already_exists e then ret () else fail e)"

definition list_users :: "'s ext \<Rightarrow> (user list, 's) act" where
  "list_users x = try_io (kv_prefix x user_of_json users_store ''user:'') (\<lambda>rows. ret (map snd rows))"

definition local_user_by_email :: "'s ext \<Rightarrow> string \<Rightarrow> (user option, 's) act" where
  "local_user_by_email x email_lower =
     try_io (hmac_email x email_lower) (\<lambda>h.
     try_io (kv_get_raw x user_idx_store (''email:'' @ h)) (\<lambda>o1. case o1 of
       Some bytes \<Rightarrow> get_user x (from_utf8_lossy bytes) | None \<Rightarrow> ret None))"

definition get_user_by_email :: "'s ext \<Rightarrow> string \<Rightarrow> (user option, 's) act" where
  "get_user_by_email x email =
     (let email_lower = to_lowercase email in
      try_io (hmac_email x email_lower) (\<lambda>email_hmac.
      try_io (map_err (\<lambda>e. ''authority lookup failed: '' @ e) (lookup x email_hmac)) (\<lambda>found.
      case lr_region found of
        Some r \<Rightarrow> if r \<noteq> ''local'' \<and> lr_found found then ret None else local_user_by_email x email_lower
      | None \<Rightarrow> local_user_by_email x email_lower)))"

section \<open>Tenants and memberships\<close>

definition create_tenant :: "'s ext \<Rightarrow> tenant \<Rightarrow> (unit, 's) act" where
  "create_tenant x tn = try_io get_config (\<lambda>c.
     let key = ''tenant:'' @ tn_id tn; store_name = tenants_store c in
     try_io (kv_get x tenant_of_json store_name key) (\<lambda>o1.
       if o1 \<noteq> None then fail ''tenant already exists''
       else kv_set x store_name key (tenant_to_json tn)))"

definition get_tenant :: "'s ext \<Rightarrow> string \<Rightarrow> (tenant option, 's) act" where
  "get_tenant x i = try_io get_config (\<lambda>c. kv_get x tenant_of_json (tenants_store c) (''tenant:'' @ i))"

definition delete_tenant :: "'s ext \<Rightarrow> string \<Rightarrow> (unit, 's) act" where
  "delete_tenant x i = try_io get_config (\<lambda>c. kv_delete x (tenants_store c) (''tenant:'' @ i))"

definition update_tenant :: "'s ext \<Rightarrow> tenant \<Rightarrow> (unit, 's) act" where
  "update_tenant x tn = try_io get_config (\<lambda>c.
     kv_set x (tenants_store c) (''tenant:'' @ tn_id tn) (tenant_to_json tn))"

definition list_tenants :: "'s ext \<Rightarrow> (tenant list, 's) act" where
  "list_tenants x = try_io get_config (\<lambda>c.
     try_io (kv_prefix x tenant_of_json (tenants_store c) ''tenant:'') (\<lambda>rows. ret (map snd rows)))"

definition add_membership :: "'s ext \<Rightarrow> membership \<Rightarrow> (unit, 's) act" where
  "add_membership x m =
     try_io (kv_set x memberships_store (''tenant:'' @ mb_tenant_id m @ '':user:'' @ mb_user_id m)
         (membership_to_json m)) (\<lambda>_.
     kv_set_raw x memberships_store (''user:'' @ mb_user_id m @ '':tenant:'' @ mb_tenant_id m) (mb_role m))"

definition get_membership :: "'s ext \<Rightarrow> string \<Rightarrow> string \<Rightarrow> (membership option, 's) act" where
  "get_membership x tenant_id user_id =
     kv_get x membership_of_json memberships_store (''tenant:'' @ tenant_id @ '':user:'' @ user_id)"

definition remove_membership :: "'s ext \<Rightarrow> string \<Rightarrow> string \<Rightarrow> (unit, 's) act" where
  "remove_membership x tenant_id user_id =
     try_io (kv_delete x memberships_store (''tenant:'' @ tenant_id @ '':user:'' @ user_id)) (\<lambda>_.
     kv_delete x memberships_store (''user:'' @ user_id @ '':tenant:'' @ tenant_id))"

definition list_tenant_members :: "'s ext \<Rightarrow> string \<Rightarrow> (membership list, 's) act" where
  "list_tenant_members x tenant_id =
     try_io (kv_prefix x membership_of_json memberships_store (''tenant:'' @ tenant_id @ '':user:''))
       (\<lambda>rows. ret (map snd rows))"

fun collect_memberships :: "'s ext \<Rightarrow> string \<Rightarrow> string \<Rightarrow> string list \<Rightarrow> (membership list, 's) act" where
  "collect_memberships x user_id pre [] = ret []"
| "collect_memberships x user_id pre (key # keys) =
     (case strip_prefix pre key of
        Some tenant_id \<Rightarrow>
          try_io (get_membership x tenant_id user_id) (\<lambda>o1.
          try_io (collect_memberships x user_id pre keys) (\<lambda>rest.
          ret (case o1 of Some m \<Rightarrow> m # rest | None \<Rightarrow> rest)))
      | None \<Rightarrow> collect_memberships x user_id pre keys)"

definition list_user_tenants :: "'s ext \<Rightarrow> string \<Rightarrow> (membership list, 's) act" where
  "list_user_tenants x user_id =
     (let pre = ''user:'' @ user_id @ '':tenant:'' in
      try_io (kv_prefix_keys x memberships_store pre) (\<lambda>keys. collect_memberships x user_id pre keys))"

definition save_invitation :: "'s ext \<Rightarrow> invitation \<Rightarrow> (unit, 's) act" where
  "save_invitation x i =
     kv_set_ttl x sessions_store (''invite:'' @ iv_token i) (invitation_to_json i) ttl_invitation"

definition get_invitation :: "'s ext \<Rightarrow> string \<Rightarrow> (invitation option, 's) act" where
  "get_invitation x token = kv_get x invitation_of_json sessions_store (''invite:'' @ token)"

definition delete_invitation :: "'s ext \<Rightarrow> string \<Rightarrow> (unit, 's) act" where
  "delete_invitation x token = kv_delete x sessions_store (''invite:'' @ token)"

section \<open>Login lockout\<close>

definition is_account_locked :: "'s ext \<Rightarrow> string \<Rightarrow> (bool, 's) act" where
  "is_account_locked x user_id =
     try_io (kv_get x login_attempts_of_json sessions_store (''lockout:'' @ user_id)) (\<lambda>o1. case o1 of
       Some a \<Rightarrow> try_io unix_now (\<lambda>now. ret (now < la_locked_until a))
     | None \<Rightarrow> ret False)"

text \<open>The counter after one more failure, and whether it locks: an expired lock starts afresh.\<close>

definition forget_expired_lock :: "login_attempts \<Rightarrow> (login_attempts, 's) act" where
  "forget_expired_lock attempts =
     (if 0 < la_locked_until attempts then
        try_io unix_now (\<lambda>now.
        ret (if la_locked_until attempts \<le> now
             then attempts\<lparr>la_failures := 0, la_locked_until := 0\<rparr> else attempts))
      else ret attempts)"

definition count_failure :: "login_attempts \<Rightarrow> (login_attempts \<times> bool, 's) act" where
  "count_failure attempts =
     try_io (forget_expired_lock attempts) (\<lambda>attempts.
     try_io get_config (\<lambda>c.
     let attempts = attempts\<lparr>la_failures := la_failures attempts + 1\<rparr> in
     if max_login_failures c \<le> la_failures attempts then
       try_io unix_now (\<lambda>now. ret (attempts\<lparr>la_locked_until := now + lockout_duration c\<rparr>, True))
     else ret (attempts, False)))"

fun record_failed_loop :: "'s ext \<Rightarrow> nat \<Rightarrow> string \<Rightarrow> (bool, 's) act" where
  "record_failed_loop x 0 key = fail ''record_failed_login: too many retries''"
| "record_failed_loop x (Suc left) key =
     try_io (kv_get_revision x login_attempts_of_json sessions_store key) (\<lambda>o1.
     let (attempts, revision) = (case o1 of Some (a, r) \<Rightarrow> (a, r)
           | None \<Rightarrow> (\<lparr>la_failures = 0, la_locked_until = 0\<rparr>, 0))
     in try_io (count_failure attempts) (\<lambda>(attempts, locked).
        match_io
          (if revision = 0 then
             try_io (ldb_request x ''create'' (JObj [(''table'', JStr sessions_store), (''key'', JStr key),
                (''value'', JStr (x_b64_encode x (x_to_vec x (login_attempts_to_json attempts)))),
                (''ttl_seconds'', jnum ttl_lockout)])) (\<lambda>_. ret ())
           else
             try_io (kv_cas_swap_ttl x sessions_store key (login_attempts_to_json attempts) revision ttl_lockout)
               (\<lambda>_. ret ()))
          (\<lambda>_. ret locked)
          (\<lambda>e. if (revision_mismatch e \<or> already_exists e) \<and> 0 < left
             then record_failed_loop x left key
             else fail (''record_failed_login: '' @ e))))"

definition record_failed_login :: "'s ext \<Rightarrow> string \<Rightarrow> (bool, 's) act" where
  "record_failed_login x user_id = record_failed_loop x 5 (''lockout:'' @ user_id)"

definition clear_login_attempts :: "'s ext \<Rightarrow> string \<Rightarrow> (unit, 's) act" where
  "clear_login_attempts x user_id = kv_delete x sessions_store (''lockout:'' @ user_id)"

section \<open>Second factors\<close>

definition save_mfa_pending :: "'s ext \<Rightarrow> string \<Rightarrow> mfa_pending \<Rightarrow> (unit, 's) act" where
  "save_mfa_pending x mfa_token pending =
     kv_set_ttl x sessions_store (''mfa:'' @ mfa_token) (mfa_pending_to_json pending) ttl_mfa_pending"

definition get_mfa_pending :: "'s ext \<Rightarrow> string \<Rightarrow> (mfa_pending option, 's) act" where
  "get_mfa_pending x mfa_token = kv_get x mfa_pending_of_json sessions_store (''mfa:'' @ mfa_token)"

definition delete_mfa_pending :: "'s ext \<Rightarrow> string \<Rightarrow> (unit, 's) act" where
  "delete_mfa_pending x mfa_token = kv_delete x sessions_store (''mfa:'' @ mfa_token)"

definition save_passkey_challenge :: "'s ext \<Rightarrow> string \<Rightarrow> passkey_challenge \<Rightarrow> (unit, 's) act" where
  "save_passkey_challenge x token challenge =
     kv_set_ttl x sessions_store (''passkey:'' @ token) (passkey_challenge_to_json challenge)
       ttl_passkey_challenge"

definition consume_passkey_challenge :: "'s ext \<Rightarrow> string \<Rightarrow> (passkey_challenge option, 's) act" where
  "consume_passkey_challenge x token =
     (let key = ''passkey:'' @ token in
      try_io (kv_get_revision x passkey_challenge_of_json sessions_store key) (\<lambda>o1. case o1 of
        Some (challenge, revision) \<Rightarrow>
          match_io (kv_cas_delete x sessions_store key revision) (\<lambda>_. ret (Some challenge))
            (\<lambda>e. if revision_mismatch e then ret None else fail e)
      | None \<Rightarrow> ret None))"

definition index_passkey_credential :: "'s ext \<Rightarrow> string \<Rightarrow> string \<Rightarrow> (unit, 's) act" where
  "index_passkey_credential x credential_id user_id =
     kv_set_raw x user_idx_store (''passkey:'' @ credential_id) user_id"

definition unindex_passkey_credential :: "'s ext \<Rightarrow> string \<Rightarrow> (unit, 's) act" where
  "unindex_passkey_credential x credential_id = kv_delete x user_idx_store (''passkey:'' @ credential_id)"

definition get_user_by_passkey :: "'s ext \<Rightarrow> string \<Rightarrow> (user option, 's) act" where
  "get_user_by_passkey x credential_id =
     try_io (kv_get_raw x user_idx_store (''passkey:'' @ credential_id)) (\<lambda>o1. case o1 of
       Some bytes \<Rightarrow> get_user x (from_utf8_lossy bytes) | None \<Rightarrow> ret None)"

definition record_totp_used :: "'s ext \<Rightarrow> string \<Rightarrow> u64 \<Rightarrow> (bool, 's) act" where
  "record_totp_used x key ttl_seconds =
     match_io (kv_create_raw x sessions_store key ''1'' (Some ttl_seconds)) (\<lambda>_. ret True)
       (\<lambda>e. if already_exists e then ret False else fail e)"

section \<open>Browser sessions\<close>

definition save_account_session :: "'s ext \<Rightarrow> string \<Rightarrow> account_session \<Rightarrow> (unit, 's) act" where
  "save_account_session x token session =
     (let hashed = sha256_hex x token;
          ttl = (if av_created_at session < av_expires_at session
                 then av_expires_at session - av_created_at session else ttl_account_session)
      in kv_set_ttl x sessions_store (''acct:'' @ hashed) (account_session_to_json session) ttl)"

definition get_account_session :: "'s ext \<Rightarrow> string \<Rightarrow> (account_session option, 's) act" where
  "get_account_session x token =
     (let hashed = sha256_hex x token in
      try_io (kv_get x account_session_of_json sessions_store (''acct:'' @ hashed)) (\<lambda>o1. case o1 of
        Some session \<Rightarrow> ret (Some session)
      | None \<Rightarrow> kv_get x account_session_of_json sessions_store (''acct:'' @ token)))"

definition delete_account_session :: "'s ext \<Rightarrow> string \<Rightarrow> (unit, 's) act" where
  "delete_account_session x token =
     (let hashed = sha256_hex x token in
      ignore_io (kv_delete x sessions_store (''acct:'' @ token))
        (kv_delete x sessions_store (''acct:'' @ hashed)))"

abbreviation settings_key :: string where "settings_key \<equiv> ''settings:global''"

definition get_runtime_settings :: "'s ext \<Rightarrow> (runtime_settings, 's) act" where
  "get_runtime_settings x = try_io get_config (\<lambda>c.
     try_io (or_else_io (kv_get x runtime_settings_of_json (clients_store c) settings_key) None)
       (\<lambda>o1. ret (case o1 of Some s \<Rightarrow> s | None \<Rightarrow> default_runtime_settings)))"

definition save_runtime_settings :: "'s ext \<Rightarrow> runtime_settings \<Rightarrow> (unit, 's) act" where
  "save_runtime_settings x settings = try_io get_config (\<lambda>c.
     kv_set x (clients_store c) settings_key (runtime_settings_to_json settings))"

definition get_idp_session_ttl :: "'s ext \<Rightarrow> (u64, 's) act" where
  "get_idp_session_ttl x = try_io (get_runtime_settings x) (\<lambda>s.
     ret (case rs_idp_session_ttl_seconds s of Some t \<Rightarrow> t | None \<Rightarrow> default_idp_session_ttl))"

definition save_idp_session :: "'s ext \<Rightarrow> string \<Rightarrow> idp_session \<Rightarrow> (unit, 's) act" where
  "save_idp_session x token session =
     (let hashed = sha256_hex x token in
      try_io (get_idp_session_ttl x) (\<lambda>ttl.
      kv_set_ttl x sessions_store (''idp:'' @ hashed) (idp_session_to_json session) ttl))"

definition get_idp_session :: "'s ext \<Rightarrow> string \<Rightarrow> (idp_session option, 's) act" where
  "get_idp_session x token =
     (let hashed = sha256_hex x token in
      try_io (kv_get x idp_session_of_json sessions_store (''idp:'' @ hashed)) (\<lambda>o1. case o1 of
        Some session \<Rightarrow> ret (Some session)
      | None \<Rightarrow> kv_get x idp_session_of_json sessions_store (''idp:'' @ token)))"

definition delete_idp_session :: "'s ext \<Rightarrow> string \<Rightarrow> (unit, 's) act" where
  "delete_idp_session x token =
     (let hashed = sha256_hex x token in
      ignore_io (kv_delete x sessions_store (''idp:'' @ token))
        (kv_delete x sessions_store (''idp:'' @ hashed)))"

section \<open>Known addresses\<close>

abbreviation max_known_ips :: nat where "max_known_ips \<equiv> 20"

definition push_known_ip :: "string list \<Rightarrow> string \<Rightarrow> string list" where
  "push_known_ip ips ip = (let ips = ips @ [ip] in if max_known_ips < length ips then tl ips else ips)"

definition check_and_record_ip :: "'s ext \<Rightarrow> string \<Rightarrow> string \<Rightarrow> (bool, 's) act" where
  "check_and_record_ip x user_id ip =
     (if ip = [] \<or> ip = ''unknown'' then ret False
      else let key = ''known_ips:'' @ user_id in
        try_io (or_else_io (kv_get x known_ips_of_json sessions_store key) None) (\<lambda>o1.
        let entry = (case o1 of Some e \<Rightarrow> e | None \<Rightarrow> \<lparr>ki_ips = []\<rparr>) in
        if ip \<in> set (ki_ips entry) then ret False
        else let entry = entry\<lparr>ki_ips := push_known_ip (ki_ips entry) ip\<rparr> in
          ignore_io (kv_set x sessions_store key (known_ips_to_json entry)) (ret True)))"

section \<open>Consent\<close>

definition get_user_consent :: "'s ext \<Rightarrow> string \<Rightarrow> string \<Rightarrow> (user_consent option, 's) act" where
  "get_user_consent x user_id client_id =
     (let key = ''consent:'' @ user_id @ '':'' @ client_id in kv_get x user_consent_of_json users_store key)"

fun merge_scopes :: "string list \<Rightarrow> string list \<Rightarrow> string list" where
  "merge_scopes scopes [] = scopes"
| "merge_scopes scopes (s # ss) =
     (let trimmed = trim s in
      if trimmed \<noteq> [] \<and> trimmed \<notin> set scopes then merge_scopes (scopes @ [trimmed]) ss
      else merge_scopes scopes ss)"

definition save_user_consent :: "'s ext \<Rightarrow> string \<Rightarrow> string \<Rightarrow> string list \<Rightarrow> (unit, 's) act" where
  "save_user_consent x user_id client_id new_scopes =
     (let key = ''consent:'' @ user_id @ '':'' @ client_id in
      try_io (get_user_consent x user_id client_id) (\<lambda>o1.
      let scopes = merge_scopes (case o1 of Some e \<Rightarrow> uc_scopes e | None \<Rightarrow> []) new_scopes in
      try_io unix_now (\<lambda>now.
      let consent = \<lparr>uc_user_id = user_id, uc_client_id = client_id, uc_scopes = scopes,
        uc_granted_at = now, uc_updated_at = now\<rparr>
      in kv_set x users_store key (user_consent_to_json consent))))"

definition has_user_consented :: "'s ext \<Rightarrow> string \<Rightarrow> string \<Rightarrow> string \<Rightarrow> (bool, 's) act" where
  "has_user_consented x user_id client_id requested_scope_str =
     try_io (get_user_consent x user_id client_id) (\<lambda>o1. case o1 of
       None \<Rightarrow> ret False
     | Some consent \<Rightarrow>
         (let requested = split_whitespace requested_scope_str in
          if requested = [] then ret True
          else ret (list_all (\<lambda>req. req \<in> set (uc_scopes consent)) requested)))"

definition delete_user_consent :: "'s ext \<Rightarrow> string \<Rightarrow> string \<Rightarrow> (unit, 's) act" where
  "delete_user_consent x user_id client_id =
     (let key = ''consent:'' @ user_id @ '':'' @ client_id in kv_delete x users_store key)"

definition list_user_consents :: "'s ext \<Rightarrow> string \<Rightarrow> (user_consent list, 's) act" where
  "list_user_consents x user_id =
     (let pre = ''consent:'' @ user_id @ '':'' in
      try_io (kv_prefix x user_consent_of_json users_store pre) (\<lambda>rows. ret (map snd rows)))"

lemmas store_users_runs [code] =
  lookup_def [THEN fun_cong] email_hash_exists_def [THEN fun_cong] create_user_def [THEN fun_cong]
  get_user_def [THEN fun_cong] get_user_cas_def [THEN fun_cong] update_user_cas_def [THEN fun_cong]
  update_user_loop.simps [THEN fun_cong] update_user_rmw_def [THEN fun_cong]
  update_provisioned_loop.simps [THEN fun_cong] update_user_provisioned_def [THEN fun_cong]
  delete_all.simps [THEN fun_cong] delete_user_relations_def [THEN fun_cong]
  delete_user_def [THEN fun_cong] get_superadmin_flag_def [THEN fun_cong]
  set_superadmin_flag_def [THEN fun_cong] list_users_def [THEN fun_cong]
  local_user_by_email_def [THEN fun_cong] get_user_by_email_def [THEN fun_cong]
  create_tenant_def [THEN fun_cong] get_tenant_def [THEN fun_cong] delete_tenant_def [THEN fun_cong]
  update_tenant_def [THEN fun_cong] list_tenants_def [THEN fun_cong] add_membership_def [THEN fun_cong]
  get_membership_def [THEN fun_cong] remove_membership_def [THEN fun_cong]
  list_tenant_members_def [THEN fun_cong] collect_memberships.simps [THEN fun_cong]
  list_user_tenants_def [THEN fun_cong] save_invitation_def [THEN fun_cong]
  get_invitation_def [THEN fun_cong] delete_invitation_def [THEN fun_cong]
  is_account_locked_def [THEN fun_cong] forget_expired_lock_def [THEN fun_cong]
  count_failure_def [THEN fun_cong] record_failed_loop.simps [THEN fun_cong]
  record_failed_login_def [THEN fun_cong] clear_login_attempts_def [THEN fun_cong]
  save_mfa_pending_def [THEN fun_cong] get_mfa_pending_def [THEN fun_cong]
  delete_mfa_pending_def [THEN fun_cong] save_passkey_challenge_def [THEN fun_cong]
  consume_passkey_challenge_def [THEN fun_cong] index_passkey_credential_def [THEN fun_cong]
  unindex_passkey_credential_def [THEN fun_cong] get_user_by_passkey_def [THEN fun_cong]
  record_totp_used_def [THEN fun_cong] save_account_session_def [THEN fun_cong]
  get_account_session_def [THEN fun_cong] delete_account_session_def [THEN fun_cong]
  get_runtime_settings_def [THEN fun_cong] save_runtime_settings_def [THEN fun_cong]
  get_idp_session_ttl_def [THEN fun_cong] save_idp_session_def [THEN fun_cong]
  get_idp_session_def [THEN fun_cong] delete_idp_session_def [THEN fun_cong]
  check_and_record_ip_def [THEN fun_cong] get_user_consent_def [THEN fun_cong]
  save_user_consent_def [THEN fun_cong] has_user_consented_def [THEN fun_cong]
  delete_user_consent_def [THEN fun_cong] list_user_consents_def [THEN fun_cong]

section \<open>Frames\<close>

abbreviation usr_at :: "string \<Rightarrow> addr" where "usr_at i \<equiv> (users_store, ''user:'' @ i)"
abbreviation idx_at :: "string \<Rightarrow> addr" where "idx_at k \<equiv> (user_idx_store, k)"

context jetcache
begin

lemma user_frames [frames_intro]:
  "frames view A (lookup x h)"
  "frames view A (email_hash_exists x h)"
  "frames view A (get_user x i)"
  "frames view A (get_user_cas x i)"
  "usr_at (usr_id u) \<in> A \<Longrightarrow> frames view A (update_user_cas x u n)"
  "frames view A (get_superadmin_flag x)"
  "frames view A (list_users x)"
  "frames view A (get_user_by_email x e)"
  "frames view A (get_user_by_passkey x c)"
  unfolding lookup_def email_hash_exists_def get_user_def get_user_cas_def update_user_cas_def
    get_superadmin_flag_def list_users_def get_user_by_email_def local_user_by_email_def
    get_user_by_passkey_def Let_def
  by (auto intro!: frames_intro)

lemma create_user_frames [frames_intro]:
  "usr_at (usr_id u) \<in> A \<Longrightarrow> (\<And>h. idx_at (''email:'' @ h) \<in> A) \<Longrightarrow> frames view A (create_user x u)"
  unfolding create_user_def Let_def new_user_record_simps by (intro frames_intro) auto

lemma tenant_frames [frames_intro]:
  "frames view A (get_membership x t u)"
  "frames view A (list_tenant_members x t)"
  unfolding get_membership_def list_tenant_members_def by (auto intro!: frames_intro)

lemma collect_memberships_frames: "frames view A (collect_memberships x u p keys)"
proof (induction keys)
  case Nil
  show ?case unfolding collect_memberships.simps by (intro frames_intro)
next
  case (Cons k keys)
  show ?case unfolding collect_memberships.simps by (intro frames_intro Cons.IH)
qed

lemma list_user_tenants_frames [frames_intro]: "frames view A (list_user_tenants x u)"
  unfolding list_user_tenants_def Let_def by (intro frames_intro collect_memberships_frames) auto

lemma lockout_frames [frames_intro]:
  "frames view A (is_account_locked x u)"
  "frames view A (count_failure a)"
  "sess (''lockout:'' @ u) \<in> A \<Longrightarrow> frames view A (clear_login_attempts x u)"
  unfolding is_account_locked_def count_failure_def forget_expired_lock_def clear_login_attempts_def Let_def
  by (intro frames_intro; simp)+

lemma browser_session_frames [frames_intro]:
  "frames view A (get_account_session x t)"
  "frames view A (get_runtime_settings x)"
  "frames view A (get_idp_session_ttl x)"
  "frames view A (get_idp_session x t)"
  "sess (''idp:'' @ sha256_hex x t) \<in> A \<Longrightarrow> frames view A (save_idp_session x t s)"
  "sess (''idp:'' @ sha256_hex x t) \<in> A \<Longrightarrow> sess (''idp:'' @ t) \<in> A \<Longrightarrow>
    frames view A (delete_idp_session x t)"
  unfolding get_account_session_def get_runtime_settings_def get_idp_session_ttl_def
    get_idp_session_def save_idp_session_def delete_idp_session_def Let_def
  by (auto intro!: frames_intro)

lemma consent_frames [frames_intro]:
  "frames view A (get_user_consent x u c)"
  "frames view A (has_user_consented x u c s)"
  "(users_store, ''consent:'' @ u @ '':'' @ c) \<in> A \<Longrightarrow> frames view A (save_user_consent x u c ss)"
  unfolding get_user_consent_def has_user_consented_def save_user_consent_def Let_def
  by (auto intro!: frames_intro)

end

section \<open>Accounts\<close>

lemma hmac_email_Ok:
  assumes "hmac_email x e w = (Ok h, w')"
  shows "w_kv w' = w_kv w"
  using assms unfolding hmac_email_def Let_def
  by (auto split: option.splits if_splits)

context gateway
begin

lemma get_user_Ok:
  "get_user x i w = (Ok o1, w') \<Longrightarrow> o1 = map_option fst (rec_at x view user_of_json (w_kv w) (usr_at i))"
  unfolding get_user_def by (rule kv_get_Ok)

lemma get_user_cas_Ok:
  "get_user_cas x i w = (Ok o1, w') \<Longrightarrow> o1 = rec_at x view user_of_json (w_kv w) (usr_at i)"
  unfolding get_user_cas_def by (rule kv_get_revision_Ok)

lemma update_user_cas_Ok:
  "update_user_cas x u n w = (Ok r, w') \<Longrightarrow>
    ((\<exists>b. view (w_kv w) (usr_at (usr_id u)) = Some (b, n)) \<or> n = 0 \<and> view (w_kv w) (usr_at (usr_id u)) = None) \<and>
    (\<exists>n'. n' \<noteq> n \<and> rec_at x view user_of_json (w_kv w') (usr_at (usr_id u)) = Some (u, n'))"
  unfolding update_user_cas_def
  by (drule kv_cas_swap_Ok) (auto simp: rec_at_encoded user_roundtrip)

lemma create_user_Ok:
  assumes "create_user x u w = (Ok y, w')"
  shows "\<exists>h s n. view s (idx_at (''email:'' @ h)) = None \<and>
    rec_at x view user_of_json s (usr_at (usr_id u)) = Some (new_user_record (w_config w) u, n) \<and>
    survives view s (w_kv w') (usr_at (usr_id u)) \<and>
    (\<exists>m. bytes_at x view (w_kv w') (idx_at (''email:'' @ h)) = Some (usr_id u, m))"
proof -
  let ?u = "new_user_record (w_config w) u"
  from assms have "try_io (kv_set x users_store (''user:'' @ usr_id u) (user_to_json ?u)) (\<lambda>_.
        try_io (hmac_email x (usr_email u)) (\<lambda>h.
        match_io (kv_cas_create_raw x user_idx_store (''email:'' @ h) (usr_id u))
          (\<lambda>_. ret ())
          (\<lambda>e. if already_exists e
               then ignore_io (kv_delete x users_store (''user:'' @ usr_id u))
                 (fail ''email already registered'')
               else fail e))) w = (Ok y, w')"
    unfolding create_user_def Let_def try_get_config new_user_record_simps .
  then obtain y1 w1 where s: "kv_set x users_store (''user:'' @ usr_id u) (user_to_json ?u) w = (Ok y1, w1)"
    and r1: "try_io (hmac_email x (usr_email u)) (\<lambda>h.
        match_io (kv_cas_create_raw x user_idx_store (''email:'' @ h) (usr_id u))
          (\<lambda>_. ret ())
          (\<lambda>e. if already_exists e
               then ignore_io (kv_delete x users_store (''user:'' @ usr_id u))
                 (fail ''email already registered'')
               else fail e)) w1 = (Ok y, w')"
    by (rule try_io_Ok)
  from r1 obtain h w2 where h: "hmac_email x (usr_email u) w1 = (Ok h, w2)"
    and c: "match_io (kv_cas_create_raw x user_idx_store (''email:'' @ h) (usr_id u))
          (\<lambda>_. ret ())
          (\<lambda>e. if already_exists e
               then ignore_io (kv_delete x users_store (''user:'' @ usr_id u))
                 (fail ''email already registered'')
               else fail e) w2 = (Ok y, w')"
    by (rule try_io_Ok)
  have kv: "w_kv w2 = w_kv w1" using hmac_email_Ok [OF h] .
  from c show ?thesis
  proof (cases rule: match_io_cases)
    case (ok z w3)
    from kv_set_Ok [OF s] obtain n where "rec_at x view user_of_json (w_kv w2) (usr_at (usr_id u)) = Some (?u, n)"
      by (auto simp: rec_at_encoded user_roundtrip kv)
    moreover have "survives view (w_kv w2) (w_kv w3) (usr_at (usr_id u))"
      by (rule touchesD [OF kv_cas_create_raw_touches [OF ok(1)]]) (simp_all add: table_ok_def)
    moreover have "view (w_kv w2) (idx_at (''email:'' @ h)) = None"
      "\<exists>m. bytes_at x view (w_kv w3) (idx_at (''email:'' @ h)) = Some (usr_id u, m)"
      using kv_cas_create_raw_Ok [OF ok(1)] by (auto intro: bytes_at_encoded)
    ultimately show ?thesis using ok(2) by auto
  next
    case (err e w3)
    then show ?thesis by (auto simp: ignore_io_def match_io_def split: if_splits prod.splits res.splits)
  qed
qed

text \<open>A read-modify-write replaces exactly the record it read.\<close>

lemma update_user_loop_Ok:
  assumes "update_user_loop x k i f w = (Ok u, w')"
    and id: "\<And>r r' b. f r = Ok (r', b) \<Longrightarrow> usr_id r' = usr_id r"
  shows "\<exists>s old n new b. rec_at x view user_of_json s (usr_at i) = Some (old, n) \<and> f old = Ok (new, b) \<and>
    (b \<longrightarrow> usr_id old = i \<longrightarrow>
      (\<exists>n'. n' \<noteq> n \<and> rec_at x view user_of_json (w_kv w') (usr_at i) = Some (new, n')))"
  using assms(1)
proof (induction k arbitrary: w)
  case 0
  then show ?case by simp
next
  case (Suc k)
  from Suc.prems obtain o1 w1 where g: "get_user_cas x i w = (Ok o1, w1)"
    and r1: "try_io (lift (require_user o1)) (\<lambda>(usr, revision).
     try_io (lift (f usr)) (\<lambda>(usr, commit).
     if \<not> commit then ret ()
     else match_io (update_user_cas x usr revision) (\<lambda>_. ret ())
       (\<lambda>e. if revision_mismatch e \<and> 0 < k then update_user_loop x k i f else fail e))) w1 = (Ok u, w')"
    unfolding update_user_loop.simps by (rule try_io_Ok)
  from r1 obtain old n where o1: "o1 = Some (old, n)" and
    r2: "try_io (lift (f old)) (\<lambda>(usr, commit).
     if \<not> commit then ret ()
     else match_io (update_user_cas x usr n) (\<lambda>_. ret ())
       (\<lambda>e. if revision_mismatch e \<and> 0 < k then update_user_loop x k i f else fail e)) w1 = (Ok u, w')"
    by (elim try_io_Ok) (auto simp: require_user_def ok_or_Ok)
  from r2 obtain new b where f: "f old = Ok (new, b)" and
    r3: "(if \<not> b then ret ()
     else match_io (update_user_cas x new n) (\<lambda>_. ret ())
       (\<lambda>e. if revision_mismatch e \<and> 0 < k then update_user_loop x k i f else fail e)) w1 = (Ok u, w')"
    by (elim try_io_Ok) auto
  have read: "rec_at x view user_of_json (w_kv w) (usr_at i) = Some (old, n)"
    using get_user_cas_Ok [OF g] o1 by simp
  show ?case
  proof (cases b)
    case False
    with read f show ?thesis by blast
  next
    case True
    with r3 have "match_io (update_user_cas x new n) (\<lambda>_. ret ())
       (\<lambda>e. if revision_mismatch e \<and> 0 < k then update_user_loop x k i f else fail e) w1 = (Ok u, w')" by simp
    then show ?thesis
    proof (cases rule: match_io_cases)
      case (ok y w2)
      then have w2: "w2 = w'" by simp
      have "usr_id old = i \<Longrightarrow> \<exists>n'. n' \<noteq> n \<and> rec_at x view user_of_json (w_kv w') (usr_at i) = Some (new, n')"
        using update_user_cas_Ok [OF ok(1)] id [OF f] w2 by auto
      with read f show ?thesis by blast
    next
      case (err e w2)
      then have "update_user_loop x k i f w2 = (Ok u, w')" by (auto split: if_splits)
      then show ?thesis by (rule Suc.IH)
    qed
  qed
qed

section \<open>Lockout\<close>

text \<open>One failure counted on a stored counter, and what it leaves.\<close>

definition counted :: "config option \<Rightarrow> login_attempts \<Rightarrow> login_attempts \<Rightarrow> bool \<Rightarrow> bool" where
  "counted c old new locked \<longleftrightarrow>
     (la_failures new = la_failures old + 1 \<or> 0 < la_locked_until old \<and> la_failures new = 1) \<and>
     locked = (max_login_failures c \<le> la_failures new)"

lemma count_failure_Ok:
  assumes "count_failure a w = (Ok (new, locked), w')"
  shows "counted (w_config w) a new locked \<and> w_kv w' = w_kv w \<and>
    (locked \<longrightarrow> (\<exists>n. la_locked_until new = w_clock w n + lockout_duration (w_config w)))"
  using assms unfolding count_failure_def forget_expired_lock_def counted_def Let_def
  by (auto elim!: try_io_Ok simp: get_config_Ok unix_now_Ok split: if_splits)

lemma record_failed_loop_Ok:
  assumes "record_failed_loop x k key w = (Ok locked, w')"
  shows "\<exists>s new n. counted (w_config w)
      (case rec_at x view login_attempts_of_json s (sess key) of
         Some (a, r) \<Rightarrow> a | None \<Rightarrow> \<lparr>la_failures = 0, la_locked_until = 0\<rparr>) new locked \<and>
    rec_at x view login_attempts_of_json (w_kv w') (sess key) = Some (new, n)"
  using assms
proof (induction k arbitrary: w)
  case 0
  then show ?case by simp
next
  case (Suc k)
  let ?rest = "\<lambda>o1. let (attempts, revision) = (case o1 of Some (a, r) \<Rightarrow> (a, r)
           | None \<Rightarrow> (\<lparr>la_failures = 0, la_locked_until = 0\<rparr>, 0))
     in try_io (count_failure attempts) (\<lambda>(attempts, locked).
        match_io
          (if revision = 0 then
             try_io (ldb_request x ''create'' (JObj [(''table'', JStr sessions_store), (''key'', JStr key),
                (''value'', JStr (x_b64_encode x (x_to_vec x (login_attempts_to_json attempts)))),
                (''ttl_seconds'', jnum ttl_lockout)])) (\<lambda>_. ret ())
           else
             try_io (kv_cas_swap_ttl x sessions_store key (login_attempts_to_json attempts) revision ttl_lockout)
               (\<lambda>_. ret ()))
          (\<lambda>_. ret locked)
          (\<lambda>e. if (revision_mismatch e \<or> already_exists e) \<and> 0 < k
             then record_failed_loop x k key
             else fail (''record_failed_login: '' @ e)))"
  from Suc.prems obtain o1 w1 where
    g: "kv_get_revision x login_attempts_of_json sessions_store key w = (Ok o1, w1)"
    and r1: "?rest o1 w1 = (Ok locked, w')"
    unfolding record_failed_loop.simps by (rule try_io_Ok)
  have o1: "o1 = rec_at x view login_attempts_of_json (w_kv w) (sess key)"
    using kv_get_revision_Ok [OF g] .
  have cfg1: "w_config w1 = w_config w"
    using steadyD [OF steady_kv(3) g] by (rule same_envD)
  define old where "old = (case o1 of Some (a, r) \<Rightarrow> a | None \<Rightarrow> \<lparr>la_failures = 0, la_locked_until = 0\<rparr>)"
  define revision where "revision = (case o1 of Some (a, r) \<Rightarrow> r | None \<Rightarrow> 0)"
  have split: "(case o1 of Some (a, r) \<Rightarrow> (a, r)
           | None \<Rightarrow> (\<lparr>la_failures = 0, la_locked_until = 0\<rparr>, 0)) = (old, revision)"
    by (simp add: old_def revision_def split: option.split prod.split)
  from r1 obtain new lk w2 where c: "count_failure old w1 = (Ok (new, lk), w2)"
    and r2: "match_io
          (if revision = 0 then
             try_io (ldb_request x ''create'' (JObj [(''table'', JStr sessions_store), (''key'', JStr key),
                (''value'', JStr (x_b64_encode x (x_to_vec x (login_attempts_to_json new)))),
                (''ttl_seconds'', jnum ttl_lockout)])) (\<lambda>_. ret ())
           else
             try_io (kv_cas_swap_ttl x sessions_store key (login_attempts_to_json new) revision ttl_lockout)
               (\<lambda>_. ret ()))
          (\<lambda>_. ret lk)
          (\<lambda>e. if (revision_mismatch e \<or> already_exists e) \<and> 0 < k
             then record_failed_loop x k key
             else fail (''record_failed_login: '' @ e)) w2 = (Ok locked, w')"
    unfolding split Let_def prod.case by (elim try_io_Ok) auto
  have cfg2: "w_config w2 = w_config w"
    using frames_env [OF lockout_frames(2) c] cfg1 by (simp add: same_env_def)
  from r2 show ?case
  proof (cases rule: match_io_cases)
    case (ok y w3)
    then have lk: "lk = locked" "w3 = w'" by simp_all
    have cnt: "counted (w_config w) old new locked" using count_failure_Ok [OF c] lk cfg1 by simp
    have "\<exists>n. view (w_kv w3) (sess key) = Some (x_b64_encode x (x_to_vec x (login_attempts_to_json new)), n)"
    proof (cases "revision = 0")
      case True
      with ok(1) have "try_io (ldb_request x ''create'' (JObj [(''table'', JStr sessions_store), (''key'', JStr key),
                (''value'', JStr (x_b64_encode x (x_to_vec x (login_attempts_to_json new)))),
                (''ttl_seconds'', jnum ttl_lockout)])) (\<lambda>_. ret ()) w2 = (Ok y, w3)" by simp
      then have "view (w_kv w2) (sess key) = None \<and> (\<exists>n. view (w_kv w3) (sess key) =
          Some (x_b64_encode x (x_to_vec x (login_attempts_to_json new)), n))"
        by (rule create_result) (simp_all add: jget_str_def)
      then show ?thesis ..
    next
      case False
      with ok(1) obtain z where "kv_cas_swap_ttl x sessions_store key (login_attempts_to_json new) revision
          ttl_lockout w2 = (Ok z, w3)"
        by (auto elim!: try_io_Ok)
      then show ?thesis by (auto dest: kv_cas_swap_ttl_Ok)
    qed
    then obtain n where "rec_at x view login_attempts_of_json (w_kv w') (sess key) = Some (new, n)"
      by (auto simp: rec_at_encoded login_attempts_roundtrip lk)
    with cnt show ?thesis unfolding old_def o1 by blast
  next
    case (err e w3)
    then have again: "record_failed_loop x k key w3 = (Ok locked, w')" by (auto split: if_splits)
    have "steady (if revision = 0 then
             try_io (ldb_request x ''create'' (JObj [(''table'', JStr sessions_store), (''key'', JStr key),
                (''value'', JStr (x_b64_encode x (x_to_vec x (login_attempts_to_json new)))),
                (''ttl_seconds'', jnum ttl_lockout)])) (\<lambda>_. ret ())
           else
             try_io (kv_cas_swap_ttl x sessions_store key (login_attempts_to_json new) revision ttl_lockout)
               (\<lambda>_. ret ()))"
      by (intro steady_intro)
    from steadyD [OF this err(1)] cfg2 have "w_config w3 = w_config w" by (simp add: same_env_def)
    with Suc.IH [OF again] show ?thesis by simp
  qed
qed

end

section \<open>Consent and known addresses\<close>

lemma merge_scopes_set: "set (merge_scopes scopes ss) = set scopes \<union> (trim ` set ss - {[]})"
  by (induction scopes ss rule: merge_scopes.induct) (auto simp: Let_def)

lemma merge_scopes_distinct: "distinct scopes \<Longrightarrow> distinct (merge_scopes scopes ss)"
  by (induction scopes ss rule: merge_scopes.induct) (auto simp: Let_def)

lemma push_known_ip_bound: "length ips \<le> max_known_ips \<Longrightarrow> length (push_known_ip ips ip) \<le> max_known_ips"
  by (auto simp: push_known_ip_def Let_def)

lemma push_known_ip_mem: "ip \<in> set (push_known_ip ips ip)"
  by (cases ips) (auto simp: push_known_ip_def Let_def)

end
