(* ===== verification/Abuse.thy ===== *)
theory Abuse
  imports Single_Use
begin

text \<open>
  The rate limiter of \<open>abuse.rs\<close>: a counter per key and time window, advanced by
  create-if-absent and compare-and-swap with at most five attempts. The locale \<open>ticking\<close> adds to
  the storage contract that a swap advances the revision by one; under it the limiter admits at
  most its limit however the requests of one window interleave.
\<close>

abbreviation rate_limits_table :: string where
  "rate_limits_table \<equiv> ''abuse-rate-limits''"

abbreviation rate_at :: "string \<Rightarrow> addr" where
  "rate_at k \<equiv> (rate_limits_table, k)"

text \<open>The count stored under a key with its revision; an unreadable count is zero.\<close>

definition rate_read :: "'s ext \<Rightarrow> string \<Rightarrow> (u64 \<times> u64, 's) act" where
  "rate_read x db_key = match_io (kv_get_raw_with_revision x rate_limits_table db_key)
     (\<lambda>raw. case raw of
        Some (bytes, r) \<Rightarrow>
          ret (case parse_u64 (trim (from_utf8_lossy bytes)) of Some c \<Rightarrow> c | None \<Rightarrow> 0, r)
      | None \<Rightarrow> ret (0, 0))
     (\<lambda>e. fail (''rate limit get: '' @ e))"

definition rate_write :: "'s ext \<Rightarrow> string \<Rightarrow> u64 \<Rightarrow> u64 \<Rightarrow> u64 \<Rightarrow> (unit, 's) act" where
  "rate_write x db_key count revision window_secs =
     (let new_count = show_u64 (count + 1) in
      if revision = 0
      then kv_create_raw x rate_limits_table db_key new_count (Some (window_secs + 10))
      else kv_cas_raw x rate_limits_table db_key new_count revision (Some (window_secs + 10)))"

fun rate_loop :: "'s ext \<Rightarrow> string \<Rightarrow> u64 \<Rightarrow> u64 \<Rightarrow> nat \<Rightarrow> (bool \<times> u64, 's) act" where
  "rate_loop x db_key limit window_secs 0 = fail ''rate limit CAS retries exhausted''"
| "rate_loop x db_key limit window_secs (Suc attempts) =
     try_io (rate_read x db_key) (\<lambda>(count, revision).
       if limit \<le> count then ret (False, 0)
       else match_io (rate_write x db_key count revision window_secs)
         (\<lambda>_. ret (True, limit - count - 1))
         (\<lambda>e. if revision = 0 then
                if contains_str ''already exists'' e
                then rate_loop x db_key limit window_secs attempts
                else fail (''rate limit create: '' @ e)
              else if contains_str ''revision mismatch'' e
                then rate_loop x db_key limit window_secs attempts
                else fail (''rate limit cas: '' @ e)))"

definition rate_key :: "string \<Rightarrow> u64 \<Rightarrow> u64 \<Rightarrow> string" where
  "rate_key key now window_secs =
     ''rate:'' @ key @ '':'' @ show_u64 (now - now mod window_secs)"

text \<open>A window of zero seconds is a division by zero.\<close>

definition check_rate :: "'s ext \<Rightarrow> string \<Rightarrow> u64 \<Rightarrow> u64 \<Rightarrow> (bool \<times> u64, 's) act" where
  "check_rate x key limit window_secs = try_io unix_now (\<lambda>now.
     if window_secs = 0
     then panic ''attempt to calculate the remainder with a divisor of zero''
     else rate_loop x (rate_key key now window_secs) limit window_secs 5)"

lemmas abuse_runs [code] =
  rate_read_def [THEN fun_cong] rate_write_def [THEN fun_cong] rate_loop.simps [THEN fun_cong]
  check_rate_def [THEN fun_cong]

section \<open>The stored count\<close>

lemma is_digit_ascii: "is_digit c \<Longrightarrow> chr_code c < 128 \<and> \<not> is_ws c"
  by (auto simp: is_digit_def is_ws_def)

lemma trim_digits: "list_all is_digit s \<Longrightarrow> trim s = s"
proof -
  assume d: "list_all is_digit s"
  then have nw: "\<forall>c \<in> set s. \<not> is_ws c" by (auto simp: list_all_iff dest: is_digit_ascii)
  then have 1: "dropWhile is_ws s = s" by (cases s) auto
  from nw have "dropWhile is_ws (rev s) = rev s" by (cases "rev s") (auto simp: rev_eq_Cons_iff)
  with 1 show ?thesis by (simp add: trim_def)
qed

lemma read_show [simp]: "parse_u64 (trim (from_utf8_lossy (show_u64 c))) = Some c"
proof -
  have d: "list_all is_digit (show_u64 c)" by (rule show_nat_digits)
  then have "\<forall>e \<in> set (show_u64 c). chr_code e < 128" by (auto simp: list_all_iff dest: is_digit_ascii)
  then have "from_utf8_lossy (show_u64 c) = show_u64 c" by (rule from_utf8_lossy_ascii)
  with d show ?thesis by (simp add: trim_digits)
qed

definition count_text :: "'s ext \<Rightarrow> u64 \<Rightarrow> string" where
  "count_text x c = x_b64_encode x (show_u64 c)"

context jetcache
begin

lemma rate_read_frames [frames_intro]: "frames view A (rate_read x k)"
  unfolding rate_read_def by (intro frames_intro) simp

lemma rate_write_frames [frames_intro]: "rate_at k \<in> A \<Longrightarrow> frames view A (rate_write x k c r ws)"
  unfolding rate_write_def Let_def by (intro frames_intro) simp_all

lemma rate_loop_frames: "rate_at k \<in> A \<Longrightarrow> frames view A (rate_loop x k limit ws n)"
  by (induction n) (auto intro!: frames_intro)

text \<open>A check writes rate counters of its own key only.\<close>

lemma check_rate_frames [frames_intro]:
  "(\<And>t. rate_at (''rate:'' @ key @ '':'' @ t) \<in> A) \<Longrightarrow> frames view A (check_rate x key limit ws)"
  unfolding check_rate_def rate_key_def by (intro frames_intro rate_loop_frames) auto

end

context gateway
begin

text \<open>What a read sees: nothing, or the text of the stored bytes.\<close>

lemma rate_read_Ok:
  assumes "rate_read x k w = (Ok (c, r), w')"
  shows "(view (w_kv w) (rate_at k) = None \<and> c = 0 \<and> r = 0) \<or>
    (\<exists>b. view (w_kv w) (rate_at k) = Some (b, r) \<and> (\<forall>d. b = count_text x d \<longrightarrow> c = d))"
  using assms unfolding rate_read_def
proof (cases rule: match_io_cases)
  case (ok raw w1)
  show ?thesis
  proof (cases raw)
    case None
    with ok show ?thesis by (auto dest: kv_get_None)
  next
    case (Some p)
    obtain bs q where p: "p = (bs, q)" by (cases p)
    from kv_get_raw_with_revision_Ok [OF ok(1)] Some p
    have at: "bytes_at x view (w_kv w) (rate_at k) = Some (bs, q)" by auto
    then obtain b where b: "view (w_kv w) (rate_at k) = Some (b, q)" "x_b64_decode x b = Inr bs"
      by (auto simp: bytes_at_def split: option.splits sum.splits)
    have "\<forall>d. b = count_text x d \<longrightarrow> c = d" using ok Some p b
      by (auto simp: count_text_def b64_roundtrip)
    with ok Some p b show ?thesis by auto
  qed
qed auto

lemma rate_write_Ok:
  assumes "rate_write x k c r ws w = (Ok (), w')"
  shows "\<exists>n. view (w_kv w') (rate_at k) = Some (count_text x (c + 1), n)"
  using assms unfolding rate_write_def Let_def count_text_def
  by (auto split: if_splits dest: kv_create_raw_Ok kv_cas_raw_Ok)

lemma rate_loop_admits:
  "rate_loop x k limit ws n w = (Ok (True, left), w') \<Longrightarrow>
    \<exists>c m. c < limit \<and> left = limit - c - 1 \<and> view (w_kv w') (rate_at k) = Some (count_text x (c + 1), m)"
proof (induction n arbitrary: w)
  case 0
  then show ?case by simp
next
  case (Suc n)
  from Suc.prems obtain c r w1 where rest:
    "(if limit \<le> c then ret (False, 0)
       else match_io (rate_write x k c r ws) (\<lambda>_. ret (True, limit - c - 1))
         (\<lambda>e. if r = 0 then if contains_str ''already exists'' e then rate_loop x k limit ws n
                else fail (''rate limit create: '' @ e)
              else if contains_str ''revision mismatch'' e then rate_loop x k limit ws n
                else fail (''rate limit cas: '' @ e))) w1 = (Ok (True, left), w')"
    by (auto elim!: try_io_Ok split: prod.splits)
  show ?case
  proof (cases "limit \<le> c")
    case True
    with rest show ?thesis by simp
  next
    case False
    from rest [unfolded if_not_P [OF False]] show ?thesis
    proof (cases rule: match_io_cases)
      case (ok u w2)
      then have "rate_write x k c r ws w1 = (Ok (), w')" "left = limit - c - 1" by auto
      with rate_write_Ok False show ?thesis by (metis not_le)
    next
      case (err e w2)
      then have "rate_loop x k limit ws n w2 = (Ok (True, left), w')" by (auto split: if_splits)
      then show ?thesis by (rule Suc.IH)
    qed
  qed
qed

end

section \<open>Interleaved requests\<close>

text \<open>
  A swap at the current revision advances it by one, whatever is reported, and a swap at any other
  revision changes nothing; a create whose reply is lost only filled an absent entry.
\<close>

locale ticking = gateway +
  assumes cas_next: "ldb_reply x ''cas'' p s = (r, s') \<Longrightarrow> jget_str p ''value'' = Some b \<Longrightarrow>
      jget_u64 p ''revision'' = Some n \<Longrightarrow> n \<noteq> 0 \<Longrightarrow>
      survives view s s' (addr_of p) \<and> (\<forall>v. r \<noteq> Inr v) \<or>
      (\<exists>b0. view s (addr_of p) = Some (b0, n)) \<and> view s' (addr_of p) = Some (b, n + 1)"
    and create_failed: "ldb_reply x ''create'' p s = (Inl e, s') \<Longrightarrow>
      jget_str p ''value'' = Some b \<Longrightarrow> survives view s s' (addr_of p) \<or>
      view s (addr_of p) = None \<and> (\<exists>n. view s' (addr_of p) = Some (b, n))"

interpretation mem_ticks: ticking mem_ext mem_view
proof
  fix p s r s' b n
  assume run: "ldb_reply mem_ext ''cas'' p s = (r, s')" and p: "jget_str p ''value'' = Some b"
    "jget_u64 p ''revision'' = Some n" and n: "(n :: u64) \<noteq> 0"
  show "survives mem_view s s' (addr_of p) \<and> (\<forall>v. r \<noteq> Inr v) \<or>
      (\<exists>b0. mem_view s (addr_of p) = Some (b0, n)) \<and> mem_view s' (addr_of p) = Some (b, n + 1)"
  proof (cases r)
    case (Inl e)
    with run have "s' = s" by (auto simp: mem_reply_Inl dest: test_failure_keeps)
    with Inl show ?thesis by simp
  next
    case (Inr v)
    with run p n show ?thesis
      by (auto simp: mem_reply_Inr test_server_ops test_cas_def mem_view_update Let_def
          split: if_splits option.splits) (auto simp: mem_view_def)
  qed
next
  fix p s e s' b
  assume "ldb_reply mem_ext ''create'' p s = (Inl e, s')"
  then have "s' = s" by (auto simp: mem_reply_Inl dest: test_failure_keeps)
  then show "survives mem_view s s' (addr_of p) \<or>
      mem_view s (addr_of p) = None \<and> (\<exists>n. mem_view s' (addr_of p) = Some (b, n))" by simp
qed

lemma mem_ticking: "ticking mem_ext mem_view"
  by (rule mem_ticks.ticking_axioms)

text \<open>
  The requests of one window, interleaved at the granularity of storage operations. The counter
  lives ten seconds longer than its window, so no step lets it expire.
\<close>

datatype rate_phase = Asking | Seen u64 u64 | Admitted | Denied

definition lasts :: "'s view \<Rightarrow> addr \<Rightarrow> 's world \<Rightarrow> 's world \<Rightarrow> bool" where
  "lasts view a w w' \<longleftrightarrow> (view (w_kv w) a \<noteq> None \<longrightarrow> view (w_kv w') a \<noteq> None)"

inductive rate_step :: "'s ext \<Rightarrow> 's view \<Rightarrow> string \<Rightarrow> u64 \<Rightarrow> u64 \<Rightarrow>
    (nat \<Rightarrow> rate_phase) \<times> 's world \<Rightarrow> (nat \<Rightarrow> rate_phase) \<times> 's world \<Rightarrow> bool"
  for x :: "'s ext" and view :: "'s view" and k :: string and limit :: u64 and ws :: u64
where
  look: "pc i = Asking \<Longrightarrow> rate_read x k w = (Ok (c, r), w') \<Longrightarrow> lasts view (rate_at k) w w' \<Longrightarrow> c < limit \<Longrightarrow>
    rate_step x view k limit ws (pc, w) (pc(i := Seen c r), w')"
| deny: "pc i = Asking \<Longrightarrow> rate_read x k w = (q, w') \<Longrightarrow> lasts view (rate_at k) w w' \<Longrightarrow>
    rate_step x view k limit ws (pc, w) (pc(i := Denied), w')"
| admit: "pc i = Seen c r \<Longrightarrow> rate_write x k c r ws w = (Ok (), w') \<Longrightarrow> lasts view (rate_at k) w w' \<Longrightarrow>
    rate_step x view k limit ws (pc, w) (pc(i := Admitted), w')"
| lose: "pc i = Seen c r \<Longrightarrow> rate_write x k c r ws w = (q, w') \<Longrightarrow> lasts view (rate_at k) w w' \<Longrightarrow> q \<noteq> Ok () \<Longrightarrow>
    p = Asking \<or> p = Denied \<Longrightarrow> rate_step x view k limit ws (pc, w) (pc(i := p), w')"
| elsewhere: "survives view (w_kv w) (w_kv w') (rate_at k) \<Longrightarrow> lasts view (rate_at k) w w' \<Longrightarrow>
    rate_step x view k limit ws (pc, w) (pc, w')"

inductive_cases rate_stepE: "rate_step x view k limit ws (pc, w) (pc', w')"

abbreviation all_asking :: "nat \<Rightarrow> rate_phase" where
  "all_asking \<equiv> (\<lambda>i. Asking)"

definition admitted :: "(nat \<Rightarrow> rate_phase) \<Rightarrow> nat set" where
  "admitted pc = {i. pc i = Admitted}"

text \<open>The counter is absent and nobody was admitted, or it holds at least the number admitted, and
  the revision names the count.\<close>

definition seen_ok :: "u64 \<Rightarrow> (nat \<Rightarrow> rate_phase) \<Rightarrow> u64 \<Rightarrow> bool" where
  "seen_ok limit pc r0 \<longleftrightarrow> (\<forall>i c r. pc i = Seen c r \<longrightarrow> c < limit \<and> (r = 0 \<or> r = r0 + c))"

definition rate_inv :: "'s ext \<Rightarrow> u64 \<Rightarrow> (nat \<Rightarrow> rate_phase) \<Rightarrow> (string \<times> u64) option \<Rightarrow> bool" where
  "rate_inv x limit pc e \<longleftrightarrow> finite (admitted pc) \<and> (case e of
     None \<Rightarrow> admitted pc = {} \<and> (\<forall>i c r. pc i = Seen c r \<longrightarrow> c = 0 \<and> r = 0 \<and> 0 < limit)
   | Some (b, n) \<Rightarrow> (\<exists>c r0. b = count_text x c \<and> n = r0 + c \<and> card (admitted pc) \<le> unat c \<and> c \<le> limit \<and>
       seen_ok limit pc r0))"

lemma rate_inv_None:
  "rate_inv x limit pc None \<longleftrightarrow>
    admitted pc = {} \<and> (\<forall>i c r. pc i = Seen c r \<longrightarrow> c = 0 \<and> r = 0 \<and> 0 < limit)"
  by (auto simp: rate_inv_def)

lemma rate_inv_Some:
  "rate_inv x limit pc (Some (b, n)) \<longleftrightarrow> finite (admitted pc) \<and>
    (\<exists>c r0. b = count_text x c \<and> n = r0 + c \<and> card (admitted pc) \<le> unat c \<and> c \<le> limit \<and> seen_ok limit pc r0)"
  by (simp add: rate_inv_def)

lemma admitted_upd: "pc i \<noteq> Admitted \<Longrightarrow> admitted (pc(i := p)) = (if p = Admitted then insert i (admitted pc) else admitted pc)"
  by (auto simp: admitted_def)

lemma rate_inv_bound: "rate_inv x limit pc e \<Longrightarrow> finite (admitted pc) \<and> card (admitted pc) \<le> unat limit"
  by (cases e) (auto simp: rate_inv_None rate_inv_Some word_le_nat_alt)

text \<open>A step that neither admits nor changes the counter.\<close>

lemma rate_inv_quiet:
  assumes "rate_inv x limit pc e" and "pc i \<noteq> Admitted" and "p \<noteq> Admitted" and "\<forall>c r. p \<noteq> Seen c r"
  shows "rate_inv x limit (pc(i := p)) e"
proof (cases e)
  case None
  with assms show ?thesis by (auto simp: rate_inv_None admitted_upd)
next
  case (Some en)
  have "seen_ok limit pc r0 \<Longrightarrow> seen_ok limit (pc(i := p)) r0" for r0
    using assms(4) by (auto simp: seen_ok_def)
  with assms Some show ?thesis by (cases en) (auto simp: rate_inv_Some admitted_upd)
qed

lemma lasts_same: "survives view (w_kv w) (w_kv w') a \<Longrightarrow> lasts view a w w' \<Longrightarrow> view (w_kv w') a = view (w_kv w) a"
  by (cases "view (w_kv w) a") (auto simp: survives_def lasts_def)

text \<open>The counter advanced by a write, from absent or from the count that was seen.\<close>

lemma rate_inv_count:
  assumes inv: "rate_inv x limit pc e" and seen: "pc i = Seen c r" and p: "\<forall>c r. p \<noteq> Seen c r"
    and adv: "r = 0 \<and> e = None \<or> r \<noteq> 0 \<and> (\<exists>b. e = Some (b, r)) \<and> n = r + 1"
  shows "rate_inv x limit (pc(i := p)) (Some (count_text x (c + 1), n))"
proof (cases e)
  case None
  with inv seen have c: "c = 0" "0 < limit" and none: "admitted pc = {}"
    and zero: "\<And>j c r. pc j = Seen c r \<Longrightarrow> c = 0 \<and> r = 0"
    by (auto simp: rate_inv_None)
  have "seen_ok limit (pc(i := p)) (n - 1)" using zero p c(2) by (auto simp: seen_ok_def)
  moreover have "c + 1 \<le> limit" using c by (intro inc_le) simp
  moreover have "card (admitted (pc(i := p))) \<le> unat (c + 1)" "finite (admitted (pc(i := p)))"
    using none c seen by (simp_all add: admitted_upd)
  ultimately show ?thesis unfolding rate_inv_Some by (intro conjI exI [of _ "c + 1"] exI [of _ "n - 1"]) (simp_all add: c)
next
  case (Some en)
  with adv obtain b where e: "e = Some (b, r)" and n: "n = r + 1" "r \<noteq> 0" by auto
  with inv obtain d r0 where d: "r = r0 + d" "card (admitted pc) \<le> unat d" "d \<le> limit"
    "seen_ok limit pc r0" and fin: "finite (admitted pc)"
    by (auto simp: rate_inv_Some)
  from d(4) seen n(2) have cl: "c < limit" and "r = r0 + c" by (auto simp: seen_ok_def)
  with d(1) have dc: "d = c" by simp
  have "unat c + 1 < 2 ^ LENGTH(64)"
    using cl unsigned_less [of limit, where ?'a = nat] by (simp add: word_less_nat_alt)
  then have up: "unat (c + 1) = Suc (unat c)" by (simp add: unat_word_ariths)
  have "c + 1 \<le> limit" using cl by (rule inc_le)
  moreover have "card (admitted (pc(i := p))) \<le> unat (c + 1)"
    using d(2) dc up seen fin by (auto simp: admitted_upd intro: order_trans [OF card_insert_le_m1])
  moreover have "seen_ok limit (pc(i := p)) r0" using d(4) p by (auto simp: seen_ok_def)
  moreover have "finite (admitted (pc(i := p)))" using fin seen by (simp add: admitted_upd)
  ultimately show ?thesis unfolding rate_inv_Some
    by (intro conjI exI [of _ "c + 1"] exI [of _ r0]) (simp_all add: n d dc)
qed

context ticking
begin

lemma kv_create_raw_outcome:
  assumes run: "kv_create_raw x t k b ttl w = (q, w')"
  shows "survives view (w_kv w) (w_kv w') (t, k) \<and> q \<noteq> Ok () \<or>
    view (w_kv w) (t, k) = None \<and> (\<exists>n. view (w_kv w') (t, k) = Some (x_b64_encode x b, n))"
proof -
  obtain p f where m: "try_io (ldb_request x ''create'' p) (\<lambda>v. ret (f v :: unit)) w = (q, w')"
    and p: "is_obj p" "addr_of p = (t, k)" "jget_str p ''value'' = Some (x_b64_encode x b)"
    using run unfolding kv_create_raw_def Let_def
    by (elim that) (auto simp: jget_str_def split: option.split)
  have v: "jget_str (with_consistency w p) ''value'' = Some (x_b64_encode x b)"
    "addr_of (with_consistency w p) = (t, k)"
    using p by (simp_all add: jget_str_with_consistency)
  obtain r where req: "ldb_request x ''create'' p w = (r, w')" and r: "\<And>e. r = Err e \<Longrightarrow> q = Err e"
    using m by (cases "ldb_request x ''create'' p w"; cases "fst (ldb_request x ''create'' p w)") (auto simp: try_io_def)
  from req show ?thesis
  proof (cases rule: ldb_request_reply)
    case (ok v)
    with create_ok [OF ok(2) v(1)] v(2) show ?thesis by simp
  next
    case (err e)
    with create_failed [OF err(2) v(1)] v(2) r show ?thesis by simp
  qed
qed

lemma kv_cas_raw_next:
  assumes run: "kv_cas_raw x t k b n ttl w = (q, w')" and n: "n \<noteq> 0"
  shows "survives view (w_kv w) (w_kv w') (t, k) \<and> q \<noteq> Ok () \<or>
    (\<exists>b0. view (w_kv w) (t, k) = Some (b0, n)) \<and> view (w_kv w') (t, k) = Some (x_b64_encode x b, n + 1)"
proof -
  obtain p f where m: "try_io (ldb_request x ''cas'' p) (\<lambda>v. ret (f v :: unit)) w = (q, w')"
    and p: "is_obj p" "addr_of p = (t, k)" "jget_str p ''value'' = Some (x_b64_encode x b)"
      "jget_u64 p ''revision'' = Some n"
    using run unfolding kv_cas_raw_def Let_def
    by (elim that) (auto simp: jget_str_def jget_u64_def split: option.split)
  have v: "jget_str (with_consistency w p) ''value'' = Some (x_b64_encode x b)"
    "jget_u64 (with_consistency w p) ''revision'' = Some n" "addr_of (with_consistency w p) = (t, k)"
    using p by (simp_all add: jget_str_with_consistency jget_u64_with_consistency)
  obtain r where req: "ldb_request x ''cas'' p w = (r, w')" and r: "\<And>e. r = Err e \<Longrightarrow> q = Err e"
    using m by (cases "ldb_request x ''cas'' p w"; cases "fst (ldb_request x ''cas'' p w)") (auto simp: try_io_def)
  from req show ?thesis
  proof (cases rule: ldb_request_reply)
    case (ok v)
    with cas_next [OF ok(2) v(1,2) n] v(3) show ?thesis by auto
  next
    case (err e)
    with cas_next [OF err(2) v(1,2) n] v(3) r show ?thesis by auto
  qed
qed

lemma rate_write_outcome:
  assumes run: "rate_write x k c r ws w = (q, w')" and l: "lasts view (rate_at k) w w'"
  shows "view (w_kv w') (rate_at k) = view (w_kv w) (rate_at k) \<and> q \<noteq> Ok () \<or>
    (\<exists>n. view (w_kv w') (rate_at k) = Some (count_text x (c + 1), n) \<and>
      (r = 0 \<and> view (w_kv w) (rate_at k) = None \<or>
       r \<noteq> 0 \<and> (\<exists>b. view (w_kv w) (rate_at k) = Some (b, r)) \<and> n = r + 1))"
proof (cases "r = 0")
  case True
  with run have "kv_create_raw x rate_limits_table k (show_u64 (c + 1)) (Some (ws + 10)) w = (q, w')"
    by (simp add: rate_write_def)
  from kv_create_raw_outcome [OF this] True l show ?thesis
    by (auto simp: count_text_def dest: lasts_same)
next
  case False
  with run have "kv_cas_raw x rate_limits_table k (show_u64 (c + 1)) r (Some (ws + 10)) w = (q, w')"
    by (simp add: rate_write_def)
  from kv_cas_raw_next [OF this False] False l show ?thesis
    by (auto simp: count_text_def dest: lasts_same)
qed

end

context ticking
begin

lemma rate_inv_step:
  assumes "rate_step x view k limit ws (pc, w) (pc', w')"
    and inv: "rate_inv x limit pc (view (w_kv w) (rate_at k))"
  shows "rate_inv x limit pc' (view (w_kv w') (rate_at k))"
  using assms(1)
proof cases
  case (look i c r)
  have sv: "survives view (w_kv w) (w_kv w') (rate_at k)"
    by (rule frames_survives [OF rate_read_frames [of "{}"] look(3)]) (simp_all add: table_ok_def)
  note same = lasts_same [OF sv look(4)]
  show ?thesis
  proof (cases "view (w_kv w) (rate_at k)")
    case None
    with rate_read_Ok [OF look(3)] have cr: "c = 0" "r = 0" by auto
    then show ?thesis unfolding same unfolding None
      using inv look(1,2,5) None by (auto simp: rate_inv_None admitted_upd)
  next
    case (Some en)
    obtain b n where en: "en = (b, n)" by (cases en)
    with inv Some obtain d r0 where d: "b = count_text x d" "n = r0 + d" "seen_ok limit pc r0"
      "card (admitted pc) \<le> unat d" "d \<le> limit" "finite (admitted pc)"
      by (auto simp: rate_inv_Some)
    from rate_read_Ok [OF look(3)] Some en d(1) have cr: "c = d" "r = n" by auto
    have "seen_ok limit (pc(i := Seen c r)) r0" using d(2,3) cr look(5) by (auto simp: seen_ok_def)
    then show ?thesis unfolding same unfolding Some en look(1) rate_inv_Some
      using d look(2) by (auto simp: admitted_upd)
  qed
next
  case (deny i q)
  have sv: "survives view (w_kv w) (w_kv w') (rate_at k)"
    by (rule frames_survives [OF rate_read_frames [of "{}"] deny(3)]) (simp_all add: table_ok_def)
  note same = lasts_same [OF sv deny(4)]
  show ?thesis unfolding same deny(1) by (rule rate_inv_quiet [OF inv]) (simp_all add: deny(2))
next
  case (admit i c r)
  from rate_write_outcome [OF admit(3,4)] obtain n
    where w': "view (w_kv w') (rate_at k) = Some (count_text x (c + 1), n)"
      and adv: "r = 0 \<and> view (w_kv w) (rate_at k) = None \<or>
       r \<noteq> 0 \<and> (\<exists>b. view (w_kv w) (rate_at k) = Some (b, r)) \<and> n = r + 1" by blast
  show ?thesis unfolding w' admit(1) by (rule rate_inv_count [OF inv admit(2) _ adv]) simp
next
  case (lose i c r q p)
  from rate_write_outcome [OF lose(3,4)]
  consider (same) "view (w_kv w') (rate_at k) = view (w_kv w) (rate_at k)"
    | (adv) n where "view (w_kv w') (rate_at k) = Some (count_text x (c + 1), n)"
      "r = 0 \<and> view (w_kv w) (rate_at k) = None \<or>
       r \<noteq> 0 \<and> (\<exists>b. view (w_kv w) (rate_at k) = Some (b, r)) \<and> n = r + 1" by blast
  then show ?thesis
  proof cases
    case same
    show ?thesis unfolding same lose(1) by (rule rate_inv_quiet [OF inv]) (use lose(2,6) in auto)
  next
    case adv
    show ?thesis unfolding adv(1) lose(1) by (rule rate_inv_count [OF inv lose(2) _ adv(2)]) (use lose(6) in auto)
  qed
next
  case elsewhere
  show ?thesis unfolding lasts_same [OF elsewhere(2,3)] elsewhere(1) by (rule inv)
qed

lemma rate_inv_reachable:
  assumes "(rate_step x view k limit ws)\<^sup>*\<^sup>* (all_asking, w0) (pc, w)"
    and "view (w_kv w0) (rate_at k) = None"
  shows "rate_inv x limit pc (view (w_kv w) (rate_at k))"
  using assms(1)
proof (induction rule: rtranclp_induct2)
  case refl
  then show ?case using assms(2) by (simp add: rate_inv_None admitted_def)
next
  case (step pc1 w1 pc2 w2)
  then show ?case using rate_inv_step by blast
qed

end

section \<open>Properties\<close>


abbreviation "rate_w1 \<equiv> snd (rate_read mem_ext (rate_key ''a'' 1000 60) demo_world)"
abbreviation "rate_w2 \<equiv> snd (rate_write mem_ext (rate_key ''a'' 1000 60) 0 0 60 rate_w1)"




end
