(* ===== verification/Jwt.thy ===== *)
theory Jwt
  imports Abuse
begin

text \<open>
  The verification half of \<open>jwt.rs\<close>: compact tokens of three parts separated by dots, checked
  against a single JWK or a key set, and the RFC 7638 thumbprint of a JWK. The
  signature schemes are parameters; the locale \<open>signing\<close> states that a signature verifies under
  the public half of its key.
\<close>

section \<open>Decoding\<close>

definition b64url_decode :: "'s ext \<Rightarrow> string \<Rightarrow> string \<Rightarrow> bytes res" where
  "b64url_decode x label s = of_sum (\<lambda>e. label @ '': '' @ e) (x_b64url_decode x s)"

definition parse_json :: "'s ext \<Rightarrow> string \<Rightarrow> bytes \<Rightarrow> json res" where
  "parse_json x label b = of_sum (\<lambda>e. label @ '': '' @ e) (x_from_slice x b)"

text \<open>\<open>header.get(k).and_then(as_str).unwrap_or("")\<close>.\<close>

definition get_or_empty :: "json \<Rightarrow> string \<Rightarrow> string" where
  "get_or_empty j k = (case jget_str j k of Some s \<Rightarrow> s | None \<Rightarrow> [])"

definition need_str :: "json \<Rightarrow> string \<Rightarrow> string \<Rightarrow> string res" where
  "need_str j k e = ok_or (jget_str j k) e"

section \<open>Thumbprints\<close>

definition compute_jwk_thumbprint :: "'s ext \<Rightarrow> json \<Rightarrow> string res" where
  "compute_jwk_thumbprint x jwk =
     res_bind (need_str jwk ''kty'' ''missing kty'') (\<lambda>kty.
     res_bind
       (if kty = ''RSA'' then
          res_bind (need_str jwk ''e'' ''missing e'') (\<lambda>e.
          res_bind (need_str jwk ''n'' ''missing n'') (\<lambda>n.
          Ok (''{\"e\":\"'' @ e @ ''\",\"kty\":\"RSA\",\"n\":\"'' @ n @ ''\"}'')))
        else if kty = ''EC'' then
          res_bind (need_str jwk ''crv'' ''missing crv'') (\<lambda>crv.
          res_bind (need_str jwk ''x'' ''missing x'') (\<lambda>jx.
          res_bind (need_str jwk ''y'' ''missing y'') (\<lambda>jy.
          Ok (''{\"crv\":\"'' @ crv @ ''\",\"kty\":\"EC\",\"x\":\"'' @ jx @ ''\",\"y\":\"'' @ jy @ ''\"}''))))
        else Err (''unsupported kty for thumbprint: '' @ kty))
       (\<lambda>canonical. Ok (x_b64url_encode x (x_sha256 x canonical))))"

section \<open>Verification against a JWK\<close>

definition verify_rsa_jwk :: "'s ext \<Rightarrow> json \<Rightarrow> string \<Rightarrow> bytes \<Rightarrow> unit res" where
  "verify_rsa_jwk x jwk message sig =
     res_bind (need_str jwk ''n'' ''missing n in RSA JWK'') (\<lambda>n_str.
     res_bind (need_str jwk ''e'' ''missing e in RSA JWK'') (\<lambda>e_str.
     res_bind (b64url_decode x ''decode n'' n_str) (\<lambda>n.
     res_bind (b64url_decode x ''decode e'' e_str) (\<lambda>e.
     of_sum (\<lambda>err. ''RS256 verification failed: '' @ err) (x_verify_rs256 x n e message sig)))))"

definition verify_ec_jwk :: "'s ext \<Rightarrow> json \<Rightarrow> string \<Rightarrow> bytes \<Rightarrow> unit res" where
  "verify_ec_jwk x jwk message sig =
     res_bind (need_str jwk ''x'' ''missing x in EC JWK'') (\<lambda>x_str.
     res_bind (need_str jwk ''y'' ''missing y in EC JWK'') (\<lambda>y_str.
     res_bind (b64url_decode x ''decode x'' x_str) (\<lambda>px.
     res_bind (b64url_decode x ''decode y'' y_str) (\<lambda>py.
     of_sum (\<lambda>err. ''ES256 verification failed: '' @ err)
       (x_verify_es256 x (CHR 0x04 # px @ py) message sig)))))"

definition verify_jwt_with_jwk :: "'s ext \<Rightarrow> string \<Rightarrow> json \<Rightarrow> (json \<times> json) res" where
  "verify_jwt_with_jwk x token jwk = (case splitn3 CHR ''.'' token of
     None \<Rightarrow> Err ''invalid JWT format''
   | Some (h_b64, p_b64, s_b64) \<Rightarrow>
       res_bind (res_bind (b64url_decode x ''header decode'' h_b64) (parse_json x ''header parse'')) (\<lambda>header.
       res_bind (res_bind (b64url_decode x ''payload decode'' p_b64) (parse_json x ''payload parse'')) (\<lambda>payload.
       let alg = get_or_empty header ''alg''; message = h_b64 @ CHR ''.'' # p_b64 in
       res_bind (b64url_decode x ''signature decode'' s_b64) (\<lambda>sig_bytes.
       res_bind (if alg = ''RS256'' then verify_rsa_jwk x jwk message sig_bytes
                 else if alg = ''ES256'' then verify_ec_jwk x jwk message sig_bytes
                 else Err (''unsupported signature algorithm: '' @ alg))
         (\<lambda>_. Ok (header, payload))))))"

section \<open>Verification against a key set\<close>

definition jwks_keys :: "json \<Rightarrow> json list" where
  "jwks_keys jwks = (case jget_array jwks ''keys'' of
     Some arr \<Rightarrow> arr
   | None \<Rightarrow> if jget jwks ''kty'' \<noteq> None then [jwks] else [])"

definition expected_kty :: "string \<Rightarrow> string option" where
  "expected_kty alg = (if alg = ''RS256'' then Some ''RSA'' else if alg = ''ES256'' then Some ''EC'' else None)"

definition jwks_candidates :: "json \<Rightarrow> json \<Rightarrow> json list" where
  "jwks_candidates jwks header =
     (let kid = jget_str header ''kid''; kty = expected_kty (get_or_empty header ''alg'') in
      filter (\<lambda>k. kid = None \<or> jget_str k ''kid'' = kid)
        (filter (\<lambda>k. kty = None \<or> jget_str k ''kty'' = kty) (jwks_keys jwks)))"

fun try_keys :: "'s ext \<Rightarrow> string \<Rightarrow> json list \<Rightarrow> string \<Rightarrow> (json \<times> json) res" where
  "try_keys x token [] last_err = Err last_err"
| "try_keys x token (k # ks) last_err = (case verify_jwt_with_jwk x token k of
     Ok r \<Rightarrow> Ok r | Err e \<Rightarrow> try_keys x token ks e | Panic p \<Rightarrow> Panic p)"

definition verify_jwt_with_jwks :: "'s ext \<Rightarrow> string \<Rightarrow> json \<Rightarrow> (json \<times> json) res" where
  "verify_jwt_with_jwks x token jwks = (case splitn3 CHR ''.'' token of
     None \<Rightarrow> Err ''invalid JWT format''
   | Some (h, p, s) \<Rightarrow>
       res_bind (b64url_decode x ''header decode'' h) (\<lambda>h_bytes.
       res_bind (parse_json x ''header parse'' h_bytes) (\<lambda>header.
       let candidates = jwks_candidates jwks header in
       if candidates = [] then Err ''no matching public key found in JWKS''
       else try_keys x token candidates ''signature verification failed'')))"

section \<open>The signature contract\<close>

locale signing =
  fixes x :: "'s ext"
  assumes b64url_roundtrip: "x_b64url_decode x (x_b64url_encode x b) = Inr b"
    and b64url_no_dot: "CHR ''.'' \<notin> set (x_b64url_encode x b)"
    and rsa_verifies: "x_rsa_parse x k = Inr () \<Longrightarrow>
      x_verify_rs256 x (rk_n k) (rk_e k) m (x_rs256_sign x k m) = Inr ()"
    and ec_verifies: "x_ec_parse x d = Inr () \<Longrightarrow> x_ec_point x d = (px, py) \<Longrightarrow>
      x_verify_es256 x (CHR 0x04 # px @ py) m (x_es256_sign x d m) = Inr ()"

interpretation mem_sig: signing mem_ext
  by unfold_locales (simp_all add: mem_ext_def mem_ops undot_no_dot)

lemma mem_signing: "signing mem_ext"
  by (rule mem_sig.signing_axioms)

lemma splitn3_dots:
  "CHR ''.'' \<notin> set h \<Longrightarrow> CHR ''.'' \<notin> set p \<Longrightarrow>
    splitn3 CHR ''.'' (h @ CHR ''.'' # p @ CHR ''.'' # s) = Some (h, p, s)"
proof -
  assume "CHR ''.'' \<notin> set h" and "CHR ''.'' \<notin> set p"
  then have "split_once CHR ''.'' (h @ CHR ''.'' # p @ CHR ''.'' # s) = Some (h, p @ CHR ''.'' # s)"
    and "split_once CHR ''.'' (p @ CHR ''.'' # s) = Some (p, s)"
    by (simp_all add: split_once_Some)
  then show ?thesis by (simp add: splitn3_def)
qed

text \<open>A compact token.\<close>

definition compact :: "'s ext \<Rightarrow> json \<Rightarrow> json \<Rightarrow> bytes \<Rightarrow> string" where
  "compact x header claims sig = x_b64url_encode x (x_to_vec x header) @ CHR ''.'' #
     x_b64url_encode x (x_to_vec x claims) @ CHR ''.'' # x_b64url_encode x sig"

definition signed_part :: "'s ext \<Rightarrow> json \<Rightarrow> json \<Rightarrow> string" where
  "signed_part x header claims =
     x_b64url_encode x (x_to_vec x header) @ CHR ''.'' # x_b64url_encode x (x_to_vec x claims)"

locale token_gateway = gateway x view + signing x for x :: "'s ext" and view :: "'s view"
begin

lemma compact_split:
  "splitn3 CHR ''.'' (compact x header claims sig) =
    Some (x_b64url_encode x (x_to_vec x header), x_b64url_encode x (x_to_vec x claims), x_b64url_encode x sig)"
  unfolding compact_def by (rule splitn3_dots) (rule b64url_no_dot)+

lemma parse_encoded:
  "res_bind (b64url_decode x l (x_b64url_encode x (x_to_vec x j))) (parse_json x l') = Ok j"
  by (simp add: b64url_decode_def parse_json_def b64url_roundtrip from_slice_to_vec)

text \<open>What a key accepts is decided by the signature over the first two parts alone.\<close>

lemma verify_compact:
  "verify_jwt_with_jwk x (compact x header claims sig) jwk =
    res_bind (if get_or_empty header ''alg'' = ''RS256'' then verify_rsa_jwk x jwk (signed_part x header claims) sig
       else if get_or_empty header ''alg'' = ''ES256'' then verify_ec_jwk x jwk (signed_part x header claims) sig
       else Err (''unsupported signature algorithm: '' @ get_or_empty header ''alg''))
      (\<lambda>_. Ok (header, claims))"
  unfolding verify_jwt_with_jwk_def compact_split
  by (simp add: parse_encoded signed_part_def Let_def) (simp add: b64url_decode_def b64url_roundtrip)

lemma jwks_compact:
  assumes "k \<in> set (jwks_candidates jwks header)"
    and "verify_jwt_with_jwk x (compact x header claims sig) k = Ok (header, claims)"
  shows "verify_jwt_with_jwks x (compact x header claims sig) jwks = Ok (header, claims)"
proof -
  let ?t = "compact x header claims sig"
  have results: "(\<exists>e. verify_jwt_with_jwk x ?t k' = Err e) \<or> verify_jwt_with_jwk x ?t k' = Ok (header, claims)" for k'
    by (auto simp: verify_compact verify_rsa_jwk_def verify_ec_jwk_def need_str_def b64url_decode_def
        ok_or_def of_sum_def res_bind_def split: option.splits sum.splits)
  have loop: "k \<in> set ks \<Longrightarrow> try_keys x ?t ks e = Ok (header, claims)" for ks e
  proof (induction ks arbitrary: e)
    case (Cons k' ks)
    show ?case using results [of k'] Cons assms(2) by auto
  qed simp
  have "res_bind (b64url_decode x ''header decode'' (x_b64url_encode x (x_to_vec x header))) (parse_json x ''header parse'') = Ok header"
    by (rule parse_encoded)
  with assms(1) loop [OF assms(1)] show ?thesis
    unfolding verify_jwt_with_jwks_def compact_split
    by (auto simp: res_bind_Ok Let_def b64url_decode_def parse_json_def b64url_roundtrip from_slice_to_vec)
qed

end

interpretation mem_tokens: token_gateway mem_ext mem_view
  by (rule token_gateway.intro [OF mem_gateway mem_signing])

lemma mem_token_gateway: "token_gateway mem_ext mem_view"
  by (rule mem_tokens.token_gateway_axioms)

lemma coded_token_gateway: "(\<And>j. dec (enc j) = Inr j) \<Longrightarrow> token_gateway (coded enc dec) mem_view"
  using coded_gateway mem_signing by (simp add: token_gateway_def signing_def coded_def)

end
