(* ===== verification/Key_Manager.thy ===== *)
theory Key_Manager
  imports Jwt
begin

text \<open>
  The signing keys of \<open>key_manager.rs\<close>: versioned RSA and EC records, the ring pointer with its
  retired keys, the first-run bootstrap, rotation by compare-and-swap, the published key set, and
  the signing half of \<open>jwt.rs\<close>. Diagnostics on standard error are left out.
\<close>

section \<open>Records\<close>

record stored_key =
  sk_kid :: "string"
  sk_n :: "string"
  sk_e :: "string"
  sk_d :: "string"
  sk_primes :: "string list"
  sk_created_at :: "u64"

definition stored_key_to_json :: "stored_key \<Rightarrow> json" where
  "stored_key_to_json x = JObj [
     (''kid'', JStr (sk_kid x)),
     (''n'', JStr (sk_n x)),
     (''e'', JStr (sk_e x)),
     (''d'', JStr (sk_d x)),
     (''primes'', jstrs (sk_primes x)),
     (''created_at'', jnum (sk_created_at x))]"

definition stored_key_of_json :: "json \<Rightarrow> stored_key res" where
  "stored_key_of_json j = de_struct j (
     de_field j ''kid'' de_str (\<lambda>v_kid.
     de_field j ''n'' de_str (\<lambda>v_n.
     de_field j ''e'' de_str (\<lambda>v_e.
     de_field j ''d'' de_str (\<lambda>v_d.
     de_field j ''primes'' (de_list de_str) (\<lambda>v_primes.
     de_default j ''created_at'' 0 de_u64 (\<lambda>v_created_at.
     Ok \<lparr>sk_kid = v_kid,
       sk_n = v_n,
       sk_e = v_e,
       sk_d = v_d,
       sk_primes = v_primes,
       sk_created_at = v_created_at\<rparr>)))))))"

lemma stored_key_roundtrip [serde_simps]: "stored_key_of_json (stored_key_to_json x) = Ok x"
  by (simp add: stored_key_to_json_def stored_key_of_json_def de_field_def de_default_def serde_simps)

record stored_ec_key =
  se_kid :: "string"
  se_d :: "string"
  se_created_at :: "u64"

definition stored_ec_key_to_json :: "stored_ec_key \<Rightarrow> json" where
  "stored_ec_key_to_json x = JObj [
     (''kid'', JStr (se_kid x)),
     (''d'', JStr (se_d x)),
     (''created_at'', jnum (se_created_at x))]"

definition stored_ec_key_of_json :: "json \<Rightarrow> stored_ec_key res" where
  "stored_ec_key_of_json j = de_struct j (
     de_field j ''kid'' de_str (\<lambda>v_kid.
     de_field j ''d'' de_str (\<lambda>v_d.
     de_default j ''created_at'' 0 de_u64 (\<lambda>v_created_at.
     Ok \<lparr>se_kid = v_kid,
       se_d = v_d,
       se_created_at = v_created_at\<rparr>))))"

lemma stored_ec_key_roundtrip [serde_simps]: "stored_ec_key_of_json (stored_ec_key_to_json x) = Ok x"
  by (simp add: stored_ec_key_to_json_def stored_ec_key_of_json_def de_field_def de_default_def serde_simps)

record retired_key_meta =
  rm_kid :: "string"
  rm_alg :: "string"
  rm_key_name :: "string"
  rm_retired_at :: "u64"

definition retired_key_meta_to_json :: "retired_key_meta \<Rightarrow> json" where
  "retired_key_meta_to_json x = JObj [
     (''kid'', JStr (rm_kid x)),
     (''alg'', JStr (rm_alg x)),
     (''key_name'', JStr (rm_key_name x)),
     (''retired_at'', jnum (rm_retired_at x))]"

definition retired_key_meta_of_json :: "json \<Rightarrow> retired_key_meta res" where
  "retired_key_meta_of_json j = de_struct j (
     de_field j ''kid'' de_str (\<lambda>v_kid.
     de_field j ''alg'' de_str (\<lambda>v_alg.
     de_field j ''key_name'' de_str (\<lambda>v_key_name.
     de_field j ''retired_at'' de_u64 (\<lambda>v_retired_at.
     Ok \<lparr>rm_kid = v_kid,
       rm_alg = v_alg,
       rm_key_name = v_key_name,
       rm_retired_at = v_retired_at\<rparr>)))))"

lemma retired_key_meta_roundtrip [serde_simps]: "retired_key_meta_of_json (retired_key_meta_to_json x) = Ok x"
  by (simp add: retired_key_meta_to_json_def retired_key_meta_of_json_def de_field_def de_default_def serde_simps)

lemma retired_key_meta_list_roundtrip [serde_simps]:
  "de_list retired_key_meta_of_json (JArr (map retired_key_meta_to_json xs)) = Ok xs"
  by (rule de_list_map) (rule retired_key_meta_roundtrip)

record key_ring_meta =
  kr_version :: "u32"
  kr_rsa_kid :: "string"
  kr_ec_kid :: "string"
  kr_created_at :: "u64"
  kr_retired :: "retired_key_meta list"

definition key_ring_meta_to_json :: "key_ring_meta \<Rightarrow> json" where
  "key_ring_meta_to_json x = JObj [
     (''version'', jnum32 (kr_version x)),
     (''rsa_kid'', JStr (kr_rsa_kid x)),
     (''ec_kid'', JStr (kr_ec_kid x)),
     (''created_at'', jnum (kr_created_at x)),
     (''retired'', JArr (map retired_key_meta_to_json (kr_retired x)))]"

definition key_ring_meta_of_json :: "json \<Rightarrow> key_ring_meta res" where
  "key_ring_meta_of_json j = de_struct j (
     de_field j ''version'' de_u32 (\<lambda>v_version.
     de_field j ''rsa_kid'' de_str (\<lambda>v_rsa_kid.
     de_field j ''ec_kid'' de_str (\<lambda>v_ec_kid.
     de_field j ''created_at'' de_u64 (\<lambda>v_created_at.
     de_default j ''retired'' [] (de_list retired_key_meta_of_json) (\<lambda>v_retired.
     Ok \<lparr>kr_version = v_version,
       kr_rsa_kid = v_rsa_kid,
       kr_ec_kid = v_ec_kid,
       kr_created_at = v_created_at,
       kr_retired = v_retired\<rparr>))))))"

lemma key_ring_meta_roundtrip [serde_simps]: "key_ring_meta_of_json (key_ring_meta_to_json x) = Ok x"
  by (simp add: key_ring_meta_to_json_def key_ring_meta_of_json_def de_field_def de_default_def serde_simps)


record rotation_outcome =
  ro_version :: u32
  ro_rsa_kid :: string
  ro_ec_kid :: string
  ro_rsa_key_name :: string
  ro_ec_key_name :: string
  ro_retired :: "retired_key_meta list"
  ro_grace_expires_at :: u64

record key_info =
  ki_kid :: string
  ki_alg :: string
  ki_status :: string
  ki_version :: u32
  ki_created_at :: "u64 option"
  ki_retired_at :: "u64 option"
  ki_grace_expires_at :: "u64 option"

record loaded_keys =
  lk_signing_key :: rsa_key
  lk_ec_signing_key :: bytes

section \<open>Names and grace period\<close>

abbreviation keys_table :: string where "keys_table \<equiv> ''keys''"
abbreviation meta_key :: string where "meta_key \<equiv> ''meta:current''"
abbreviation retired_grace_secs :: u64 where "retired_grace_secs \<equiv> 3600 + 600"

definition rsa_key_name :: "u32 \<Rightarrow> string" where
  "rsa_key_name version = ''signing-key-v'' @ show_u32 version"

definition ec_key_name :: "u32 \<Rightarrow> string" where
  "ec_key_name version = ''signing-key-ec-v'' @ show_u32 version"

definition saturating_add :: "u64 \<Rightarrow> u64 \<Rightarrow> u64" where
  "saturating_add a b = (if a + b < a then - 1 else a + b)"

definition retired_active :: "retired_key_meta \<Rightarrow> u64 \<Rightarrow> bool" where
  "retired_active r now \<longleftrightarrow> now < saturating_add (rm_retired_at r) retired_grace_secs"

section \<open>RSA keys\<close>

definition next_draw :: "(nat, 's) act" where
  "next_draw w = (Ok (w_draws w), w\<lparr>w_draws := Suc (w_draws w)\<rparr>)"

definition generate_kid_rsa :: "'s ext \<Rightarrow> rsa_key \<Rightarrow> string" where
  "generate_kid_rsa x k = x_b64url_encode x (take 12 (x_sha256 x (rk_n k @ rk_e k)))"

definition rsa_public_jwk :: "stored_key \<Rightarrow> json" where
  "rsa_public_jwk s = JObj [(''kty'', JStr ''RSA''), (''use'', JStr ''sig''), (''alg'', JStr ''RS256''),
     (''kid'', JStr (sk_kid s)), (''n'', JStr (sk_n s)), (''e'', JStr (sk_e s))]"

definition load_rsa_from_db :: "'s ext \<Rightarrow> string \<Rightarrow> (stored_key option, 's) act" where
  "load_rsa_from_db x name = try_io (kv_get_raw x keys_table name) (\<lambda>o1. case o1 of
       Some bytes \<Rightarrow> try_io (lift (res_map_err (\<lambda>e. ''deserialize key: '' @ e)
           (from_slice x stored_key_of_json bytes))) (\<lambda>stored. ret (Some stored))
     | None \<Rightarrow> ret None)"

definition create_or_load_rsa_key :: "'s ext \<Rightarrow> string \<Rightarrow> (stored_key, 's) act" where
  "create_or_load_rsa_key x name =
     try_io next_draw (\<lambda>draw.
     try_io (lift (of_sum (\<lambda>e. ''RSA gen failed: '' @ e) (x_rsa_generate x draw))) (\<lambda>private_key.
     try_io unix_now (\<lambda>now.
     let stored = \<lparr>sk_kid = generate_kid_rsa x private_key, sk_n = x_b64url_encode x (rk_n private_key),
           sk_e = x_b64url_encode x (rk_e private_key), sk_d = x_b64url_encode x (rk_d private_key),
           sk_primes = map (x_b64url_encode x) (rk_primes private_key), sk_created_at = now\<rparr>;
         stored_bytes = x_to_vec x (stored_key_to_json stored)
     in match_io (kv_create_raw x keys_table name stored_bytes None)
       (\<lambda>_. ret stored)
       (\<lambda>e. if contains_str ''already exists'' e then
              try_io (load_rsa_from_db x name) (\<lambda>o1.
                lift (ok_or o1 (''key '' @ name @ '' disappeared after race'')))
            else fail (''store key '' @ name @ '': '' @ e)))))"

definition decode_biguint :: "'s ext \<Rightarrow> string \<Rightarrow> string \<Rightarrow> bytes res" where
  "decode_biguint x b64 label = b64url_decode x (''decode '' @ label) b64"

fun decode_primes :: "'s ext \<Rightarrow> nat \<Rightarrow> string list \<Rightarrow> bytes list res" where
  "decode_primes x i [] = Ok []"
| "decode_primes x i (p # ps) =
     res_bind (decode_biguint x p (''prime['' @ show_nat i @ '']'')) (\<lambda>b.
     res_bind (decode_primes x (Suc i) ps) (\<lambda>bs. Ok (b # bs)))"

definition stored_key_to_signing_key :: "'s ext \<Rightarrow> stored_key \<Rightarrow> rsa_key res" where
  "stored_key_to_signing_key x stored =
     res_bind (decode_biguint x (sk_n stored) ''n'') (\<lambda>n.
     res_bind (decode_biguint x (sk_e stored) ''e'') (\<lambda>e.
     res_bind (decode_biguint x (sk_d stored) ''d'') (\<lambda>d.
     res_bind (decode_primes x 0 (sk_primes stored)) (\<lambda>primes.
     let k = \<lparr>rk_n = n, rk_e = e, rk_d = d, rk_primes = primes\<rparr> in
     res_bind (of_sum (\<lambda>err. ''reconstruct key: '' @ err) (x_rsa_parse x k)) (\<lambda>_. Ok k)))))"

section \<open>EC keys\<close>

definition load_ec_from_db :: "'s ext \<Rightarrow> string \<Rightarrow> (stored_ec_key option, 's) act" where
  "load_ec_from_db x name = try_io (kv_get_raw x keys_table name) (\<lambda>o1. case o1 of
       Some bytes \<Rightarrow> try_io (lift (res_map_err (\<lambda>e. ''deserialize EC key: '' @ e)
           (from_slice x stored_ec_key_of_json bytes))) (\<lambda>stored. ret (Some stored))
     | None \<Rightarrow> ret None)"

definition ec_point_bytes :: "'s ext \<Rightarrow> bytes \<Rightarrow> bytes" where
  "ec_point_bytes x d = (case x_ec_point x d of (px, py) \<Rightarrow> CHR 0x04 # px @ py)"

definition create_or_load_ec_key :: "'s ext \<Rightarrow> string \<Rightarrow> (stored_ec_key, 's) act" where
  "create_or_load_ec_key x name =
     try_io next_draw (\<lambda>draw.
     let scalar_bytes = x_ec_generate x draw;
         kid = x_b64url_encode x (take 12 (x_sha256 x (ec_point_bytes x scalar_bytes)))
     in try_io unix_now (\<lambda>now.
     let stored = \<lparr>se_kid = kid, se_d = x_b64url_encode x scalar_bytes, se_created_at = now\<rparr>;
         stored_bytes = x_to_vec x (stored_ec_key_to_json stored)
     in match_io (kv_create_raw x keys_table name stored_bytes None)
       (\<lambda>_. ret stored)
       (\<lambda>e. if contains_str ''already exists'' e then
              try_io (load_ec_from_db x name) (\<lambda>o1.
                lift (ok_or o1 (''EC key '' @ name @ '' disappeared after race'')))
            else fail (''store EC key '' @ name @ '': '' @ e))))"

definition stored_ec_to_signing_key :: "'s ext \<Rightarrow> stored_ec_key \<Rightarrow> bytes res" where
  "stored_ec_to_signing_key x stored =
     res_bind (b64url_decode x ''decode EC key'' (se_d stored)) (\<lambda>scalar_bytes.
     res_bind (of_sum (\<lambda>e. ''parse EC key: '' @ e) (x_ec_parse x scalar_bytes)) (\<lambda>_. Ok scalar_bytes))"

definition ec_public_jwk :: "'s ext \<Rightarrow> stored_ec_key \<Rightarrow> json res" where
  "ec_public_jwk x stored =
     res_bind (stored_ec_to_signing_key x stored) (\<lambda>sk.
     case x_ec_point x sk of (px, py) \<Rightarrow>
     Ok (JObj [(''kty'', JStr ''EC''), (''use'', JStr ''sig''), (''alg'', JStr ''ES256''),
       (''kid'', JStr (se_kid stored)), (''crv'', JStr ''P-256''),
       (''x'', JStr (x_b64url_encode x px)), (''y'', JStr (x_b64url_encode x py))]))"

section \<open>The ring pointer\<close>

definition parse_meta :: "'s ext \<Rightarrow> bytes \<Rightarrow> key_ring_meta res" where
  "parse_meta x bytes = res_map_err (\<lambda>e. ''deserialize key ring metadata: '' @ e)
     (from_slice x key_ring_meta_of_json bytes)"

definition bootstrap_meta :: "'s ext \<Rightarrow> (key_ring_meta \<times> u64, 's) act" where
  "bootstrap_meta x =
     try_io (create_or_load_rsa_key x (rsa_key_name 1)) (\<lambda>rsa.
     try_io (create_or_load_ec_key x (ec_key_name 1)) (\<lambda>ec.
     try_io unix_now (\<lambda>now.
     let meta = \<lparr>kr_version = 1, kr_rsa_kid = sk_kid rsa, kr_ec_kid = se_kid ec, kr_created_at = now,
           kr_retired = []\<rparr>;
         bytes = x_to_vec x (key_ring_meta_to_json meta)
     in match_io (kv_create_raw x keys_table meta_key bytes None)
       (\<lambda>_. ret (meta, 1))
       (\<lambda>e. if contains_str ''already exists'' e then
              try_io (kv_get_raw_with_revision x keys_table meta_key) (\<lambda>o1. case o1 of
                Some (bytes, revision) \<Rightarrow> try_io (lift (parse_meta x bytes)) (\<lambda>meta. ret (meta, revision))
              | None \<Rightarrow> fail ''key ring metadata disappeared after race'')
            else fail (''store key ring metadata: '' @ e)))))"

definition load_meta_with_revision :: "'s ext \<Rightarrow> (key_ring_meta \<times> u64, 's) act" where
  "load_meta_with_revision x =
     try_io (kv_get_raw_with_revision x keys_table meta_key) (\<lambda>o1. case o1 of
       Some (bytes, revision) \<Rightarrow> try_io (lift (parse_meta x bytes)) (\<lambda>meta. ret (meta, revision))
     | None \<Rightarrow> bootstrap_meta x)"

definition load_meta :: "'s ext \<Rightarrow> (key_ring_meta, 's) act" where
  "load_meta x = try_io (load_meta_with_revision x) (\<lambda>(meta, _). ret meta)"

section \<open>Rotation\<close>

definition retire_current :: "key_ring_meta \<Rightarrow> u64 \<Rightarrow> retired_key_meta list" where
  "retire_current meta now = filter (\<lambda>r. retired_active r now) (kr_retired meta) @
     [\<lparr>rm_kid = kr_rsa_kid meta, rm_alg = ''RS256'', rm_key_name = rsa_key_name (kr_version meta), rm_retired_at = now\<rparr>,
      \<lparr>rm_kid = kr_ec_kid meta, rm_alg = ''ES256'', rm_key_name = ec_key_name (kr_version meta), rm_retired_at = now\<rparr>]"

fun purge_expired :: "'s ext \<Rightarrow> u64 \<Rightarrow> retired_key_meta list \<Rightarrow> (unit, 's) act" where
  "purge_expired x now [] = ret ()"
| "purge_expired x now (r # rs) =
     (if retired_active r now then purge_expired x now rs
      else ignore_io (kv_delete x keys_table (rm_key_name r)) (purge_expired x now rs))"

fun rotate_loop :: "'s ext \<Rightarrow> nat \<Rightarrow> (rotation_outcome, 's) act" where
  "rotate_loop x 0 = fail ''rotate keys: too many concurrent rotations''"
| "rotate_loop x (Suc attempts) =
     try_io unix_now (\<lambda>now.
     try_io (load_meta_with_revision x) (\<lambda>(meta, revision).
     let new_version = kr_version meta + 1; rsa_name = rsa_key_name new_version; ec_name = ec_key_name new_version in
     try_io (create_or_load_rsa_key x rsa_name) (\<lambda>new_rsa.
     try_io (create_or_load_ec_key x ec_name) (\<lambda>new_ec.
     let new_meta = \<lparr>kr_version = new_version, kr_rsa_kid = sk_kid new_rsa, kr_ec_kid = se_kid new_ec,
           kr_created_at = now, kr_retired = retire_current meta now\<rparr>;
         bytes = x_to_vec x (key_ring_meta_to_json new_meta)
     in match_io (kv_cas_raw x keys_table meta_key bytes revision None)
       (\<lambda>_. try_io (purge_expired x now (kr_retired meta)) (\<lambda>_.
          ret \<lparr>ro_version = new_version, ro_rsa_kid = kr_rsa_kid new_meta, ro_ec_kid = kr_ec_kid new_meta,
            ro_rsa_key_name = rsa_name, ro_ec_key_name = ec_name, ro_retired = kr_retired new_meta,
            ro_grace_expires_at = now + retired_grace_secs\<rparr>))
       (\<lambda>e. if contains_str ''revision mismatch'' e \<and> attempts \<noteq> 0 then rotate_loop x attempts
            else fail (''rotate keys: '' @ e))))))"

definition rotate_keys :: "'s ext \<Rightarrow> (rotation_outcome, 's) act" where
  "rotate_keys x = rotate_loop x 5"

section \<open>Listing and publishing\<close>

text \<open>The version at the end of a key name.\<close>

definition key_name_version :: "string \<Rightarrow> u32" where
  "key_name_version name = (case parse_u32 (last (split_on CHR ''v'' name)) of Some v \<Rightarrow> v | None \<Rightarrow> 0)"

definition positive :: "u64 option \<Rightarrow> u64 option" where
  "positive o1 = (case o1 of Some t \<Rightarrow> if 0 < t then Some t else None | None \<Rightarrow> None)"

definition or_some :: "u64 option \<Rightarrow> u64 \<Rightarrow> u64 option" where
  "or_some o1 d = (case o1 of Some t \<Rightarrow> Some t | None \<Rightarrow> Some d)"

definition retired_created_at :: "'s ext \<Rightarrow> retired_key_meta \<Rightarrow> (u64 option, 's) act" where
  "retired_created_at x r =
     (if rm_alg r = ''RS256'' then try_io (load_rsa_from_db x (rm_key_name r)) (\<lambda>o1. ret (positive (map_option sk_created_at o1)))
      else if rm_alg r = ''ES256'' then try_io (load_ec_from_db x (rm_key_name r)) (\<lambda>o1. ret (positive (map_option se_created_at o1)))
      else ret None)"

fun list_retired :: "'s ext \<Rightarrow> u64 \<Rightarrow> retired_key_meta list \<Rightarrow> key_info list \<Rightarrow> (key_info list, 's) act" where
  "list_retired x now [] out = ret out"
| "list_retired x now (r # rs) out =
     try_io (retired_created_at x r) (\<lambda>created_at.
     list_retired x now rs (out @ [\<lparr>ki_kid = rm_kid r, ki_alg = rm_alg r,
       ki_status = (if retired_active r now then ''retired'' else ''expired''),
       ki_version = key_name_version (rm_key_name r), ki_created_at = created_at,
       ki_retired_at = Some (rm_retired_at r),
       ki_grace_expires_at = Some (saturating_add (rm_retired_at r) retired_grace_secs)\<rparr>]))"

definition list_keys :: "'s ext \<Rightarrow> (key_info list, 's) act" where
  "list_keys x =
     try_io (load_meta x) (\<lambda>meta.
     try_io unix_now (\<lambda>now.
     try_io (load_rsa_from_db x (rsa_key_name (kr_version meta))) (\<lambda>rsa.
     try_io (load_ec_from_db x (ec_key_name (kr_version meta))) (\<lambda>ec.
     list_retired x now (kr_retired meta)
       [\<lparr>ki_kid = kr_rsa_kid meta, ki_alg = ''RS256'', ki_status = ''current'', ki_version = kr_version meta,
          ki_created_at = or_some (positive (map_option sk_created_at rsa)) (kr_created_at meta),
          ki_retired_at = None, ki_grace_expires_at = None\<rparr>,
        \<lparr>ki_kid = kr_ec_kid meta, ki_alg = ''ES256'', ki_status = ''current'', ki_version = kr_version meta,
          ki_created_at = or_some (positive (map_option se_created_at ec)) (kr_created_at meta),
          ki_retired_at = None, ki_grace_expires_at = None\<rparr>]))))"

definition missing_key :: "string \<Rightarrow> u32 \<Rightarrow> string" where
  "missing_key alg version = ''current '' @ alg @ '' signing key v'' @ show_u32 version @ '' missing''"

definition load_keys :: "'s ext \<Rightarrow> (loaded_keys, 's) act" where
  "load_keys x =
     try_io (load_meta x) (\<lambda>meta.
     try_io (load_rsa_from_db x (rsa_key_name (kr_version meta))) (\<lambda>o1.
     try_io (lift (ok_or o1 (missing_key ''RSA'' (kr_version meta)))) (\<lambda>rsa_stored.
     try_io (load_ec_from_db x (ec_key_name (kr_version meta))) (\<lambda>o2.
     try_io (lift (ok_or o2 (missing_key ''EC'' (kr_version meta)))) (\<lambda>ec_stored.
     try_io (lift (stored_key_to_signing_key x rsa_stored)) (\<lambda>signing_key.
     try_io (lift (stored_ec_to_signing_key x ec_stored)) (\<lambda>ec_signing_key.
     ret \<lparr>lk_signing_key = signing_key, lk_ec_signing_key = ec_signing_key\<rparr>)))))))"

definition get_public_key :: "'s ext \<Rightarrow> (string, 's) act" where
  "get_public_key x =
     try_io (load_meta x) (\<lambda>meta.
     try_io (load_rsa_from_db x (rsa_key_name (kr_version meta))) (\<lambda>o1.
     try_io (lift (ok_or o1 (missing_key ''RSA'' (kr_version meta)))) (\<lambda>rsa_stored.
     ret (x_to_vec x (rsa_public_jwk rsa_stored)))))"

fun retired_public :: "'s ext \<Rightarrow> u64 \<Rightarrow> retired_key_meta list \<Rightarrow> (string \<times> u64 \<times> string) list \<Rightarrow>
    ((string \<times> u64 \<times> string) list, 's) act" where
  "retired_public x now [] out = ret out"
| "retired_public x now (r # rs) out =
     (if rm_alg r \<noteq> ''RS256'' \<or> \<not> retired_active r now then retired_public x now rs out
      else try_io (load_rsa_from_db x (rm_key_name r)) (\<lambda>o1. case o1 of
        Some stored \<Rightarrow> retired_public x now rs
          (out @ [(sk_kid stored, rm_retired_at r, x_to_vec x (rsa_public_jwk stored))])
      | None \<Rightarrow> retired_public x now rs out))"

definition get_retired_public_keys :: "'s ext \<Rightarrow> ((string \<times> u64 \<times> string) list, 's) act" where
  "get_retired_public_keys x =
     try_io (load_meta x) (\<lambda>meta. try_io unix_now (\<lambda>now. retired_public x now (kr_retired meta) []))"

definition ec_jwk_entry :: "'s ext \<Rightarrow> stored_ec_key option \<Rightarrow> json list" where
  "ec_jwk_entry x o1 = (case o1 of
       Some stored \<Rightarrow> (case ec_public_jwk x stored of Ok jwk \<Rightarrow> [jwk] | _ \<Rightarrow> [])
     | None \<Rightarrow> [])"

definition rsa_jwk_entry :: "stored_key option \<Rightarrow> json list" where
  "rsa_jwk_entry o1 = (case o1 of Some stored \<Rightarrow> [rsa_public_jwk stored] | None \<Rightarrow> [])"

fun publish_retired :: "'s ext \<Rightarrow> u64 \<Rightarrow> retired_key_meta list \<Rightarrow> json list \<Rightarrow> (json list, 's) act" where
  "publish_retired x now [] keys = ret keys"
| "publish_retired x now (r # rs) keys =
     (if \<not> retired_active r now
      then ignore_io (kv_delete x keys_table (rm_key_name r)) (publish_retired x now rs keys)
      else if rm_alg r = ''RS256'' then
        try_io (load_rsa_from_db x (rm_key_name r)) (\<lambda>o1. publish_retired x now rs (keys @ rsa_jwk_entry o1))
      else if rm_alg r = ''ES256'' then
        try_io (load_ec_from_db x (rm_key_name r)) (\<lambda>o1. publish_retired x now rs (keys @ ec_jwk_entry x o1))
      else publish_retired x now rs keys)"

text \<open>The key set as a list of JWKs; the caller parses the text it is returned as back to it.\<close>

definition get_public_keys :: "'s ext \<Rightarrow> (string, 's) act" where
  "get_public_keys x =
     try_io (load_meta x) (\<lambda>meta.
     try_io unix_now (\<lambda>now.
     try_io (load_rsa_from_db x (rsa_key_name (kr_version meta))) (\<lambda>o1.
     try_io (lift (ok_or o1 (missing_key ''RSA'' (kr_version meta)))) (\<lambda>rsa_stored.
     try_io (load_ec_from_db x (ec_key_name (kr_version meta))) (\<lambda>o2.
     try_io (publish_retired x now (kr_retired meta) ([rsa_public_jwk rsa_stored] @ ec_jwk_entry x o2)) (\<lambda>keys.
     ret (x_to_vec x (JArr keys))))))))"

definition get_kid :: "'s ext \<Rightarrow> (string, 's) act" where
  "get_kid x = try_io (load_meta x) (\<lambda>meta. ret (kr_rsa_kid meta))"

definition get_ec_kid :: "'s ext \<Rightarrow> (string, 's) act" where
  "get_ec_kid x = try_io (load_meta x) (\<lambda>meta. ret (kr_ec_kid meta))"

section \<open>Signing\<close>

definition sign_jwt :: "'s ext \<Rightarrow> string \<Rightarrow> string \<Rightarrow> (string, 's) act" where
  "sign_jwt x header payload =
     try_io (load_keys x) (\<lambda>keys.
     try_io (lift (b64url_decode x ''decode header'' header)) (\<lambda>header_bytes.
     try_io (lift (parse_json x ''parse header'' header_bytes)) (\<lambda>header_json.
     let alg = (case jget_str header_json ''alg'' of Some a \<Rightarrow> a | None \<Rightarrow> ''RS256'');
         message = header @ CHR ''.'' # payload
     in if alg = ''RS256'' then ret (x_b64url_encode x (x_rs256_sign x (lk_signing_key keys) message))
        else if alg = ''ES256'' then ret (x_b64url_encode x (x_es256_sign x (lk_ec_signing_key keys) message))
        else fail (''unsupported algorithm: '' @ alg))))"

definition jwt_header :: "string \<Rightarrow> string \<Rightarrow> json" where
  "jwt_header alg kid = JObj [(''alg'', JStr alg), (''typ'', JStr ''JWT''), (''kid'', JStr kid)]"

definition sign :: "'s ext \<Rightarrow> json \<Rightarrow> (string, 's) act" where
  "sign x claims =
     try_io (get_kid x) (\<lambda>kid.
     let h = x_b64url_encode x (x_to_vec x (jwt_header ''RS256'' kid));
         p = x_b64url_encode x (x_to_vec x claims)
     in try_io (sign_jwt x h p) (\<lambda>s. ret (h @ CHR ''.'' # p @ CHR ''.'' # s)))"

definition sign_es256 :: "'s ext \<Rightarrow> json \<Rightarrow> (string, 's) act" where
  "sign_es256 x claims =
     try_io (get_ec_kid x) (\<lambda>ec_kid.
     let h = x_b64url_encode x (x_to_vec x (jwt_header ''ES256'' ec_kid));
         p = x_b64url_encode x (x_to_vec x claims)
     in try_io (sign_jwt x h p) (\<lambda>s. ret (h @ CHR ''.'' # p @ CHR ''.'' # s)))"

definition sign_id_token_for_client :: "'s ext \<Rightarrow> json \<Rightarrow> oidc_client \<Rightarrow> (string, 's) act" where
  "sign_id_token_for_client x claims client =
     (if cl_id_token_signed_response_alg client = Some ''ES256'' then sign_es256 x claims else sign x claims)"

lemmas key_manager_runs [code] =
  load_rsa_from_db_def [THEN fun_cong] create_or_load_rsa_key_def [THEN fun_cong]
  load_ec_from_db_def [THEN fun_cong] create_or_load_ec_key_def [THEN fun_cong]
  bootstrap_meta_def [THEN fun_cong] load_meta_with_revision_def [THEN fun_cong]
  load_meta_def [THEN fun_cong] purge_expired.simps [THEN fun_cong] rotate_loop.simps [THEN fun_cong]
  rotate_keys_def [THEN fun_cong] retired_created_at_def [THEN fun_cong] list_retired.simps [THEN fun_cong]
  list_keys_def [THEN fun_cong] load_keys_def [THEN fun_cong] get_public_key_def [THEN fun_cong]
  retired_public.simps [THEN fun_cong] get_retired_public_keys_def [THEN fun_cong]
  publish_retired.simps [THEN fun_cong] get_public_keys_def [THEN fun_cong] get_kid_def [THEN fun_cong]
  get_ec_kid_def [THEN fun_cong] sign_jwt_def [THEN fun_cong] sign_def [THEN fun_cong]
  sign_es256_def [THEN fun_cong] sign_id_token_for_client_def [THEN fun_cong]

section \<open>Frames\<close>

abbreviation key_at :: "string \<Rightarrow> addr" where "key_at name \<equiv> (keys_table, name)"
abbreviation ring_at :: addr where "ring_at \<equiv> key_at meta_key"

lemma key_names_distinct [simp]:
  "rsa_key_name v \<noteq> meta_key" "ec_key_name v \<noteq> meta_key" "rsa_key_name v \<noteq> ec_key_name u"
  "meta_key \<noteq> rsa_key_name v" "meta_key \<noteq> ec_key_name v" "ec_key_name u \<noteq> rsa_key_name v"
  by (simp_all add: rsa_key_name_def ec_key_name_def)

lemma frames_next_draw [frames_intro]: "frames view A next_draw"
  by (rule framesI) (auto simp: next_draw_def same_env_def intro!: steadyI)

lemma try_next_draw [simp]: "try_io next_draw k w = k (w_draws w) (w\<lparr>w_draws := Suc (w_draws w)\<rparr>)"
  by (simp add: try_io_def next_draw_def)

context jetcache
begin

lemma load_key_frames [frames_intro]:
  "frames view A (load_rsa_from_db x name)" "frames view A (load_ec_from_db x name)"
  unfolding load_rsa_from_db_def load_ec_from_db_def by (intro frames_intro; simp)+

lemma create_or_load_rsa_frames [frames_intro]:
  "key_at name \<in> A \<Longrightarrow> frames view A (create_or_load_rsa_key x name)"
  unfolding create_or_load_rsa_key_def by (intro frames_intro) simp_all

lemma create_or_load_ec_frames [frames_intro]:
  "key_at name \<in> A \<Longrightarrow> frames view A (create_or_load_ec_key x name)"
  unfolding create_or_load_ec_key_def by (intro frames_intro) simp_all

text \<open>The first use of the ring creates its first generation and the pointer, and nothing else.\<close>

definition first_generation :: "addr set" where
  "first_generation = {key_at (rsa_key_name 1), key_at (ec_key_name 1), ring_at}"

lemma load_meta_frames [frames_intro]:
  "first_generation \<subseteq> A \<Longrightarrow> frames view A (load_meta_with_revision x)"
  "first_generation \<subseteq> A \<Longrightarrow> frames view A (load_meta x)"
proof -
  have "first_generation \<subseteq> A \<Longrightarrow> frames view A (load_meta_with_revision x)" for A
    unfolding load_meta_with_revision_def bootstrap_meta_def first_generation_def
    by (intro frames_intro) auto
  then show "first_generation \<subseteq> A \<Longrightarrow> frames view A (load_meta_with_revision x)"
    "first_generation \<subseteq> A \<Longrightarrow> frames view A (load_meta x)"
    unfolding load_meta_def by (auto intro!: frames_intro)
qed

lemma load_keys_frames [frames_intro]: "first_generation \<subseteq> A \<Longrightarrow> frames view A (load_keys x)"
  unfolding load_keys_def by (auto intro!: frames_intro)

lemma sign_frames [frames_intro]:
  "first_generation \<subseteq> A \<Longrightarrow> frames view A (sign_jwt x h p)"
  "first_generation \<subseteq> A \<Longrightarrow> frames view A (sign x claims)"
  "first_generation \<subseteq> A \<Longrightarrow> frames view A (sign_es256 x claims)"
  "first_generation \<subseteq> A \<Longrightarrow> frames view A (sign_id_token_for_client x claims client)"
  unfolding sign_id_token_for_client_def sign_es256_def sign_def sign_jwt_def get_kid_def get_ec_kid_def
  by (intro frames_intro; assumption)+

abbreviation "keys_addrs \<equiv> {a. fst a = keys_table}"

lemma first_generation_keys [simp]: "first_generation \<subseteq> keys_addrs"
  by (simp add: first_generation_def)

lemma publish_retired_frames: "frames view keys_addrs (publish_retired x now rs keys)"
  by (induction rs arbitrary: keys) (auto intro!: frames_intro)

lemma get_public_keys_frames [frames_intro]: "keys_addrs \<subseteq> A \<Longrightarrow> frames view A (get_public_keys x)"
proof -
  assume "keys_addrs \<subseteq> A"
  moreover have "frames view keys_addrs (get_public_keys x)"
    unfolding get_public_keys_def by (intro frames_intro publish_retired_frames first_generation_keys)
  ultimately show ?thesis by (blast intro: frames_mono)
qed

lemma purge_expired_frames: "frames view {key_at (rm_key_name r) | r. r \<in> set rs} (purge_expired x now rs)"
proof (induction rs)
  case (Cons r rs)
  then have "frames view {key_at (rm_key_name q) | q. q \<in> set (r # rs)} (purge_expired x now rs)"
    by (rule frames_mono) auto
  then show ?case by (auto intro!: frames_intro)
next
  case Nil
  show ?case unfolding purge_expired.simps by (rule frames_ret)
qed

end

section \<open>Loading and creating\<close>

context gateway
begin

lemma load_rsa_Ok:
  "load_rsa_from_db x name w = (Ok o1, w') \<Longrightarrow>
    o1 = map_option fst (rec_at x view stored_key_of_json (w_kv w) (key_at name))"
  unfolding load_rsa_from_db_def
  by (auto elim!: try_io_Ok dest!: kv_get_raw_Ok simp: rec_at_def res_map_err_Ok split: option.splits prod.splits)

lemma load_ec_Ok:
  "load_ec_from_db x name w = (Ok o1, w') \<Longrightarrow>
    o1 = map_option fst (rec_at x view stored_ec_key_of_json (w_kv w) (key_at name))"
  unfolding load_ec_from_db_def
  by (auto elim!: try_io_Ok dest!: kv_get_raw_Ok simp: rec_at_def res_map_err_Ok split: option.splits prod.splits)

lemma rec_at_stored [simp]:
  "view s a = Some (x_b64_encode x (x_to_vec x (key_ring_meta_to_json meta)), n) \<Longrightarrow>
    rec_at x view key_ring_meta_of_json s a = Some (meta, n)"
  by (simp add: rec_at_encoded key_ring_meta_roundtrip)

lemma parse_meta_Ok:
  "kv_get_raw_with_revision x keys_table meta_key w = (Ok (Some (bytes, n)), w') \<Longrightarrow> parse_meta x bytes = Ok meta \<Longrightarrow>
    rec_at x view key_ring_meta_of_json (w_kv w) ring_at = Some (meta, n)"
  by (drule kv_get_raw_with_revision_Ok, drule sym) (simp add: parse_meta_def res_map_err_Ok rec_at_def)

text \<open>The ring pointer that was loaded is the one that is stored, up to expiry.\<close>

definition ring_stored :: "'s \<Rightarrow> key_ring_meta \<Rightarrow> bool" where
  "ring_stored s meta \<longleftrightarrow> view s ring_at = None \<or> (\<exists>n. rec_at x view key_ring_meta_of_json s ring_at = Some (meta, n))"

lemma ring_stored_survives: "survives view s s' ring_at \<Longrightarrow> ring_stored s meta \<Longrightarrow> ring_stored s' meta"
  by (auto simp: ring_stored_def survives_def dest: rec_at_cong [where x = x and d = key_ring_meta_of_json])

lemma ring_read:
  assumes "kv_get_raw_with_revision x keys_table meta_key w = (Ok (Some (bytes, n)), w')" and "parse_meta x bytes = Ok meta"
  shows "ring_stored (w_kv w') meta"
proof -
  have "ring_stored (w_kv w) meta" using parse_meta_Ok [OF assms] by (auto simp: ring_stored_def)
  moreover have "survives view (w_kv w) (w_kv w') ring_at"
    by (rule frames_survives [OF kv_get_raw_with_revision_frames [of _ "{}"] assms(1)]) (simp_all add: table_ok_def)
  ultimately show ?thesis by (blast intro: ring_stored_survives)
qed

lemma bootstrap_meta_Ok:
  assumes "bootstrap_meta x w = (Ok (meta, r), w')"
  shows "ring_stored (w_kv w') meta"
proof -
  from assms obtain bytes w1 meta0 where bytes: "bytes = x_to_vec x (key_ring_meta_to_json meta0)"
    and m: "match_io (kv_create_raw x keys_table meta_key bytes None)
       (\<lambda>_. ret (meta0, 1))
       (\<lambda>e. if contains_str ''already exists'' e then
              try_io (kv_get_raw_with_revision x keys_table meta_key) (\<lambda>o1. case o1 of
                Some (bytes, revision) \<Rightarrow> try_io (lift (parse_meta x bytes)) (\<lambda>meta. ret (meta, revision))
              | None \<Rightarrow> fail ''key ring metadata disappeared after race'')
            else fail (''store key ring metadata: '' @ e)) w1 = (Ok (meta, r), w')"
    unfolding bootstrap_meta_def Let_def by (auto elim!: try_io_Ok)
  from m show ?thesis
  proof (cases rule: match_io_cases)
    case (ok u w2)
    then have "kv_create_raw x keys_table meta_key bytes None w1 = (Ok u, w')" "meta = meta0" by auto
    then show ?thesis using bytes by (auto dest!: kv_create_raw_Ok simp: ring_stored_def)
  next
    case (err e w2)
    then have "try_io (kv_get_raw_with_revision x keys_table meta_key) (\<lambda>o1. case o1 of
                Some (bytes, revision) \<Rightarrow> try_io (lift (parse_meta x bytes)) (\<lambda>meta. ret (meta, revision))
              | None \<Rightarrow> fail ''key ring metadata disappeared after race'') w2 = (Ok (meta, r), w')"
      by (auto split: if_splits)
    then obtain o1 w3 where g: "kv_get_raw_with_revision x keys_table meta_key w2 = (Ok o1, w3)"
      and k: "(case o1 of Some (bytes, revision) \<Rightarrow> try_io (lift (parse_meta x bytes)) (\<lambda>meta. ret (meta, revision))
              | None \<Rightarrow> fail ''key ring metadata disappeared after race'') w3 = (Ok (meta, r), w')"
      by (rule try_io_Ok)
    from k obtain b where "o1 = Some (b, r)" "parse_meta x b = Ok meta" "w' = w3"
      by (auto elim!: try_io_Ok split: option.splits)
    with g show ?thesis by (auto intro: ring_read)
  qed
qed

lemma load_meta_with_revision_Ok:
  assumes "load_meta_with_revision x w = (Ok (meta, r), w')"
  shows "ring_stored (w_kv w') meta"
proof -
  from assms obtain o1 w1 where g: "kv_get_raw_with_revision x keys_table meta_key w = (Ok o1, w1)"
    and r: "(case o1 of Some (bytes, revision) \<Rightarrow> try_io (lift (parse_meta x bytes)) (\<lambda>meta. ret (meta, revision))
     | None \<Rightarrow> bootstrap_meta x) w1 = (Ok (meta, r), w')"
    unfolding load_meta_with_revision_def by (rule try_io_Ok)
  show ?thesis
  proof (cases o1)
    case None
    with r show ?thesis by (auto dest: bootstrap_meta_Ok)
  next
    case (Some p)
    obtain bytes q where p: "p = (bytes, q)" by (cases p)
    from r Some p have "parse_meta x bytes = Ok meta" "w' = w1" by (auto elim!: try_io_Ok)
    with g Some p show ?thesis by (auto dest: ring_read)
  qed
qed

lemma load_meta_Ok: "load_meta x w = (Ok meta, w') \<Longrightarrow> ring_stored (w_kv w') meta"
  unfolding load_meta_def by (auto elim!: try_io_Ok dest: load_meta_with_revision_Ok)

end

section \<open>Signatures verify\<close>

lemma loaded_rsa:
  assumes "stored_key_to_signing_key x s = Ok k"
  shows "x_b64url_decode x (sk_n s) = Inr (rk_n k) \<and> x_b64url_decode x (sk_e s) = Inr (rk_e k) \<and> x_rsa_parse x k = Inr ()"
  using assms unfolding stored_key_to_signing_key_def decode_biguint_def b64url_decode_def Let_def
  by (auto simp: res_bind_Ok of_sum_Ok)

lemma loaded_ec:
  assumes "stored_ec_to_signing_key x s = Ok d"
  shows "x_b64url_decode x (se_d s) = Inr d \<and> x_ec_parse x d = Inr ()"
  using assms unfolding stored_ec_to_signing_key_def b64url_decode_def by (auto simp: res_bind_Ok of_sum_Ok)

lemma jwt_header_fields [simp]:
  "get_or_empty (jwt_header alg kid) ''alg'' = alg" "jget_str (jwt_header alg kid) ''kid'' = Some kid"
  "jget_str (jwt_header alg kid) ''alg'' = Some alg"
  by (simp_all add: jwt_header_def get_or_empty_def jget_str_def)

lemma rsa_jwk_fields [simp]:
  "jget_str (rsa_public_jwk s) ''n'' = Some (sk_n s)" "jget_str (rsa_public_jwk s) ''e'' = Some (sk_e s)"
  "jget_str (rsa_public_jwk s) ''kty'' = Some ''RSA''" "jget_str (rsa_public_jwk s) ''kid'' = Some (sk_kid s)"
  by (simp_all add: rsa_public_jwk_def jget_str_def)

lemma ec_public_jwk_Ok:
  assumes "stored_ec_to_signing_key x s = Ok d"
  shows "\<exists>jwk px py. ec_public_jwk x s = Ok jwk \<and> x_ec_point x d = (px, py) \<and>
    jget_str jwk ''x'' = Some (x_b64url_encode x px) \<and> jget_str jwk ''y'' = Some (x_b64url_encode x py) \<and>
    jget_str jwk ''kty'' = Some ''EC'' \<and> jget_str jwk ''kid'' = Some (se_kid s)"
  using assms by (cases "x_ec_point x d") (simp add: ec_public_jwk_def jget_str_def)

context token_gateway
begin

lemma rsa_token_verifies:
  assumes "stored_key_to_signing_key x s = Ok k"
  shows "verify_jwt_with_jwk x (compact x (jwt_header ''RS256'' kid) claims
      (x_rs256_sign x k (signed_part x (jwt_header ''RS256'' kid) claims))) (rsa_public_jwk s)
    = Ok (jwt_header ''RS256'' kid, claims)"
  using loaded_rsa [OF assms]
  by (simp add: verify_compact verify_rsa_jwk_def need_str_def b64url_decode_def rsa_verifies)

lemma ec_token_verifies:
  assumes "stored_ec_to_signing_key x s = Ok d"
  shows "\<exists>jwk. ec_public_jwk x s = Ok jwk \<and> verify_jwt_with_jwk x (compact x (jwt_header ''ES256'' kid) claims
      (x_es256_sign x d (signed_part x (jwt_header ''ES256'' kid) claims))) jwk = Ok (jwt_header ''ES256'' kid, claims)"
proof -
  from ec_public_jwk_Ok [OF assms] obtain jwk px py where jwk: "ec_public_jwk x s = Ok jwk"
    and pt: "x_ec_point x d = (px, py)"
    and f: "jget_str jwk ''x'' = Some (x_b64url_encode x px)" "jget_str jwk ''y'' = Some (x_b64url_encode x py)"
    by blast
  have "x_ec_parse x d = Inr ()" using loaded_ec [OF assms] by simp
  from ec_verifies [OF this pt] f show ?thesis
    by (intro exI [of _ jwk]) (simp add: jwk verify_compact verify_ec_jwk_def need_str_def b64url_decode_def b64url_roundtrip)
qed

text \<open>The stored key behind a loaded signing key.\<close>

definition rsa_key_stored :: "'s \<Rightarrow> u32 \<Rightarrow> stored_key \<Rightarrow> bool" where
  "rsa_key_stored s v sk \<longleftrightarrow> view s (key_at (rsa_key_name v)) = None \<or>
     (\<exists>n. rec_at x view stored_key_of_json s (key_at (rsa_key_name v)) = Some (sk, n))"

definition ec_key_stored :: "'s \<Rightarrow> u32 \<Rightarrow> stored_ec_key \<Rightarrow> bool" where
  "ec_key_stored s v sk \<longleftrightarrow> view s (key_at (ec_key_name v)) = None \<or>
     (\<exists>n. rec_at x view stored_ec_key_of_json s (key_at (ec_key_name v)) = Some (sk, n))"

lemma key_stored_survives:
  "survives view s s' (key_at (rsa_key_name v)) \<Longrightarrow> rsa_key_stored s v sk \<Longrightarrow> rsa_key_stored s' v sk"
  "survives view s s' (key_at (ec_key_name v)) \<Longrightarrow> ec_key_stored s v ek \<Longrightarrow> ec_key_stored s' v ek"
  unfolding rsa_key_stored_def ec_key_stored_def survives_def
  by (metis rec_at_cong)+

lemma load_keys_Ok:
  assumes "load_keys x w = (Ok keys, w')"
  shows "\<exists>meta rsa ec. ring_stored (w_kv w') meta \<and> rsa_key_stored (w_kv w') (kr_version meta) rsa \<and>
    ec_key_stored (w_kv w') (kr_version meta) ec \<and>
    stored_key_to_signing_key x rsa = Ok (lk_signing_key keys) \<and>
    stored_ec_to_signing_key x ec = Ok (lk_ec_signing_key keys)"
proof -
  from assms obtain meta w1 o1 rsa w2 o2 ec where m: "load_meta x w = (Ok meta, w1)"
    and r: "load_rsa_from_db x (rsa_key_name (kr_version meta)) w1 = (Ok (Some rsa), w2)"
    and e: "load_ec_from_db x (ec_key_name (kr_version meta)) w2 = (Ok (Some ec), w')"
    and k: "stored_key_to_signing_key x rsa = Ok (lk_signing_key keys)"
      "stored_ec_to_signing_key x ec = Ok (lk_ec_signing_key keys)"
    unfolding load_keys_def by (auto elim!: try_io_Ok simp: lift_Ok ok_or_Ok)
  have keep: "survives view (w_kv w1) (w_kv w2) a" "survives view (w_kv w2) (w_kv w') a" if "table_ok a" for a
    using frames_survives [OF load_key_frames(1) [of "{}"] r that] frames_survives [OF load_key_frames(2) [of "{}"] e that]
    by simp_all
  have ok: "table_ok (key_at n)" for n by (simp add: table_ok_def)
  have "ring_stored (w_kv w1) meta" by (rule load_meta_Ok [OF m])
  then have "ring_stored (w_kv w') meta" using keep [OF ok] by (blast intro: ring_stored_survives)
  moreover have "rsa_key_stored (w_kv w1) (kr_version meta) rsa"
    using load_rsa_Ok [OF r, symmetric] by (auto simp: rsa_key_stored_def)
  then have "rsa_key_stored (w_kv w') (kr_version meta) rsa"
    using keep [OF ok] by (blast intro: key_stored_survives)
  moreover have "ec_key_stored (w_kv w2) (kr_version meta) ec"
    using load_ec_Ok [OF e, symmetric] by (auto simp: ec_key_stored_def)
  then have "ec_key_stored (w_kv w') (kr_version meta) ec"
    using keep(2) [OF ok] by (blast intro: key_stored_survives)
  ultimately show ?thesis using k by blast
qed

text \<open>A token that was signed is compact, and the public half of the current key accepts it.\<close>

lemma sign_jwt_Ok:
  assumes "sign_jwt x (x_b64url_encode x (x_to_vec x (jwt_header alg kid))) (x_b64url_encode x (x_to_vec x claims)) w = (Ok s, w')"
  shows "\<exists>keys w1. load_keys x w = (Ok keys, w') \<and> (alg = ''RS256'' \<and>
      s = x_b64url_encode x (x_rs256_sign x (lk_signing_key keys) (signed_part x (jwt_header alg kid) claims)) \<or>
      alg = ''ES256'' \<and>
      s = x_b64url_encode x (x_es256_sign x (lk_ec_signing_key keys) (signed_part x (jwt_header alg kid) claims)))"
  using assms unfolding sign_jwt_def signed_part_def
  by (auto elim!: try_io_Ok simp: lift_Ok b64url_decode_def parse_json_def b64url_roundtrip from_slice_to_vec
      Let_def split: if_splits)

lemma sign_Ok:
  assumes "sign x claims w = (Ok t, w')"
  shows "\<exists>kid v sk. rsa_key_stored (w_kv w') v sk \<and>
    verify_jwt_with_jwk x t (rsa_public_jwk sk) = Ok (jwt_header ''RS256'' kid, claims)"
proof -
  from assms obtain kid w1 s where s: "sign_jwt x (x_b64url_encode x (x_to_vec x (jwt_header ''RS256'' kid)))
      (x_b64url_encode x (x_to_vec x claims)) w1 = (Ok s, w')"
    and t: "t = x_b64url_encode x (x_to_vec x (jwt_header ''RS256'' kid)) @ CHR ''.'' #
      x_b64url_encode x (x_to_vec x claims) @ CHR ''.'' # s"
    unfolding sign_def Let_def by (auto elim!: try_io_Ok)
  from sign_jwt_Ok [OF s] obtain keys where lk: "load_keys x w1 = (Ok keys, w')"
    and sig: "s = x_b64url_encode x (x_rs256_sign x (lk_signing_key keys) (signed_part x (jwt_header ''RS256'' kid) claims))"
    by auto
  from load_keys_Ok [OF lk] obtain v rsa where "rsa_key_stored (w_kv w') v rsa"
    and k: "stored_key_to_signing_key x rsa = Ok (lk_signing_key keys)" by blast
  moreover have "t = compact x (jwt_header ''RS256'' kid) claims
      (x_rs256_sign x (lk_signing_key keys) (signed_part x (jwt_header ''RS256'' kid) claims))"
    by (simp add: t sig compact_def)
  ultimately show ?thesis using rsa_token_verifies [OF k, of kid claims] by auto
qed

lemma sign_es256_Ok:
  assumes "sign_es256 x claims w = (Ok t, w')"
  shows "\<exists>kid v sk jwk. ec_key_stored (w_kv w') v sk \<and> ec_public_jwk x sk = Ok jwk \<and>
    verify_jwt_with_jwk x t jwk = Ok (jwt_header ''ES256'' kid, claims)"
proof -
  from assms obtain kid w1 s where s: "sign_jwt x (x_b64url_encode x (x_to_vec x (jwt_header ''ES256'' kid)))
      (x_b64url_encode x (x_to_vec x claims)) w1 = (Ok s, w')"
    and t: "t = x_b64url_encode x (x_to_vec x (jwt_header ''ES256'' kid)) @ CHR ''.'' #
      x_b64url_encode x (x_to_vec x claims) @ CHR ''.'' # s"
    unfolding sign_es256_def Let_def by (auto elim!: try_io_Ok)
  from sign_jwt_Ok [OF s] obtain keys where lk: "load_keys x w1 = (Ok keys, w')"
    and sig: "s = x_b64url_encode x (x_es256_sign x (lk_ec_signing_key keys) (signed_part x (jwt_header ''ES256'' kid) claims))"
    by auto
  from load_keys_Ok [OF lk] obtain v ec where "ec_key_stored (w_kv w') v ec"
    and k: "stored_ec_to_signing_key x ec = Ok (lk_ec_signing_key keys)" by blast
  moreover have "t = compact x (jwt_header ''ES256'' kid) claims
      (x_es256_sign x (lk_ec_signing_key keys) (signed_part x (jwt_header ''ES256'' kid) claims))"
    by (simp add: t sig compact_def)
  ultimately show ?thesis using ec_token_verifies [OF k, of kid claims] by auto
qed

end

section \<open>Rotation steps the ring\<close>

text \<open>The next generation of a ring at time \<open>now\<close>, and the keys a ring still vouches for.\<close>

definition next_ring :: "key_ring_meta \<Rightarrow> u64 \<Rightarrow> string \<Rightarrow> string \<Rightarrow> key_ring_meta" where
  "next_ring old now rsa_kid ec_kid = \<lparr>kr_version = kr_version old + 1, kr_rsa_kid = rsa_kid,
     kr_ec_kid = ec_kid, kr_created_at = now, kr_retired = retire_current old now\<rparr>"

definition ring_kids :: "key_ring_meta \<Rightarrow> u64 \<Rightarrow> (string \<times> string) set" where
  "ring_kids meta now = {(kr_rsa_kid meta, ''RS256''), (kr_ec_kid meta, ''ES256'')} \<union>
     {(rm_kid r, rm_alg r) | r. r \<in> set (kr_retired meta) \<and> retired_active r now}"

definition ring_entry :: "u32 \<Rightarrow> retired_key_meta \<Rightarrow> bool" where
  "ring_entry bound r \<longleftrightarrow> (\<exists>v < bound. rm_alg r = ''RS256'' \<and> rm_key_name r = rsa_key_name v \<or>
     rm_alg r = ''ES256'' \<and> rm_key_name r = ec_key_name v)"

definition ring_wf :: "key_ring_meta \<Rightarrow> bool" where
  "ring_wf meta \<longleftrightarrow> distinct (map rm_key_name (kr_retired meta)) \<and>
     (\<forall>r \<in> set (kr_retired meta). ring_entry (kr_version meta) r)"

lemma key_name_inject [simp]:
  "rsa_key_name v = rsa_key_name u \<longleftrightarrow> v = u" "ec_key_name v = ec_key_name u \<longleftrightarrow> v = u"
  by (simp_all add: rsa_key_name_def ec_key_name_def flip: word_unat_eq_iff)

lemma word_less_next: "v \<noteq> - 1 \<Longrightarrow> v < v + (1 :: 'a :: len word)"
proof -
  assume "v \<noteq> - 1"
  then have "1 + v \<noteq> 0" by (metis add.commute eq_neg_iff_add_eq_0)
  then have "unat (1 + v) = Suc (unat v)" by (rule unatSuc)
  then show ?thesis by (simp add: word_less_nat_alt add.commute)
qed

lemma retired_now_active: "rm_retired_at r = now \<Longrightarrow> now \<noteq> - 1 \<Longrightarrow> retired_active r now"
proof -
  assume r: "rm_retired_at r = now" and n: "now \<noteq> - 1"
  have "now < saturating_add now retired_grace_secs"
  proof (cases "now + retired_grace_secs < now")
    case True
    then show ?thesis using n by (simp add: saturating_add_def word_order.not_eq_extremum)
  next
    case False
    then have "now \<le> now + retired_grace_secs" by (simp only: not_less)
    moreover have "now \<noteq> now + retired_grace_secs" by simp
    ultimately have "now < now + retired_grace_secs" by (simp only: order_less_le) blast
    with False show ?thesis by (simp add: saturating_add_def)
  qed
  with r show ?thesis by (simp add: retired_active_def)
qed

text \<open>Stepping the ring keeps vouching for every key it vouched for.\<close>

lemma ring_kids_next: "now \<noteq> - 1 \<Longrightarrow> ring_kids old now \<subseteq> ring_kids (next_ring old now rsa ec) now"
proof (intro subsetI, unfold ring_kids_def, elim UnE insertE emptyE)
  fix p assume now: "now \<noteq> - 1"
  let ?new = "next_ring old now rsa ec"
  have act: "retired_active \<lparr>rm_kid = a, rm_alg = b, rm_key_name = c, rm_retired_at = now\<rparr> now" for a b c
    by (rule retired_now_active) (simp_all add: now)
  have entry: "q \<in> {(rm_kid r, rm_alg r) | r. r \<in> set (kr_retired ?new) \<and> retired_active r now}"
    if "r \<in> set (kr_retired ?new)" "retired_active r now" "q = (rm_kid r, rm_alg r)" for q r
    using that by blast
  show "p \<in> {(kr_rsa_kid ?new, ''RS256''), (kr_ec_kid ?new, ''ES256'')} \<union>
      {(rm_kid r, rm_alg r) | r. r \<in> set (kr_retired ?new) \<and> retired_active r now}"
    if "p = (kr_rsa_kid old, ''RS256'')"
    by (rule UnI2, rule entry [OF _ act [of "kr_rsa_kid old" "''RS256''" "rsa_key_name (kr_version old)"]])
      (simp_all add: that next_ring_def retire_current_def)
  show "p \<in> {(kr_rsa_kid ?new, ''RS256''), (kr_ec_kid ?new, ''ES256'')} \<union>
      {(rm_kid r, rm_alg r) | r. r \<in> set (kr_retired ?new) \<and> retired_active r now}"
    if "p = (kr_ec_kid old, ''ES256'')"
    by (rule UnI2, rule entry [OF _ act [of "kr_ec_kid old" "''ES256''" "ec_key_name (kr_version old)"]])
      (simp_all add: that next_ring_def retire_current_def)
  show "p \<in> {(kr_rsa_kid ?new, ''RS256''), (kr_ec_kid ?new, ''ES256'')} \<union>
      {(rm_kid r, rm_alg r) | r. r \<in> set (kr_retired ?new) \<and> retired_active r now}"
    if "p \<in> {(rm_kid r, rm_alg r) | r. r \<in> set (kr_retired old) \<and> retired_active r now}"
    using that by (auto simp: next_ring_def retire_current_def)
qed

lemma ring_entry_mono: "ring_entry u r \<Longrightarrow> u \<le> v \<Longrightarrow> ring_entry v r"
  unfolding ring_entry_def by (meson order_less_le_trans)

lemma ring_entry_fresh: "ring_entry v r \<Longrightarrow> rm_key_name r \<noteq> rsa_key_name v \<and> rm_key_name r \<noteq> ec_key_name v"
  by (auto simp: ring_entry_def)

lemma ring_wf_next:
  assumes wf: "ring_wf old" and bound: "kr_version old \<noteq> - 1"
  shows "ring_wf (next_ring old now rsa ec)"
proof -
  have up: "kr_version old < kr_version old + 1"
    using bound by (rule word_less_next)
  have old: "ring_entry (kr_version old) r" if "r \<in> set (kr_retired old)" for r using wf that by (simp add: ring_wf_def)
  have entries: "ring_entry (kr_version old + 1) r" if "r \<in> set (retire_current old now)" for r
    using that up old by (auto simp: retire_current_def ring_entry_def intro: ring_entry_mono)
       (meson order_less_trans up)+
  have "distinct (map rm_key_name (filter (\<lambda>r. retired_active r now) (kr_retired old)))"
    using wf by (simp add: ring_wf_def distinct_map_filter)
  then have "distinct (map rm_key_name (retire_current old now))"
    using old ring_entry_fresh by (fastforce simp: retire_current_def)
  with entries show ?thesis by (simp add: ring_wf_def next_ring_def)
qed

context gateway
begin

lemma purge_ring:
  assumes "purge_expired x now rs w = (q, w')" and "\<forall>r \<in> set rs. rm_key_name r \<noteq> meta_key"
  shows "survives view (w_kv w) (w_kv w') ring_at"
  by (rule frames_survives [OF purge_expired_frames assms(1)]) (use assms(2) in \<open>auto simp: table_ok_def\<close>)

lemma rotate_loop_Ok:
  "rotate_loop x n w = (Ok ro, w') \<Longrightarrow> \<exists>old rsa ec s s' m k. ring_stored s old \<and>
     rec_at x view key_ring_meta_of_json s' ring_at = Some (next_ring old (w_clock w k) rsa ec, m) \<and>
     ro_version ro = kr_version old + 1 \<and> ro_rsa_kid ro = rsa \<and> ro_ec_kid ro = ec \<and>
     ro_retired ro = retire_current old (w_clock w k) \<and>
     ro_grace_expires_at ro = w_clock w k + retired_grace_secs"
proof (induction n arbitrary: w)
  case 0
  then show ?case by simp
next
  case (Suc n)
  let ?now = "w_clock w (w_ticks w)"
  let ?w = "w\<lparr>w_ticks := Suc (w_ticks w)\<rparr>"
  from Suc.prems obtain old r w1 rsa w2 ec w3
    where l: "load_meta_with_revision x ?w = (Ok (old, r), w1)"
      and cr: "create_or_load_rsa_key x (rsa_key_name (kr_version old + 1)) w1 = (Ok rsa, w2)"
      and ce: "create_or_load_ec_key x (ec_key_name (kr_version old + 1)) w2 = (Ok ec, w3)"
      and m: "match_io (kv_cas_raw x keys_table meta_key
            (x_to_vec x (key_ring_meta_to_json (next_ring old ?now (sk_kid rsa) (se_kid ec)))) r None)
       (\<lambda>_. try_io (purge_expired x ?now (kr_retired old)) (\<lambda>_.
          ret \<lparr>ro_version = kr_version old + 1, ro_rsa_kid = sk_kid rsa, ro_ec_kid = se_kid ec,
            ro_rsa_key_name = rsa_key_name (kr_version old + 1), ro_ec_key_name = ec_key_name (kr_version old + 1),
            ro_retired = retire_current old ?now, ro_grace_expires_at = ?now + retired_grace_secs\<rparr>))
       (\<lambda>e. if contains_str ''revision mismatch'' e \<and> n \<noteq> 0 then rotate_loop x n
            else fail (''rotate keys: '' @ e)) w3 = (Ok ro, w')"
    unfolding next_ring_def
    by (auto elim!: try_io_Ok simp: Let_def split: prod.splits)
  have c1: "w_clock w1 = w_clock w" using same_envD(2) [OF frames_env [OF load_meta_frames(1) [OF subset_refl] l]] by simp
  have c2: "w_clock w2 = w_clock w1" by (rule same_envD(2) [OF frames_env [OF create_or_load_rsa_frames [OF singletonI] cr]])
  have c3: "w_clock w3 = w_clock w2" by (rule same_envD(2) [OF frames_env [OF create_or_load_ec_frames [OF singletonI] ce]])
  from m show ?case
  proof (cases rule: match_io_cases)
    case (ok u w4)
    have "ring_stored (w_kv w1) old" by (rule load_meta_with_revision_Ok [OF l])
    moreover have "rec_at x view key_ring_meta_of_json (w_kv w4) ring_at = Some (next_ring old ?now (sk_kid rsa) (se_kid ec), k)"
      if "view (w_kv w4) ring_at = Some (x_b64_encode x (x_to_vec x
        (key_ring_meta_to_json (next_ring old ?now (sk_kid rsa) (se_kid ec)))), k)" for k
      using that by (rule rec_at_stored)
    moreover have "\<exists>k. view (w_kv w4) ring_at = Some (x_b64_encode x (x_to_vec x
        (key_ring_meta_to_json (next_ring old ?now (sk_kid rsa) (se_kid ec)))), k)"
      using kv_cas_raw_Ok [OF ok(1)] by blast
    moreover have "ro = \<lparr>ro_version = kr_version old + 1, ro_rsa_kid = sk_kid rsa, ro_ec_kid = se_kid ec,
            ro_rsa_key_name = rsa_key_name (kr_version old + 1), ro_ec_key_name = ec_key_name (kr_version old + 1),
            ro_retired = retire_current old ?now, ro_grace_expires_at = ?now + retired_grace_secs\<rparr>"
      using ok(2) by (auto elim!: try_io_Ok)
    ultimately show ?thesis
      by (metis rotation_outcome.select_convs(1,2,3,6,7))
  next
    case (err e w4)
    have c4: "w_clock w4 = w_clock w"
      using same_envD(2) [OF frames_env [OF kv_cas_raw_frames [OF _ singletonI] err(1)]] c1 c2 c3 by simp
    from err have "rotate_loop x n w4 = (Ok ro, w')" by (auto split: if_splits)
    from Suc.IH [OF this] show ?thesis unfolding c4 .
  qed
qed

end

section \<open>Properties\<close>







end
