(* ===== verification/Client_Auth.thy ===== *)
theory Client_Auth
  imports Jwt
begin

text \<open>
  Client authentication of \<open>client_auth.rs\<close> (RFC 6749, RFC 7523): HTTP Basic, secrets in the form,
  signed client assertions and public clients, exactly one of which may be presented, and the method
  a client registered is the only one it may use.
\<close>

record authenticated_client =
  au_client :: oidc_client
  au_method :: string

definition basic_credentials :: "string \<Rightarrow> (string \<times> string) option" where
  "basic_credentials text = (case split_once CHR '':'' text of
     Some (client_id, client_secret) \<Rightarrow> Some (url_decode client_id, url_decode client_secret) | None \<Rightarrow> None)"

definition parse_basic_auth :: "'s ext \<Rightarrow> string option \<Rightarrow> (string \<times> string) option" where
  "parse_basic_auth x auth_header = Option.bind auth_header (\<lambda>header.
     Option.bind (case strip_prefix ''Basic '' header of
         Some e \<Rightarrow> Some e | None \<Rightarrow> strip_prefix ''basic '' header) (\<lambda>encoded.
     case x_b64_decode x encoded of
       Inl _ \<Rightarrow> None
     | Inr decoded \<Rightarrow> Option.bind (from_utf8 decoded) basic_credentials))"

definition registered_method_error :: "oidc_client \<Rightarrow> string \<Rightarrow> string" where
  "registered_method_error client expected =
     ''client '' @ quoted (cl_client_id client) @
     '' must use registered token_endpoint_auth_method '' @ quoted expected"

definition verify_secret :: "'s ext \<Rightarrow> oidc_client \<Rightarrow> string option \<Rightarrow> (unit, 's) act" where
  "verify_secret x client client_secret = (case cl_client_secret client of
     Some stored_hash \<Rightarrow> (case client_secret of
         Some provided \<Rightarrow> try_io (hmac_client_secret x provided) (\<lambda>provided_hash.
           if provided_hash = stored_hash then ret () else fail ''invalid client_secret'')
       | None \<Rightarrow> fail ''client_secret required for confidential clients'')
   | None \<Rightarrow>
       if client_secret \<noteq> None then (case cl_token_endpoint_auth_method client of
           Some expected \<Rightarrow> fail (registered_method_error client expected)
         | None \<Rightarrow> fail ''public client cannot provide client_secret'')
       else (case cl_token_endpoint_auth_method client of
           Some expected \<Rightarrow>
             if expected \<noteq> ''none'' then fail (registered_method_error client expected)
             else if cl_jwks client \<noteq> None then fail (registered_method_error client ''private_key_jwt'')
             else ret ()
         | None \<Rightarrow>
             if cl_jwks client \<noteq> None then fail (registered_method_error client ''private_key_jwt'')
             else ret ()))"

definition known_client :: "'s ext \<Rightarrow> string \<Rightarrow> (oidc_client, 's) act" where
  "known_client x client_id = try_io (get_client x client_id) (\<lambda>o1.
     lift (ok_or o1 (''unknown client_id: '' @ client_id)))"

section \<open>Client assertions\<close>

definition jwt_bearer :: string where
  "jwt_bearer = ''urn:ietf:params:oauth:client-assertion-type:jwt-bearer''"

definition unverified_payload :: "'s ext \<Rightarrow> string \<Rightarrow> json res" where
  "unverified_payload x assertion = (case splitn3 CHR ''.'' assertion of
     None \<Rightarrow> Err ''invalid client_assertion JWT format''
   | Some (_, p, _) \<Rightarrow>
       res_bind (b64url_decode x ''decode client_assertion payload'' p) (\<lambda>p_bytes.
       parse_json x ''parse client_assertion payload'' p_bytes))"

definition valid_audiences :: "string \<Rightarrow> string \<Rightarrow> string list" where
  "valid_audiences issuer expected_endpoint =
     (let clean = (if starts_with ''/'' expected_endpoint then expected_endpoint else CHR ''/'' # expected_endpoint)
      in [issuer, issuer @ clean] @ (if clean = ''/token'' then [issuer @ ''/token''] else []))"

definition aud_ok :: "string list \<Rightarrow> json \<Rightarrow> bool" where
  "aud_ok auds payload = (case jget payload ''aud'' of
     Some (JStr s) \<Rightarrow> s \<in> set auds
   | Some (JArr arr) \<Rightarrow> list_ex (\<lambda>v. case as_str v of Some s \<Rightarrow> s \<in> set auds | None \<Rightarrow> False) arr
   | _ \<Rightarrow> False)"

text \<open>The time claims of a verified assertion, and its identifier.\<close>

definition assertion_times :: "json \<Rightarrow> u64 \<Rightarrow> unit res" where
  "assertion_times payload now =
     res_bind (ok_or (jget_u64 payload ''exp'') ''missing exp claim'') (\<lambda>exp.
     if exp < now then Err ''client_assertion has expired''
     else if now + 600 < exp then Err ''client_assertion validity period is too long (max 10 minutes)''
     else (case jget_u64 payload ''nbf'' of
         Some nbf \<Rightarrow> if now + 60 < nbf then Err ''client_assertion not yet valid (nbf in future)'' else Ok ()
       | None \<Rightarrow> Ok ()))"

definition check_assertion_claims :: "'s ext \<Rightarrow> string \<Rightarrow> string \<Rightarrow> string \<Rightarrow> json \<Rightarrow> (unit, 's) act" where
  "check_assertion_claims x issuer expected_endpoint sub payload =
     try_io (lift (need_str payload ''iss'' ''missing iss claim'')) (\<lambda>iss.
     if iss \<noteq> sub then fail (''invalid iss claim: expected '' @ sub @ '', got '' @ iss)
     else if \<not> aud_ok (valid_audiences issuer expected_endpoint) payload
       then fail ''invalid aud claim in client_assertion''
     else try_io unix_now (\<lambda>now.
       try_io (lift (assertion_times payload now)) (\<lambda>_.
       try_io (lift (need_str payload ''jti'' ''missing jti claim'')) (\<lambda>jti.
       map_err (\<lambda>e. ''client_assertion jti replay: '' @ e) (check_and_record_jti x jti ttl_jti)))))"

definition authenticate_assertion ::
    "'s ext \<Rightarrow> string option \<Rightarrow> string \<Rightarrow> string option \<Rightarrow> string \<Rightarrow> string \<Rightarrow> (authenticated_client, 's) act" where
  "authenticate_assertion x form_client_id assertion client_assertion_type issuer expected_endpoint =
     try_io (lift (ok_or client_assertion_type ''missing client_assertion_type'')) (\<lambda>assertion_type.
     if assertion_type \<noteq> jwt_bearer then fail (''unsupported client_assertion_type: '' @ assertion_type)
     else try_io (lift (unverified_payload x assertion)) (\<lambda>unverified.
     try_io (lift (need_str unverified ''sub'' ''missing sub claim in client_assertion'')) (\<lambda>sub.
     if form_client_id \<noteq> None \<and> form_client_id \<noteq> Some sub
     then fail ''client_id in request body does not match sub claim in client_assertion''
     else try_io (known_client x sub) (\<lambda>client.
     try_io (lift (ok_or (cl_jwks client)
         (''client '' @ sub @ '' does not have registered jwks for private_key_jwt''))) (\<lambda>jwks.
     try_io (lift (res_map_err (\<lambda>e. ''client_assertion signature verification failed: '' @ e)
         (verify_jwt_with_jwks x assertion jwks))) (\<lambda>(_, payload).
     try_io (check_assertion_claims x issuer expected_endpoint sub payload) (\<lambda>_.
     ret \<lparr>au_client = client, au_method = ''private_key_jwt''\<rparr>)))))))"

section \<open>The methods\<close>

definition authenticate_basic :: "'s ext \<Rightarrow> string option \<Rightarrow> string \<Rightarrow> string \<Rightarrow> (authenticated_client, 's) act" where
  "authenticate_basic x form_client_id basic_id basic_secret =
     (if form_client_id \<noteq> None \<and> form_client_id \<noteq> Some basic_id
      then fail ''client_id mismatch between Authorization header and request body''
      else try_io (known_client x basic_id) (\<lambda>client.
        try_io (verify_secret x client (Some basic_secret)) (\<lambda>_.
        ret \<lparr>au_client = client, au_method = ''client_secret_basic''\<rparr>)))"

definition authenticate_form :: "'s ext \<Rightarrow> string \<Rightarrow> string option \<Rightarrow> (authenticated_client, 's) act" where
  "authenticate_form x cid form_client_secret =
     try_io (known_client x cid) (\<lambda>client.
     try_io (verify_secret x client form_client_secret) (\<lambda>_.
     ret \<lparr>au_client = client,
       au_method = (if form_client_secret = None then ''none'' else ''client_secret_post'')\<rparr>))"

definition authenticate_client ::
    "'s ext \<Rightarrow> (string \<times> string) list \<Rightarrow> string option \<Rightarrow> string \<Rightarrow> string \<Rightarrow> (authenticated_client, 's) act" where
  "authenticate_client x form auth_header issuer expected_endpoint =
     (let basic_auth = parse_basic_auth x auth_header;
          form_client_id = form_value form ''client_id'';
          form_client_secret = form_value form ''client_secret'';
          client_assertion_type = form_value form ''client_assertion_type'';
          client_assertion = form_value form ''client_assertion'';
          has_basic = basic_auth \<noteq> None;
          has_form_secret = form_client_secret \<noteq> None;
          has_assertion = client_assertion \<noteq> None \<or> client_assertion_type \<noteq> None;
          method_count = of_bool has_basic + of_bool has_form_secret + of_bool has_assertion :: nat
      in if 1 < method_count
         then fail ''client authentication failed: multiple client authentication methods presented''
         else try_io
           (case basic_auth of
              Some (basic_id, basic_secret) \<Rightarrow> authenticate_basic x form_client_id basic_id basic_secret
            | None \<Rightarrow> (case client_assertion of
                Some assertion \<Rightarrow>
                  authenticate_assertion x form_client_id assertion client_assertion_type issuer expected_endpoint
              | None \<Rightarrow> (case form_client_id of
                  Some cid \<Rightarrow> authenticate_form x cid form_client_secret
                | None \<Rightarrow> fail ''client authentication failed: missing client credentials'')))
           (\<lambda>auth_client. case cl_token_endpoint_auth_method (au_client auth_client) of
              Some expected \<Rightarrow>
                if au_method auth_client \<noteq> expected
                then fail (registered_method_error (au_client auth_client) expected @ '', but used '' @
                  quoted (au_method auth_client))
                else ret auth_client
            | None \<Rightarrow> ret auth_client))"

lemmas client_auth_runs [code] =
  verify_secret_def [THEN fun_cong] known_client_def [THEN fun_cong]
  check_assertion_claims_def [THEN fun_cong] authenticate_assertion_def [THEN fun_cong]
  authenticate_basic_def [THEN fun_cong] authenticate_form_def [THEN fun_cong]
  authenticate_client_def [THEN fun_cong]

section \<open>What an authenticated client has shown\<close>

definition secret_hash :: "'s ext \<Rightarrow> config option \<Rightarrow> string \<Rightarrow> string" where
  "secret_hash x c s = (case config_value c ''client_secret_pepper'' of
     Some p \<Rightarrow> if p \<noteq> [] then hex_lower (x_hmac_sha256 x p s) else s | None \<Rightarrow> s)"

abbreviation client_at :: "string \<Rightarrow> addr" where
  "client_at i \<equiv> (''clients'', ''client:'' @ i)"

abbreviation jti_at :: "string \<Rightarrow> addr" where
  "jti_at j \<equiv> sess (''jti:'' @ j)"

text \<open>
  The abstract contract: client \<open>i\<close> with record \<open>c\<close> proved itself by method \<open>m\<close>. A secret must
  match the stored keyed hash, an assertion must verify under a registered key, name the client and
  this server and carry an unused identifier, and only a client with neither may stay silent.
\<close>

inductive shows_credential ::
    "'s ext \<Rightarrow> 's view \<Rightarrow> config option \<Rightarrow> (string \<times> string) list \<Rightarrow> string option \<Rightarrow> string list \<Rightarrow>
      's \<Rightarrow> 's \<Rightarrow> string \<Rightarrow> oidc_client \<Rightarrow> string \<Rightarrow> bool"
  for x :: "'s ext" and view :: "'s view" and cfg :: "config option" and form :: "(string \<times> string) list"
    and hdr :: "string option" and auds :: "string list" and s :: 's and s' :: 's
where
  basic: "parse_basic_auth x hdr = Some (i, secret) \<Longrightarrow> cl_client_secret c = Some (secret_hash x cfg secret) \<Longrightarrow>
    shows_credential x view cfg form hdr auds s s' i c ''client_secret_basic''"
| post: "form_value form ''client_id'' = Some i \<Longrightarrow> form_value form ''client_secret'' = Some secret \<Longrightarrow>
    cl_client_secret c = Some (secret_hash x cfg secret) \<Longrightarrow>
    shows_credential x view cfg form hdr auds s s' i c ''client_secret_post''"
| assertion: "form_value form ''client_assertion'' = Some a \<Longrightarrow> cl_jwks c = Some jwks \<Longrightarrow>
    verify_jwt_with_jwks x a jwks = Ok (h, payload) \<Longrightarrow> jget_str payload ''iss'' = Some i \<Longrightarrow>
    aud_ok auds payload \<Longrightarrow> jget_str payload ''jti'' = Some j \<Longrightarrow> survives view s s1 (jti_at j) \<Longrightarrow>
    view s1 (jti_at j) = None \<Longrightarrow> view s' (jti_at j) \<noteq> None \<Longrightarrow>
    shows_credential x view cfg form hdr auds s s' i c ''private_key_jwt''"
| silent: "form_value form ''client_id'' = Some i \<Longrightarrow> cl_client_secret c = None \<Longrightarrow> cl_jwks c = None \<Longrightarrow>
    shows_credential x view cfg form hdr auds s s' i c ''none''"

context jetcache
begin

lemma known_client_frames [frames_intro]: "frames view A (known_client x i)"
  unfolding known_client_def by (intro frames_intro)

lemma verify_secret_frames [frames_intro]: "frames view A (verify_secret x c s)"
  unfolding verify_secret_def by (intro frames_intro)

text \<open>Authenticating a client writes replay markers and nothing else.\<close>

abbreviation "jti_addrs \<equiv> {sess (''jti:'' @ j) | j. True}"

lemma check_assertion_claims_frames [frames_intro]:
  "jti_addrs \<subseteq> A \<Longrightarrow> frames view A (check_assertion_claims x issuer ep sub payload)"
  unfolding check_assertion_claims_def by (intro frames_intro) auto

lemma authenticate_client_frames [frames_intro]:
  "jti_addrs \<subseteq> A \<Longrightarrow> frames view A (authenticate_client x form hdr issuer ep)"
  unfolding authenticate_client_def authenticate_basic_def authenticate_form_def authenticate_assertion_def Let_def
  by (intro frames_intro) auto

end

context gateway
begin

lemma known_client_Ok:
  assumes "known_client x i w = (Ok c, w')"
  shows "(\<exists>n. rec_at x view oidc_client_of_json (w_kv w) (client_at i) = Some (c, n)) \<and> w_config w' = w_config w"
proof -
  from assms obtain o1 where g: "get_client x i w = (Ok o1, w')" and o1: "o1 = Some c"
    unfolding known_client_def by (auto elim!: try_io_Ok simp: ok_or_Ok)
  have "w_config w' = w_config w"
    using same_envD(1) [OF frames_env [OF client_frames(1) [of "{}"] g]] .
  with get_client_Ok [OF g, symmetric] o1 show ?thesis by auto
qed

lemma verify_secret_Some:
  assumes "verify_secret x c (Some p) w = (Ok u, w')"
  shows "cl_client_secret c = Some (secret_hash x (w_config w) p)"
  using assms unfolding verify_secret_def secret_hash_def
  by (auto elim!: try_io_Ok dest!: hmac_client_secret_Ok split: option.splits if_splits)

lemma verify_secret_None:
  assumes "verify_secret x c None w = (Ok u, w')"
  shows "cl_client_secret c = None \<and> cl_jwks c = None"
  using assms unfolding verify_secret_def by (auto split: option.splits if_splits)

lemma check_assertion_claims_Ok:
  assumes "check_assertion_claims x issuer ep sub payload w = (Ok u, w')"
  shows "jget_str payload ''iss'' = Some sub \<and> aud_ok (valid_audiences issuer ep) payload \<and>
    (\<exists>j. jget_str payload ''jti'' = Some j \<and> view (w_kv w) (jti_at j) = None \<and> view (w_kv w') (jti_at j) \<noteq> None)"
  using assms unfolding check_assertion_claims_def need_str_def
  by (auto elim!: try_io_Ok dest!: check_and_record_jti_Ok simp: ok_or_Ok map_err_Ok unix_now_Ok split: if_splits)

lemma authenticate_assertion_Ok:
  assumes "authenticate_assertion x cid a ty issuer ep w = (Ok ac, w')"
  shows "\<exists>i n jwks h payload j s1. rec_at x view oidc_client_of_json (w_kv w) (client_at i) = Some (au_client ac, n) \<and>
    au_method ac = ''private_key_jwt'' \<and> cl_jwks (au_client ac) = Some jwks \<and>
    verify_jwt_with_jwks x a jwks = Ok (h, payload) \<and> jget_str payload ''iss'' = Some i \<and>
    aud_ok (valid_audiences issuer ep) payload \<and> jget_str payload ''jti'' = Some j \<and>
    survives view (w_kv w) s1 (jti_at j) \<and> view s1 (jti_at j) = None \<and> view (w_kv w') (jti_at j) \<noteq> None"
proof -
  from assms obtain i c w1 jwks h payload where kc: "known_client x i w = (Ok c, w1)"
    and jwks: "cl_jwks c = Some jwks" and v: "verify_jwt_with_jwks x a jwks = Ok (h, payload)"
    and cl: "check_assertion_claims x issuer ep i payload w1 = (Ok (), w')"
    and ac: "ac = \<lparr>au_client = c, au_method = ''private_key_jwt''\<rparr>"
    unfolding authenticate_assertion_def
    by (auto elim!: try_io_Ok simp: ok_or_Ok res_map_err_Ok split: if_splits prod.splits)
  from check_assertion_claims_Ok [OF cl] obtain j where
    p: "jget_str payload ''iss'' = Some i" "aud_ok (valid_audiences issuer ep) payload"
    "jget_str payload ''jti'' = Some j" "view (w_kv w1) (jti_at j) = None" "view (w_kv w') (jti_at j) \<noteq> None"
    by blast
  have "survives view (w_kv w) (w_kv w1) (jti_at j)"
    by (rule frames_survives [OF known_client_frames [of "{}"] kc]) (simp_all add: table_ok_def)
  with known_client_Ok [OF kc] p jwks v ac show ?thesis by fastforce
qed

lemma authenticate_client_Ok:
  assumes "authenticate_client x form hdr issuer ep w = (Ok ac, w')"
  shows "\<exists>i n. rec_at x view oidc_client_of_json (w_kv w) (client_at i) = Some (au_client ac, n) \<and>
    shows_credential x view (w_config w) form hdr (valid_audiences issuer ep) (w_kv w) (w_kv w') i
      (au_client ac) (au_method ac) \<and>
    cl_token_endpoint_auth_method (au_client ac) \<in> {None, Some (au_method ac)}"
proof -
  let ?m = "case parse_basic_auth x hdr of
      Some (basic_id, basic_secret) \<Rightarrow> authenticate_basic x (form_value form ''client_id'') basic_id basic_secret
    | None \<Rightarrow> (case form_value form ''client_assertion'' of
        Some assertion \<Rightarrow> authenticate_assertion x (form_value form ''client_id'') assertion
          (form_value form ''client_assertion_type'') issuer ep
      | None \<Rightarrow> (case form_value form ''client_id'' of
          Some cid \<Rightarrow> authenticate_form x cid (form_value form ''client_secret'')
        | None \<Rightarrow> fail ''client authentication failed: missing client credentials''))"
  from assms have run: "?m w = (Ok ac, w')" and reg: "cl_token_endpoint_auth_method (au_client ac) \<in> {None, Some (au_method ac)}"
    unfolding authenticate_client_def Let_def by (auto elim!: try_io_Ok split: if_splits option.splits)
  consider (b) i s where "parse_basic_auth x hdr = Some (i, s)"
      "authenticate_basic x (form_value form ''client_id'') i s w = (Ok ac, w')"
    | (a) t where "form_value form ''client_assertion'' = Some t"
      "authenticate_assertion x (form_value form ''client_id'') t (form_value form ''client_assertion_type'') issuer ep w = (Ok ac, w')"
    | (f) i where "form_value form ''client_id'' = Some i"
      "authenticate_form x i (form_value form ''client_secret'') w = (Ok ac, w')"
    using run by (auto split: option.splits)
  then show ?thesis
  proof cases
    case b
    then obtain c w1 where kc: "known_client x i w = (Ok c, w1)" and vs: "verify_secret x c (Some s) w1 = (Ok (), w')"
      and ac: "ac = \<lparr>au_client = c, au_method = ''client_secret_basic''\<rparr>"
      unfolding authenticate_basic_def by (auto elim!: try_io_Ok split: if_splits)
    from known_client_Ok [OF kc] verify_secret_Some [OF vs] ac b(1) reg show ?thesis
      by (auto intro: shows_credential.basic)
  next
    case a
    from authenticate_assertion_Ok [OF a(2)] a(1) reg show ?thesis by (metis shows_credential.assertion)
  next
    case f
    then obtain c w1 where kc: "known_client x i w = (Ok c, w1)"
      and vs: "verify_secret x c (form_value form ''client_secret'') w1 = (Ok (), w')"
      and ac: "ac = \<lparr>au_client = c, au_method = (if form_value form ''client_secret'' = None then ''none'' else ''client_secret_post'')\<rparr>"
      unfolding authenticate_form_def by (auto elim!: try_io_Ok)
    show ?thesis
    proof (cases "form_value form ''client_secret''")
      case None
      with verify_secret_None vs have "cl_client_secret c = None \<and> cl_jwks c = None" by simp
      with None known_client_Ok [OF kc] ac f(1) reg show ?thesis by (auto intro: shows_credential.silent)
    next
      case (Some s)
      with verify_secret_Some vs have "cl_client_secret c = Some (secret_hash x (w_config w1) s)" by simp
      with Some known_client_Ok [OF kc] ac f(1) reg show ?thesis by (auto intro: shows_credential.post)
    qed
  qed
qed

end

inductive_cases shows_noneE: "shows_credential x view cfg form hdr auds s s' i c ''none''"

section \<open>Properties\<close>

definition demo_client :: oidc_client where
  "demo_client = default_client\<lparr>cl_client_id := ''app'', cl_client_secret := Some ''pw'',
     cl_redirect_uris := [''https://app/cb''],
     cl_grant_types := [''authorization_code'', ''refresh_token'', ''client_credentials'']\<rparr>"

definition demo_form :: "(string \<times> string) list" where
  "demo_form = [(''client_id'', ''app''), (''client_secret'', ''pw'')]"

abbreviation "client_w0 \<equiv> snd (save_client mem_ext demo_client demo_world)"

text \<open>C11. Client authentication is sound: when a client is authenticated, the record returned is one
  stored under the identifier that was claimed, the method is the registered one if one is
  registered, and the request showed a credential for it. The credential is a secret whose keyed
  hash is the stored one, or a signed assertion that verifies under a registered key, names the client
  and this endpoint and carries an identifier not seen before, or nothing for a client that has
  neither secret nor keys.\<close>

theorem authenticate_client_sound:
  assumes "gateway x view" and "authenticate_client x form hdr issuer ep w = (Ok ac, w')"
  shows "\<exists>i n. rec_at x view oidc_client_of_json (w_kv w) (client_at i) = Some (au_client ac, n) \<and>
    shows_credential x view (w_config w) form hdr (valid_audiences issuer ep) (w_kv w) (w_kv w') i
      (au_client ac) (au_method ac) \<and>
    cl_token_endpoint_auth_method (au_client ac) \<in> {None, Some (au_method ac)}"
  using assms by (rule gateway.authenticate_client_Ok)

lemma authenticate_client_sound_witness:
  "\<exists>i n. rec_at mem_ext mem_view oidc_client_of_json (w_kv client_w0) (client_at i) = Some (demo_client, n) \<and>
    shows_credential mem_ext mem_view (w_config client_w0) demo_form None (valid_audiences ''https://id'' ''/token'')
      (w_kv client_w0) (w_kv (snd (authenticate_client mem_ext demo_form None ''https://id'' ''/token'' client_w0))) i
      demo_client ''client_secret_post'' \<and>
    cl_token_endpoint_auth_method demo_client \<in> {None, Some ''client_secret_post''}"
proof -
  let ?ac = "\<lparr>au_client = demo_client, au_method = ''client_secret_post''\<rparr>"
  have run: "fst (authenticate_client mem_ext demo_form None ''https://id'' ''/token'' client_w0) = Ok ?ac"
    by code_simp
  have "authenticate_client mem_ext demo_form None ''https://id'' ''/token'' client_w0 =
      (Ok ?ac, snd (authenticate_client mem_ext demo_form None ''https://id'' ''/token'' client_w0))"
    by (rule run_Ok) (rule run)
  from authenticate_client_sound [OF mem_gateway this] show ?thesis by simp
qed


definition public_client :: oidc_client where
  "public_client = demo_client\<lparr>cl_client_secret := None\<rparr>"


end
