(* ===== verification/Dpop.thy ===== *)
theory Dpop
  imports Client_Auth
begin

text \<open>
  DPoP proofs of possession (\<open>dpop.rs\<close>, RFC 9449): a proof is a token signed with the key in its
  own header; it names the method and the address of the request, is recent, carries an unused
  identifier and, for a resource request, the hash of the access token. The answer is the thumbprint
  of the embedded key, to which tokens are bound.
\<close>

definition compute_ath :: "'s ext \<Rightarrow> string \<Rightarrow> string" where
  "compute_ath x access_token = x_b64url_encode x (x_sha256 x access_token)"

definition clean_uri :: "string \<Rightarrow> string" where
  "clean_uri u = trim_end_matches CHR ''/'' (hd (split_on CHR ''#'' (hd (split_on CHR ''?'' u))))"

text \<open>The pieces around the first occurrence of \<open>://\<close>.\<close>

fun find_scheme :: "string \<Rightarrow> (string \<times> string) option" where
  "find_scheme [] = None"
| "find_scheme (c # cs) =
     (if starts_with ''://'' (c # cs) then Some ([], drop 3 (c # cs))
      else map_option (\<lambda>(a, b). (c # a, b)) (find_scheme cs))"

definition split_authority_path :: "string \<Rightarrow> string \<times> string" where
  "split_authority_path uri = (case find_scheme uri of
     Some (scheme, rest) \<Rightarrow> (case split_once CHR ''/'' rest of
         Some (authority, path) \<Rightarrow> (scheme @ ''://'' @ authority, CHR ''/'' # path)
       | None \<Rightarrow> (uri, []))
   | None \<Rightarrow> ([], uri))"

definition uri_matches :: "string \<Rightarrow> string \<Rightarrow> bool" where
  "uri_matches proof_uri expected_uri =
     (case (split_authority_path (clean_uri proof_uri), split_authority_path (clean_uri expected_uri)) of
        ((p_authority, p_path), (e_authority, e_path)) \<Rightarrow>
          eq_ignore_ascii_case p_authority e_authority \<and> p_path = e_path)"

text \<open>The checks on the header: type, algorithm and a public key.\<close>

definition dpop_header_jwk :: "json \<Rightarrow> json res" where
  "dpop_header_jwk header =
     (let typ = get_or_empty header ''typ''; alg = get_or_empty header ''alg'' in
      if \<not> eq_ignore_ascii_case typ ''dpop+jwt''
      then Err (''invalid DPoP typ: expected '' @ quoted ''dpop+jwt'' @ '', got '' @ quoted typ)
      else if alg \<noteq> ''RS256'' \<and> alg \<noteq> ''ES256'' then Err (''unsupported DPoP algorithm: '' @ alg)
      else res_bind (ok_or (jget header ''jwk'') ''missing jwk in DPoP header'') (\<lambda>jwk.
        if jget jwk ''d'' \<noteq> None \<or> jget jwk ''p'' \<noteq> None \<or> jget jwk ''q'' \<noteq> None
        then Err ''DPoP jwk must not contain private key parameters''
        else Ok jwk))"

definition dpop_target :: "json \<Rightarrow> string \<Rightarrow> string \<Rightarrow> unit res" where
  "dpop_target payload expected_method expected_uri =
     res_bind (need_str payload ''htm'' ''missing htm claim in DPoP proof'') (\<lambda>htm.
     if \<not> eq_ignore_ascii_case htm expected_method
     then Err (''DPoP htm mismatch: expected '' @ expected_method @ '', got '' @ htm)
     else res_bind (need_str payload ''htu'' ''missing htu claim in DPoP proof'') (\<lambda>htu.
       if \<not> uri_matches htu expected_uri
       then Err (''DPoP htu mismatch: expected '' @ expected_uri @ '', got '' @ htu)
       else Ok ()))"

definition dpop_times :: "json \<Rightarrow> u64 \<Rightarrow> unit res" where
  "dpop_times payload now =
     res_bind (ok_or (jget_u64 payload ''iat'') ''missing iat claim in DPoP proof'') (\<lambda>iat.
     if now + 300 < iat \<or> iat + 300 < now
     then Err (''DPoP proof iat is outside the acceptable '' @ [CHR 0xC2, CHR 0xB1] @ ''300s time window'')
     else (case jget_u64 payload ''exp'' of
         Some exp \<Rightarrow> if exp < now then Err ''DPoP proof has expired'' else Ok ()
       | None \<Rightarrow> Ok ()))"

definition dpop_ath :: "'s ext \<Rightarrow> json \<Rightarrow> string option \<Rightarrow> unit res" where
  "dpop_ath x payload access_token = (case access_token of
     Some token \<Rightarrow>
       res_bind (need_str payload ''ath'' ''missing ath claim in DPoP proof'') (\<lambda>ath.
       if ath \<noteq> compute_ath x token then Err ''DPoP ath hash does not match presented access token''
       else Ok ())
   | None \<Rightarrow> Ok ())"

definition validate_dpop_proof ::
    "'s ext \<Rightarrow> string \<Rightarrow> string \<Rightarrow> string \<Rightarrow> string option \<Rightarrow> (string, 's) act" where
  "validate_dpop_proof x dpop_proof expected_method expected_uri access_token_for_ath =
     (case splitn3 CHR ''.'' dpop_proof of
        None \<Rightarrow> fail ''invalid DPoP proof format''
      | Some (h, _, _) \<Rightarrow>
          try_io (lift (res_bind (b64url_decode x ''decode DPoP header'' h)
            (parse_json x ''parse DPoP header''))) (\<lambda>header.
          try_io (lift (dpop_header_jwk header)) (\<lambda>jwk.
          try_io (lift (res_map_err (\<lambda>e. ''DPoP proof signature verification failed: '' @ e)
            (verify_jwt_with_jwk x dpop_proof jwk))) (\<lambda>(_, payload).
          try_io (lift (dpop_target payload expected_method expected_uri)) (\<lambda>_.
          try_io unix_now (\<lambda>now.
          try_io (lift (dpop_times payload now)) (\<lambda>_.
          try_io (lift (dpop_ath x payload access_token_for_ath)) (\<lambda>_.
          try_io (lift (need_str payload ''jti'' ''missing jti claim in DPoP proof'')) (\<lambda>jti.
          if jti = [] then fail ''empty jti claim in DPoP proof''
          else try_io (map_err (\<lambda>e. ''DPoP jti replay: '' @ e) (check_and_record_jti x jti ttl_jti)) (\<lambda>_.
            lift (compute_jwk_thumbprint x jwk)))))))))))"

lemmas dpop_runs [code] =
  validate_dpop_proof_def [THEN fun_cong]

section \<open>Lemmas\<close>

text \<open>A proof for an address without query or fragment names exactly that address.\<close>

lemma uri_matches_refl [simp]: "uri_matches u u"
  by (simp add: uri_matches_def eq_ignore_ascii_case_def split: prod.split)

lemma find_scheme_Some: "find_scheme u = Some (a, b) \<Longrightarrow> u = a @ ''://'' @ b"
proof (induction u arbitrary: a)
  case Nil
  then show ?case by simp
next
  case (Cons c cs)
  show ?case
  proof (cases "starts_with ''://'' (c # cs)")
    case True
    with Cons.prems show ?thesis by (auto simp: prefix_def)
  next
    case False
    with Cons.prems obtain a' where "find_scheme cs = Some (a', b)" "a = c # a'" by auto
    with Cons.IH show ?thesis by simp
  qed
qed

text \<open>The authority and the path make up the address.\<close>

lemma split_authority_path_append: "fst (split_authority_path u) @ snd (split_authority_path u) = u"
  by (auto simp: split_authority_path_def split_once_Some dest!: find_scheme_Some split: option.splits)

text \<open>What a matching address may differ in: letter case before the path, query, fragment and
  trailing slashes.\<close>

lemma uri_matches_path: "uri_matches p e \<Longrightarrow> \<exists>a b path. clean_uri p = a @ path \<and> clean_uri e = b @ path \<and>
    to_lowercase a = to_lowercase b"
  unfolding uri_matches_def eq_ignore_ascii_case_def
  by (metis (mono_tags, lifting) case_prod_beta prod.sel split_authority_path_append)

context jetcache
begin

lemma validate_dpop_proof_frames [frames_intro]:
  "jti_addrs \<subseteq> A \<Longrightarrow> frames view A (validate_dpop_proof x pr m u t)"
  unfolding validate_dpop_proof_def by (intro frames_intro) auto

end

context gateway
begin

lemma validate_dpop_proof_Ok:
  assumes "validate_dpop_proof x pr m u t w = (Ok jkt, w')"
  shows "\<exists>h payload jwk htm htu iat j. verify_jwt_with_jwk x pr jwk = Ok (h, payload) \<and>
    compute_jwk_thumbprint x jwk = Ok jkt \<and>
    jget_str payload ''htm'' = Some htm \<and> eq_ignore_ascii_case htm m \<and>
    jget_str payload ''htu'' = Some htu \<and> uri_matches htu u \<and>
    jget_u64 payload ''iat'' = Some iat \<and> iat \<le> w_clock w (w_ticks w) + 300 \<and> w_clock w (w_ticks w) \<le> iat + 300 \<and>
    (case t of None \<Rightarrow> True | Some tok \<Rightarrow> jget_str payload ''ath'' = Some (compute_ath x tok)) \<and>
    jget_str payload ''jti'' = Some j \<and> j \<noteq> [] \<and>
    view (w_kv w) (jti_at j) = None \<and> view (w_kv w') (jti_at j) \<noteq> None"
proof -
  from assms obtain hd p s header jwk h payload j w2 where
    hdr: "res_bind (b64url_decode x ''decode DPoP header'' hd) (parse_json x ''parse DPoP header'') = Ok header"
    and jwk: "dpop_header_jwk header = Ok jwk"
    and v: "verify_jwt_with_jwk x pr jwk = Ok (h, payload)"
    and tg: "dpop_target payload m u = Ok ()"
    and tm: "dpop_times payload (w_clock w (w_ticks w)) = Ok ()"
    and at: "dpop_ath x payload t = Ok ()"
    and j: "jget_str payload ''jti'' = Some j" "j \<noteq> []"
    and rec: "check_and_record_jti x j ttl_jti (w\<lparr>w_ticks := Suc (w_ticks w)\<rparr>) = (Ok (), w')"
    and th: "compute_jwk_thumbprint x jwk = Ok jkt"
    unfolding validate_dpop_proof_def
    by (auto elim!: try_io_Ok simp: res_map_err_Ok map_err_Ok need_str_def ok_or_Ok unix_now_Ok
        split: option.splits prod.splits if_splits)
  from check_and_record_jti_Ok [OF rec]
  have fresh: "view (w_kv w) (jti_at j) = None" "view (w_kv w') (jti_at j) \<noteq> None" by simp_all
  from tg obtain htm htu where "jget_str payload ''htm'' = Some htm" "eq_ignore_ascii_case htm m"
    "jget_str payload ''htu'' = Some htu" "uri_matches htu u"
    by (auto simp: dpop_target_def need_str_def res_bind_Ok ok_or_Ok split: if_splits)
  moreover from tm obtain iat where "jget_u64 payload ''iat'' = Some iat"
    "iat \<le> w_clock w (w_ticks w) + 300" "w_clock w (w_ticks w) \<le> iat + 300"
    by (auto simp: dpop_times_def res_bind_Ok ok_or_Ok not_less split: if_splits)
  moreover from at have "case t of None \<Rightarrow> True | Some tok \<Rightarrow> jget_str payload ''ath'' = Some (compute_ath x tok)"
    by (auto simp: dpop_ath_def need_str_def res_bind_Ok ok_or_Ok split: option.splits if_splits)
  ultimately show ?thesis using v th j fresh by blast
qed

end

text \<open>
  The two thumbprint shapes a key can take are chosen by its declared type, the signature check by the
  algorithm the proof declares. A proof whose header names one and whose key declares the other is
  judged by the coordinates and reported under the modulus.
\<close>

definition confused_jwk :: "string \<Rightarrow> string \<Rightarrow> string \<Rightarrow> string \<Rightarrow> json" where
  "confused_jwk n e px py = JObj [(''kty'', JStr ''RSA''), (''n'', JStr n), (''e'', JStr e),
     (''x'', JStr px), (''y'', JStr py)]"

definition proof_header :: "json \<Rightarrow> json" where
  "proof_header jwk = JObj [(''typ'', JStr ''dpop+jwt''), (''alg'', JStr ''ES256''), (''jwk'', jwk)]"

definition proof_claims :: "string \<Rightarrow> string \<Rightarrow> u64 \<Rightarrow> string \<Rightarrow> json" where
  "proof_claims m u now j = JObj [(''htm'', JStr m), (''htu'', JStr u), (''iat'', jnum now), (''jti'', JStr j)]"

lemma proof_header_jwk: "dpop_header_jwk (proof_header (confused_jwk n e px py)) = Ok (confused_jwk n e px py)"
  by (simp add: dpop_header_jwk_def proof_header_def confused_jwk_def get_or_empty_def jget_str_def
      eq_ignore_ascii_case_def res_bind_def)

lemma proof_claims_accepted:
  "dpop_target (proof_claims m u now j) m u = Ok ()"
  "now \<le> now + 300 \<Longrightarrow> dpop_times (proof_claims m u now j) now = Ok ()"
  "need_str (proof_claims m u now j) ''jti'' msg = Ok j"
  by (auto simp: dpop_target_def dpop_times_def proof_claims_def need_str_def jget_str_def jget_u64_def
      eq_ignore_ascii_case_def)

lemma confused_thumbprint:
  "jget_str jwk ''kty'' = Some ''RSA'' \<Longrightarrow> jget_str jwk ''n'' = Some n \<Longrightarrow> jget_str jwk ''e'' = Some e \<Longrightarrow>
    compute_jwk_thumbprint x (confused_jwk n e px py) = compute_jwk_thumbprint x jwk"
  by (simp add: compute_jwk_thumbprint_def need_str_def confused_jwk_def jget_str_def)

context token_gateway
begin

lemma confused_key_verifies:
  assumes "x_ec_parse x d = Inr ()" and "x_ec_point x d = (px, py)"
  shows "verify_ec_jwk x (confused_jwk n e (x_b64url_encode x px) (x_b64url_encode x py)) m (x_es256_sign x d m) = Ok ()"
  using ec_verifies [OF assms]
  by (simp add: verify_ec_jwk_def confused_jwk_def need_str_def jget_str_def b64url_decode_def b64url_roundtrip)

lemma confused_proof_accepted:
  fixes w :: "'s world"
  defines "now \<equiv> w_clock w (w_ticks w)"
  assumes key: "x_ec_parse x d = Inr ()" "x_ec_point x d = (px, py)"
    and victim: "jget_str jwk ''kty'' = Some ''RSA''" "jget_str jwk ''n'' = Some n" "jget_str jwk ''e'' = Some e"
    and fresh: "now \<le> now + 300" "j \<noteq> []"
      "check_and_record_jti x j ttl_jti (w\<lparr>w_ticks := Suc (w_ticks w)\<rparr>) = (Ok (), w')"
    and h: "h = proof_header (confused_jwk n e (x_b64url_encode x px) (x_b64url_encode x py))"
    and c: "c = proof_claims m u now j"
  shows "validate_dpop_proof x (compact x h c (x_es256_sign x d (signed_part x h c))) m u None w =
    (compute_jwk_thumbprint x jwk, w')"
proof -
  let ?k = "confused_jwk n e (x_b64url_encode x px) (x_b64url_encode x py)"
  have alg: "get_or_empty h ''alg'' = ''ES256''" by (simp add: h proof_header_def get_or_empty_def jget_str_def)
  have v: "verify_jwt_with_jwk x (compact x h c (x_es256_sign x d (signed_part x h c))) ?k = Ok (h, c)"
    by (simp add: verify_compact alg confused_key_verifies [OF key])
  have hd: "dpop_header_jwk h = Ok ?k" unfolding h by (rule proof_header_jwk)
  have rec: "try_io (map_err f (check_and_record_jti x j ttl_jti)) k (w\<lparr>w_ticks := Suc (w_ticks w)\<rparr>) = k () w'"
    for f and k :: "unit \<Rightarrow> (string, 's) act"
    by (rule try_io_simps(1)) (simp add: map_err_Ok fresh)
  show ?thesis
    unfolding validate_dpop_proof_def compact_split
    by (simp add: parse_encoded hd v proof_claims_accepted(1,3) [of m u now j, folded c]
        proof_claims_accepted(2) [of now m u j, folded c] fresh now_def [symmetric] dpop_ath_def
        confused_thumbprint [OF victim] rec)
qed

end

section \<open>Properties\<close>

text \<open>C13. An accepted proof of possession binds this request: it verifies under the key whose
  thumbprint is returned, names the method and the address of the request, was issued within 300
  seconds of the clock, carries the hash of the presented token if one is presented, and its
  identifier was unused and is spent now.\<close>

theorem dpop_proof_sound:
  assumes "gateway x view" and "validate_dpop_proof x pr m u t w = (Ok jkt, w')"
  shows "\<exists>h payload jwk htm htu iat j. verify_jwt_with_jwk x pr jwk = Ok (h, payload) \<and>
    compute_jwk_thumbprint x jwk = Ok jkt \<and>
    jget_str payload ''htm'' = Some htm \<and> eq_ignore_ascii_case htm m \<and>
    jget_str payload ''htu'' = Some htu \<and> uri_matches htu u \<and>
    jget_u64 payload ''iat'' = Some iat \<and> iat \<le> w_clock w (w_ticks w) + 300 \<and> w_clock w (w_ticks w) \<le> iat + 300 \<and>
    (case t of None \<Rightarrow> True | Some tok \<Rightarrow> jget_str payload ''ath'' = Some (compute_ath x tok)) \<and>
    jget_str payload ''jti'' = Some j \<and> j \<noteq> [] \<and>
    view (w_kv w) (jti_at j) = None \<and> view (w_kv w') (jti_at j) \<noteq> None"
  using assms by (rule gateway.validate_dpop_proof_Ok)

text \<open>C14. The thumbprint an accepted proof yields need not be that of the key that signed it: with
  only a curve key of their own, anyone who knows a client's public modulus and exponent obtains an
  accepted proof with that client's thumbprint, because neither \<open>verify_jwt_with_jwk\<close> nor the proof
  check compares the declared key type with the algorithm.\<close>

theorem dpop_binding_forgeable:
  assumes "token_gateway x view" and "x_ec_parse x d = Inr ()" and "x_ec_point x d = (px, py)"
    and "jget_str jwk ''kty'' = Some ''RSA''" and "jget_str jwk ''n'' = Some n" and "jget_str jwk ''e'' = Some e"
    and "w_clock w (w_ticks w) \<le> w_clock w (w_ticks w) + 300" and "j \<noteq> []"
    and "check_and_record_jti x j ttl_jti (w\<lparr>w_ticks := Suc (w_ticks w)\<rparr>) = (Ok (), w')"
  shows "\<exists>h c. validate_dpop_proof x (compact x h c (x_es256_sign x d (signed_part x h c))) m u None w =
    (compute_jwk_thumbprint x jwk, w')"
  using token_gateway.confused_proof_accepted [OF assms(1-9) refl refl] by blast

definition victim_jwk :: json where
  "victim_jwk = JObj [(''kty'', JStr ''RSA''), (''n'', JStr ''n''), (''e'', JStr ''e'')]"

lemma dpop_binding_forgeable_witness:
  "\<exists>w' h c. validate_dpop_proof mem_ext (compact mem_ext h c (x_es256_sign mem_ext ''d'' (signed_part mem_ext h c)))
      ''POST'' ''https://id/token'' None demo_world = (compute_jwk_thumbprint mem_ext victim_jwk, w')"
proof -
  let ?w = "demo_world\<lparr>w_ticks := Suc (w_ticks demo_world)\<rparr>"
  have run: "fst (check_and_record_jti mem_ext ''j'' ttl_jti ?w) = Ok ()" by code_simp
  have rec: "check_and_record_jti mem_ext ''j'' ttl_jti ?w = (Ok (), snd (check_and_record_jti mem_ext ''j'' ttl_jti ?w))"
    by (rule run_Ok) (rule run)
  have parse: "x_ec_parse mem_ext ''d'' = Inr ()" by code_simp
  have point: "x_ec_point mem_ext ''d'' = (''d'', ''d'')" by code_simp
  have victim: "jget_str victim_jwk ''kty'' = Some ''RSA''" "jget_str victim_jwk ''n'' = Some ''n''"
    "jget_str victim_jwk ''e'' = Some ''e''" by code_simp+
  have now: "w_clock demo_world (w_ticks demo_world) \<le> w_clock demo_world (w_ticks demo_world) + 300" by code_simp
  show ?thesis
    by (rule exI, rule dpop_binding_forgeable [OF mem_token_gateway parse point victim now _ rec]) simp
qed

lemma dpop_proof_sound_witness:
  "\<exists>t w' jkt. validate_dpop_proof mem_ext t ''POST'' ''https://id/token'' None demo_world = (Ok jkt, w') \<and>
    (\<exists>h payload jwk htm htu iat j. verify_jwt_with_jwk mem_ext t jwk = Ok (h, payload) \<and>
      compute_jwk_thumbprint mem_ext jwk = Ok jkt \<and>
      jget_str payload ''htm'' = Some htm \<and> eq_ignore_ascii_case htm ''POST'' \<and>
      jget_str payload ''htu'' = Some htu \<and> uri_matches htu ''https://id/token'' \<and>
      jget_u64 payload ''iat'' = Some iat \<and> iat \<le> w_clock demo_world (w_ticks demo_world) + 300 \<and>
      w_clock demo_world (w_ticks demo_world) \<le> iat + 300 \<and>
      (case None of None \<Rightarrow> True | Some tok \<Rightarrow> jget_str payload ''ath'' = Some (compute_ath mem_ext tok)) \<and>
      jget_str payload ''jti'' = Some j \<and> j \<noteq> [] \<and>
      mem_view (w_kv demo_world) (jti_at j) = None \<and> mem_view (w_kv w') (jti_at j) \<noteq> None)"
proof -
  let ?k = "JObj [(''kty'', JStr ''EC''), (''crv'', JStr ''P-256''), (''x'', JStr ''d''), (''y'', JStr ''d'')]"
  let ?h = "proof_header ?k"
  let ?c = "proof_claims ''POST'' ''https://id/token'' 1000 ''j''"
  let ?t = "compact mem_ext ?h ?c (x_es256_sign mem_ext ''d'' (signed_part mem_ext ?h ?c))"
  let ?run = "validate_dpop_proof mem_ext ?t ''POST'' ''https://id/token'' None demo_world"
  have ok: "is_ok (fst ?run)" by code_simp
  then obtain jkt w' where run: "?run = (Ok jkt, w')" by (rule is_ok_run)
  show ?thesis
    by (rule exI, rule exI, rule exI, rule conjI, rule run, rule dpop_proof_sound [OF mem_gateway run])
qed

end
