(* ===== verification/Http.thy ===== *)
theory Http
  imports Demo_World
begin

text \<open>
  HTTP on both sides of the gateway: the responses it builds, the outgoing client
  (\<open>http_client.rs\<close>, whose transport is the host's), the configured addresses of the other regions
  (\<open>store.rs\<close>), and what \<open>logger.rs\<close> reads from the headers of a request.
\<close>

section \<open>Responses\<close>

record response =
  rs_status :: nat
  rs_headers :: "(string \<times> string) list"
  rs_body :: string

text \<open>\<open>serde_json::to_string\<close> writes the same text as \<open>to_vec\<close>.\<close>

definition json_text :: "'s ext \<Rightarrow> json \<Rightarrow> string" where
  "json_text x j = x_to_vec x j"

definition no_store_json :: "(string \<times> string) list" where
  "no_store_json = [(''content-type'', ''application/json''), (''cache-control'', ''no-store''), (''pragma'', ''no-cache'')]"

definition json_no_store :: "'s ext \<Rightarrow> nat \<Rightarrow> json \<Rightarrow> response" where
  "json_no_store x status j = \<lparr>rs_status = status, rs_headers = no_store_json, rs_body = json_text x j\<rparr>"

lemma json_no_store_simps [simp]:
  "rs_status (json_no_store x st j) = st" "rs_body (json_no_store x st j) = json_text x j"
  "rs_headers (json_no_store x st j) = no_store_json"
  by (simp_all add: json_no_store_def)

section \<open>Outgoing requests\<close>

definition send_request :: "'s ext \<Rightarrow> http_request \<Rightarrow> (nat \<times> bytes, 's) act" where
  "send_request x q w = (of_sum id (x_http x (length (w_http w)) q), w\<lparr>w_http := w_http w @ [q]\<rparr>)"

text \<open>\<open>Request::builder()...body(b)\<close> fails on an address it cannot parse.\<close>

definition build_request ::
    "'s ext \<Rightarrow> string \<Rightarrow> string \<Rightarrow> (string \<times> string) list \<Rightarrow> string \<Rightarrow> http_request res" where
  "build_request x m url headers body = res_bind (of_sum (\<lambda>e. ''build request: '' @ e) (x_uri x url))
     (\<lambda>_. Ok \<lparr>hq_method = m, hq_url = url, hq_headers = headers, hq_body = body\<rparr>)"

definition get_bytes :: "'s ext \<Rightarrow> string \<Rightarrow> (string \<times> string) list \<Rightarrow> (nat \<times> bytes, 's) act" where
  "get_bytes x url headers =
     try_io (lift (build_request x ''GET'' url headers [])) (\<lambda>request. send_request x request)"

definition http_ok :: "nat \<Rightarrow> bool" where
  "http_ok status \<longleftrightarrow> 200 \<le> status \<and> status < 300"

definition get_json :: "'s ext \<Rightarrow> string \<Rightarrow> (string \<times> string) list \<Rightarrow> (json, 's) act" where
  "get_json x url headers =
     try_io (get_bytes x url ((''accept'', ''application/json'') # headers)) (\<lambda>(status, body).
     if \<not> http_ok status then fail (''http '' @ show_nat status)
     else lift (of_sum (\<lambda>e. ''parse JSON: '' @ e) (x_from_slice x body)))"

definition post_json :: "'s ext \<Rightarrow> string \<Rightarrow> string \<Rightarrow> (string \<times> string) list \<Rightarrow> (nat \<times> bytes, 's) act" where
  "post_json x url body extra_headers =
     try_io (lift (build_request x ''POST'' url
       ((''content-type'', ''application/json'') # (''accept'', ''application/json'') # extra_headers) body))
     (\<lambda>request. send_request x request)"

definition post_form_json :: "'s ext \<Rightarrow> string \<Rightarrow> string \<Rightarrow> (nat \<times> json, 's) act" where
  "post_form_json x url body =
     try_io (lift (build_request x ''POST'' url
       [(''content-type'', ''application/x-www-form-urlencoded''), (''accept'', ''application/json'')] body))
     (\<lambda>request. try_io (send_request x request) (\<lambda>(status, bs).
       try_io (lift (of_sum (\<lambda>e. ''parse response: '' @ e) (x_from_slice x bs))) (\<lambda>j. ret (status, j))))"

lemmas http_runs [code] =
  get_bytes_def [THEN fun_cong] get_json_def [THEN fun_cong] post_json_def [THEN fun_cong]
  post_form_json_def [THEN fun_cong]

lemma steady_send_request [steady_intro]: "steady (send_request x q)"
  by (rule steadyI) (auto simp: send_request_def same_env_def)

lemma frames_send_request [frames_intro]: "frames view A (send_request x q)"
  by (rule framesI) (auto simp: send_request_def intro: steady_send_request)

lemma frames_http [frames_intro]:
  "frames view A (get_bytes x url hs)" "frames view A (get_json x url hs)"
  "frames view A (post_json x url b hs)" "frames view A (post_form_json x url b)"
  unfolding get_bytes_def get_json_def post_json_def post_form_json_def by (intro frames_intro)+

section \<open>The other regions\<close>

definition internal_auth_secret :: "config option \<Rightarrow> string option" where
  "internal_auth_secret c = config_value c ''internal_auth_secret''"

definition region_id :: "config option \<Rightarrow> string option" where
  "region_id c = config_value c ''region_id''"

definition region_domain :: "'s ext \<Rightarrow> config option \<Rightarrow> string \<Rightarrow> string option" where
  "region_domain x c region =
     Option.bind (config_value c ''region_domains'') (\<lambda>json_str.
     case x_from_slice x json_str of Inl _ \<Rightarrow> None
     | Inr m \<Rightarrow> map_option (trim_end_matches CHR ''/'') (jget_str m region))"

text \<open>The order in which a hash map lists its entries is unspecified; here it is that of the text.\<close>

definition region_internal_urls :: "'s ext \<Rightarrow> config option \<Rightarrow> (string \<times> string) list" where
  "region_internal_urls x c = (case config_value c ''region_internal_urls'' of
     None \<Rightarrow> []
   | Some s \<Rightarrow> (case from_slice x de_str_map s of Ok m \<Rightarrow> m | _ \<Rightarrow> []))"

section \<open>Request headers\<close>

text \<open>\<open>headers.get(name)\<close> and \<open>to_str()\<close>: the first value, if it is visible ASCII.\<close>

type_synonym headers = "(string \<times> string) list"

definition visible :: "char \<Rightarrow> bool" where
  "visible c \<longleftrightarrow> 32 \<le> chr_code c \<and> chr_code c < 127 \<or> chr_code c = 9"

definition header_str :: "headers \<Rightarrow> string \<Rightarrow> string option" where
  "header_str hs name = (case map_of hs name of
     Some v \<Rightarrow> if list_all visible v then Some v else None | None \<Rightarrow> None)"

definition last_entry :: "string \<Rightarrow> string option" where
  "last_entry s = (case rev (filter (\<lambda>p. p \<noteq> []) (map trim (split_on CHR '','' s))) of
     [] \<Rightarrow> None | p # _ \<Rightarrow> Some p)"

definition last_forwarded_for :: "headers \<Rightarrow> string option" where
  "last_forwarded_for hs = Option.bind (header_str hs ''x-forwarded-for'') last_entry"

definition trust_xff :: "(string \<Rightarrow> string option) \<Rightarrow> bool" where
  "trust_xff get = (case get ''trust_xff'' of
     Some v \<Rightarrow> trim v = ''true'' \<or> trim v = ''1'' | None \<Rightarrow> False)"

definition request_remote_ip :: "(string \<Rightarrow> string option) \<Rightarrow> headers \<Rightarrow> string" where
  "request_remote_ip get hs =
     (if \<not> trust_xff get then ''unknown''
      else (case Option.bind (header_str hs ''x-jetauth-client-ip'') last_entry of
          Some ip \<Rightarrow> ip
        | None \<Rightarrow> (case last_forwarded_for hs of Some ip \<Rightarrow> ip | None \<Rightarrow> ''unknown'')))"

definition is_hexdigit :: "char \<Rightarrow> bool" where
  "is_hexdigit c \<longleftrightarrow> is_digit c \<or> 97 \<le> chr_code (lower_chr c) \<and> chr_code (lower_chr c) \<le> 102"

definition parse_traceparent :: "string \<Rightarrow> string option" where
  "parse_traceparent value = (case split_on CHR ''-'' (trim value) of
     [_, trace_id, _, _] \<Rightarrow>
       if length trace_id \<noteq> 32 \<or> \<not> list_all is_hexdigit trace_id then None
       else if list_all (\<lambda>c. c = CHR ''0'') trace_id then None
       else Some (to_lowercase trace_id)
   | _ \<Rightarrow> None)"

definition sanitize_request_id :: "string \<Rightarrow> string option" where
  "sanitize_request_id value =
     (let candidate = trim value in
      if candidate = [] \<or> 64 < length candidate then None
      else if \<not> list_all (\<lambda>c. is_alnum c \<or> c \<in> set ''-_.:'') candidate then None
      else Some candidate)"

definition extract_trace_id :: "headers \<Rightarrow> string option" where
  "extract_trace_id hs = (case Option.bind (header_str hs ''traceparent'') parse_traceparent of
     Some t \<Rightarrow> Some t | None \<Rightarrow> Option.bind (header_str hs ''x-request-id'') sanitize_request_id)"

text \<open>A trace identifier taken from a client holds no character that could break a log line.\<close>

lemma sanitize_request_id_Some:
  "sanitize_request_id v = Some t \<Longrightarrow> t \<noteq> [] \<and> length t \<le> 64 \<and> (\<forall>c \<in> set t. is_alnum c \<or> c \<in> set ''-_.:'')"
  by (auto simp: sanitize_request_id_def Let_def list_all_iff split: if_splits)

text \<open>Without the deployment's consent no client-supplied address is reported.\<close>

lemma request_remote_ip_untrusted: "\<not> trust_xff get \<Longrightarrow> request_remote_ip get hs = ''unknown''"
  by (simp add: request_remote_ip_def)

end
