(* ===== verification/Service_Client.thy ===== *)
theory Service_Client
  imports Key_Manager Store_Users Http
begin

text \<open>
  \<open>service_client.rs\<close>: the password hasher, the check every bearer token passes, metrics, and the
  calls between regions.
\<close>

section \<open>Passwords\<close>

definition hash_password :: "'s ext \<Rightarrow> string \<Rightarrow> (string, 's) act" where
  "hash_password x plain = try_io next_draw (\<lambda>n. lift (of_sum id (x_pw_hash x n plain)))"

definition verify_password :: "'s ext \<Rightarrow> string \<Rightarrow> string \<Rightarrow> (bool, 's) act" where
  "verify_password x plain hash = lift (of_sum id (x_pw_verify x plain hash))"

section \<open>Bearer tokens\<close>

definition get_jwks :: "'s ext \<Rightarrow> (json, 's) act" where
  "get_jwks x = try_io (get_public_keys x) (\<lambda>keys_json.
     try_io (lift (res_map_err (\<lambda>e. ''parse keys: '' @ e) (from_slice x (de_list de_value) keys_json))) (\<lambda>keys.
     ret (JObj [(''keys'', JArr keys)])))"

definition token_times :: "json \<Rightarrow> u64 \<Rightarrow> unit res" where
  "token_times claims now =
     (let later = (\<lambda>k. case jget_u64 claims k of Some t \<Rightarrow> now + 30 < t | None \<Rightarrow> False) in
      if later ''iat'' then Err ''token iat is in the future''
      else if later ''nbf'' then Err ''token not yet active (nbf)''
      else res_bind (ok_or (jget_u64 claims ''exp'') ''token missing exp claim'') (\<lambda>exp.
        if exp + 30 < now then Err ''token expired'' else Ok ()))"

definition check_revoked :: "'s ext \<Rightarrow> json \<Rightarrow> (unit, 's) act" where
  "check_revoked x claims = (case jget_str claims ''sub'' of
     Some sub \<Rightarrow>
       let iat = (case jget_u64 claims ''iat'' of Some t \<Rightarrow> t | None \<Rightarrow> 0) in
       match_io (is_user_revoked x sub iat)
         (\<lambda>revoked. if revoked then fail ''token revoked'' else ret ()) (\<lambda>_. ret ())
   | None \<Rightarrow> ret ())"

definition audience_ok :: "json \<Rightarrow> string \<Rightarrow> bool" where
  "audience_ok claims expected = (case jget claims ''aud'' of
     Some (JStr v) \<Rightarrow> v = expected
   | Some (JArr vs) \<Rightarrow> list_ex (\<lambda>v. as_str v = Some expected) vs
   | _ \<Rightarrow> False)"

definition token_scope ::
    "json \<Rightarrow> string option \<Rightarrow> string option \<Rightarrow> string option \<Rightarrow> unit res" where
  "token_scope claims expected_issuer expected_audience required_token_type =
     (if (case expected_issuer of Some e \<Rightarrow> get_or_empty claims ''iss'' \<noteq> e | None \<Rightarrow> False)
      then Err ''invalid issuer''
      else if (case expected_audience of Some e \<Rightarrow> \<not> audience_ok claims e | None \<Rightarrow> False)
      then Err ''invalid audience''
      else if (case required_token_type of Some e \<Rightarrow> get_or_empty claims ''token_type'' \<noteq> e | None \<Rightarrow> False)
      then Err ''invalid token type''
      else Ok ())"

definition verify_token_scoped ::
    "'s ext \<Rightarrow> string \<Rightarrow> string option \<Rightarrow> string option \<Rightarrow> string option \<Rightarrow> (json, 's) act" where
  "verify_token_scoped x token expected_issuer expected_audience required_token_type =
     try_io (get_jwks x) (\<lambda>jwks.
     try_io (lift (verify_jwt_with_jwks x token jwks)) (\<lambda>(_, claims).
     try_io unix_now (\<lambda>now.
     try_io (lift (token_times claims now)) (\<lambda>_.
     try_io (check_revoked x claims) (\<lambda>_.
     try_io (lift (token_scope claims expected_issuer expected_audience required_token_type)) (\<lambda>_.
     ret claims))))))"

text \<open>Metrics go to the log pipeline of the host; the function builds a payload and drops it.\<close>

definition increment_metric :: "string \<Rightarrow> (string \<times> string) list \<Rightarrow> (unit, 's) act" where
  "increment_metric name labels = ret ()"

section \<open>Between regions\<close>

definition auth_headers :: "config option \<Rightarrow> (string \<times> string) list" where
  "auth_headers c = (case internal_auth_secret c of Some s \<Rightarrow> [(''x-internal-auth'', s)] | None \<Rightarrow> [])"

definition self_region :: "config option \<Rightarrow> string" where
  "self_region c = (case region_id c of Some r \<Rightarrow> r | None \<Rightarrow> [])"

definition internal_http_get :: "'s ext \<Rightarrow> string \<Rightarrow> (bytes, 's) act" where
  "internal_http_get x url = try_io get_config (\<lambda>c.
     try_io (get_bytes x url ((''accept'', ''application/json'') # auth_headers c)) (\<lambda>(status, body).
     if \<not> http_ok status then fail (''http '' @ show_nat status) else ret body))"

record lookup_reply =
  lp_found :: bool
  lp_region :: string

definition lookup_reply_of_json :: "json \<Rightarrow> lookup_reply res" where
  "lookup_reply_of_json j = de_struct j (de_field j ''found'' de_bool (\<lambda>f.
     de_field j ''region'' de_str (\<lambda>r. Ok \<lparr>lp_found = f, lp_region = r\<rparr>)))"

definition jopt_str :: "string option \<Rightarrow> json" where
  "jopt_str v = jopt JStr v"

fun lookup_remote ::
    "'s ext \<Rightarrow> string \<Rightarrow> string \<Rightarrow> string \<Rightarrow> (string \<times> string) list \<Rightarrow> (string option, 's) act" where
  "lookup_remote x self email_hash cache_key [] =
     ignore_io (kv_cache_set x cache_key (jopt_str None) 300) (ret None)"
| "lookup_remote x self email_hash cache_key ((region_name, base_url) # rs) =
     (if region_name = self then lookup_remote x self email_hash cache_key rs
      else match_io (internal_http_get x (trim_end_matches CHR ''/'' base_url @ ''/internal/lookup?hash='' @ email_hash))
        (\<lambda>body. case from_slice x lookup_reply_of_json body of
            Ok reply \<Rightarrow>
              if lp_found reply
              then ignore_io (kv_cache_set x cache_key (jopt_str (Some (lp_region reply))) 3600)
                (ret (Some (lp_region reply)))
              else lookup_remote x self email_hash cache_key rs
          | _ \<Rightarrow> lookup_remote x self email_hash cache_key rs)
        (\<lambda>e. try_io (log_event ''cross_region.lookup_failed'' (JObj [(''region'', JStr region_name), (''error'', JStr e)]))
          (\<lambda>_. lookup_remote x self email_hash cache_key rs)))"

definition lookup_region :: "'s ext \<Rightarrow> string \<Rightarrow> (string option, 's) act" where
  "lookup_region x email_hash =
     (let cache_key = ''region:'' @ email_hash;
          continue =
            try_io (lookup x email_hash) (\<lambda>local.
            if lr_found local
            then ignore_io (kv_cache_set x cache_key (jopt_str (lr_region local)) 3600) (ret (lr_region local))
            else try_io get_config (\<lambda>c.
              lookup_remote x (self_region c) email_hash cache_key (region_internal_urls x c)))
      in match_io (kv_cache_get x (de_opt de_str) cache_key)
           (\<lambda>hit. case hit of Some region \<Rightarrow> ret region | None \<Rightarrow> continue) (\<lambda>_. continue))"

text \<open>\<open>chars().take(n)\<close> on the lossily decoded text.\<close>

fun take_chars :: "nat \<Rightarrow> string \<Rightarrow> string" where
  "take_chars 0 s = []"
| "take_chars (Suc n) s = (if s = [] then [] else
     take (fst (utf8_step s)) s @ take_chars n (drop (fst (utf8_step s)) s))"

fun replicate_loop :: "'s ext \<Rightarrow> string \<Rightarrow> string \<Rightarrow> string \<Rightarrow> string \<Rightarrow> string \<Rightarrow>
    (string \<times> string) list \<Rightarrow> (unit, 's) act" where
  "replicate_loop x self payload op kind i [] = ret ()"
| "replicate_loop x self payload op kind i ((region_name, base_url) # rs) =
     (if region_name = self then replicate_loop x self payload op kind i rs
      else try_io get_config (\<lambda>c.
        try_io (match_io (post_json x (trim_end_matches CHR ''/'' base_url @ ''/internal/replicate'') payload (auth_headers c))
          (\<lambda>(status, body).
            if http_ok status
            then log_event ''cross_region.replicate_ok'' (JObj [(''region'', JStr region_name),
              (''kind'', JStr kind), (''op'', JStr op), (''id'', JStr i)])
            else log_event ''cross_region.replicate_failed'' (JObj [(''region'', JStr region_name),
              (''status'', JNum (int status)), (''body'', JStr (take_chars 200 (from_utf8_lossy body)))]))
          (\<lambda>e. log_event ''cross_region.replicate_error'' (JObj [(''region'', JStr region_name), (''error'', JStr e)])))
        (\<lambda>_. replicate_loop x self payload op kind i rs)))"

definition replicate_to_regions ::
    "'s ext \<Rightarrow> string \<Rightarrow> string \<Rightarrow> string \<Rightarrow> json option \<Rightarrow> (unit, 's) act" where
  "replicate_to_regions x op kind i data = try_io get_config (\<lambda>c.
     replicate_loop x (self_region c)
       (json_text x (JObj [(''op'', JStr op), (''kind'', JStr kind), (''id'', JStr i), (''data'', jopt id data)]))
       op kind i (region_internal_urls x c))"

lemmas service_client_runs [code] =
  hash_password_def [THEN fun_cong] verify_password_def [THEN fun_cong] get_jwks_def [THEN fun_cong]
  check_revoked_def [THEN fun_cong] verify_token_scoped_def [THEN fun_cong]
  increment_metric_def [THEN fun_cong] internal_http_get_def [THEN fun_cong]
  lookup_remote.simps [THEN fun_cong] lookup_region_def [THEN fun_cong]
  replicate_loop.simps [THEN fun_cong] replicate_to_regions_def [THEN fun_cong]

section \<open>Lemmas\<close>

lemma frames_increment_metric [frames_intro]: "frames view A (increment_metric name labels)"
  unfolding increment_metric_def by (intro frames_intro)

lemma try_increment_metric [simp]: "try_io (increment_metric name labels) k = k ()"
  "ignore_io (increment_metric name labels) m = m"
  by (auto simp: increment_metric_def fun_eq_iff ignore_io_def match_io_def)

lemma frames_passwords [frames_intro]:
  "frames view A (hash_password x p)" "frames view A (verify_password x p h)"
  unfolding hash_password_def verify_password_def by (intro frames_intro)+

lemma frames_replicate [frames_intro]: "frames view A (replicate_to_regions x op kind i d)"
proof -
  have loop: "frames view A (replicate_loop x self payload op kind i rs)" for self payload rs
  proof (induction rs)
    case Nil
    show ?case unfolding replicate_loop.simps by (intro frames_intro)
  next
    case (Cons r rs)
    show ?case by (cases r) (auto intro!: frames_intro Cons.IH simp del: ret_app)
  qed
  show ?thesis unfolding replicate_to_regions_def by (intro frames_intro loop)
qed

text \<open>Replication never fails the operation that triggered it.\<close>

lemma replicate_to_regions_never_fails: "fst (replicate_to_regions x op kind i d w) = Ok ()"
proof -
  have loop: "fst (replicate_loop x self payload op kind i rs w) = Ok ()" for self payload rs and w :: "'a world"
  proof (induction rs arbitrary: w)
    case Nil
    show ?case by simp
  next
    case (Cons r rs)
    obtain n u where r: "r = (n, u)" by (cases r)
    show ?case
      by (simp add: r Cons.IH try_io_def match_io_def get_config_def log_event_def post_json_def send_request_def
          build_request_def res_bind_def of_sum_def split: prod.split sum.split res.split)
  qed
  show ?thesis by (simp add: replicate_to_regions_def loop)
qed

context jetcache
begin

lemma get_jwks_frames [frames_intro]: "keys_addrs \<subseteq> A \<Longrightarrow> frames view A (get_jwks x)"
  unfolding get_jwks_def by (intro frames_intro)

lemma check_revoked_frames [frames_intro]: "frames view A (check_revoked x claims)"
  unfolding check_revoked_def Let_def by (intro frames_intro)

lemma verify_token_scoped_frames [frames_intro]:
  "keys_addrs \<subseteq> A \<Longrightarrow> frames view A (verify_token_scoped x token iss aud ty)"
  unfolding verify_token_scoped_def by (intro frames_intro)

end

section \<open>Tokens of this provider\<close>

text \<open>The ring pointer and the current RSA key record are both stored, and agree on the key identifier.\<close>

definition ring_serves :: "'s ext \<Rightarrow> 's view \<Rightarrow> 's \<Rightarrow> key_ring_meta \<Rightarrow> stored_key \<Rightarrow> bool" where
  "ring_serves x view s meta sk \<longleftrightarrow>
     (\<exists>n. rec_at x view key_ring_meta_of_json s ring_at = Some (meta, n)) \<and>
     (\<exists>n. rec_at x view stored_key_of_json s (key_at (rsa_key_name (kr_version meta))) = Some (sk, n)) \<and>
     sk_kid sk = kr_rsa_kid meta"

abbreviation revoked_at :: "string \<Rightarrow> addr" where
  "revoked_at u \<equiv> sess (''revoked:user:'' @ u)"

lemma de_list_values [simp]: "de_list de_value (JArr xs) = Ok xs"
  using de_list_aux_map [of xs de_value id] by (simp add: de_list_def de_value_def)

context gateway
begin

lemma key_table_ok: "table_ok (key_at n)"
  by (simp add: table_ok_def)

lemma load_meta_read:
  assumes "load_meta x w = (Ok m, w')" and "rec_at x view key_ring_meta_of_json (w_kv w) ring_at = Some (meta, n)"
  shows "m = meta \<and> (\<forall>a. table_ok a \<longrightarrow> survives view (w_kv w) (w_kv w') a)"
proof -
  from assms(1) obtain r w1 o1 where g: "kv_get_raw_with_revision x keys_table meta_key w = (Ok o1, w1)"
    and k: "(case o1 of Some (bytes, revision) \<Rightarrow> try_io (lift (parse_meta x bytes)) (\<lambda>meta. ret (meta, revision))
     | None \<Rightarrow> bootstrap_meta x) w1 = (Ok (m, r), w')"
    unfolding load_meta_def load_meta_with_revision_def by (auto elim!: try_io_Ok)
  from assms(2) obtain bytes where b: "bytes_at x view (w_kv w) ring_at = Some (bytes, n)"
    and d: "from_slice x key_ring_meta_of_json bytes = Ok meta"
    by (auto simp: rec_at_def split: option.splits prod.splits res.splits)
  from kv_get_raw_with_revision_Ok [OF g] b have o1: "o1 = Some (bytes, n)" by simp
  from k o1 d have "m = meta" and w: "w' = w1" by (auto simp: parse_meta_def)
  moreover have "survives view (w_kv w) (w_kv w') a" if "table_ok a" for a
    using frames_survives [OF kv_get_raw_with_revision_frames [of _ "{}"] g that] by (simp add: w)
  ultimately show ?thesis by blast
qed

lemma publish_retired_prefix: "publish_retired x now rs keys w = (Ok out, w') \<Longrightarrow> set keys \<subseteq> set out"
proof (induction rs arbitrary: keys w)
  case Nil
  then show ?case by simp
next
  case (Cons r rs)
  from Cons.prems obtain keys2 w2 where "publish_retired x now rs keys2 w2 = (Ok out, w')" "set keys \<subseteq> set keys2"
    by (auto elim!: try_io_Ok ignore_io_Ok split: if_splits)
  with Cons.IH show ?case by blast
qed

text \<open>The published set holds the current key.\<close>

lemma get_jwks_Ok:
  assumes "get_jwks x w = (Ok jwks, w')" and "ring_serves x view (w_kv w) meta sk"
  shows "\<exists>keys. jwks = JObj [(''keys'', JArr keys)] \<and> rsa_public_jwk sk \<in> set keys"
proof -
  from assms(1) obtain keys_json where pk: "get_public_keys x w = (Ok keys_json, w')"
    and j: "res_bind (from_slice x (de_list de_value) keys_json) (\<lambda>keys. Ok (JObj [(''keys'', JArr keys)])) = Ok jwks"
    unfolding get_jwks_def by (auto elim!: try_io_Ok simp: res_map_err_Ok)
  from pk obtain m w1 w2 o1 w3 o2 w4 rsa keys where lm: "load_meta x w = (Ok m, w1)"
    and w2: "w2 = w1\<lparr>w_ticks := Suc (w_ticks w1)\<rparr>"
    and lr: "load_rsa_from_db x (rsa_key_name (kr_version m)) w2 = (Ok o1, w3)" and o1: "o1 = Some rsa"
    and pub: "publish_retired x (w_clock w1 (w_ticks w1)) (kr_retired m)
        ([rsa_public_jwk rsa] @ ec_jwk_entry x o2) w4 = (Ok keys, w')"
    and out: "keys_json = x_to_vec x (JArr keys)"
    unfolding get_public_keys_def by (auto elim!: try_io_Ok simp: ok_or_Ok unix_now_Ok)
  from assms(2) obtain n n' where ring: "rec_at x view key_ring_meta_of_json (w_kv w) ring_at = Some (meta, n)"
    and key: "rec_at x view stored_key_of_json (w_kv w) (key_at (rsa_key_name (kr_version meta))) = Some (sk, n')"
    unfolding ring_serves_def by blast
  have m: "m = meta" using load_meta_read [OF lm ring] by (rule conjunct1)
  have keep: "survives view (w_kv w) (w_kv w1) a" if "table_ok a" for a
    using load_meta_read [OF lm ring] that by blast
  from load_rsa_Ok [OF lr, symmetric] o1 m w2 obtain n2 where
    "rec_at x view stored_key_of_json (w_kv w1) (key_at (rsa_key_name (kr_version meta))) = Some (rsa, n2)" by auto
  with keep have "rec_at x view stored_key_of_json (w_kv w) (key_at (rsa_key_name (kr_version meta))) = Some (rsa, n2)"
    by (blast intro: survives_rec_at key_table_ok)
  with key have "rsa = sk" by simp
  with publish_retired_prefix [OF pub] have "rsa_public_jwk sk \<in> set keys" by simp
  moreover from j out have "jwks = JObj [(''keys'', JArr keys)]" by (simp add: from_slice_def from_slice_to_vec)
  ultimately show ?thesis by blast
qed

lemma verify_token_scoped_Ok:
  assumes "verify_token_scoped x token iss aud ty w = (Ok claims, w')"
  shows "\<exists>jwks w1 h w2 w3 q. get_jwks x w = (Ok jwks, w1) \<and> verify_jwt_with_jwks x token jwks = Ok (h, claims) \<and>
    token_times claims (w_clock w1 (w_ticks w1)) = Ok () \<and> token_scope claims iss aud ty = Ok () \<and>
    (\<forall>sub. jget_str claims ''sub'' = Some sub \<longrightarrow>
      is_user_revoked x sub (case jget_u64 claims ''iat'' of Some t \<Rightarrow> t | None \<Rightarrow> 0) w2 = (q, w3) \<and> q \<noteq> Ok True \<and>
      survives view (w_kv w) (w_kv w2) (revoked_at sub))"
proof -
  from assms obtain jwks w1 h w2 where g: "get_jwks x w = (Ok jwks, w1)"
    and v: "verify_jwt_with_jwks x token jwks = Ok (h, claims)"
    and tt: "token_times claims (w_clock w1 (w_ticks w1)) = Ok ()"
    and w2: "w2 = w1\<lparr>w_ticks := Suc (w_ticks w1)\<rparr>" and cr: "check_revoked x claims w2 = (Ok (), w')"
    and sc: "token_scope claims iss aud ty = Ok ()"
    unfolding verify_token_scoped_def by (auto elim!: try_io_Ok simp: unix_now_Ok split: prod.splits)
  obtain q w3 where run: "is_user_revoked x (the (jget_str claims ''sub''))
      (case jget_u64 claims ''iat'' of Some t \<Rightarrow> t | None \<Rightarrow> 0) w2 = (q, w3)"
    by (cases "is_user_revoked x (the (jget_str claims ''sub''))
      (case jget_u64 claims ''iat'' of Some t \<Rightarrow> t | None \<Rightarrow> 0) w2")
  have sur: "survives view (w_kv w) (w_kv w2) (sess k)" for k
    using frames_survives [OF get_jwks_frames [of keys_addrs, OF subset_refl] g, of "sess k"] w2
    by (simp add: table_ok_def)
  have "q \<noteq> Ok True" if "jget_str claims ''sub'' = Some sub" for sub
    using cr run that by (auto simp: check_revoked_def Let_def match_io_def)
  with g v tt sc run sur show ?thesis
    by (intro exI [of _ jwks] exI [of _ w1] exI [of _ h] exI [of _ w2] exI [of _ w3] exI [of _ q]) auto
qed

text \<open>When the revocation marker cannot be read the token passes.\<close>

lemma check_revoked_fails_open:
  "is_user_revoked x sub (case jget_u64 claims ''iat'' of Some t \<Rightarrow> t | None \<Rightarrow> 0) w = (Err e, w') \<Longrightarrow>
    jget_str claims ''sub'' = Some sub \<Longrightarrow> check_revoked x claims w = (Ok (), w')"
  by (simp add: check_revoked_def)

end

context token_gateway
begin

lemma sign_served:
  assumes "sign x claims w = (Ok t, w')" and "ring_serves x view (w_kv w) meta sk"
    and "ring_serves x view (w_kv w') meta sk"
  shows "\<exists>sig. t = compact x (jwt_header ''RS256'' (kr_rsa_kid meta)) claims sig \<and>
    verify_jwt_with_jwk x t (rsa_public_jwk sk) = Ok (jwt_header ''RS256'' (kr_rsa_kid meta), claims)"
proof -
  let ?h = "jwt_header ''RS256''"
  from assms(1) obtain m w1 s where lm: "load_meta x w = (Ok m, w1)"
    and s: "sign_jwt x (x_b64url_encode x (x_to_vec x (?h (kr_rsa_kid m)))) (x_b64url_encode x (x_to_vec x claims)) w1 = (Ok s, w')"
    and t: "t = x_b64url_encode x (x_to_vec x (?h (kr_rsa_kid m))) @ CHR ''.'' #
      x_b64url_encode x (x_to_vec x claims) @ CHR ''.'' # s"
    unfolding sign_def get_kid_def Let_def by (auto elim!: try_io_Ok)
  from assms(2) load_meta_read [OF lm] have m: "m = meta" by (auto simp: ring_serves_def)
  from sign_jwt_Ok [OF s] obtain keys where lk: "load_keys x w1 = (Ok keys, w')"
    and sig: "s = x_b64url_encode x (x_rs256_sign x (lk_signing_key keys) (signed_part x (?h (kr_rsa_kid m)) claims))"
    by auto
  from load_keys_Ok [OF lk] obtain m2 rsa where r: "ring_stored (w_kv w') m2" "rsa_key_stored (w_kv w') (kr_version m2) rsa"
    and k: "stored_key_to_signing_key x rsa = Ok (lk_signing_key keys)" by blast
  have "m2 = meta" using r(1) assms(3) by (auto simp: ring_stored_def ring_serves_def dest: rec_at_view)
  then have "rsa = sk" using r(2) assms(3) by (auto simp: rsa_key_stored_def ring_serves_def dest: rec_at_view)
  with rsa_token_verifies [OF k, of "kr_rsa_kid meta" claims] t sig m show ?thesis
    by (auto simp: compact_def)
qed

lemma signed_token_published:
  assumes "sign x claims w = (Ok t, w1)" and "get_jwks x w2 = (Ok jwks, w3)"
    and "\<forall>s \<in> {w_kv w, w_kv w1, w_kv w2}. ring_serves x view s meta sk"
  shows "verify_jwt_with_jwks x t jwks = Ok (jwt_header ''RS256'' (kr_rsa_kid meta), claims)"
proof -
  from sign_served [OF assms(1)] assms(3) obtain sig where
    t: "t = compact x (jwt_header ''RS256'' (kr_rsa_kid meta)) claims sig"
    and v: "verify_jwt_with_jwk x t (rsa_public_jwk sk) = Ok (jwt_header ''RS256'' (kr_rsa_kid meta), claims)"
    by blast
  from get_jwks_Ok [OF assms(2)] assms(3) obtain keys where j: "jwks = JObj [(''keys'', JArr keys)]"
    and k: "rsa_public_jwk sk \<in> set keys" by blast
  have "rsa_public_jwk sk \<in> set (jwks_candidates jwks (jwt_header ''RS256'' (kr_rsa_kid meta)))"
    using k assms(3) by (auto simp: jwks_candidates_def j jwks_keys_def jget_array_def expected_kty_def ring_serves_def)
  from jwks_compact [OF this] v t show ?thesis by simp
qed

end

section \<open>Properties\<close>

text \<open>A world whose ring has its first generation.\<close>

definition demo_sk :: stored_key where
  "demo_sk = \<lparr>sk_kid = ''k'', sk_n = ''n'', sk_e = ''e'', sk_d = ''d'',
     sk_primes = [], sk_created_at = 1\<rparr>"

definition demo_ek :: stored_ec_key where
  "demo_ek = \<lparr>se_kid = ''c'', se_d = ''s'', se_created_at = 1\<rparr>"

definition demo_meta :: key_ring_meta where
  "demo_meta = \<lparr>kr_version = 1, kr_rsa_kid = ''k'',
     kr_ec_kid = ''c'', kr_created_at = 1, kr_retired = []\<rparr>"

definition demo_ring :: kv_map where
  "demo_ring = [(''keys:signing-key-v1'', enc_json (stored_key_to_json demo_sk), 1),
     (''keys:signing-key-ec-v1'', enc_json (stored_ec_key_to_json demo_ek), 1),
     (full_key keys_table meta_key, enc_json (key_ring_meta_to_json demo_meta), 1)]"

definition demo_claims :: json where
  "demo_claims = JObj [(''sub'', JStr ''u''), (''iat'', JNum 1000), (''exp'', JNum 4600), (''iss'', JStr ''i'')]"

abbreviation "ring_w \<equiv> demo_world_at 1000 demo_ring"
abbreviation "later_w \<equiv> demo_world_at 1600 demo_ring"

text \<open>C15. A token this provider signed passes its own check: while the key ring serves the same
  current key, a token signed at one time and presented at a later time verifies under the published
  key set, and the full check returns exactly the claims signed, provided they are in force at that
  time, not revoked, and match the issuer, audience and type asked for.\<close>

theorem issued_token_accepted:
  assumes "token_gateway x view" and "sign x claims w = (Ok t, w1)" and "get_jwks x w2 = (Ok jwks, w3)"
    and "\<forall>s \<in> {w_kv w, w_kv w1, w_kv w2}. ring_serves x view s meta sk"
    and "token_times claims (w_clock w3 (w_ticks w3)) = Ok ()"
    and "check_revoked x claims (w3\<lparr>w_ticks := Suc (w_ticks w3)\<rparr>) = (Ok (), w4)"
    and "token_scope claims iss aud ty = Ok ()"
  shows "verify_token_scoped x t iss aud ty w2 = (Ok claims, w4)"
  using token_gateway.signed_token_published [OF assms(1-4)] assms(3,5-7)
  by (simp add: verify_token_scoped_def)

lemma issued_token_accepted_witness:
  "\<exists>t w4. verify_token_scoped mem_ext t (Some ''i'') None None later_w = (Ok demo_claims, w4)"
proof -
  have s: "case sign mem_ext demo_claims ring_w of (r, w') \<Rightarrow> is_ok r \<and> w_kv w' = demo_ring" by code_simp
  then obtain t w1 where t: "sign mem_ext demo_claims ring_w = (Ok t, w1)" and w1: "w_kv w1 = demo_ring"
    by (cases "sign mem_ext demo_claims ring_w"; cases "fst (sign mem_ext demo_claims ring_w)") (auto simp: is_ok_def)
  have g: "case get_jwks mem_ext later_w of (r, w') \<Rightarrow> is_ok r \<and>
      token_times demo_claims (w_clock w' (w_ticks w')) = Ok () \<and>
      fst (check_revoked mem_ext demo_claims (w'\<lparr>w_ticks := Suc (w_ticks w')\<rparr>)) = Ok ()"
    by code_simp
  then obtain jwks w3 where j: "get_jwks mem_ext later_w = (Ok jwks, w3)"
    and tt: "token_times demo_claims (w_clock w3 (w_ticks w3)) = Ok ()"
    and cr: "fst (check_revoked mem_ext demo_claims (w3\<lparr>w_ticks := Suc (w_ticks w3)\<rparr>)) = Ok ()"
    by (cases "get_jwks mem_ext later_w"; cases "fst (get_jwks mem_ext later_w)") (auto simp: is_ok_def)
  from cr obtain w4 where c: "check_revoked mem_ext demo_claims (w3\<lparr>w_ticks := Suc (w_ticks w3)\<rparr>) = (Ok (), w4)"
    by (cases "check_revoked mem_ext demo_claims (w3\<lparr>w_ticks := Suc (w_ticks w3)\<rparr>)") auto
  have "ring_serves mem_ext mem_view demo_ring demo_meta demo_sk"
  proof -
    have "rec_at mem_ext mem_view key_ring_meta_of_json demo_ring ring_at = Some (demo_meta, 1)"
      "rec_at mem_ext mem_view stored_key_of_json demo_ring (key_at (rsa_key_name (kr_version demo_meta))) = Some (demo_sk, 1)"
      by code_simp+
    then show ?thesis by (auto simp: ring_serves_def demo_meta_def demo_sk_def)
  qed
  then have r: "\<forall>s \<in> {w_kv ring_w, w_kv w1, w_kv later_w}. ring_serves mem_ext mem_view s demo_meta demo_sk"
    by (simp add: w1 demo_world_at_def)
  have sc: "token_scope demo_claims (Some ''i'') None None = Ok ()" by code_simp
  show ?thesis
    by (rule exI, rule exI, rule issued_token_accepted [OF mem_token_gateway t j r tt c sc])
qed


abbreviation "revoke_w \<equiv> demo_world_at 2000 []"
abbreviation "revoked_w \<equiv> snd (revoke_user_sessions mem_ext ''u'' revoke_w)"


end
