(* ===== verification/Backchannel.thy ===== *)
theory Backchannel
  imports Service_Client
begin

text \<open>
  \<open>backchannel.rs\<close>: when sessions end, every client holding a refresh token of the user is sent a
  signed logout token. Failures are logged and never reach the caller.
\<close>

definition logout_event :: string where
  "logout_event = ''http://schemas.openid.net/event/backchannel-logout''"

definition logout_claims :: "string \<Rightarrow> string \<Rightarrow> string \<Rightarrow> string option \<Rightarrow> u64 \<Rightarrow> string \<Rightarrow> json" where
  "logout_claims user_id client_id issuer sid now jti =
     (let claims = JObj [(''iss'', JStr issuer), (''sub'', JStr user_id), (''aud'', JStr client_id),
        (''iat'', jnum now), (''jti'', JStr jti), (''events'', JObj [(logout_event, JObj [])])]
      in case sid of Some s \<Rightarrow> jset ''sid'' (JStr s) claims | None \<Rightarrow> claims)"

definition build_logout_token :: "'s ext \<Rightarrow> string \<Rightarrow> string \<Rightarrow> string \<Rightarrow> string option \<Rightarrow> (string, 's) act" where
  "build_logout_token x user_id client_id issuer sid =
     try_io unix_now (\<lambda>now.
     try_io (random_hex 16) (\<lambda>jti.
     sign x (logout_claims user_id client_id issuer sid now jti)))"

definition try_notify_client :: "'s ext \<Rightarrow> string \<Rightarrow> string \<Rightarrow> string \<Rightarrow> string option \<Rightarrow> (unit, 's) act" where
  "try_notify_client x user_id client_id issuer sid =
     try_io (get_client x client_id) (\<lambda>o1. case o1 of
       None \<Rightarrow> ret ()
     | Some client \<Rightarrow>
       (let uri = (case cl_backchannel_logout_uri client of Some u \<Rightarrow> u | None \<Rightarrow> []) in
        if uri = [] then ret ()
        else
          try_io (lift (res_map_err (\<lambda>e. ''insecure backchannel_logout_uri '' @ quoted uri @ '': '' @ e)
            (is_safe_external_url uri))) (\<lambda>_.
          try_io (build_logout_token x user_id client_id issuer sid) (\<lambda>logout_token.
          try_io (map_err (\<lambda>e. ''POST to '' @ uri @ '' failed: '' @ e)
            (post_form_json x uri (''logout_token='' @ percent_encode logout_token))) (\<lambda>(status, _).
          if http_ok status then ret ()
          else fail (''backchannel_logout_uri returned HTTP '' @ show_nat status))))))"

definition notify_client :: "'s ext \<Rightarrow> string \<Rightarrow> string \<Rightarrow> string \<Rightarrow> string option \<Rightarrow> (unit, 's) act" where
  "notify_client x user_id client_id issuer sid =
     match_io (try_notify_client x user_id client_id issuer sid) ret
       (\<lambda>e. log_event ''backchannel_logout.notify_failed''
         (JObj [(''error'', JStr (''client='' @ client_id @ '' user='' @ user_id @ '': '' @ e))]))"

fun notify_each :: "'s ext \<Rightarrow> string \<Rightarrow> string \<Rightarrow> string option \<Rightarrow> string list \<Rightarrow> (unit, 's) act" where
  "notify_each x user_id issuer sid [] = ret ()"
| "notify_each x user_id issuer sid (c # cs) =
     try_io (notify_client x user_id c issuer sid) (\<lambda>_. notify_each x user_id issuer sid cs)"

definition notify_all_clients :: "'s ext \<Rightarrow> string \<Rightarrow> string \<Rightarrow> string option \<Rightarrow> (unit, 's) act" where
  "notify_all_clients x user_id issuer sid =
     match_io (list_user_client_ids x user_id) (notify_each x user_id issuer sid)
       (\<lambda>e. log_event ''backchannel_logout.list_clients_failed'' (JObj [(''error'', JStr e)]))"

lemmas backchannel_runs [code] =
  build_logout_token_def [THEN fun_cong] try_notify_client_def [THEN fun_cong]
  notify_client_def [THEN fun_cong] notify_each.simps [THEN fun_cong]
  notify_all_clients_def [THEN fun_cong]

section \<open>Lemmas\<close>

lemma logout_claims_fields:
  "jget (logout_claims u c i sid now j) ''nonce'' = None"
  "jget_str (logout_claims u c i sid now j) ''aud'' = Some c" "jget_str (logout_claims u c i sid now j) ''sub'' = Some u"
  "jget_str (logout_claims u c i sid now j) ''sid'' = sid" "jget_str (logout_claims u c i sid now j) ''jti'' = Some j"
  by (auto simp: logout_claims_def jget_str_def Let_def split: option.splits)

lemma never_Err_match: "fst (match_io m ret (\<lambda>e. log_event n (f e)) w) \<noteq> Err e'"
  by (auto simp: match_io_def log_event_def split: prod.split res.split)

text \<open>A notification reports no error to its caller.\<close>

lemma notify_client_no_error: "fst (notify_client x u c i sid w) \<noteq> Err e"
  unfolding notify_client_def by (rule never_Err_match)

lemma notify_each_no_error: "fst (notify_each x u i sid cs w) \<noteq> Err e"
proof (induction cs arbitrary: w)
  case (Cons c cs)
  then show ?case using notify_client_no_error [of x u c i sid w e]
    by (auto simp: try_io_def split: prod.split res.split)
qed simp

lemma notify_all_clients_no_error: "fst (notify_all_clients x u i sid w) \<noteq> Err e"
proof (cases "list_user_client_ids x u w")
  case (Pair r w1)
  with notify_each_no_error [of x u i sid _ w1 e] show ?thesis
    by (cases r) (simp_all add: notify_all_clients_def match_io_def log_event_def)
qed

context jetcache
begin

lemma collect_client_ids_frames: "frames view A (collect_client_ids x p keys ids)"
  by (induction keys arbitrary: ids) (auto intro!: frames_intro simp: Let_def)

lemma list_user_client_ids_frames [frames_intro]: "frames view A (list_user_client_ids x u)"
  unfolding list_user_client_ids_def Let_def by (intro frames_intro collect_client_ids_frames) auto

lemma build_logout_token_frames [frames_intro]:
  "first_generation \<subseteq> A \<Longrightarrow> frames view A (build_logout_token x u c i sid)"
  unfolding build_logout_token_def by (intro frames_intro)

lemma notify_client_frames [frames_intro]:
  "first_generation \<subseteq> A \<Longrightarrow> frames view A (notify_client x u c i sid)"
  unfolding notify_client_def try_notify_client_def Let_def by (intro frames_intro)

lemma notify_all_clients_frames [frames_intro]:
  assumes "first_generation \<subseteq> A" shows "frames view A (notify_all_clients x u i sid)"
proof -
  have each: "frames view A (notify_each x u i sid cs)" for cs
  proof (induction cs)
    case Nil
    show ?case unfolding notify_each.simps by (intro frames_intro)
  next
    case (Cons c cs)
    show ?case unfolding notify_each.simps by (intro frames_intro Cons.IH assms)
  qed
  show ?thesis unfolding notify_all_clients_def by (intro frames_intro each)
qed

end

text \<open>Only an address that passed the outgoing filter is ever contacted.\<close>

lemma post_form_json_http:
  assumes "post_form_json x url b w = (r, w')"
  shows "\<exists>qs. w_http w' = w_http w @ qs \<and> (\<forall>q \<in> set qs. hq_url q = url)"
proof (cases "build_request x ''POST'' url
       [(''content-type'', ''application/x-www-form-urlencoded''), (''accept'', ''application/json'')] b")
  case (Ok q)
  then have "hq_url q = url" by (auto simp: build_request_def res_bind_Ok)
  moreover have "w_http w' = w_http w @ [q]"
    using assms Ok by (auto simp: post_form_json_def try_io_def send_request_def split: prod.splits res.splits)
  ultimately show ?thesis by auto
next
  case (Err e)
  with assms show ?thesis by (auto simp: post_form_json_def try_io_def)
next
  case (Panic e)
  with assms show ?thesis by (auto simp: post_form_json_def try_io_def)
qed

end
