(* ===== verification/Token.thy ===== *)
theory Token
  imports Backchannel Dpop
begin

text \<open>
  The token endpoint (\<open>token.rs\<close>): the dispatch over grant types with client authentication, proof of
  possession and rate limiting in front, the four grants, revocation and introspection, and the
  claims of the tokens issued.
\<close>

section \<open>Error responses\<close>

definition token_error :: "'s ext \<Rightarrow> nat \<Rightarrow> string \<Rightarrow> string \<Rightarrow> response" where
  "token_error x status error description =
     \<lparr>rs_status = status,
      rs_headers = no_store_json @
        (if status = 401 then [(''www-authenticate'', ''Basic realm=\"jetauth\"'')] else []),
      rs_body = json_text x (JObj [(''error'', JStr error), (''error_description'', JStr description)])\<rparr>"

definition mentions :: "string list \<Rightarrow> string \<Rightarrow> bool" where
  "mentions needles e = list_ex (\<lambda>n. contains_str n e) needles"

definition map_token_error :: "'s ext \<Rightarrow> string \<Rightarrow> (response, 's) act" where
  "map_token_error x e =
     (if starts_with ''invalid_dpop_proof'' e \<or> contains_str ''DPoP'' e
      then ret (token_error x 400 ''invalid_dpop_proof'' e)
      else if mentions [''client_id'', ''client_secret'', ''client authentication'', ''client_assertion'',
          ''unregistered client'', ''invalid client''] e
      then try_io (log_event ''token.client_auth_failed'' (JObj [(''error'', JStr e)]))
        (\<lambda>_. ret (token_error x 401 ''invalid_client'' ''client authentication failed''))
      else if mentions [''grant_type'', ''not authorized to use''] e
      then ret (token_error x 400 ''unauthorized_client'' e)
      else if mentions [''code'', ''expired'', ''PKCE'', ''redirect_uri'', ''refresh token'', ''user not found'',
          ''mismatch'', ''consumed'', ''revoked'', ''replay''] e
      then ret (token_error x 400 ''invalid_grant'' e)
      else if mentions [''rate'', ''too many''] e
      then ret (token_error x 429 ''invalid_request'' e)
      else ret (token_error x 400 ''invalid_request'' e))"

section \<open>Claims\<close>

definition hex_sha256 :: "'s ext \<Rightarrow> string \<Rightarrow> string" where
  "hex_sha256 x input = hex_lower (x_sha256 x input)"

text \<open>A digest shorter than 16 bytes would be a slice error; SHA-256 has 32.\<close>

definition compute_at_hash :: "'s ext \<Rightarrow> string \<Rightarrow> string" where
  "compute_at_hash x access_token = x_b64url_encode x (take 16 (x_sha256 x access_token))"

definition verify_pkce :: "'s ext \<Rightarrow> string \<Rightarrow> string \<Rightarrow> string \<Rightarrow> bool" where
  "verify_pkce x code_verifier code_challenge m =
     (if m \<noteq> ''S256'' then False
      else x_b64url_encode x (x_sha256 x code_verifier) = code_challenge)"

definition add_derived_profile_claim :: "json \<Rightarrow> user \<Rightarrow> string \<Rightarrow> json" where
  "add_derived_profile_claim claims usr claim_name =
     (if claim_name = ''name'' then jset ''name'' (JStr (usr_name usr)) claims
      else if claim_name = ''given_name'' then
        (case split_whitespace (usr_name usr) of
           v # _ \<Rightarrow> if v \<noteq> [] then jset ''given_name'' (JStr v) claims else claims | [] \<Rightarrow> claims)
      else if claim_name = ''family_name'' then
        (let remainder = join_with '' '' (drop 1 (split_whitespace (usr_name usr))) in
         if remainder \<noteq> [] then jset ''family_name'' (JStr remainder) claims else claims)
      else if claim_name = ''preferred_username'' then
        (let preferred = hd (split_on CHR ''@'' (usr_email usr)) in
         if preferred \<noteq> [] then jset ''preferred_username'' (JStr preferred) claims else claims)
      else if claim_name = ''email'' then jset ''email'' (JStr (usr_email usr)) claims
      else if claim_name = ''email_verified'' then
        jset ''email_verified'' (JBool (usr_status usr = ''active'')) claims
      else claims)"

text \<open>\<open>if c { claims[k] = v }\<close>.\<close>

definition jset_if :: "bool \<Rightarrow> string \<Rightarrow> json \<Rightarrow> json \<Rightarrow> json" where
  "jset_if c k v j = (if c then jset k v j else j)"

definition jset_opt :: "('a \<Rightarrow> json) \<Rightarrow> string \<Rightarrow> 'a option \<Rightarrow> json \<Rightarrow> json" where
  "jset_opt f k v j = (case v of Some y \<Rightarrow> jset k (f y) j | None \<Rightarrow> j)"

definition jkt_json :: "string \<Rightarrow> json" where
  "jkt_json jkt = JObj [(''jkt'', JStr jkt)]"

definition non_empty :: "string option \<Rightarrow> string option" where
  "non_empty v = (case v of Some s \<Rightarrow> if s = [] then None else Some s | None \<Rightarrow> None)"

record claim_request =
  cq_issuer :: string
  cq_client_id :: string
  cq_nonce :: "string option"
  cq_auth_time :: u64
  cq_amr :: "string list"
  cq_acr :: "string option"
  cq_scope :: string
  cq_id_token_claims :: "string list"
  cq_userinfo_claims :: "string list"
  cq_extra_claims :: "(string \<times> string) list"
  cq_dpop_jkt :: "string option"
  cq_sid :: "string option"

definition identity_claims :: "user \<Rightarrow> claim_request \<Rightarrow> json \<Rightarrow> json" where
  "identity_claims usr q j =
     (let scopes = split_whitespace (cq_scope q);
          email = (''email'' \<in> set scopes \<or> ''email'' \<in> set (cq_id_token_claims q));
          profile = (''profile'' \<in> set scopes \<or> ''name'' \<in> set (cq_id_token_claims q))
      in jset_if profile ''name'' (JStr (usr_name usr))
          (jset_if email ''email_verified'' (JBool (usr_status usr = ''active''))
            (jset_if email ''email'' (JStr (usr_email usr)) j)))"

definition session_claims :: "claim_request \<Rightarrow> json \<Rightarrow> json" where
  "session_claims q j = jset_opt JStr ''acr'' (non_empty (cq_acr q))
     (jset_if (cq_amr q \<noteq> []) ''amr'' (jstrs (cq_amr q)) j)"

definition role_claims :: "user \<Rightarrow> membership list \<Rightarrow> json \<Rightarrow> json" where
  "role_claims usr memberships j =
     (let j1 = jset_if (usr_superadmin usr) ''role'' (JStr ''superadmin'') j in
      case memberships of
        [] \<Rightarrow> j1
      | m # rest \<Rightarrow>
          (let j2 = (if rest = [] then j1
                else jset ''tenants'' (JArr (map (\<lambda>n. JObj [(''tenant_id'', JStr (mb_tenant_id n)),
                    (''role'', JStr (mb_role n))]) memberships)) j1);
               j3 = jset ''tenant_id'' (JStr (mb_tenant_id m)) j2
           in jset_if (\<not> usr_superadmin usr) ''role'' (JStr (mb_role m)) j3))"

definition add_extra_claims :: "(string \<times> string) list \<Rightarrow> json \<Rightarrow> json" where
  "add_extra_claims extra j = foldl (\<lambda>j (k, v). jset k (JStr v) j) j extra"

definition access_claims_of :: "u64 \<Rightarrow> user \<Rightarrow> membership list \<Rightarrow> claim_request \<Rightarrow> json" where
  "access_claims_of now usr memberships q =
     (let j0 = JObj [(''iss'', JStr (cq_issuer q)), (''sub'', JStr (usr_id usr)), (''aud'', JStr (cq_client_id q)),
        (''exp'', jnum (now + 3600)), (''nbf'', jnum (now - 30)), (''iat'', jnum now),
        (''scope'', JStr (cq_scope q)), (''auth_time'', jnum (cq_auth_time q)), (''token_type'', JStr ''access'')]
      in add_extra_claims (cq_extra_claims q) (role_claims usr memberships
          (jset_if (cq_userinfo_claims q \<noteq> []) ''lid_userinfo_claims'' (jstrs (cq_userinfo_claims q))
            (session_claims q (jset_opt jkt_json ''cnf'' (cq_dpop_jkt q) (identity_claims usr q j0))))))"

definition id_claims_of :: "u64 \<Rightarrow> user \<Rightarrow> membership list \<Rightarrow> claim_request \<Rightarrow> json" where
  "id_claims_of now usr memberships q =
     (let j0 = JObj [(''iss'', JStr (cq_issuer q)), (''sub'', JStr (usr_id usr)), (''aud'', JStr (cq_client_id q)),
        (''exp'', jnum (now + 3600)), (''nbf'', jnum (now - 30)), (''iat'', jnum now),
        (''auth_time'', jnum (cq_auth_time q))]
      in add_extra_claims (cq_extra_claims q)
          (foldl (\<lambda>j c. add_derived_profile_claim j usr c)
            (role_claims usr memberships (session_claims q
              (jset_opt JStr ''nonce'' (non_empty (cq_nonce q))
                (jset_opt JStr ''sid'' (cq_sid q) (identity_claims usr q j0)))))
            (cq_id_token_claims q)))"

definition build_claims :: "'s ext \<Rightarrow> user \<Rightarrow> claim_request \<Rightarrow> (json \<times> json, 's) act" where
  "build_claims x usr q =
     try_io unix_now (\<lambda>now.
     try_io (or_else_io (list_user_tenants x (usr_id usr)) []) (\<lambda>memberships.
     ret (access_claims_of now usr memberships q, id_claims_of now usr memberships q)))"

section \<open>Issuing\<close>

text \<open>The access token, and the identity token that carries its hash.\<close>

definition sign_pair :: "'s ext \<Rightarrow> oidc_client \<Rightarrow> json \<times> json \<Rightarrow> (string \<times> string, 's) act" where
  "sign_pair x client = (\<lambda>(access_claims, id_claims).
     try_io (sign x access_claims) (\<lambda>access_token.
     try_io (sign_id_token_for_client x
         (jset ''at_hash'' (JStr (compute_at_hash x access_token)) id_claims) client) (\<lambda>id_token.
     ret (access_token, id_token))))"

definition token_type :: "string option \<Rightarrow> string" where
  "token_type dpop_jkt = (if dpop_jkt \<noteq> None then ''DPoP'' else ''Bearer'')"

definition has_offline_access :: "string \<Rightarrow> bool" where
  "has_offline_access scope \<longleftrightarrow> ''offline_access'' \<in> set (split_on CHR '' '' scope)"

definition token_json :: "string \<times> string \<Rightarrow> string option \<Rightarrow> string \<Rightarrow> json" where
  "token_json tokens dpop_jkt scope = JObj [(''access_token'', JStr (fst tokens)),
     (''token_type'', JStr (token_type dpop_jkt)), (''expires_in'', JNum 3600),
     (''id_token'', JStr (snd tokens)), (''scope'', JStr scope)]"

primrec issued_metrics :: "string \<Rightarrow> string list \<Rightarrow> (unit, 's) act" where
  "issued_metrics grant [] = ret ()"
| "issued_metrics grant (t # ts) =
     ignore_io (increment_metric ''lattice_id_token_issued_total'' [(''grant_type'', grant), (''token_type'', t)])
       (issued_metrics grant ts)"

definition refresh_metric :: "string \<Rightarrow> (unit, 's) act" where
  "refresh_metric result = increment_metric ''lattice_id_refresh_usage_total'' [(''result'', result)]"

definition unauthorized_grant :: "oidc_client \<Rightarrow> string \<Rightarrow> string" where
  "unauthorized_grant client grant = ''client '' @ quoted (cl_client_id client) @
     '' is not authorized to use grant_type '' @ quoted grant"

section \<open>Authorization codes\<close>

definition check_code_binding :: "auth_code \<Rightarrow> oidc_client \<Rightarrow> string \<Rightarrow> unit res" where
  "check_code_binding ac client redirect_uri =
     (if ac_client_id ac \<noteq> cl_client_id client then Err ''client_id mismatch''
      else if ac_redirect_uri ac \<noteq> redirect_uri then Err ''redirect_uri mismatch''
      else Ok ())"

definition check_code_redeemable :: "'s ext \<Rightarrow> auth_code \<Rightarrow> u64 \<Rightarrow> string option \<Rightarrow> unit res" where
  "check_code_redeemable x ac now code_verifier =
     (if ac_expires_at ac < now then Err ''authorization code expired''
      else if ac_pending_consent ac then Err ''authorization code requires user consent before redemption''
      else if ac_code_challenge ac = []
        then Err ''PKCE required: authorization code was issued without a code_challenge''
      else res_bind (ok_or code_verifier ''missing code_verifier (PKCE required)'') (\<lambda>verifier.
        if \<not> verify_pkce x verifier (ac_code_challenge ac) (ac_code_challenge_method ac)
        then Err ''PKCE verification failed'' else Ok ()))"

definition active_user :: "'s ext \<Rightarrow> string \<Rightarrow> (user, 's) act" where
  "active_user x user_id =
     try_io (get_user x user_id) (\<lambda>o1.
     try_io (lift (ok_or o1 ''user not found'')) (\<lambda>usr.
     if usr_status usr \<noteq> ''active'' then fail ''user account is not active'' else ret usr))"

definition auth_time_or_now :: "u64 \<Rightarrow> (u64, 's) act" where
  "auth_time_or_now t = (if t = 0 then unix_now else ret t)"

definition code_claim_request ::
    "string \<Rightarrow> oidc_client \<Rightarrow> auth_code \<Rightarrow> u64 \<Rightarrow> string option \<Rightarrow> claim_request" where
  "code_claim_request issuer client ac auth_time dpop_jkt =
     \<lparr>cq_issuer = issuer, cq_client_id = cl_client_id client,
      cq_nonce = (if ac_nonce ac = [] then None else Some (ac_nonce ac)),
      cq_auth_time = auth_time, cq_amr = ac_amr ac, cq_acr = ac_acr ac, cq_scope = ac_scope ac,
      cq_id_token_claims = ac_requested_id_token_claims ac,
      cq_userinfo_claims = ac_requested_userinfo_claims ac,
      cq_extra_claims = ac_extra_claims ac, cq_dpop_jkt = dpop_jkt, cq_sid = ac_sid ac\<rparr>"

definition code_refresh_entry ::
    "user \<Rightarrow> oidc_client \<Rightarrow> auth_code \<Rightarrow> u64 \<Rightarrow> u64 \<Rightarrow> string option \<Rightarrow> refresh_entry" where
  "code_refresh_entry usr client ac now auth_time dpop_jkt =
     \<lparr>re_user_id = usr_id usr, re_client_id = cl_client_id client, re_expires_at = now + 86400 * 30,
      re_scope = ac_scope ac, re_version = now, re_auth_time = auth_time, re_amr = ac_amr ac,
      re_acr = ac_acr ac, re_requested_id_token_claims = ac_requested_id_token_claims ac,
      re_requested_userinfo_claims = ac_requested_userinfo_claims ac, re_issued_at = now,
      re_sid = ac_sid ac, re_dpop_jkt = dpop_jkt\<rparr>"

text \<open>A fresh refresh token, stored under its digest.\<close>

definition issue_refresh_token :: "'s ext \<Rightarrow> (u64 \<Rightarrow> refresh_entry) \<Rightarrow> json \<Rightarrow> (json, 's) act" where
  "issue_refresh_token x entry response =
     try_io (random_hex 32) (\<lambda>refresh_raw.
     try_io unix_now (\<lambda>now.
     try_io (save_refresh_token x (hex_sha256 x refresh_raw) (entry now)) (\<lambda>_.
     ret (jset ''refresh_token'' (JStr refresh_raw) response))))"

text \<open>The work done once the code is spent.\<close>

definition redeem_code ::
    "'s ext \<Rightarrow> string \<Rightarrow> auth_code \<Rightarrow> oidc_client \<Rightarrow> string option \<Rightarrow> string \<Rightarrow> (response, 's) act" where
  "redeem_code x code ac client dpop_jkt issuer =
     try_io (active_user x (ac_user_id ac)) (\<lambda>usr.
     try_io (auth_time_or_now (ac_auth_time ac)) (\<lambda>auth_time.
     try_io (build_claims x usr (code_claim_request issuer client ac auth_time dpop_jkt)) (\<lambda>claims.
     try_io (sign_pair x client claims) (\<lambda>tokens.
     ignore_io (delete_auth_code x code)
     (try_io
       (if has_offline_access (ac_scope ac)
        then issue_refresh_token x (\<lambda>now. code_refresh_entry usr client ac now auth_time dpop_jkt)
          (token_json tokens dpop_jkt (ac_scope ac))
        else ret (token_json tokens dpop_jkt (ac_scope ac))) (\<lambda>response.
     try_io (issued_metrics ''authorization_code'' [''access'', ''id_token'', ''refresh_token'']) (\<lambda>_.
     ret (json_no_store x 200 response))))))))"

definition handle_code_exchange ::
    "'s ext \<Rightarrow> (string \<times> string) list \<Rightarrow> oidc_client \<Rightarrow> string option \<Rightarrow> string \<Rightarrow> (response, 's) act" where
  "handle_code_exchange x form client dpop_jkt issuer =
     try_io (lift (ok_or (form_value form ''code'') ''missing code'')) (\<lambda>code.
     try_io (lift (ok_or (form_value form ''redirect_uri'') ''missing redirect_uri'')) (\<lambda>redirect_uri.
     if ''authorization_code'' \<notin> set (cl_grant_types client)
     then fail (unauthorized_grant client ''authorization_code'')
     else
       try_io (get_auth_code_cas x code) (\<lambda>o1.
       try_io (lift (ok_or o1 ''invalid or expired code'')) (\<lambda>(ac, revision).
       try_io (lift (check_code_binding ac client redirect_uri)) (\<lambda>_.
       try_io unix_now (\<lambda>now.
       try_io (lift (check_code_redeemable x ac now (form_value form ''code_verifier''))) (\<lambda>_.
       try_io (map_err (\<lambda>_. ''authorization code already consumed'') (consume_auth_code x code revision)) (\<lambda>_.
       redeem_code x code ac client dpop_jkt issuer))))))))"

section \<open>Refresh tokens\<close>

definition em_dash :: string where
  "em_dash = [CHR 0xE2, CHR 0x80, CHR 0x94]"

text \<open>A token presented again after it was spent ends every session of its user.\<close>

definition refresh_replay :: "'s ext \<Rightarrow> string \<Rightarrow> (response, 's) act" where
  "refresh_replay x user_id =
     try_io get_config (\<lambda>c.
     let issuer = (case config_value c ''issuer_url'' of Some i \<Rightarrow> i | None \<Rightarrow> ''http://localhost'') in
     try_io (notify_all_clients x user_id issuer None) (\<lambda>_.
     ignore_io (revoke_user_sessions x user_id)
     (ignore_io (delete_user_refresh_tokens x user_id)
     (ignore_io (refresh_metric ''replay_detected'')
     (fail (''refresh token replay detected '' @ em_dash @ '' all sessions revoked''))))))"

definition unknown_refresh :: "'s ext \<Rightarrow> string \<Rightarrow> (response, 's) act" where
  "unknown_refresh x refresh_hash =
     (let invalid = ignore_io (refresh_metric ''invalid'') (fail ''invalid refresh token'') in
      match_io (get_consumed_refresh x refresh_hash)
        (\<lambda>o1. case o1 of Some user_id \<Rightarrow> refresh_replay x user_id | None \<Rightarrow> invalid) (\<lambda>_. invalid))"

definition check_refresh_binding :: "refresh_entry \<Rightarrow> oidc_client \<Rightarrow> string option \<Rightarrow> unit res" where
  "check_refresh_binding entry client dpop_jkt =
     (if re_client_id entry \<noteq> cl_client_id client then Err ''client_id mismatch''
      else (case re_dpop_jkt entry of
          None \<Rightarrow> Ok ()
        | Some expected_jkt \<Rightarrow> (case dpop_jkt of
              Some jkt \<Rightarrow> if jkt = expected_jkt then Ok ()
                else Err ''DPoP proof key does not match refresh token binding''
            | None \<Rightarrow> Err ''DPoP proof required for refresh token bound to a DPoP key'')))"

definition family_issued_at :: "refresh_entry \<Rightarrow> u64 \<Rightarrow> u64" where
  "family_issued_at entry now = (if 0 < re_issued_at entry then re_issued_at entry else now)"

definition rotated_entry :: "refresh_entry \<Rightarrow> oidc_client \<Rightarrow> u64 \<Rightarrow> u64 \<Rightarrow> u64 \<Rightarrow> refresh_entry" where
  "rotated_entry entry client now auth_time absolute_max =
     \<lparr>re_user_id = re_user_id entry, re_client_id = cl_client_id client,
      re_expires_at = min (now + 86400 * 30) (family_issued_at entry now + absolute_max),
      re_scope = re_scope entry, re_version = re_version entry, re_auth_time = auth_time,
      re_amr = re_amr entry, re_acr = re_acr entry,
      re_requested_id_token_claims = re_requested_id_token_claims entry,
      re_requested_userinfo_claims = re_requested_userinfo_claims entry,
      re_issued_at = family_issued_at entry now, re_sid = re_sid entry,
      re_dpop_jkt = re_dpop_jkt entry\<rparr>"

definition refresh_claim_request ::
    "string \<Rightarrow> oidc_client \<Rightarrow> refresh_entry \<Rightarrow> u64 \<Rightarrow> string option \<Rightarrow> claim_request" where
  "refresh_claim_request issuer client entry auth_time dpop_jkt =
     \<lparr>cq_issuer = issuer, cq_client_id = cl_client_id client, cq_nonce = None,
      cq_auth_time = auth_time, cq_amr = re_amr entry, cq_acr = re_acr entry, cq_scope = re_scope entry,
      cq_id_token_claims = re_requested_id_token_claims entry,
      cq_userinfo_claims = re_requested_userinfo_claims entry,
      cq_extra_claims = [], cq_dpop_jkt = dpop_jkt, cq_sid = re_sid entry\<rparr>"

text \<open>An expired token is dropped.\<close>

definition drop_refresh :: "'s ext \<Rightarrow> string \<Rightarrow> string \<Rightarrow> string \<Rightarrow> ('a, 's) act" where
  "drop_refresh x refresh_hash result message =
     ignore_io (delete_refresh_token x refresh_hash) (ignore_io (refresh_metric result) (fail message))"

definition refresh_user :: "'s ext \<Rightarrow> string \<Rightarrow> (user, 's) act" where
  "refresh_user x user_id =
     try_io (get_user x user_id) (\<lambda>o1.
     try_io (lift (ok_or o1 ''user not found'')) (\<lambda>usr.
     if usr_status usr \<noteq> ''active''
     then ignore_io (delete_user_refresh_tokens x user_id) (fail ''user account is not active'')
     else ret usr))"

definition rotate_refresh ::
    "'s ext \<Rightarrow> string \<Rightarrow> refresh_entry \<Rightarrow> oidc_client \<Rightarrow> string option \<Rightarrow> string \<Rightarrow> u64 \<Rightarrow> u64 \<Rightarrow>
      (response, 's) act" where
  "rotate_refresh x refresh_hash entry client dpop_jkt issuer now absolute_max =
     try_io (refresh_user x (re_user_id entry)) (\<lambda>usr.
     try_io (auth_time_or_now (re_auth_time entry)) (\<lambda>auth_time.
     try_io (build_claims x usr (refresh_claim_request issuer client entry auth_time dpop_jkt)) (\<lambda>claims.
     try_io (sign_pair x client claims) (\<lambda>tokens.
     try_io (random_hex 32) (\<lambda>new_refresh_raw.
     try_io (save_refresh_token x (hex_sha256 x new_refresh_raw)
       (rotated_entry entry client now auth_time absolute_max)) (\<lambda>_.
     try_io (mark_refresh_consumed x refresh_hash (re_user_id entry)) (\<lambda>_.
     ignore_io (delete_refresh_token x refresh_hash)
     (ignore_io (refresh_metric ''success'')
     (try_io (issued_metrics ''refresh_token'' [''access'', ''id_token'', ''refresh_token'']) (\<lambda>_.
     ret (json_no_store x 200 (JObj [(''access_token'', JStr (fst tokens)),
       (''token_type'', JStr (token_type dpop_jkt)), (''expires_in'', JNum 3600),
       (''id_token'', JStr (snd tokens)), (''refresh_token'', JStr new_refresh_raw),
       (''scope'', JStr (re_scope entry))]))))))))))))"

definition handle_refresh ::
    "'s ext \<Rightarrow> (string \<times> string) list \<Rightarrow> oidc_client \<Rightarrow> string option \<Rightarrow> string \<Rightarrow> (response, 's) act" where
  "handle_refresh x form client dpop_jkt issuer =
     try_io (lift (ok_or (form_value form ''refresh_token'') ''missing refresh_token'')) (\<lambda>refresh_token.
     if ''refresh_token'' \<notin> set (cl_grant_types client) then fail (unauthorized_grant client ''refresh_token'')
     else
       let refresh_hash = hex_sha256 x refresh_token in
       try_io (get_refresh_token_cas x refresh_hash) (\<lambda>o1. case o1 of
         None \<Rightarrow> unknown_refresh x refresh_hash
       | Some (entry, revision) \<Rightarrow>
           try_io (lift (check_refresh_binding entry client dpop_jkt)) (\<lambda>_.
           try_io unix_now (\<lambda>now.
           if re_expires_at entry < now then drop_refresh x refresh_hash ''expired'' ''refresh token expired''
           else try_io get_config (\<lambda>c.
             let absolute_max = refresh_absolute_max_secs c in
             if family_issued_at entry now + absolute_max < now
             then drop_refresh x refresh_hash ''absolute_expired''
               ''refresh token family has exceeded maximum lifetime''
             else
               try_io (map_err (\<lambda>_. ''refresh token already consumed'')
                 (consume_refresh_token x refresh_hash revision (re_user_id entry))) (\<lambda>_.
               rotate_refresh x refresh_hash entry client dpop_jkt issuer now absolute_max))))))"

section \<open>Client credentials\<close>

definition confidential :: "oidc_client \<Rightarrow> bool" where
  "confidential client \<longleftrightarrow> cl_client_secret client \<noteq> None \<or> cl_jwks client \<noteq> None"

definition credentials_claims :: "string \<Rightarrow> oidc_client \<Rightarrow> string \<Rightarrow> string option \<Rightarrow> u64 \<Rightarrow> json" where
  "credentials_claims issuer client scope dpop_jkt now = jset_opt jkt_json ''cnf'' dpop_jkt
     (JObj [(''iss'', JStr issuer), (''sub'', JStr (cl_client_id client)), (''aud'', JStr (cl_client_id client)),
       (''exp'', jnum (now + 3600)), (''nbf'', jnum (now - 30)), (''iat'', jnum now), (''scope'', JStr scope),
       (''token_type'', JStr ''client_credentials''), (''client_id'', JStr (cl_client_id client))])"

definition handle_client_credentials ::
    "'s ext \<Rightarrow> (string \<times> string) list \<Rightarrow> oidc_client \<Rightarrow> string \<Rightarrow> string option \<Rightarrow> string \<Rightarrow> (response, 's) act" where
  "handle_client_credentials x form client auth_method dpop_jkt issuer =
     (let scope = (case form_value form ''scope'' of Some s \<Rightarrow> s | None \<Rightarrow> []) in
      if \<not> confidential client \<or> auth_method = ''none''
      then fail ''client_credentials grant requires confidential client''
      else if ''client_credentials'' \<notin> set (cl_grant_types client)
      then fail (unauthorized_grant client ''client_credentials'')
      else
        try_io unix_now (\<lambda>now.
        try_io (sign x (credentials_claims issuer client scope dpop_jkt now)) (\<lambda>access_token.
        try_io (issued_metrics ''client_credentials'' [''access'']) (\<lambda>_.
        ret (json_no_store x 200 (JObj [(''access_token'', JStr access_token),
          (''token_type'', JStr (token_type dpop_jkt)), (''expires_in'', JNum 3600), (''scope'', JStr scope)]))))))"

section \<open>Device codes\<close>

definition device_claim_request ::
    "string \<Rightarrow> oidc_client \<Rightarrow> device_code \<Rightarrow> u64 \<Rightarrow> string option \<Rightarrow> claim_request" where
  "device_claim_request issuer client dc now dpop_jkt =
     \<lparr>cq_issuer = issuer, cq_client_id = cl_client_id client, cq_nonce = None, cq_auth_time = now,
      cq_amr = [''device''], cq_acr = None, cq_scope = dc_scope dc, cq_id_token_claims = [],
      cq_userinfo_claims = [], cq_extra_claims = [], cq_dpop_jkt = dpop_jkt, cq_sid = dc_sid dc\<rparr>"

definition device_refresh_entry ::
    "user \<Rightarrow> oidc_client \<Rightarrow> device_code \<Rightarrow> u64 \<Rightarrow> string option \<Rightarrow> refresh_entry" where
  "device_refresh_entry usr client dc now dpop_jkt =
     \<lparr>re_user_id = usr_id usr, re_client_id = cl_client_id client, re_expires_at = now + 86400 * 30,
      re_scope = dc_scope dc, re_version = now, re_auth_time = now, re_amr = [''device''], re_acr = None,
      re_requested_id_token_claims = [], re_requested_userinfo_claims = [], re_issued_at = now,
      re_sid = dc_sid dc, re_dpop_jkt = dpop_jkt\<rparr>"

text \<open>The tokens of an approved device code, once it is spent.\<close>

definition redeem_device ::
    "'s ext \<Rightarrow> device_code \<Rightarrow> oidc_client \<Rightarrow> string option \<Rightarrow> string \<Rightarrow> (response, 's) act" where
  "redeem_device x dc client dpop_jkt issuer =
     try_io (lift (ok_or (dc_user_id dc) ''approved device code missing user_id'')) (\<lambda>user_id.
     try_io (get_user x user_id) (\<lambda>o1.
     try_io (lift (ok_or o1 ''user not found'')) (\<lambda>usr.
     if usr_status usr \<noteq> ''active'' then ret (token_error x 400 ''access_denied'' ''account not active'')
     else
       try_io unix_now (\<lambda>now.
       try_io (build_claims x usr (device_claim_request issuer client dc now dpop_jkt)) (\<lambda>claims.
       try_io (sign_pair x client claims) (\<lambda>tokens.
       let response = token_json tokens dpop_jkt (dc_scope dc) in
       try_io
         (if has_offline_access (dc_scope dc) then
            try_io (random_hex 32) (\<lambda>refresh_raw.
            try_io (save_refresh_token x (hex_sha256 x refresh_raw)
              (device_refresh_entry usr client dc now dpop_jkt)) (\<lambda>_.
            ret (jset ''refresh_token'' (JStr refresh_raw) response)))
          else ret response) (\<lambda>response.
       try_io (issued_metrics ''device_code'' [''access'']) (\<lambda>_.
       ret (json_no_store x 200 response)))))))))"

definition poll_device ::
    "'s ext \<Rightarrow> string \<Rightarrow> device_code \<Rightarrow> u64 \<Rightarrow> oidc_client \<Rightarrow> string option \<Rightarrow> string \<Rightarrow> (response, 's) act" where
  "poll_device x code dc revision client dpop_jkt issuer =
     (if dc_status dc = ''pending''
      then ret (token_error x 400 ''authorization_pending'' ''user has not yet approved the device'')
      else if dc_status dc = ''denied''
      then ignore_io (delete_device_code x code)
        (ret (token_error x 400 ''access_denied'' ''user denied the device request''))
      else if dc_status dc = ''approved''
      then match_io (consume_device_code_cas x code revision)
        (\<lambda>_. redeem_device x dc client dpop_jkt issuer)
        (\<lambda>_. ret (token_error x 400 ''invalid_grant'' ''device code already consumed''))
      else ret (token_error x 400 ''invalid_grant'' ''unknown device code status''))"

definition handle_device_code ::
    "'s ext \<Rightarrow> (string \<times> string) list \<Rightarrow> oidc_client \<Rightarrow> string option \<Rightarrow> string \<Rightarrow> (response, 's) act" where
  "handle_device_code x form client dpop_jkt issuer =
     try_io (lift (ok_or (form_value form ''device_code'') ''missing device_code'')) (\<lambda>code.
     match_io (check_rate x (''device_poll:'' @ code) 1 5)
       (\<lambda>(allowed, _).
         if \<not> allowed then ret (token_error x 400 ''slow_down'' ''polling too fast, wait 5 seconds'')
         else try_io (get_device_code_cas x code) (\<lambda>o1. case o1 of
             None \<Rightarrow> ret (token_error x 400 ''expired_token'' ''device code not found or expired'')
           | Some (dc, revision) \<Rightarrow>
               if dc_client_id dc \<noteq> cl_client_id client
               then ret (token_error x 400 ''invalid_grant'' ''client_id mismatch'')
               else try_io unix_now (\<lambda>now.
                 if dc_expires_at dc < now
                 then ignore_io (delete_device_code x code)
                   (ret (token_error x 400 ''expired_token'' ''device code has expired''))
                 else poll_device x code dc revision client dpop_jkt issuer)))
       (\<lambda>e. try_io (log_event ''rate_limit.device_poll_failed'' (JObj [(''error'', JStr e)]))
         (\<lambda>_. ret (token_error x 429 ''invalid_request'' ''rate limiter unavailable; please try again later''))))"

section \<open>The endpoint\<close>

definition token_dpop :: "'s ext \<Rightarrow> string option \<Rightarrow> string \<Rightarrow> (string option, 's) act" where
  "token_dpop x dpop_header issuer = (case dpop_header of
     Some pr \<Rightarrow> try_io (validate_dpop_proof x pr ''POST'' (issuer @ ''/token'') None) (\<lambda>jkt. ret (Some jkt))
   | None \<Rightarrow> ret None)"

definition dispatch_grant ::
    "'s ext \<Rightarrow> string \<Rightarrow> (string \<times> string) list \<Rightarrow> oidc_client \<Rightarrow> string \<Rightarrow> string option \<Rightarrow> string \<Rightarrow>
      (response, 's) act" where
  "dispatch_grant x grant_type form client auth_method dpop_jkt issuer =
     (let answer = (\<lambda>m. match_io m ret (map_token_error x)) in
      if grant_type = ''authorization_code'' then answer (handle_code_exchange x form client dpop_jkt issuer)
      else if grant_type = ''refresh_token'' then answer (handle_refresh x form client dpop_jkt issuer)
      else if grant_type = ''client_credentials''
        then answer (handle_client_credentials x form client auth_method dpop_jkt issuer)
      else if grant_type = ''urn:ietf:params:oauth:grant-type:device_code''
        then answer (handle_device_code x form client dpop_jkt issuer)
      else ret (token_error x 400 ''unsupported_grant_type'' (''unsupported grant_type: '' @ grant_type)))"

definition handle_token ::
    "'s ext \<Rightarrow> bytes \<Rightarrow> string \<Rightarrow> string option \<Rightarrow> string option \<Rightarrow> (response, 's) act" where
  "handle_token x body_bytes issuer auth_header dpop_header =
     (let form = parse_form body_bytes in
      match_io (lift (check_no_duplicates form))
        (\<lambda>_. try_io (lift (ok_or (form_value form ''grant_type'') ''missing grant_type'')) (\<lambda>grant_type.
          match_io (token_dpop x dpop_header issuer)
            (\<lambda>dpop_jkt. match_io (authenticate_client x form auth_header issuer ''/token'')
              (\<lambda>ac. let client = au_client ac in
                if confidential client \<and> au_method ac = ''none''
                then map_token_error x ''client authentication required for confidential client''
                else match_io (check_rate x (''token:'' @ cl_client_id client) 100 60)
                  (\<lambda>(allowed, _).
                    if \<not> allowed then fail ''too many token requests. please try again later.''
                    else dispatch_grant x grant_type form client (au_method ac) dpop_jkt issuer)
                  (\<lambda>e. try_io (log_event ''rate_limit.token_check_failed'' (JObj [(''error'', JStr e)]))
                    (\<lambda>_. ret (token_error x 429 ''invalid_request''
                      ''rate limiter unavailable; please try again later''))))
              (map_token_error x))
            (\<lambda>e. ret (token_error x 400 ''invalid_dpop_proof'' e))))
        (\<lambda>e. ret (token_error x 400 ''invalid_request'' e)))"

section \<open>Revocation and introspection\<close>

definition client_auth_failed :: "'s ext \<Rightarrow> response" where
  "client_auth_failed x = token_error x 401 ''invalid_client'' ''client authentication failed''"

definition revoke_refresh :: "'s ext \<Rightarrow> oidc_client \<Rightarrow> string \<Rightarrow> string option \<Rightarrow> (bool, 's) act" where
  "revoke_refresh x client token token_type_hint =
     (if token_type_hint \<noteq> Some ''access_token'' then
        let hash = hex_sha256 x token in
        try_io (get_refresh_token x hash) (\<lambda>o1. case o1 of
          Some entry \<Rightarrow>
            if re_client_id entry = cl_client_id client
            then try_io (delete_refresh_token x hash) (\<lambda>_. ret True) else ret False
        | None \<Rightarrow> ret False)
      else ret False)"

definition handle_revoke :: "'s ext \<Rightarrow> bytes \<Rightarrow> string \<Rightarrow> string option \<Rightarrow> (response, 's) act" where
  "handle_revoke x body_bytes issuer auth_header =
     (let form = parse_form body_bytes in
      match_io (lift (check_no_duplicates form))
        (\<lambda>_. case form_value form ''token'' of
            None \<Rightarrow> ret (token_error x 400 ''invalid_request'' ''missing token parameter'')
          | Some token \<Rightarrow>
              match_io (authenticate_client x form auth_header issuer ''/token/revoke'')
                (\<lambda>ac. let client = au_client ac in
                  if confidential client \<and> au_method ac = ''none'' then ret (client_auth_failed x)
                  else try_io (revoke_refresh x client token (form_value form ''token_type_hint'')) (\<lambda>revoked.
                    let done = ret \<lparr>rs_status = 200, rs_headers = [(''cache-control'', ''no-store'')], rs_body = []\<rparr>
                    in if revoked
                       then ignore_io (log_audit ''token_revoked'' [] (cl_client_id client) ''refresh_token'') done
                       else done))
                (\<lambda>_. ret (client_auth_failed x)))
        (\<lambda>e. ret (token_error x 400 ''invalid_request'' e)))"

definition introspectable_token_type :: "json \<Rightarrow> bool" where
  "introspectable_token_type claims \<longleftrightarrow>
     jget_str claims ''token_type'' \<in> {Some ''access'', Some ''client_credentials''}"

definition introspection_keys :: "string list" where
  "introspection_keys = [''iss'', ''sub'', ''exp'', ''iat'', ''nbf'', ''scope'', ''client_id'', ''username'',
     ''token_type'', ''email'', ''name'', ''tenant_id'', ''role'', ''auth_time'']"

definition audience_client :: "json \<Rightarrow> string option" where
  "audience_client aud = (case aud of
     JStr v \<Rightarrow> Some v
   | JArr [v] \<Rightarrow> as_str v
   | _ \<Rightarrow> None)"

definition introspect_audience :: "json \<Rightarrow> json \<Rightarrow> json" where
  "introspect_audience claims response = (case jget claims ''aud'' of
     Some aud \<Rightarrow>
       let r = jset ''aud'' aud response in
       if jget r ''client_id'' = None then jset_opt JStr ''client_id'' (audience_client aud) r else r
   | None \<Rightarrow> response)"

definition build_introspection_response :: "json \<Rightarrow> json" where
  "build_introspection_response claims =
     (let r = foldl (\<lambda>r k. jset_opt id k (jget claims k) r) (JObj [(''active'', JBool True)]) introspection_keys;
          r = introspect_audience claims r
      in case jget claims ''cnf'' of
           Some cnf \<Rightarrow> jset ''token_type'' (JStr ''DPoP'') (jset ''cnf'' cnf r)
         | None \<Rightarrow> r)"

definition introspect_unauthorized :: "string \<Rightarrow> response" where
  "introspect_unauthorized body = \<lparr>rs_status = 401,
     rs_headers = no_store_json @ [(''www-authenticate'', ''Basic realm=\"token-introspection\"'')],
     rs_body = body\<rparr>"

definition handle_introspect :: "'s ext \<Rightarrow> bytes \<Rightarrow> string \<Rightarrow> string option \<Rightarrow> (response, 's) act" where
  "handle_introspect x body_bytes issuer auth_header =
     (let form = parse_form body_bytes in
      match_io (lift (check_no_duplicates form))
        (\<lambda>_. try_io (lift (ok_or (form_value form ''token'') ''missing token'')) (\<lambda>token.
          match_io (authenticate_client x form auth_header issuer ''/token/introspect'')
            (\<lambda>ac. let client = au_client ac in
              if \<not> confidential client \<or> au_method ac = ''none''
              then ret (introspect_unauthorized
                ''{\"error\":\"invalid_client\",\"error_description\":\"client must be confidential\"}'')
              else match_io (check_rate x (''introspect:'' @ cl_client_id client) 100 60)
                (\<lambda>(allowed, _).
                  if \<not> allowed then ret (json_no_store x 429 (JObj [(''error'', JStr ''rate_limit_exceeded'')]))
                  else match_io (verify_token_scoped x token (Some issuer) None None)
                    (\<lambda>claims. ret (json_no_store x 200
                      (if introspectable_token_type claims then build_introspection_response claims
                       else JObj [(''active'', JBool False)])))
                    (\<lambda>_. ret (json_no_store x 200 (JObj [(''active'', JBool False)]))))
                (\<lambda>e. try_io (log_event ''rate_limit.introspection_check_failed'' (JObj [(''error'', JStr e)]))
                  (\<lambda>_. ret (json_no_store x 429 (JObj [(''error'', JStr ''invalid_request''),
                    (''error_description'', JStr ''rate limiter unavailable; please try again later'')])))))
            (\<lambda>_. ret (introspect_unauthorized ''{\"error\":\"invalid_client\"}''))))
        (\<lambda>e. ret (token_error x 400 ''invalid_request'' e)))"

lemmas token_runs [code] =
  map_token_error_def [THEN fun_cong] build_claims_def [THEN fun_cong] sign_pair_def [THEN fun_cong]
  issued_metrics.simps [THEN fun_cong] refresh_metric_def [THEN fun_cong] active_user_def [THEN fun_cong]
  auth_time_or_now_def [THEN fun_cong] issue_refresh_token_def [THEN fun_cong]
  redeem_code_def [THEN fun_cong] handle_code_exchange_def [THEN fun_cong]
  refresh_replay_def [THEN fun_cong] unknown_refresh_def [THEN fun_cong] drop_refresh_def [THEN fun_cong]
  refresh_user_def [THEN fun_cong] rotate_refresh_def [THEN fun_cong] handle_refresh_def [THEN fun_cong]
  handle_client_credentials_def [THEN fun_cong] redeem_device_def [THEN fun_cong]
  poll_device_def [THEN fun_cong] handle_device_code_def [THEN fun_cong] token_dpop_def [THEN fun_cong]
  dispatch_grant_def [THEN fun_cong] handle_token_def [THEN fun_cong] revoke_refresh_def [THEN fun_cong]
  handle_revoke_def [THEN fun_cong] handle_introspect_def [THEN fun_cong]

section \<open>The claims of a token\<close>

lemma is_obj_sets [simp]:
  "is_obj j \<Longrightarrow> is_obj (jset_if c k v j)" "is_obj j \<Longrightarrow> is_obj (jset_opt f k o1 j)"
  by (auto simp: jset_if_def jset_opt_def split: option.split)

lemma jget_sets:
  "is_obj j \<Longrightarrow> jget (jset_if c k v j) k' = (if c \<and> k' = k then Some v else jget j k')"
  "is_obj j \<Longrightarrow> jget (jset_opt f k o1 j) k' = (if o1 \<noteq> None \<and> k' = k then Some (f (the o1)) else jget j k')"
  by (auto simp: jset_if_def jset_opt_def jget_jset split: option.split)

lemma is_obj_extra [simp]: "is_obj j \<Longrightarrow> is_obj (add_extra_claims extra j)"
  by (induction extra arbitrary: j) (auto simp: add_extra_claims_def)

lemma jget_extra: "is_obj j \<Longrightarrow> k \<notin> fst ` set extra \<Longrightarrow> jget (add_extra_claims extra j) k = jget j k"
proof (induction extra arbitrary: j)
  case Nil
  then show ?case by (simp add: add_extra_claims_def)
next
  case (Cons kv extra)
  obtain k1 v1 where kv: "kv = (k1, v1)" by (cases kv)
  have "jget (add_extra_claims extra (jset k1 (JStr v1) j)) k = jget (jset k1 (JStr v1) j) k"
    using Cons.prems by (intro Cons.IH) auto
  with Cons.prems show ?case by (simp add: add_extra_claims_def kv jget_jset)
qed

lemma is_obj_role [simp]: "is_obj j \<Longrightarrow> is_obj (role_claims usr ms j)"
  by (auto simp: role_claims_def Let_def split: list.split)

lemma jget_role:
  "is_obj j \<Longrightarrow> k \<notin> {''role'', ''tenants'', ''tenant_id''} \<Longrightarrow> jget (role_claims usr ms j) k = jget j k"
  by (auto simp: role_claims_def Let_def jget_sets jget_jset split: list.split)

text \<open>A superadmin stays a superadmin whatever the memberships, and nobody else becomes one by a hook.\<close>

lemma role_claims_superadmin:
  "is_obj j \<Longrightarrow> usr_superadmin usr \<Longrightarrow> jget (role_claims usr ms j) ''role'' = Some (JStr ''superadmin'')"
  by (auto simp: role_claims_def Let_def jget_sets jget_jset split: list.split)

lemma role_claims_member:
  "is_obj j \<Longrightarrow> \<not> usr_superadmin usr \<Longrightarrow> jget j ''role'' = None \<Longrightarrow>
    jget (role_claims usr ms j) ''role'' = (case ms of [] \<Rightarrow> None | m # _ \<Rightarrow> Some (JStr (mb_role m)))"
  by (auto simp: role_claims_def Let_def jget_sets jget_jset split: list.split)

lemma is_obj_profile [simp]: "is_obj j \<Longrightarrow> is_obj (add_derived_profile_claim j usr c)"
  by (auto simp: add_derived_profile_claim_def Let_def split: list.split)

definition profile_keys :: "string set" where
  "profile_keys = {''name'', ''given_name'', ''family_name'', ''preferred_username'', ''email'', ''email_verified''}"

lemma jget_profile:
  "is_obj j \<Longrightarrow> k \<notin> profile_keys \<Longrightarrow> jget (foldl (\<lambda>j c. add_derived_profile_claim j usr c) j cs) k = jget j k"
proof (induction cs arbitrary: j)
  case (Cons c cs)
  have "jget (add_derived_profile_claim j usr c) k = jget j k"
    using Cons.prems by (auto simp: add_derived_profile_claim_def profile_keys_def Let_def jget_jset split: list.split)
  with Cons show ?case by simp
qed simp

lemma is_obj_foldl_profile [simp]:
  "is_obj j \<Longrightarrow> is_obj (foldl (\<lambda>j c. add_derived_profile_claim j usr c) j cs)"
  by (induction cs arbitrary: j) simp_all

lemma is_obj_identity [simp]: "is_obj j \<Longrightarrow> is_obj (identity_claims usr q j)" "is_obj j \<Longrightarrow> is_obj (session_claims q j)"
  by (simp_all add: identity_claims_def session_claims_def Let_def)

lemma jget_identity:
  "is_obj j \<Longrightarrow> k \<notin> {''name'', ''email'', ''email_verified''} \<Longrightarrow> jget (identity_claims usr q j) k = jget j k"
  "is_obj j \<Longrightarrow> k \<notin> {''amr'', ''acr''} \<Longrightarrow> jget (session_claims q j) k = jget j k"
  by (auto simp: identity_claims_def session_claims_def Let_def jget_sets)

lemmas claims_simps = jget_extra jget_role jget_profile jget_identity jget_sets jget_jset profile_keys_def

text \<open>What the access token says, unless a hook claim shadows it.\<close>

lemma access_claims_core:
  assumes "k \<notin> fst ` set (cq_extra_claims q)"
  shows "k = ''iss'' \<Longrightarrow> jget (access_claims_of now usr ms q) k = Some (JStr (cq_issuer q))"
    and "k = ''sub'' \<Longrightarrow> jget (access_claims_of now usr ms q) k = Some (JStr (usr_id usr))"
    and "k = ''aud'' \<Longrightarrow> jget (access_claims_of now usr ms q) k = Some (JStr (cq_client_id q))"
    and "k = ''exp'' \<Longrightarrow> jget (access_claims_of now usr ms q) k = Some (jnum (now + 3600))"
    and "k = ''scope'' \<Longrightarrow> jget (access_claims_of now usr ms q) k = Some (JStr (cq_scope q))"
    and "k = ''iat'' \<Longrightarrow> jget (access_claims_of now usr ms q) k = Some (jnum now)"
    and "k = ''token_type'' \<Longrightarrow> jget (access_claims_of now usr ms q) k = Some (JStr ''access'')"
    and "k = ''cnf'' \<Longrightarrow> jget (access_claims_of now usr ms q) k = map_option jkt_json (cq_dpop_jkt q)"
  using assms by (cases "cq_dpop_jkt q"; simp add: access_claims_of_def Let_def claims_simps)+

lemma id_claims_core:
  assumes "k \<notin> fst ` set (cq_extra_claims q)"
  shows "k = ''iss'' \<Longrightarrow> jget (id_claims_of now usr ms q) k = Some (JStr (cq_issuer q))"
    and "k = ''sub'' \<Longrightarrow> jget (id_claims_of now usr ms q) k = Some (JStr (usr_id usr))"
    and "k = ''aud'' \<Longrightarrow> jget (id_claims_of now usr ms q) k = Some (JStr (cq_client_id q))"
    and "k = ''exp'' \<Longrightarrow> jget (id_claims_of now usr ms q) k = Some (jnum (now + 3600))"
    and "k = ''nonce'' \<Longrightarrow> jget (id_claims_of now usr ms q) k = map_option JStr (non_empty (cq_nonce q))"
  using assms by (cases "non_empty (cq_nonce q)"; simp add: id_claims_of_def Let_def claims_simps)+

section \<open>Frames\<close>

lemma frames_issued_metrics [frames_intro]: "frames view A (issued_metrics g ts)" "frames view A (refresh_metric r)"
  by (induction ts) (auto simp: refresh_metric_def intro!: frames_intro)

lemma try_issued_metrics [simp]: "try_io (issued_metrics g ts) k = k ()"
  by (induction ts) simp_all

lemma ignore_refresh_metric [simp]: "ignore_io (refresh_metric r) m = m"
  by (simp add: refresh_metric_def)

lemma frames_map_token_error [frames_intro]: "frames view A (map_token_error x e)"
  unfolding map_token_error_def by (intro frames_intro)

lemma frames_auth_time [frames_intro]: "frames view A (auth_time_or_now t)"
  unfolding auth_time_or_now_def by (intro frames_intro)

abbreviation "refresh_addrs \<equiv> {sess (''refresh:'' @ h) | h. True} \<union> {sess (''refresh_idx:'' @ i) | i. True}"

context jetcache
begin

lemma sign_pair_frames [frames_intro]: "first_generation \<subseteq> A \<Longrightarrow> frames view A (sign_pair x client p)"
  unfolding sign_pair_def by (intro frames_intro)

lemma active_user_frames [frames_intro]: "frames view A (active_user x u)"
  unfolding active_user_def by (intro frames_intro)

lemma build_claims_frames [frames_intro]: "frames view A (build_claims x usr q)"
  unfolding build_claims_def by (intro frames_intro)

end

section \<open>What a successful grant has checked\<close>

lemma sign_pair_Ok:
  "sign_pair x client (a, i) w = (Ok (t, u), w') \<Longrightarrow>
    \<exists>w1. sign x a w = (Ok t, w1) \<and>
      sign_id_token_for_client x (jset ''at_hash'' (JStr (compute_at_hash x t)) i) client w1 = (Ok u, w')"
  unfolding sign_pair_def by (auto elim!: try_io_Ok)

lemma build_claims_Ok:
  "build_claims x usr q w = (Ok p, w') \<Longrightarrow>
    \<exists>ms. p = (access_claims_of (w_clock w (w_ticks w)) usr ms q, id_claims_of (w_clock w (w_ticks w)) usr ms q)"
  unfolding build_claims_def by (auto elim!: try_io_Ok simp: unix_now_Ok)

text \<open>A token response names its access token.\<close>

definition grants_token :: "'s ext \<Rightarrow> response \<Rightarrow> string \<Rightarrow> bool" where
  "grants_token x resp t \<longleftrightarrow>
     (\<exists>j. resp = json_no_store x 200 j \<and> jget_str j ''access_token'' = Some t)"

lemma token_json_access [simp]: "jget_str (token_json p jkt s) ''access_token'' = Some (fst p)"
  by (simp add: token_json_def jget_str_def)

lemma is_obj_token_json [simp]: "is_obj (token_json p jkt s)"
  by (simp add: token_json_def)

lemma issue_refresh_token_Ok:
  "issue_refresh_token x f j w = (Ok r, w') \<Longrightarrow> is_obj j \<Longrightarrow>
    jget_str r ''access_token'' = jget_str j ''access_token''"
  unfolding issue_refresh_token_def by (auto elim!: try_io_Ok simp: jget_str_def jget_jset)

context gateway
begin

lemma active_user_Ok:
  assumes "active_user x u w = (Ok usr, w')"
  shows "(\<exists>n. rec_at x view user_of_json (w_kv w) (usr_at u) = Some (usr, n)) \<and> usr_status usr = ''active''"
proof -
  from assms obtain o1 w1 where g: "get_user x u w = (Ok o1, w1)" and o1: "o1 = Some usr"
    and s: "usr_status usr = ''active''"
    unfolding active_user_def by (auto elim!: try_io_Ok simp: ok_or_Ok split: if_splits)
  from get_user_Ok [OF g, symmetric] o1 s show ?thesis by auto
qed

lemma redeem_code_Ok:
  assumes "redeem_code x code ac client jkt issuer w = (Ok resp, w')"
  shows "\<exists>usr n now auth_time ms t w1 w2.
    rec_at x view user_of_json (w_kv w) (usr_at (ac_user_id ac)) = Some (usr, n) \<and> usr_status usr = ''active'' \<and>
    sign x (access_claims_of now usr ms (code_claim_request issuer client ac auth_time jkt)) w1 = (Ok t, w2) \<and>
    grants_token x resp t"
proof -
  from assms obtain usr w1 auth_time w2 claims w3 tokens w4 w5 response where
    u: "active_user x (ac_user_id ac) w = (Ok usr, w1)"
    and c: "build_claims x usr (code_claim_request issuer client ac auth_time jkt) w2 = (Ok claims, w3)"
    and s: "sign_pair x client claims w3 = (Ok tokens, w4)"
    and r: "(if has_offline_access (ac_scope ac)
        then issue_refresh_token x (\<lambda>now. code_refresh_entry usr client ac now auth_time jkt)
          (token_json tokens jkt (ac_scope ac))
        else ret (token_json tokens jkt (ac_scope ac))) w5 = (Ok response, w')"
    and resp: "resp = json_no_store x 200 response"
    unfolding redeem_code_def by (elim try_io_Ok ignore_io_Ok) auto
  from build_claims_Ok [OF c] obtain ms where claims: "claims =
      (access_claims_of (w_clock w2 (w_ticks w2)) usr ms (code_claim_request issuer client ac auth_time jkt),
       id_claims_of (w_clock w2 (w_ticks w2)) usr ms (code_claim_request issuer client ac auth_time jkt))" by blast
  obtain t i where t: "tokens = (t, i)" by (cases tokens)
  from sign_pair_Ok [OF s [unfolded claims t]] obtain w6 where
    sg: "sign x (access_claims_of (w_clock w2 (w_ticks w2)) usr ms (code_claim_request issuer client ac auth_time jkt)) w3 = (Ok t, w6)"
    by blast
  have "jget_str response ''access_token'' = Some t"
    using r t by (auto dest: issue_refresh_token_Ok split: if_splits)
  then have "grants_token x resp t" by (auto simp: grants_token_def resp)
  with active_user_Ok [OF u] sg show ?thesis by blast
qed

lemma check_code_redeemable_Ok:
  "check_code_redeemable x ac now v = Ok () \<Longrightarrow> now \<le> ac_expires_at ac \<and> \<not> ac_pending_consent ac \<and>
    (\<exists>verifier. v = Some verifier \<and> ac_code_challenge_method ac = ''S256'' \<and>
      x_b64url_encode x (x_sha256 x verifier) = ac_code_challenge ac)"
  unfolding check_code_redeemable_def verify_pkce_def
  by (auto simp: res_bind_Ok ok_or_Ok not_less split: if_splits)

lemma handle_code_exchange_Ok:
  assumes "handle_code_exchange x form client jkt issuer w = (Ok resp, w')"
  shows "\<exists>code verifier ac n w1 w2 usr m now auth_time ms t w3 w4.
    form_value form ''code'' = Some code \<and> form_value form ''redirect_uri'' = Some (ac_redirect_uri ac) \<and>
    form_value form ''code_verifier'' = Some verifier \<and> ''authorization_code'' \<in> set (cl_grant_types client) \<and>
    rec_at x view auth_code_of_json (w_kv w) (sess (''code:'' @ code)) = Some (ac, n) \<and>
    ac_client_id ac = cl_client_id client \<and> (\<exists>k. w_clock w k \<le> ac_expires_at ac) \<and> \<not> ac_pending_consent ac \<and>
    ac_code_challenge_method ac = ''S256'' \<and> x_b64url_encode x (x_sha256 x verifier) = ac_code_challenge ac \<and>
    consume_auth_code x code n w1 = (Ok (), w2) \<and>
    rec_at x view user_of_json (w_kv w) (usr_at (ac_user_id ac)) = Some (usr, m) \<and> usr_status usr = ''active'' \<and>
    sign x (access_claims_of now usr ms (code_claim_request issuer client ac auth_time jkt)) w3 = (Ok t, w4) \<and>
    grants_token x resp t"
proof -
  from assms obtain code ruri ac n w1 w2 now where
    f: "form_value form ''code'' = Some code" "form_value form ''redirect_uri'' = Some ruri"
    and gt: "''authorization_code'' \<in> set (cl_grant_types client)"
    and g: "get_auth_code_cas x code w = (Ok (Some (ac, n)), w1)"
    and b: "check_code_binding ac client ruri = Ok ()"
    and now: "now = w_clock w1 (w_ticks w1)"
    and rd: "check_code_redeemable x ac now (form_value form ''code_verifier'') = Ok ()"
    and c: "consume_auth_code x code n (w1\<lparr>w_ticks := Suc (w_ticks w1)\<rparr>) = (Ok (), w2)"
    and r: "redeem_code x code ac client jkt issuer w2 = (Ok resp, w')"
    unfolding handle_code_exchange_def
    by (auto elim!: try_io_Ok simp: ok_or_Ok map_err_Ok unix_now_Ok split: if_splits prod.splits)
  from b have bind: "ac_client_id ac = cl_client_id client" "ac_redirect_uri ac = ruri"
    by (auto simp: check_code_binding_def split: if_splits)
  from check_code_redeemable_Ok [OF rd] obtain verifier where ok: "now \<le> ac_expires_at ac" "\<not> ac_pending_consent ac"
    "form_value form ''code_verifier'' = Some verifier" "ac_code_challenge_method ac = ''S256''"
    "x_b64url_encode x (x_sha256 x verifier) = ac_code_challenge ac" by blast
  have clock: "w_clock w1 = w_clock w"
    using same_envD(2) [OF frames_env [OF auth_code_frames(2) [of "{}"] g]] .
  from redeem_code_Ok [OF r] obtain usr m now2 auth_time ms t w5 w6 where
    u: "rec_at x view user_of_json (w_kv w2) (usr_at (ac_user_id ac)) = Some (usr, m)" "usr_status usr = ''active''"
    and s: "sign x (access_claims_of now2 usr ms (code_claim_request issuer client ac auth_time jkt)) w5 = (Ok t, w6)"
      "grants_token x resp t" by blast
  have "survives view (w_kv w) (w_kv w1) (usr_at i)" for i
    by (rule frames_survives [OF auth_code_frames(2) [of "{}"] g]) (simp_all add: table_ok_def)
  moreover have "survives view (w_kv w1) (w_kv w2) (usr_at i)" for i
    using frames_survives [OF auth_code_frames(3) [OF singletonI] c, of "usr_at i"] by (simp add: table_ok_def)
  ultimately have "rec_at x view user_of_json (w_kv w) (usr_at (ac_user_id ac)) = Some (usr, m)"
    using u(1) by (blast intro: survives_rec_at survives_trans)
  with f gt get_auth_code_cas_Ok [OF g, symmetric] bind ok now clock c u(2) s show ?thesis by fastforce
qed

end

section \<open>Refresh\<close>

lemma check_refresh_binding_Ok:
  "check_refresh_binding e client jkt = Ok () \<Longrightarrow>
    re_client_id e = cl_client_id client \<and> (re_dpop_jkt e = None \<or> re_dpop_jkt e = jkt)"
  unfolding check_refresh_binding_def by (auto split: if_splits option.splits)

text \<open>A token that was issued by a refresh answers with its successor.\<close>

definition rotates_to :: "'s ext \<Rightarrow> response \<Rightarrow> string \<Rightarrow> bool" where
  "rotates_to x resp raw \<longleftrightarrow>
     (\<exists>j. resp = json_no_store x 200 j \<and> jget_str j ''refresh_token'' = Some raw)"

context gateway
begin

lemma refresh_user_Ok:
  assumes "refresh_user x u w = (Ok usr, w')"
  shows "(\<exists>n. rec_at x view user_of_json (w_kv w) (usr_at u) = Some (usr, n)) \<and> usr_status usr = ''active''"
proof -
  from assms obtain o1 w1 where g: "get_user x u w = (Ok o1, w1)" and o1: "o1 = Some usr"
    and s: "usr_status usr = ''active''"
    unfolding refresh_user_def by (auto elim!: try_io_Ok ignore_io_Ok simp: ok_or_Ok split: if_splits)
  from get_user_Ok [OF g, symmetric] o1 s show ?thesis by auto
qed

lemma refresh_replaced:
  assumes "save_refresh_token x h2 e w = (Ok u, w1)" and "mark_refresh_consumed x h uid w1 = (Ok v, w2)"
    and "delete_refresh_token x h w2 = (q, w3)" and "h2 \<noteq> h"
  shows "\<exists>s n. rec_at x view refresh_entry_of_json s (sess (''refresh:'' @ h2)) = Some (e, n) \<and>
    survives view s (w_kv w3) (sess (''refresh:'' @ h2))"
proof -
  from save_refresh_token_Ok [OF assms(1)] obtain s n where
    s: "rec_at x view refresh_entry_of_json s (sess (''refresh:'' @ h2)) = Some (e, n)"
    "survives view s (w_kv w1) (sess (''refresh:'' @ h2))" by blast
  have "survives view (w_kv w1) (w_kv w2) (sess (''refresh:'' @ h2))"
    using frames_survives [OF refresh_frames(5) [OF singletonI] assms(2), of "sess (''refresh:'' @ h2)"]
    by (simp add: sess_ok)
  moreover have "frames view ({sess (''refresh:'' @ h)} \<union> {sess (''refresh_idx:'' @ i) | i. True}) (delete_refresh_token x h)"
    by (rule delete_refresh_token_frames) auto
  from frames_survives [OF this assms(3), of "sess (''refresh:'' @ h2)"] assms(4)
  have "survives view (w_kv w2) (w_kv w3) (sess (''refresh:'' @ h2))" by (simp add: sess_ok)
  ultimately show ?thesis using s by (blast intro: survives_trans)
qed

lemma rotate_refresh_Ok:
  assumes "rotate_refresh x h e client jkt issuer now m w = (Ok resp, w')"
  shows "\<exists>usr n tm now2 ms t w1 w2 raw s k. rec_at x view user_of_json (w_kv w) (usr_at (re_user_id e)) = Some (usr, n) \<and>
    usr_status usr = ''active'' \<and>
    sign x (access_claims_of now2 usr ms (refresh_claim_request issuer client e tm jkt)) w1 = (Ok t, w2) \<and>
    grants_token x resp t \<and> rotates_to x resp raw \<and>
    (hex_sha256 x raw \<noteq> h \<longrightarrow>
      rec_at x view refresh_entry_of_json s (sess (''refresh:'' @ hex_sha256 x raw)) = Some (rotated_entry e client now tm m, k) \<and>
      survives view s (w_kv w') (sess (''refresh:'' @ hex_sha256 x raw)))"
proof -
  from assms obtain usr w1 tm w2 claims w3 tokens w4 raw w5 w6 w7 q where
    u: "refresh_user x (re_user_id e) w = (Ok usr, w1)"
    and c: "build_claims x usr (refresh_claim_request issuer client e tm jkt) w2 = (Ok claims, w3)"
    and s: "sign_pair x client claims w3 = (Ok tokens, w4)"
    and sv: "save_refresh_token x (hex_sha256 x raw) (rotated_entry e client now tm m) w5 = (Ok (), w6)"
    and mk: "mark_refresh_consumed x h (re_user_id e) w6 = (Ok (), w7)"
    and dl: "delete_refresh_token x h w7 = (q, w')"
    and resp: "resp = json_no_store x 200 (JObj [(''access_token'', JStr (fst tokens)),
       (''token_type'', JStr (token_type jkt)), (''expires_in'', JNum 3600),
       (''id_token'', JStr (snd tokens)), (''refresh_token'', JStr raw), (''scope'', JStr (re_scope e))])"
    unfolding rotate_refresh_def ignore_refresh_metric try_issued_metrics by (elim try_io_Ok ignore_io_Ok) auto
  from build_claims_Ok [OF c] obtain ms where claims: "claims =
      (access_claims_of (w_clock w2 (w_ticks w2)) usr ms (refresh_claim_request issuer client e tm jkt),
       id_claims_of (w_clock w2 (w_ticks w2)) usr ms (refresh_claim_request issuer client e tm jkt))" by blast
  obtain t i where t: "tokens = (t, i)" by (cases tokens)
  from sign_pair_Ok [OF s [unfolded claims t]] obtain w8 where
    sg: "sign x (access_claims_of (w_clock w2 (w_ticks w2)) usr ms (refresh_claim_request issuer client e tm jkt)) w3 = (Ok t, w8)"
    by blast
  have g: "grants_token x resp t" "rotates_to x resp raw"
    by (auto simp: grants_token_def rotates_to_def resp t jget_str_def)
  from refresh_replaced [OF sv mk dl] obtain s k where "hex_sha256 x raw \<noteq> h \<longrightarrow>
      rec_at x view refresh_entry_of_json s (sess (''refresh:'' @ hex_sha256 x raw)) = Some (rotated_entry e client now tm m, k) \<and>
      survives view s (w_kv w') (sess (''refresh:'' @ hex_sha256 x raw))" by blast
  with refresh_user_Ok [OF u] sg g show ?thesis by metis
qed

lemma unknown_refresh_not_Ok: "fst (unknown_refresh x h w) \<noteq> Ok r"
proof -
  have "fst (refresh_replay x u w1) \<noteq> Ok r" for u w1
    by (auto simp: refresh_replay_def Let_def try_io_def ignore_io_def match_io_def split: prod.splits res.splits)
  then show ?thesis
    by (auto simp: unknown_refresh_def Let_def match_io_def split: prod.split res.split option.split)
qed

lemma handle_refresh_Ok:
  assumes "handle_refresh x form client jkt issuer w = (Ok resp, w')"
  shows "\<exists>token e n now w1 w2 usr m tm now2 ms t w3 w4 raw s k.
    form_value form ''refresh_token'' = Some token \<and> ''refresh_token'' \<in> set (cl_grant_types client) \<and>
    rec_at x view refresh_entry_of_json (w_kv w) (sess (''refresh:'' @ hex_sha256 x token)) = Some (e, n) \<and>
    re_client_id e = cl_client_id client \<and> (re_dpop_jkt e = None \<or> re_dpop_jkt e = jkt) \<and>
    now \<le> re_expires_at e \<and> now \<le> family_issued_at e now + refresh_absolute_max_secs (w_config w) \<and>
    consume_refresh_token x (hex_sha256 x token) n (re_user_id e) w1 = (Ok (), w2) \<and>
    rec_at x view user_of_json (w_kv w) (usr_at (re_user_id e)) = Some (usr, m) \<and> usr_status usr = ''active'' \<and>
    sign x (access_claims_of now2 usr ms (refresh_claim_request issuer client e tm jkt)) w3 = (Ok t, w4) \<and>
    grants_token x resp t \<and> rotates_to x resp raw \<and>
    (hex_sha256 x raw \<noteq> hex_sha256 x token \<longrightarrow>
      rec_at x view refresh_entry_of_json s (sess (''refresh:'' @ hex_sha256 x raw)) =
        Some (rotated_entry e client now tm (refresh_absolute_max_secs (w_config w)), k) \<and>
      survives view s (w_kv w') (sess (''refresh:'' @ hex_sha256 x raw)))"
proof -
  from assms obtain token o1 w1 where f: "form_value form ''refresh_token'' = Some token"
    and gt: "''refresh_token'' \<in> set (cl_grant_types client)"
    and g: "get_refresh_token_cas x (hex_sha256 x token) w = (Ok o1, w1)"
    and k: "(case o1 of None \<Rightarrow> unknown_refresh x (hex_sha256 x token)
       | Some (entry, revision) \<Rightarrow>
           try_io (lift (check_refresh_binding entry client jkt)) (\<lambda>_.
           try_io unix_now (\<lambda>now.
           if re_expires_at entry < now then drop_refresh x (hex_sha256 x token) ''expired'' ''refresh token expired''
           else try_io get_config (\<lambda>c.
             let absolute_max = refresh_absolute_max_secs c in
             if family_issued_at entry now + absolute_max < now
             then drop_refresh x (hex_sha256 x token) ''absolute_expired''
               ''refresh token family has exceeded maximum lifetime''
             else
               try_io (map_err (\<lambda>_. ''refresh token already consumed'')
                 (consume_refresh_token x (hex_sha256 x token) revision (re_user_id entry))) (\<lambda>_.
               rotate_refresh x (hex_sha256 x token) entry client jkt issuer now absolute_max))))) w1 = (Ok resp, w')"
    unfolding handle_refresh_def Let_def by (auto elim!: try_io_Ok simp: ok_or_Ok split: if_splits)
  obtain e n where o1: "o1 = Some (e, n)"
  proof (cases o1)
    case None
    with k have "fst (unknown_refresh x (hex_sha256 x token) w1) = Ok resp" by simp
    with unknown_refresh_not_Ok show ?thesis by blast
  next
    case (Some p)
    with that show ?thesis by (cases p) simp
  qed
  have drop: "drop_refresh x h a b w0 \<noteq> (Ok resp, w')" for h a b and w0 :: "'s world"
    by (auto simp: drop_refresh_def ignore_io_def match_io_def split: prod.splits res.splits)
  define now where "now = w_clock w1 (w_ticks w1)"
  define mx where "mx = refresh_absolute_max_secs (w_config w1)"
  from k o1 drop obtain w2 where b: "check_refresh_binding e client jkt = Ok ()"
    and t1: "\<not> re_expires_at e < now" and t2: "\<not> family_issued_at e now + mx < now"
    and c: "consume_refresh_token x (hex_sha256 x token) n (re_user_id e) (w1\<lparr>w_ticks := Suc (w_ticks w1)\<rparr>) = (Ok (), w2)"
    and r: "rotate_refresh x (hex_sha256 x token) e client jkt issuer now mx w2 = (Ok resp, w')"
    by (auto elim!: try_io_Ok simp: map_err_Ok now_def mx_def Let_def unix_now_Ok get_config_Ok split: if_splits)
  have mx: "mx = refresh_absolute_max_secs (w_config w)"
    using same_envD(1) [OF frames_env [OF refresh_frames(3) [of "{}"] g]] by (simp add: mx_def)
  have "survives view (w_kv w) (w_kv w1) (usr_at i)" for i
    by (rule frames_survives [OF refresh_frames(3) [of "{}"] g]) (simp_all add: table_ok_def)
  moreover have "survives view (w_kv w1) (w_kv w2) (usr_at i)" for i
    using frames_survives [OF refresh_frames(4) [OF singletonI] c, of "usr_at i"] by (simp add: table_ok_def)
  ultimately have keep: "rec_at x view user_of_json (w_kv w2) (usr_at i) = Some z \<Longrightarrow>
      rec_at x view user_of_json (w_kv w) (usr_at i) = Some z" for i z
    by (blast intro: survives_rec_at survives_trans)
  from get_refresh_token_cas_Some [OF g [unfolded o1]] check_refresh_binding_Ok [OF b] rotate_refresh_Ok [OF r] f gt t1 t2 c keep
  show ?thesis unfolding mx not_less by (smt (verit, best))
qed

end

section \<open>Replay\<close>

lemma ignore_run: "m w = (q, w1) \<Longrightarrow> ignore_io m k w = (case q of Panic p \<Rightarrow> (Panic p, w1) | _ \<Rightarrow> k w1)"
  by (simp add: ignore_io_def match_io_def split: res.split)

lemma jget_str_jset: "is_obj j \<Longrightarrow> jget_str (jset k v j) k' = (if k' = k then as_str v else jget_str j k')"
  by (simp add: jget_str_def jget_jset)

lemma refresh_replay_run:
  assumes "refresh_replay x u w = (r, w')"
  shows "(\<exists>p. r = Panic p) \<or> (\<exists>e w1 w2 q q2. r = Err e \<and> revoke_user_sessions x u w1 = (q, w2) \<and>
    delete_user_refresh_tokens x u w2 = (q2, w'))"
proof -
  let ?i = "case config_value (w_config w) ''issuer_url'' of Some i \<Rightarrow> i | None \<Rightarrow> ''http://localhost''"
  obtain q0 w1 where n: "notify_all_clients x u ?i None w = (q0, w1)" by (cases "notify_all_clients x u ?i None w")
  obtain q w2 where v: "revoke_user_sessions x u w1 = (q, w2)" by (cases "revoke_user_sessions x u w1")
  obtain q2 w3 where d: "delete_user_refresh_tokens x u w2 = (q2, w3)" by (cases "delete_user_refresh_tokens x u w2")
  have no: "\<not> (\<exists>e. q0 = Err e)" using notify_all_clients_no_error [of x u ?i None w] n by auto
  have run: "refresh_replay x u w = (case q0 of Panic p \<Rightarrow> (Panic p, w1) | Err e \<Rightarrow> (Err e, w1) | Ok _ \<Rightarrow>
      (case q of Panic p \<Rightarrow> (Panic p, w2) | _ \<Rightarrow> (case q2 of Panic p \<Rightarrow> (Panic p, w3)
        | _ \<Rightarrow> fail (''refresh token replay detected '' @ em_dash @ '' all sessions revoked'') w3)))"
    unfolding refresh_replay_def ignore_refresh_metric try_get_config Let_def
    by (simp add: try_io_def n ignore_run v d split: res.split)
  show ?thesis
  proof (cases "\<exists>p. r = Panic p")
    case False
    with run assms no have "w3 = w' \<and> (\<exists>e. r = Err e)"
      by (cases q0; cases q; cases q2) auto
    with v d show ?thesis by metis
  qed simp
qed

text \<open>A spent token presented again yields no token, and the user's sessions are revoked.\<close>

lemma handle_refresh_spent:
  assumes "form_value form ''refresh_token'' = Some token" and "''refresh_token'' \<in> set (cl_grant_types client)"
    and "get_refresh_token_cas x (hex_sha256 x token) w = (Ok None, w1)"
    and "get_consumed_refresh x (hex_sha256 x token) w1 = (Ok (Some u), w2)"
    and "handle_refresh x form client jkt issuer w = (r, w')"
  shows "(\<exists>p. r = Panic p) \<or> (\<exists>e w1 w2 q q2. r = Err e \<and> revoke_user_sessions x u w1 = (q, w2) \<and>
    delete_user_refresh_tokens x u w2 = (q2, w'))"
proof -
  have "handle_refresh x form client jkt issuer w = unknown_refresh x (hex_sha256 x token) w1"
    unfolding handle_refresh_def Let_def using assms(1,2) by (simp add: try_io_def assms(3))
  also have "\<dots> = refresh_replay x u w2"
    unfolding unknown_refresh_def Let_def by (simp add: match_io_def assms(4))
  finally have "refresh_replay x u w2 = (r, w')" using assms(5) by simp
  then show ?thesis by (rule refresh_replay_run)
qed

section \<open>Devices, clients, revocation, introspection\<close>

abbreviation "rate_addrs \<equiv> {a :: addr. fst a = rate_limits_table}"

context jetcache
begin

lemma check_rate_table [frames_intro]: "rate_addrs \<subseteq> A \<Longrightarrow> frames view A (check_rate x k l ws)"
  by (rule check_rate_frames) auto

end

lemma token_error_status [simp]: "rs_status (token_error x st e d) = st"
  by (simp add: token_error_def)

lemma map_token_error_status: "map_token_error x e w = (Ok r, w') \<Longrightarrow> rs_status r \<in> {400, 401, 429}"
  unfolding map_token_error_def by (auto split: if_splits)

lemma grants_token_status: "grants_token x r t \<Longrightarrow> rs_status r = 200"
  by (auto simp: grants_token_def)

context gateway
begin

lemma redeem_device_Ok:
  assumes "redeem_device x dc client jkt issuer w = (Ok resp, w')" and "rs_status resp = 200"
  shows "\<exists>u usr n now now2 ms t w1 w2. dc_user_id dc = Some u \<and>
    rec_at x view user_of_json (w_kv w) (usr_at u) = Some (usr, n) \<and> usr_status usr = ''active'' \<and>
    sign x (access_claims_of now2 usr ms (device_claim_request issuer client dc now jkt)) w1 = (Ok t, w2) \<and>
    grants_token x resp t"
proof -
  from assms obtain u o1 usr w1 w2 claims w3 tokens w4 response w5 where
    u: "dc_user_id dc = Some u" and g: "get_user x u w = (Ok o1, w1)" and o1: "o1 = Some usr"
    and act: "usr_status usr = ''active''"
    and w2: "w2 = w1\<lparr>w_ticks := Suc (w_ticks w1)\<rparr>"
    and c: "build_claims x usr (device_claim_request issuer client dc (w_clock w1 (w_ticks w1)) jkt) w2 = (Ok claims, w3)"
    and s: "sign_pair x client claims w3 = (Ok tokens, w4)"
    and r: "(if has_offline_access (dc_scope dc) then
            try_io (random_hex 32) (\<lambda>refresh_raw.
            try_io (save_refresh_token x (hex_sha256 x refresh_raw)
              (device_refresh_entry usr client dc (w_clock w1 (w_ticks w1)) jkt)) (\<lambda>_.
            ret (jset ''refresh_token'' (JStr refresh_raw) (token_json tokens jkt (dc_scope dc)))))
          else ret (token_json tokens jkt (dc_scope dc))) w4 = (Ok response, w5)"
    and resp: "resp = json_no_store x 200 response"
    unfolding redeem_device_def Let_def try_issued_metrics
    by (auto elim!: try_io_Ok simp: ok_or_Ok unix_now_Ok split: if_splits)
  from build_claims_Ok [OF c] obtain now ms where claims: "now = w_clock w2 (w_ticks w2)" "claims =
      (access_claims_of now usr ms (device_claim_request issuer client dc (w_clock w1 (w_ticks w1)) jkt),
       id_claims_of now usr ms (device_claim_request issuer client dc (w_clock w1 (w_ticks w1)) jkt))" by blast
  obtain t i where t: "tokens = (t, i)" by (cases tokens)
  from sign_pair_Ok [OF s [unfolded claims t]] obtain w6 where
    sg: "sign x (access_claims_of (w_clock w2 (w_ticks w2)) usr ms
      (device_claim_request issuer client dc (w_clock w1 (w_ticks w1)) jkt)) w3 = (Ok t, w6)"
    using claims(1) by blast
  have "jget_str response ''access_token'' = Some t"
    using r t by (auto elim!: try_io_Ok simp: jget_str_jset split: if_splits)
  then have "grants_token x resp t" by (auto simp: grants_token_def resp)
  with get_user_Ok [OF g, symmetric] o1 u act sg show ?thesis by fastforce
qed

lemma handle_device_code_Ok:
  assumes "handle_device_code x form client jkt issuer w = (Ok resp, w')" and "rs_status resp = 200"
  shows "\<exists>code dc n w1 w2 u usr m now now2 ms t w3 w4. form_value form ''device_code'' = Some code \<and>
    rec_at x view device_code_of_json (w_kv w) (sess (''device:'' @ code)) = Some (dc, n) \<and>
    dc_client_id dc = cl_client_id client \<and> (\<exists>k. w_clock w k \<le> dc_expires_at dc) \<and> dc_status dc = ''approved'' \<and>
    consume_device_code_cas x code n w1 = (Ok (), w2) \<and> dc_user_id dc = Some u \<and>
    rec_at x view user_of_json (w_kv w) (usr_at u) = Some (usr, m) \<and> usr_status usr = ''active'' \<and>
    sign x (access_claims_of now2 usr ms (device_claim_request issuer client dc now jkt)) w3 = (Ok t, w4) \<and>
    grants_token x resp t"
proof -
  from assms obtain code w1 where f: "form_value form ''device_code'' = Some code"
    and m: "match_io (check_rate x (''device_poll:'' @ code) 1 5)
       (\<lambda>(allowed, _).
         if \<not> allowed then ret (token_error x 400 ''slow_down'' ''polling too fast, wait 5 seconds'')
         else try_io (get_device_code_cas x code) (\<lambda>o1. case o1 of
             None \<Rightarrow> ret (token_error x 400 ''expired_token'' ''device code not found or expired'')
           | Some (dc, revision) \<Rightarrow>
               if dc_client_id dc \<noteq> cl_client_id client
               then ret (token_error x 400 ''invalid_grant'' ''client_id mismatch'')
               else try_io unix_now (\<lambda>now.
                 if dc_expires_at dc < now
                 then ignore_io (delete_device_code x code)
                   (ret (token_error x 400 ''expired_token'' ''device code has expired''))
                 else poll_device x code dc revision client jkt issuer)))
       (\<lambda>e. try_io (log_event ''rate_limit.device_poll_failed'' (JObj [(''error'', JStr e)]))
         (\<lambda>_. ret (token_error x 429 ''invalid_request'' ''rate limiter unavailable; please try again later''))) w = (Ok resp, w')"
    unfolding handle_device_code_def by (auto elim!: try_io_Ok simp: ok_or_Ok)
  from m assms(2) obtain a w2 o1 w3 dc n where cr: "check_rate x (''device_poll:'' @ code) 1 5 w = (Ok (True, a), w2)"
    and g: "get_device_code_cas x code w2 = (Ok o1, w3)" and o1: "o1 = Some (dc, n)"
    and cl: "dc_client_id dc = cl_client_id client" and ex: "\<not> dc_expires_at dc < w_clock w3 (w_ticks w3)"
    and p: "poll_device x code dc n client jkt issuer (w3\<lparr>w_ticks := Suc (w_ticks w3)\<rparr>) = (Ok resp, w')"
    by (auto elim!: match_io_cases try_io_Ok ignore_io_Ok simp: unix_now_Ok log_event_Ok split: if_splits option.splits prod.splits)
  from p assms(2) obtain w4 where st: "dc_status dc = ''approved''"
    and c: "consume_device_code_cas x code n (w3\<lparr>w_ticks := Suc (w_ticks w3)\<rparr>) = (Ok (), w4)"
    and r: "redeem_device x dc client jkt issuer w4 = (Ok resp, w')"
    unfolding poll_device_def by (auto elim!: match_io_cases ignore_io_Ok split: if_splits)
  have sur: "survives view (w_kv w) (w_kv w3) (sess k)" "survives view (w_kv w) (w_kv w3) (usr_at k)" for k
    using frames_survives [OF check_rate_table [OF subset_refl] cr, of "sess k"]
      frames_survives [OF check_rate_table [OF subset_refl] cr, of "usr_at k"]
      frames_survives [OF device_frames(3) [of "{}"] g, of "sess k"]
      frames_survives [OF device_frames(3) [of "{}"] g, of "usr_at k"]
    by (auto simp: table_ok_def intro: survives_trans)
  have "survives view (w_kv w3) (w_kv w4) (usr_at k)" for k
    using frames_survives [OF device_frames(5) [OF singletonI] c, of "usr_at k"] by (simp add: table_ok_def)
  with sur(2) have keep: "rec_at x view user_of_json (w_kv w4) (usr_at k) = Some z \<Longrightarrow>
      rec_at x view user_of_json (w_kv w) (usr_at k) = Some z" for k z
    by (blast intro: survives_rec_at survives_trans)
  have "survives view (w_kv w) (w_kv w2) (sess k)" for k
    using frames_survives [OF check_rate_table [OF subset_refl] cr, of "sess k"] by (simp add: table_ok_def)
  with get_device_code_cas_Ok [OF g, symmetric] o1
  have dc: "rec_at x view device_code_of_json (w_kv w) (sess (''device:'' @ code)) = Some (dc, n)"
    by (blast intro: survives_rec_at)
  have clock: "w_clock w3 = w_clock w"
    using same_envD(2) [OF frames_env [OF check_rate_table [OF subset_refl] cr]]
      same_envD(2) [OF frames_env [OF device_frames(3) [of "{}"] g]] by simp
  from redeem_device_Ok [OF r assms(2)] keep f dc cl ex clock st c show ?thesis
    unfolding not_less by (smt (verit, best))
qed

end

lemma handle_client_credentials_Ok:
  assumes "handle_client_credentials x form client m jkt issuer w = (Ok resp, w')"
  shows "confidential client \<and> m \<noteq> ''none'' \<and> ''client_credentials'' \<in> set (cl_grant_types client) \<and>
    (\<exists>t w1 w2. sign x (credentials_claims issuer client
        (case form_value form ''scope'' of Some s \<Rightarrow> s | None \<Rightarrow> []) jkt (w_clock w (w_ticks w))) w1 = (Ok t, w2) \<and>
      grants_token x resp t)"
proof -
  from assms obtain t w1 where c: "confidential client" "m \<noteq> ''none''" "''client_credentials'' \<in> set (cl_grant_types client)"
    and s: "sign x (credentials_claims issuer client
        (case form_value form ''scope'' of Some s \<Rightarrow> s | None \<Rightarrow> []) jkt (w_clock w (w_ticks w))) w1 = (Ok t, w')"
    and r: "resp = json_no_store x 200 (JObj [(''access_token'', JStr t),
          (''token_type'', JStr (token_type jkt)), (''expires_in'', JNum 3600),
          (''scope'', JStr (case form_value form ''scope'' of Some s \<Rightarrow> s | None \<Rightarrow> []))])"
    unfolding handle_client_credentials_def Let_def try_issued_metrics
    by (auto elim!: try_io_Ok simp: unix_now_Ok split: if_splits)
  have "grants_token x resp t" unfolding grants_token_def r by (rule exI, rule conjI, rule refl) (simp add: jget_str_def)
  with c s show ?thesis by blast
qed

text \<open>Revocation acts on the caller's own refresh tokens only.\<close>

context gateway
begin

lemma get_refresh_token_Ok:
  "get_refresh_token x h w = (Ok o1, w') \<Longrightarrow>
    o1 = map_option fst (rec_at x view refresh_entry_of_json (w_kv w) (sess (''refresh:'' @ h)))"
  unfolding get_refresh_token_def by (rule kv_get_Ok)

lemma revoke_refresh_Ok:
  assumes "revoke_refresh x client token hint w = (Ok b, w')"
  shows "if b then (\<exists>e n. rec_at x view refresh_entry_of_json (w_kv w) (sess (''refresh:'' @ hex_sha256 x token)) = Some (e, n) \<and>
      re_client_id e = cl_client_id client)
    else w' = w \<or> (\<exists>q. get_refresh_token x (hex_sha256 x token) w = (q, w'))"
proof (cases "hint = Some ''access_token''")
  case True
  with assms show ?thesis by (simp add: revoke_refresh_def)
next
  case False
  with assms obtain o1 w1 where g: "get_refresh_token x (hex_sha256 x token) w = (Ok o1, w1)"
    and k: "(case o1 of Some entry \<Rightarrow> if re_client_id entry = cl_client_id client
        then try_io (delete_refresh_token x (hex_sha256 x token)) (\<lambda>_. ret True) else ret False | None \<Rightarrow> ret False) w1 = (Ok b, w')"
    unfolding revoke_refresh_def Let_def by (auto elim!: try_io_Ok)
  show ?thesis
  proof (cases b)
    case True
    with k obtain e where "o1 = Some e" "re_client_id e = cl_client_id client"
      by (auto split: option.splits if_splits)
    with get_refresh_token_Ok [OF g, symmetric] True show ?thesis by auto
  next
    case False
    with k have "w' = w1" by (auto elim!: try_io_Ok split: option.splits if_splits)
    with g False show ?thesis by auto
  qed
qed

end

text \<open>An introspection answer with status 200 went to an authenticated confidential client, and says
  active only for a token that passes the full check.\<close>

lemma handle_introspect_Ok:
  assumes "handle_introspect x body issuer hdr w = (Ok resp, w')" and "rs_status resp = 200"
  shows "\<exists>token ac w1 a w2 q. form_value (parse_form body) ''token'' = Some token \<and>
    authenticate_client x (parse_form body) hdr issuer ''/token/introspect'' w = (Ok ac, w1) \<and>
    confidential (au_client ac) \<and> au_method ac \<noteq> ''none'' \<and>
    check_rate x (''introspect:'' @ cl_client_id (au_client ac)) 100 60 w1 = (Ok (True, a), w2) \<and>
    verify_token_scoped x token (Some issuer) None None w2 = (q, w') \<and>
    resp = json_no_store x 200 (case q of
        Ok claims \<Rightarrow> if introspectable_token_type claims then build_introspection_response claims
          else JObj [(''active'', JBool False)]
      | _ \<Rightarrow> JObj [(''active'', JBool False)])"
  using assms unfolding handle_introspect_def Let_def
  by (auto elim!: match_io_cases try_io_Ok simp: ok_or_Ok log_event_Ok introspect_unauthorized_def
      split: if_splits prod.splits)

text \<open>A grant with status 200 came through every check in front of it.\<close>

lemma dispatch_grant_Ok:
  assumes "dispatch_grant x g form client m jkt issuer w = (Ok resp, w')" and "rs_status resp = 200"
  shows "g = ''authorization_code'' \<and> handle_code_exchange x form client jkt issuer w = (Ok resp, w') \<or>
    g = ''refresh_token'' \<and> handle_refresh x form client jkt issuer w = (Ok resp, w') \<or>
    g = ''client_credentials'' \<and> handle_client_credentials x form client m jkt issuer w = (Ok resp, w') \<or>
    g = ''urn:ietf:params:oauth:grant-type:device_code'' \<and> handle_device_code x form client jkt issuer w = (Ok resp, w')"
  using assms unfolding dispatch_grant_def Let_def
  by (auto elim!: match_io_cases dest!: map_token_error_status split: if_splits)

lemma handle_token_Ok:
  assumes "handle_token x body issuer hdr dp w = (Ok resp, w')" and "rs_status resp = 200"
  shows "\<exists>g jkt w1 ac w2 a w3. check_no_duplicates (parse_form body) = Ok () \<and>
    form_value (parse_form body) ''grant_type'' = Some g \<and> token_dpop x dp issuer w = (Ok jkt, w1) \<and>
    authenticate_client x (parse_form body) hdr issuer ''/token'' w1 = (Ok ac, w2) \<and>
    (confidential (au_client ac) \<longrightarrow> au_method ac \<noteq> ''none'') \<and>
    check_rate x (''token:'' @ cl_client_id (au_client ac)) 100 60 w2 = (Ok (True, a), w3) \<and>
    dispatch_grant x g (parse_form body) (au_client ac) (au_method ac) jkt issuer w3 = (Ok resp, w')"
  using assms unfolding handle_token_def Let_def
  by (auto elim!: match_io_cases try_io_Ok dest!: map_token_error_status simp: ok_or_Ok log_event_Ok
      split: if_splits prod.splits)

end
