(* ===== verification/Token_Properties.thy ===== *)
theory Token_Properties
  imports Token
begin

text \<open>
  The properties of the token endpoint, over the lemmas of theory Token, with concrete runs against
  the in-memory server.
\<close>

section \<open>A world with a user, a code and tokens\<close>

definition demo_user :: user where
  "demo_user = \<lparr>usr_id = ''u1'', usr_email = ''u@x'', usr_name = ''U N'', usr_password_hash = [],
     usr_status = ''active'', usr_created_at = 5, usr_superadmin = False, usr_totp_secret = None,
     usr_totp_enabled = False, usr_recovery_codes = [], usr_passkey_credentials = []\<rparr>"

definition issued_code :: auth_code where
  "issued_code = demo_code\<lparr>ac_code_challenge := x_b64url_encode mem_ext (x_sha256 mem_ext ''v'')\<rparr>"

definition issued_refresh :: refresh_entry where
  "issued_refresh = demo_refresh"

definition device_client :: oidc_client where
  "device_client = demo_client\<lparr>cl_grant_types := [''urn:ietf:params:oauth:grant-type:device_code'']\<rparr>"

definition issued_device :: device_code where
  "issued_device = \<lparr>dc_device_code = ''d'', dc_user_code = ''UC'', dc_client_id = ''app'', dc_scope = ''openid'',
     dc_expires_at = 1300, dc_status = ''approved'', dc_user_id = Some ''u1'', dc_sid = None\<rparr>"

text \<open>The texts of the stored records, and an environment that writes them as letters.\<close>

definition token_codes :: "(json \<times> char) list" where
  "token_codes = [(stored_key_to_json demo_sk, CHR ''A''), (stored_ec_key_to_json demo_ek, CHR ''B''),
     (key_ring_meta_to_json demo_meta, CHR ''C''), (user_to_json demo_user, CHR ''D''),
     (auth_code_to_json issued_code, CHR ''E''), (refresh_entry_to_json issued_refresh, CHR ''F''),
     (device_code_to_json issued_device, CHR ''G'')]"

definition token_enc :: "json \<Rightarrow> bytes" where "token_enc j = short_text token_codes j"
definition token_dec :: "bytes \<Rightarrow> string + json" where "token_dec s = long_text token_codes s"

definition token_ext :: "kv_map ext" where "token_ext = coded token_enc token_dec"

lemma token_ext_gateway: "token_gateway token_ext mem_view"
proof -
  have "codes_ok token_codes" by code_simp
  then have "token_dec (token_enc j) = Inr j" for j
    unfolding token_enc_def token_dec_def by (rule long_short_text)
  then show ?thesis unfolding token_ext_def by (rule coded_token_gateway)
qed

lemmas token_gw = token_gateway.axioms(1) [OF token_ext_gateway]

definition token_kv :: kv_map where
  "token_kv = [(''keys:signing-key-v1'', ''A'', 1), (''keys:signing-key-ec-v1'', ''B'', 1),
     (full_key keys_table meta_key, ''C'', 1), (full_key users_store (''user:u1''), ''D'', 1),
     (full_key sessions_store (''code:c''), ''E'', 1),
     (full_key sessions_store (''refresh:'' @ hex_sha256 token_ext ''r''), ''F'', 1),
     (full_key sessions_store (''device:d''), ''G'', 1)]"

abbreviation "token_w \<equiv> demo_world_at 1000 token_kv"

definition code_form :: "(string \<times> string) list" where
  "code_form = [(''code'', ''c''), (''redirect_uri'', ''https://app/cb''), (''code_verifier'', ''v'')]"

section \<open>Properties\<close>

text \<open>C17. A code exchange that answers with tokens has checked everything: the code was issued to this
  client for this redirect address, has not expired, is not waiting for consent, carries an S256
  challenge that the presented verifier matches, was consumed by a successful compare-and-swap on the
  record read, and belongs to an active user; the access token in the answer is signed over
  the claims of that user and code, bound to the key of the proof of possession.\<close>

theorem code_exchange_sound:
  assumes "gateway x view" and "handle_code_exchange x form client jkt issuer w = (Ok resp, w')"
  shows "\<exists>code verifier ac n w1 w2 usr m now auth_time ms t w3 w4.
    form_value form ''code'' = Some code \<and> form_value form ''redirect_uri'' = Some (ac_redirect_uri ac) \<and>
    form_value form ''code_verifier'' = Some verifier \<and> ''authorization_code'' \<in> set (cl_grant_types client) \<and>
    rec_at x view auth_code_of_json (w_kv w) (sess (''code:'' @ code)) = Some (ac, n) \<and>
    ac_client_id ac = cl_client_id client \<and> (\<exists>k. w_clock w k \<le> ac_expires_at ac) \<and> \<not> ac_pending_consent ac \<and>
    ac_code_challenge_method ac = ''S256'' \<and> x_b64url_encode x (x_sha256 x verifier) = ac_code_challenge ac \<and>
    consume_auth_code x code n w1 = (Ok (), w2) \<and>
    rec_at x view user_of_json (w_kv w) (usr_at (ac_user_id ac)) = Some (usr, m) \<and> usr_status usr = ''active'' \<and>
    sign x (access_claims_of now usr ms (code_claim_request issuer client ac auth_time jkt)) w3 = (Ok t, w4) \<and>
    grants_token x resp t"
  using assms by (rule gateway.handle_code_exchange_Ok)

lemma code_exchange_sound_witness:
  "\<exists>resp w' t. handle_code_exchange token_ext code_form demo_client None ''https://id'' token_w = (Ok resp, w') \<and>
    grants_token token_ext resp t"
proof -
  have "is_ok (fst (handle_code_exchange token_ext code_form demo_client None ''https://id'' token_w))" by code_simp
  then obtain resp w' where run: "handle_code_exchange token_ext code_form demo_client None ''https://id'' token_w = (Ok resp, w')"
    by (rule is_ok_run)
  from code_exchange_sound [OF token_gw run] run show ?thesis by blast
qed

text \<open>C18. A refresh that answers with tokens has checked everything: the token presented is on record for
  this client, bound to the proof key if it has one, neither expired nor past the lifetime of its
  family, was consumed by a successful compare-and-swap on the record read, and its user is active; the
  new access token is signed over that user's claims, and the successor refresh token is stored
  with the family's origin, user, scope and key binding.\<close>

theorem refresh_exchange_sound:
  assumes "gateway x view" and "handle_refresh x form client jkt issuer w = (Ok resp, w')"
  shows "\<exists>token e n now w1 w2 usr m tm now2 ms t w3 w4 raw s k.
    form_value form ''refresh_token'' = Some token \<and> ''refresh_token'' \<in> set (cl_grant_types client) \<and>
    rec_at x view refresh_entry_of_json (w_kv w) (sess (''refresh:'' @ hex_sha256 x token)) = Some (e, n) \<and>
    re_client_id e = cl_client_id client \<and> (re_dpop_jkt e = None \<or> re_dpop_jkt e = jkt) \<and>
    now \<le> re_expires_at e \<and> now \<le> family_issued_at e now + refresh_absolute_max_secs (w_config w) \<and>
    consume_refresh_token x (hex_sha256 x token) n (re_user_id e) w1 = (Ok (), w2) \<and>
    rec_at x view user_of_json (w_kv w) (usr_at (re_user_id e)) = Some (usr, m) \<and> usr_status usr = ''active'' \<and>
    sign x (access_claims_of now2 usr ms (refresh_claim_request issuer client e tm jkt)) w3 = (Ok t, w4) \<and>
    grants_token x resp t \<and> rotates_to x resp raw \<and>
    (hex_sha256 x raw \<noteq> hex_sha256 x token \<longrightarrow>
      rec_at x view refresh_entry_of_json s (sess (''refresh:'' @ hex_sha256 x raw)) =
        Some (rotated_entry e client now tm (refresh_absolute_max_secs (w_config w)), k) \<and>
      survives view s (w_kv w') (sess (''refresh:'' @ hex_sha256 x raw)))"
  using assms by (rule gateway.handle_refresh_Ok)

definition refresh_form :: "(string \<times> string) list" where
  "refresh_form = [(''refresh_token'', ''r'')]"

lemma refresh_exchange_sound_witness:
  "\<exists>resp w' t. handle_refresh token_ext refresh_form demo_client None ''https://id'' token_w = (Ok resp, w') \<and>
    grants_token token_ext resp t"
proof -
  have "is_ok (fst (handle_refresh token_ext refresh_form demo_client None ''https://id'' token_w))" by code_simp
  then obtain resp w' where run: "handle_refresh token_ext refresh_form demo_client None ''https://id'' token_w = (Ok resp, w')"
    by (rule is_ok_run)
  from refresh_exchange_sound [OF token_gw run] run show ?thesis by blast
qed

text \<open>C19. A refresh token whose record is gone and whose consumption marker names a user answers with
  an error, never with tokens, and on the way the gateway revokes the sessions of that user and
  deletes his refresh tokens.\<close>

theorem refresh_replay_revokes:
  assumes "form_value form ''refresh_token'' = Some token" and "''refresh_token'' \<in> set (cl_grant_types client)"
    and "get_refresh_token_cas x (hex_sha256 x token) w = (Ok None, w1)"
    and "get_consumed_refresh x (hex_sha256 x token) w1 = (Ok (Some u), w2)"
    and "handle_refresh x form client jkt issuer w = (r, w')"
  shows "(\<exists>p. r = Panic p) \<or> (\<exists>e w1 w2 q q2. r = Err e \<and> revoke_user_sessions x u w1 = (q, w2) \<and>
    delete_user_refresh_tokens x u w2 = (q2, w'))"
  using assms by (rule handle_refresh_spent)

definition spent_kv :: kv_map where
  "spent_kv = [(full_key sessions_store (''consumed:'' @ hex_sha256 token_ext ''r''), ''u1'', 1)]"

abbreviation "spent_w \<equiv> demo_world_at 1000 spent_kv"

lemma refresh_replay_revokes_witness:
  "\<exists>r w'. handle_refresh token_ext refresh_form demo_client None ''https://id'' spent_w = (r, w') \<and>
    ((\<exists>p. r = Panic p) \<or> (\<exists>e. r = Err e))"
proof -
  let ?h = "hex_sha256 token_ext ''r''"
  have "(case get_refresh_token_cas token_ext ?h spent_w of (r, w1) \<Rightarrow> r = Ok None \<and>
      fst (get_consumed_refresh token_ext ?h w1) = Ok (Some ''u1''))" by code_simp
  then obtain w1 w2 where g: "get_refresh_token_cas token_ext ?h spent_w = (Ok None, w1)"
    and c: "get_consumed_refresh token_ext ?h w1 = (Ok (Some ''u1''), w2)"
    by (cases "get_refresh_token_cas token_ext ?h spent_w") (auto intro: run_Ok)
  have f: "form_value refresh_form ''refresh_token'' = Some ''r''" by code_simp
  have gt: "''refresh_token'' \<in> set (cl_grant_types demo_client)" by code_simp
  obtain r w' where run: "handle_refresh token_ext refresh_form demo_client None ''https://id'' spent_w = (r, w')"
    by (cases "handle_refresh token_ext refresh_form demo_client None ''https://id'' spent_w")
  from refresh_replay_revokes [OF f gt g c run] run show ?thesis by blast
qed

section \<open>Refresh token families\<close>

text \<open>
  A family is the chain of records of one login: each record is that of the token a successful
  refresh of the previous one answered with.
\<close>

definition body_field :: "'s ext \<Rightarrow> response \<Rightarrow> string \<Rightarrow> string option" where
  "body_field x resp k = (case x_from_slice x (rs_body resp) of Inr j \<Rightarrow> jget_str j k | Inl _ \<Rightarrow> None)"

inductive refresh_family :: "'s ext \<Rightarrow> 's view \<Rightarrow> u64 \<Rightarrow> refresh_entry \<Rightarrow> refresh_entry \<Rightarrow> bool"
  for x view mx e0 where
  issued: "refresh_family x view mx e0 e0"
| refreshed: "refresh_family x view mx e0 e' \<Longrightarrow> form_value form ''refresh_token'' = Some token \<Longrightarrow>
    rec_at x view refresh_entry_of_json (w_kv w) (sess (''refresh:'' @ hex_sha256 x token)) = Some (e', n) \<Longrightarrow>
    refresh_absolute_max_secs (w_config w) = mx \<Longrightarrow>
    handle_refresh x form client jkt issuer w = (Ok resp, w') \<Longrightarrow>
    body_field x resp ''refresh_token'' = Some raw \<Longrightarrow> hex_sha256 x raw \<noteq> hex_sha256 x token \<Longrightarrow>
    rec_at x view refresh_entry_of_json (w_kv w') (sess (''refresh:'' @ hex_sha256 x raw)) = Some (e, k) \<Longrightarrow>
    refresh_family x view mx e0 e"

inductive_cases refresh_familyE: "refresh_family x view mx e0 e"

lemma refresh_step:
  assumes gw: "gateway x view" and f: "form_value form ''refresh_token'' = Some token"
    and r: "rec_at x view refresh_entry_of_json (w_kv w) (sess (''refresh:'' @ hex_sha256 x token)) = Some (e', n)"
    and run: "handle_refresh x form client jkt issuer w = (Ok resp, w')"
    and raw: "body_field x resp ''refresh_token'' = Some raw" "hex_sha256 x raw \<noteq> hex_sha256 x token"
    and e: "rec_at x view refresh_entry_of_json (w_kv w') (sess (''refresh:'' @ hex_sha256 x raw)) = Some (e, k)"
  shows "\<exists>now tm. e = rotated_entry e' client now tm (refresh_absolute_max_secs (w_config w)) \<and>
    re_client_id e' = cl_client_id client"
proof -
  have slice: "x_from_slice x (x_to_vec x j) = Inr j" for j
    using gw unfolding gateway_def codec_def by blast
  from gateway.handle_refresh_Ok [OF gw run] obtain token2 e2 n2 now tm raw2 s k2 where
    o: "form_value form ''refresh_token'' = Some token2"
      "rec_at x view refresh_entry_of_json (w_kv w) (sess (''refresh:'' @ hex_sha256 x token2)) = Some (e2, n2)"
      "re_client_id e2 = cl_client_id client" "rotates_to x resp raw2"
      "hex_sha256 x raw2 \<noteq> hex_sha256 x token2 \<longrightarrow>
        rec_at x view refresh_entry_of_json s (sess (''refresh:'' @ hex_sha256 x raw2)) =
          Some (rotated_entry e2 client now tm (refresh_absolute_max_secs (w_config w)), k2) \<and>
        survives view s (w_kv w') (sess (''refresh:'' @ hex_sha256 x raw2))" by blast
  from o(4) raw(1) slice have "raw2 = raw" by (auto simp: rotates_to_def body_field_def json_text_def)
  with o f r raw(2) have e2: "e2 = e'" and s: "rec_at x view refresh_entry_of_json s (sess (''refresh:'' @ hex_sha256 x raw)) =
          Some (rotated_entry e' client now tm (refresh_absolute_max_secs (w_config w)), k2)"
    "survives view s (w_kv w') (sess (''refresh:'' @ hex_sha256 x raw))" by auto
  from survives_rec_at [OF s(2) e] s(1) have "e = rotated_entry e' client now tm (refresh_absolute_max_secs (w_config w))"
    by simp
  with o(3) e2 show ?thesis by blast
qed

lemma rotated_entry_bounds:
  "0 < re_issued_at e \<Longrightarrow> re_issued_at (rotated_entry e client now tm mx) = re_issued_at e"
  "0 < re_issued_at e \<Longrightarrow> re_expires_at (rotated_entry e client now tm mx) \<le> re_issued_at e + mx"
  by (simp_all add: rotated_entry_def family_issued_at_def)

lemma rotated_entry_same:
  "re_user_id (rotated_entry e client now tm mx) = re_user_id e"
  "re_client_id (rotated_entry e client now tm mx) = cl_client_id client"
  "re_scope (rotated_entry e client now tm mx) = re_scope e"
  "re_sid (rotated_entry e client now tm mx) = re_sid e"
  "re_dpop_jkt (rotated_entry e client now tm mx) = re_dpop_jkt e"
  by (simp_all add: rotated_entry_def)

text \<open>C20. Over any number of refreshes, by whatever requests run in between, a token family
  keeps the moment of its first issue, its user, its client, its scope, its session and its proof
  key, and no record after the first expires later than the first issue plus the maximal
  lifetime: rotation cannot extend or widen a login.\<close>

theorem refresh_family_bounded:
  assumes "refresh_family x view mx e0 e" and "gateway x view" and "0 < re_issued_at e0"
  shows "re_issued_at e = re_issued_at e0 \<and> re_user_id e = re_user_id e0 \<and>
    re_client_id e = re_client_id e0 \<and> re_scope e = re_scope e0 \<and> re_sid e = re_sid e0 \<and>
    re_dpop_jkt e = re_dpop_jkt e0 \<and> (e = e0 \<or> re_expires_at e \<le> re_issued_at e0 + mx)"
  using assms(1)
proof induction
  case issued
  show ?case by simp
next
  case (refreshed e' form token w n client jkt issuer resp w' raw e k)
  from refresh_step [OF assms(2) refreshed.hyps(2,3,5-8)] refreshed.hyps(4) obtain now tm where
    "e = rotated_entry e' client now tm mx" "re_client_id e' = cl_client_id client" by blast
  with refreshed.IH assms(3) show ?case
    using rotated_entry_bounds [of e' client now tm mx] by (simp add: rotated_entry_same)
qed

definition refresh_once :: "(string \<times> refresh_entry) option" where
  "refresh_once = (case handle_refresh token_ext refresh_form demo_client None ''https://id'' token_w of
     (Ok resp, w') \<Rightarrow> (case body_field token_ext resp ''refresh_token'' of
         Some raw \<Rightarrow> map_option (\<lambda>(e, k). (raw, e)) (rec_at token_ext mem_view refresh_entry_of_json (w_kv w')
           (sess (''refresh:'' @ hex_sha256 token_ext raw)))
       | None \<Rightarrow> None)
   | _ \<Rightarrow> None)"

lemma refresh_family_bounded_witness:
  "\<exists>e. refresh_family token_ext mem_view 7776000 issued_refresh e \<and> e \<noteq> issued_refresh \<and>
    re_expires_at e \<le> re_issued_at issued_refresh + 7776000"
proof -
  have "(case refresh_once of Some (raw, e) \<Rightarrow> hex_sha256 token_ext raw \<noteq> hex_sha256 token_ext ''r'' \<and> e \<noteq> issued_refresh
      | None \<Rightarrow> False)" by code_simp
  then obtain resp w' raw e k where run: "handle_refresh token_ext refresh_form demo_client None ''https://id'' token_w = (Ok resp, w')"
    and raw: "body_field token_ext resp ''refresh_token'' = Some raw"
    and r: "rec_at token_ext mem_view refresh_entry_of_json (w_kv w') (sess (''refresh:'' @ hex_sha256 token_ext raw)) = Some (e, k)"
    and ne: "hex_sha256 token_ext raw \<noteq> hex_sha256 token_ext ''r''" and e: "e \<noteq> issued_refresh"
    unfolding refresh_once_def by (auto split: option.splits prod.splits res.splits)
  have f: "form_value refresh_form ''refresh_token'' = Some ''r''" by code_simp
  have stored: "rec_at token_ext mem_view refresh_entry_of_json (w_kv token_w) (sess (''refresh:'' @ hex_sha256 token_ext ''r'')) =
      Some (issued_refresh, 1)" by code_simp
  have mx: "refresh_absolute_max_secs (w_config token_w) = 7776000" by code_simp
  have fam: "refresh_family token_ext mem_view 7776000 issued_refresh e"
    by (rule refresh_family.refreshed [OF refresh_family.issued f stored mx run raw ne r])
  from refresh_family_bounded [OF fam token_gw] e fam show ?thesis by (auto simp: issued_refresh_def demo_refresh_def)
qed

section \<open>Device codes and the endpoint\<close>

text \<open>C21. A device-code poll answered with status 200 has checked everything: the code is on record for this
  client, not expired, approved by a user, was consumed by a successful compare-and-swap on the
  record read, and the approving user is active; the access token is signed over his claims.\<close>

theorem device_grant_sound:
  assumes "gateway x view" and "handle_device_code x form client jkt issuer w = (Ok resp, w')"
    and "rs_status resp = 200"
  shows "\<exists>code dc n w1 w2 u usr m now now2 ms t w3 w4. form_value form ''device_code'' = Some code \<and>
    rec_at x view device_code_of_json (w_kv w) (sess (''device:'' @ code)) = Some (dc, n) \<and>
    dc_client_id dc = cl_client_id client \<and> (\<exists>k. w_clock w k \<le> dc_expires_at dc) \<and> dc_status dc = ''approved'' \<and>
    consume_device_code_cas x code n w1 = (Ok (), w2) \<and> dc_user_id dc = Some u \<and>
    rec_at x view user_of_json (w_kv w) (usr_at u) = Some (usr, m) \<and> usr_status usr = ''active'' \<and>
    sign x (access_claims_of now2 usr ms (device_claim_request issuer client dc now jkt)) w3 = (Ok t, w4) \<and>
    grants_token x resp t"
  using assms by (rule gateway.handle_device_code_Ok)

lemma device_grant_sound_witness:
  "\<exists>resp w' t. handle_device_code token_ext [(''device_code'', ''d'')] device_client None ''https://id'' token_w = (Ok resp, w') \<and>
    grants_token token_ext resp t"
proof -
  have "(case fst (handle_device_code token_ext [(''device_code'', ''d'')] device_client None ''https://id'' token_w) of
      Ok resp \<Rightarrow> rs_status resp = 200 | _ \<Rightarrow> False)" by code_simp
  then obtain resp w' where run: "handle_device_code token_ext [(''device_code'', ''d'')] device_client None ''https://id'' token_w = (Ok resp, w')"
    and st: "rs_status resp = 200"
    by (cases "handle_device_code token_ext [(''device_code'', ''d'')] device_client None ''https://id'' token_w")
      (auto split: res.splits)
  from device_grant_sound [OF token_gw run st] run show ?thesis by blast
qed

lemma grant_signs:
  assumes gw: "gateway x view" and "dispatch_grant x g form client m jkt issuer w = (Ok resp, w')" and "rs_status resp = 200"
  shows "\<exists>claims t w4 w5. sign x claims w4 = (Ok t, w5) \<and> grants_token x resp t"
  using dispatch_grant_Ok [OF assms(2,3)]
proof (elim disjE conjE)
  assume "handle_code_exchange x form client jkt issuer w = (Ok resp, w')"
  from gateway.handle_code_exchange_Ok [OF gw this] show ?thesis by (elim exE conjE) blast
next
  assume "handle_refresh x form client jkt issuer w = (Ok resp, w')"
  from gateway.handle_refresh_Ok [OF gw this] show ?thesis by (elim exE conjE) blast
next
  assume "handle_client_credentials x form client m jkt issuer w = (Ok resp, w')"
  from handle_client_credentials_Ok [OF this] show ?thesis by (elim exE conjE) blast
next
  assume "handle_device_code x form client jkt issuer w = (Ok resp, w')"
  from gateway.handle_device_code_Ok [OF gw this assms(3)] show ?thesis by (elim exE conjE) blast
qed

text \<open>C22. Whatever the grant, an answer of the token endpoint with status 200 carries a signed access token,
  and was given only after the form had no duplicate parameter, the proof of possession (when
  present) was valid, the client authenticated, a confidential client by more than its name, and
  the rate limit of the client admitted the request.\<close>

theorem token_endpoint_guards:
  assumes "gateway x view" and "handle_token x body issuer hdr dp w = (Ok resp, w')" and "rs_status resp = 200"
  shows "\<exists>jkt w1 ac w2 a w3 claims t w4 w5. check_no_duplicates (parse_form body) = Ok () \<and>
    token_dpop x dp issuer w = (Ok jkt, w1) \<and>
    authenticate_client x (parse_form body) hdr issuer ''/token'' w1 = (Ok ac, w2) \<and>
    (confidential (au_client ac) \<longrightarrow> au_method ac \<noteq> ''none'') \<and>
    check_rate x (''token:'' @ cl_client_id (au_client ac)) 100 60 w2 = (Ok (True, a), w3) \<and>
    sign x claims w4 = (Ok t, w5) \<and> grants_token x resp t"
proof -
  from handle_token_Ok [OF assms(2,3)] obtain g jkt w1 ac w2 a w3 where front:
    "check_no_duplicates (parse_form body) = Ok ()" "token_dpop x dp issuer w = (Ok jkt, w1)"
    "authenticate_client x (parse_form body) hdr issuer ''/token'' w1 = (Ok ac, w2)"
    "confidential (au_client ac) \<longrightarrow> au_method ac \<noteq> ''none''"
    "check_rate x (''token:'' @ cl_client_id (au_client ac)) 100 60 w2 = (Ok (True, a), w3)"
    and d: "dispatch_grant x g (parse_form body) (au_client ac) (au_method ac) jkt issuer w3 = (Ok resp, w')"
    by blast
  have "\<exists>claims t w4 w5. sign x claims w4 = (Ok t, w5) \<and> grants_token x resp t"
    using assms(1) d assms(3) by (rule grant_signs)
  with front show ?thesis by blast
qed

definition credentials_body :: bytes where
  "credentials_body = ''grant_type=client_credentials&client_id=app&client_secret=pw''"

definition endpoint_w :: "kv_map world" where
  "endpoint_w = snd (save_client token_ext demo_client token_w)"

lemma token_endpoint_guards_witness:
  "\<exists>resp w' t. handle_token token_ext credentials_body ''https://id'' None None endpoint_w = (Ok resp, w') \<and>
    grants_token token_ext resp t"
proof -
  have "(case fst (handle_token token_ext credentials_body ''https://id'' None None endpoint_w) of
      Ok resp \<Rightarrow> rs_status resp = 200 | _ \<Rightarrow> False)" by code_simp
  then obtain resp w' where run: "handle_token token_ext credentials_body ''https://id'' None None endpoint_w = (Ok resp, w')"
    and st: "rs_status resp = 200"
    by (cases "handle_token token_ext credentials_body ''https://id'' None None endpoint_w")
      (auto split: res.splits)
  from token_endpoint_guards [OF token_gw run st] run show ?thesis by blast
qed

definition body_json :: "'s ext \<Rightarrow> response \<Rightarrow> json option" where
  "body_json x resp = (case x_from_slice x (rs_body resp) of Inr j \<Rightarrow> Some j | Inl _ \<Rightarrow> None)"

text \<open>C23. An introspection that says a token is active was asked by an authenticated confidential client
  within its rate, and the token passed the full check of this issuer: signed by a published key, in force,
  and its claims returned are those of the token.\<close>

theorem introspection_sound:
  assumes "handle_introspect x body issuer hdr w = (Ok resp, w')" and "rs_status resp = 200"
    and "gateway x view" and "body_json x resp = Some j" and "jget j ''active'' = Some (JBool True)"
  shows "\<exists>token ac w1 a w2 claims jwks w3 h. form_value (parse_form body) ''token'' = Some token \<and>
    authenticate_client x (parse_form body) hdr issuer ''/token/introspect'' w = (Ok ac, w1) \<and>
    confidential (au_client ac) \<and> au_method ac \<noteq> ''none'' \<and>
    check_rate x (''introspect:'' @ cl_client_id (au_client ac)) 100 60 w1 = (Ok (True, a), w2) \<and>
    get_jwks x w2 = (Ok jwks, w3) \<and> verify_jwt_with_jwks x token jwks = Ok (h, claims) \<and>
    token_times claims (w_clock w3 (w_ticks w3)) = Ok () \<and> token_scope claims (Some issuer) None None = Ok () \<and>
    introspectable_token_type claims \<and> j = build_introspection_response claims"
proof -
  from handle_introspect_Ok [OF assms(1,2)] obtain token ac w1 a w2 q where f: "form_value (parse_form body) ''token'' = Some token"
    "authenticate_client x (parse_form body) hdr issuer ''/token/introspect'' w = (Ok ac, w1)"
    "confidential (au_client ac)" "au_method ac \<noteq> ''none''"
    "check_rate x (''introspect:'' @ cl_client_id (au_client ac)) 100 60 w1 = (Ok (True, a), w2)"
    and v: "verify_token_scoped x token (Some issuer) None None w2 = (q, w')"
    and r: "resp = json_no_store x 200 (case q of
        Ok claims \<Rightarrow> if introspectable_token_type claims then build_introspection_response claims
          else JObj [(''active'', JBool False)]
      | _ \<Rightarrow> JObj [(''active'', JBool False)])" by blast
  have "x_from_slice x (x_to_vec x i) = Inr i" for i
    using assms(3) unfolding gateway_def codec_def by blast
  then have j: "j = (case q of
        Ok claims \<Rightarrow> if introspectable_token_type claims then build_introspection_response claims
          else JObj [(''active'', JBool False)]
      | _ \<Rightarrow> JObj [(''active'', JBool False)])"
    using assms(4) r by (simp add: body_json_def json_text_def)
  with assms(5) obtain claims where q: "q = Ok claims" "introspectable_token_type claims" "j = build_introspection_response claims"
    by (cases q) (auto split: if_splits)
  from gateway.verify_token_scoped_Ok [OF assms(3) v [unfolded q(1)]] q f show ?thesis by (elim exE conjE) blast
qed

definition live_claims :: json where
  "live_claims = JObj [(''iss'', JStr ''https://id''), (''sub'', JStr ''u''), (''exp'', JNum 4600),
     (''token_type'', JStr ''access'')]"

definition introspect_body :: bytes where
  "introspect_body = (case fst (sign token_ext live_claims token_w) of
     Ok t \<Rightarrow> ''client_id=app&client_secret=pw&token='' @ t | _ \<Rightarrow> [])"

lemma introspection_sound_witness:
  "\<exists>resp w' jwks w2 w3 h claims t. handle_introspect token_ext introspect_body ''https://id'' None endpoint_w = (Ok resp, w') \<and>
    get_jwks token_ext w2 = (Ok jwks, w3) \<and> verify_jwt_with_jwks token_ext t jwks = Ok (h, claims)"
proof -
  have "(case fst (handle_introspect token_ext introspect_body ''https://id'' None endpoint_w) of
      Ok resp \<Rightarrow> rs_status resp = 200 \<and>
        Option.bind (body_json token_ext resp) (\<lambda>j. jget j ''active'') = Some (JBool True) | _ \<Rightarrow> False)" by code_simp
  then obtain resp w' j where run: "handle_introspect token_ext introspect_body ''https://id'' None endpoint_w = (Ok resp, w')"
    and st: "rs_status resp = 200" and j: "body_json token_ext resp = Some j" "jget j ''active'' = Some (JBool True)"
    by (cases "handle_introspect token_ext introspect_body ''https://id'' None endpoint_w")
      (auto split: res.splits simp: bind_eq_Some_conv)
  from introspection_sound [OF run st token_gw j] run show ?thesis by blast
qed

end
