(* ===== verification/Totp.thy ===== *)
theory Totp
  imports Store_Users Demo_World
begin

text \<open>
  Time-based one-time passwords (\<open>totp.rs\<close>): secrets in base32, the truncated HMAC of a time step,
  and the check that allows one step of clock skew. HMAC-SHA1 is a parameter of the environment.
\<close>

unbundle bit_operations_syntax

section \<open>Base32\<close>

definition base32_alphabet :: string where
  "base32_alphabet = ''ABCDEFGHIJKLMNOPQRSTUVWXYZ234567''"

definition byte_u64 :: "char \<Rightarrow> u64" where
  "byte_u64 c = of_nat (chr_code c)"

definition base32_chr :: "u64 \<Rightarrow> char" where
  "base32_chr w = base32_alphabet ! unat (w AND 0x1f)"

text \<open>The inner loop of the encoder: whole groups of five pending bits become characters.\<close>

fun emit_groups :: "u64 \<Rightarrow> nat \<Rightarrow> string \<times> nat" where
  "emit_groups buffer bits =
     (if 5 \<le> bits then
        (case emit_groups buffer (bits - 5) of
           (cs, rest) \<Rightarrow> (base32_chr (drop_bit (bits - 5) buffer) # cs, rest))
      else ([], bits))"

declare emit_groups.simps [simp del]

fun base32_encode_loop :: "u64 \<Rightarrow> nat \<Rightarrow> bytes \<Rightarrow> string" where
  "base32_encode_loop buffer bits [] =
     (if 0 < bits then [base32_chr (push_bit (5 - bits) buffer)] else [])"
| "base32_encode_loop buffer bits (byte # data) =
     (let buffer = push_bit 8 buffer OR byte_u64 byte
      in case emit_groups buffer (bits + 8) of
           (cs, rest) \<Rightarrow> cs @ base32_encode_loop buffer rest data)"

definition base32_encode :: "bytes \<Rightarrow> string" where
  "base32_encode data = base32_encode_loop 0 0 data"

definition base32_val :: "char \<Rightarrow> u64 option" where
  "base32_val c = (let n = chr_code c in
     if 65 \<le> n \<and> n \<le> 90 then Some (of_nat (n - 65))
     else if 50 \<le> n \<and> n \<le> 55 then Some (of_nat (n - 50 + 26))
     else if 97 \<le> n \<and> n \<le> 122 then Some (of_nat (n - 97))
     else None)"

definition base32_skipped :: "char \<Rightarrow> bool" where
  "base32_skipped c \<longleftrightarrow> c = CHR ''='' \<or> c = CHR '' ''"

definition u64_byte :: "u64 \<Rightarrow> char" where
  "u64_byte w = chr_nat (unat (take_bit 8 w))"

fun base32_decode_loop :: "u64 \<Rightarrow> nat \<Rightarrow> string \<Rightarrow> bytes option" where
  "base32_decode_loop buffer bits [] = Some []"
| "base32_decode_loop buffer bits (c # cs) =
     (case base32_val c of
        Some val \<Rightarrow>
          (let buffer = push_bit 5 buffer OR val; bits = bits + 5
           in if 8 \<le> bits
              then map_option (\<lambda>r. u64_byte (drop_bit (bits - 8) buffer) # r) (base32_decode_loop buffer (bits - 8) cs)
              else base32_decode_loop buffer bits cs)
      | None \<Rightarrow> if base32_skipped c then base32_decode_loop buffer bits cs else None)"

definition base32_decode :: "string \<Rightarrow> bytes option" where
  "base32_decode encoded = base32_decode_loop 0 0 encoded"

section \<open>One-time passwords\<close>

definition totp_period :: u64 where "totp_period = 30"
definition totp_digits :: nat where "totp_digits = 6"

definition pad_zero :: "nat \<Rightarrow> string \<Rightarrow> string" where
  "pad_zero n s = replicate (n - length s) (CHR ''0'') @ s"

definition byte_u32 :: "char \<Rightarrow> u32" where
  "byte_u32 c = of_nat (chr_code c)"

text \<open>RFC 4226, section 5.4. The digest has 20 bytes; the indices stay below 19.\<close>

definition truncate_code :: "bytes \<Rightarrow> u32" where
  "truncate_code result =
     (let offset = unat (byte_u32 (result ! 19) AND 0x0f)
      in push_bit 24 (byte_u32 (result ! offset) AND 0x7f)
         OR push_bit 16 (byte_u32 (result ! (offset + 1)))
         OR push_bit 8 (byte_u32 (result ! (offset + 2)))
         OR byte_u32 (result ! (offset + 3)))"

definition compute_totp :: "'s ext \<Rightarrow> bytes \<Rightarrow> u64 \<Rightarrow> string" where
  "compute_totp x secret time_step =
     (let result = x_hmac_sha1 x secret (to_be_bytes time_step);
          otp = truncate_code result mod 10 ^ totp_digits
      in pad_zero totp_digits (show_u32 otp))"

text \<open>The comparison that does not stop at the first difference.\<close>

definition constant_time_eq :: "bytes \<Rightarrow> bytes \<Rightarrow> bool" where
  "constant_time_eq a b \<longleftrightarrow> length a = length b \<and>
     foldl (\<lambda>diff (u, v). diff OR (byte_val u XOR byte_val v)) 0 (zip a b) = 0"

definition totp_steps :: "u64 \<Rightarrow> u64 list" where
  "totp_steps now = (let current_step = now div totp_period in [current_step - 1, current_step, current_step + 1])"

definition verify_totp_step :: "'s ext \<Rightarrow> string \<Rightarrow> string \<Rightarrow> (u64 option, 's) act" where
  "verify_totp_step x secret_b32 code = (case base32_decode secret_b32 of
     None \<Rightarrow> ret None
   | Some secret \<Rightarrow> try_io unix_now (\<lambda>now.
       ret (List.find (\<lambda>step. constant_time_eq code (compute_totp x secret step)) (totp_steps now))))"

definition verify_totp :: "'s ext \<Rightarrow> string \<Rightarrow> string \<Rightarrow> (bool, 's) act" where
  "verify_totp x secret_b32 code =
     try_io (verify_totp_step x secret_b32 code) (\<lambda>step. ret (step \<noteq> None))"

definition generate_secret :: "(string, 's) act" where
  "generate_secret = try_io (random_bytes 20) (\<lambda>secret. ret (base32_encode secret))"

primrec recovery_loop :: "'s ext \<Rightarrow> nat \<Rightarrow> (string list, 's) act" where
  "recovery_loop x 0 = ret []"
| "recovery_loop x (Suc n) = try_io (random_alphanumeric x 10) (\<lambda>c.
     try_io (recovery_loop x n) (\<lambda>cs. ret (c # cs)))"

definition generate_recovery_codes :: "'s ext \<Rightarrow> (string list, 's) act" where
  "generate_recovery_codes x = recovery_loop x 10"

definition otpauth_uri :: "string \<Rightarrow> string \<Rightarrow> string \<Rightarrow> string" where
  "otpauth_uri secret_b32 email issuer =
     ''otpauth://totp/'' @ percent_encode issuer @ '':'' @ percent_encode email @ ''?secret='' @ secret_b32 @
     ''&issuer='' @ percent_encode issuer @ ''&algorithm=SHA1&digits='' @ show_nat totp_digits @
     ''&period='' @ show_u64 totp_period"

lemmas totp_runs [code] =
  verify_totp_step_def [THEN fun_cong] verify_totp_def [THEN fun_cong] generate_secret_def [THEN fun_cong]
  recovery_loop.simps [THEN fun_cong] generate_recovery_codes_def [THEN fun_cong]

section \<open>Bits of the buffer\<close>

text \<open>The pending bits of the buffer, most significant first.\<close>

definition low_bits :: "nat \<Rightarrow> u64 \<Rightarrow> bool list" where
  "low_bits n w = map (bit w) (rev [0..<n])"

definition sym_bits :: "char \<Rightarrow> bool list" where
  "sym_bits c = low_bits 5 (case base32_val c of Some v \<Rightarrow> v | None \<Rightarrow> 0)"

definition octet_bits :: "char \<Rightarrow> bool list" where
  "octet_bits c = low_bits 8 (byte_u64 c)"

lemma length_low_bits [simp]: "length (low_bits n w) = n"
  by (simp add: low_bits_def)

lemma low_bits_0 [simp]: "low_bits 0 w = []"
  by (simp add: low_bits_def)

lemma low_bits_split: "low_bits (m + n) w = low_bits m (drop_bit n w) @ low_bits n w"
proof -
  have "[0..<m + n] = [0..<n] @ map (\<lambda>i. i + n) [0..<m]"
    by (rule nth_equalityI) (auto simp: nth_append)
  then show ?thesis by (simp add: low_bits_def rev_map bit_drop_bit_eq o_def add.commute)
qed

lemma low_bits_push:
  assumes "n + k \<le> 64" and "take_bit k v = v"
  shows "low_bits (n + k) (push_bit k w OR v) = low_bits n w @ low_bits k v"
proof -
  have high: "\<not> bit v i" if "k \<le> i" for i
    using assms(2) that by (metis bit_take_bit_iff not_le)
  have "low_bits n (drop_bit k (push_bit k w OR v)) = low_bits n w"
    using assms(1) high by (simp add: low_bits_def bit_simps)
  moreover have "low_bits k (push_bit k w OR v) = low_bits k v"
    using assms(1) by (simp add: low_bits_def bit_simps)
  ultimately show ?thesis by (simp add: low_bits_split)
qed

lemma low_bits_take: "low_bits n (take_bit n w) = low_bits n w"
  by (simp add: low_bits_def bit_simps)

lemma unat_take_bit_less: "unat (take_bit k (w :: u64)) < 2 ^ k"
  by (simp only: unsigned_take_bit_eq take_bit_nat_less_exp)

lemma take_bit_small: "unat v < 2 ^ k \<Longrightarrow> take_bit k v = (v :: u64)"
  by (metis take_bit_nat_eq_self unsigned_take_bit_eq word_unat_eq_iff)

section \<open>Base32 round trip\<close>

lemma base32_val_alphabet: "n < 32 \<Longrightarrow> base32_val (base32_alphabet ! n) = Some (of_nat n)"
proof -
  have "list_all (\<lambda>n. base32_val (base32_alphabet ! n) = Some (of_nat n)) [0..<32]" by code_simp
  then show "n < 32 \<Longrightarrow> ?thesis" by (simp add: list_all_iff)
qed

lemma base32_val_chr: "base32_val (base32_chr w) = Some (take_bit 5 w)"
proof -
  have m: "w AND 0x1f = take_bit 5 w" by (simp add: take_bit_eq_mask mask_eq_exp_minus_1)
  have "unat (take_bit 5 w) < 32" using unat_take_bit_less [of 5 w] by simp
  then show ?thesis by (simp add: base32_chr_def m base32_val_alphabet)
qed

lemma sym_bits_chr [simp]: "sym_bits (base32_chr w) = low_bits 5 w"
  by (simp add: sym_bits_def base32_val_chr low_bits_take)

lemma base32_val_small: "base32_val c = Some v \<Longrightarrow> take_bit 5 v = v"
proof -
  assume "base32_val c = Some v"
  then have "\<exists>k < 32. v = of_nat k"
    unfolding base32_val_def Let_def
    by (intro exI [of _ "if chr_code c \<le> 55 then chr_code c - 50 + 26 else if chr_code c \<le> 90 then chr_code c - 65
          else chr_code c - 97"]) (auto simp del: of_nat_diff of_nat_add split: if_splits)
  then have "unat v < 32" by (auto simp: unat_of_nat)
  then show ?thesis using take_bit_small [of v 5] by simp
qed

lemma octet_bits_byte [simp]: "octet_bits (u64_byte w) = low_bits 8 w"
proof -
  have "unat (take_bit 8 w) < 256" using unat_take_bit_less [of 8 w] by simp
  then have "byte_u64 (u64_byte w) = take_bit 8 w" by (simp add: byte_u64_def u64_byte_def)
  then show ?thesis by (simp add: octet_bits_def low_bits_take)
qed

lemma take_bit_byte: "take_bit 8 (byte_u64 c) = byte_u64 c"
  using chr_code_less [of c] by (intro take_bit_small) (simp add: byte_u64_def unat_of_nat)

definition base32_text :: "string \<Rightarrow> bool" where
  "base32_text s \<longleftrightarrow> list_all (\<lambda>c. base32_val c \<noteq> None) s"

lemma emit_groups:
  "emit_groups buffer n = (cs, r) \<Longrightarrow> n \<le> 64 \<Longrightarrow>
     r < 5 \<and> base32_text cs \<and> concat (map sym_bits cs) @ low_bits r buffer = low_bits n buffer"
proof (induction buffer n arbitrary: cs r rule: emit_groups.induct)
  case (1 buffer n)
  show ?case
  proof (cases "5 \<le> n")
    case False
    with "1.prems" show ?thesis by (simp add: emit_groups.simps [of buffer n] base32_text_def)
  next
    case True
    obtain ds s where e: "emit_groups buffer (n - 5) = (ds, s)" by (cases "emit_groups buffer (n - 5)")
    with "1.prems" True have o: "cs = base32_chr (drop_bit (n - 5) buffer) # ds" "r = s"
      by (simp_all add: emit_groups.simps [of buffer n])
    from "1.IH" [OF True e] "1.prems" have IH: "s < 5" "base32_text ds"
      "concat (map sym_bits ds) @ low_bits s buffer = low_bits (n - 5) buffer" by simp_all
    have "low_bits n buffer = low_bits 5 (drop_bit (n - 5) buffer) @ low_bits (n - 5) buffer"
      using low_bits_split [of 5 "n - 5" buffer] True by simp
    with IH o show ?thesis by (simp add: base32_text_def base32_val_chr)
  qed
qed

lemma base32_encode_bits:
  "bits < 5 \<Longrightarrow> \<exists>pad < 5. base32_text (base32_encode_loop buffer bits data) \<and>
     concat (map sym_bits (base32_encode_loop buffer bits data)) =
       low_bits bits buffer @ concat (map octet_bits data) @ replicate pad False"
proof (induction buffer bits data rule: base32_encode_loop.induct)
  case (1 buffer bits)
  show ?case
  proof (cases "0 < bits")
    case True
    have "low_bits (bits + (5 - bits)) (push_bit (5 - bits) buffer OR 0) = low_bits bits buffer @ low_bits (5 - bits) 0"
      by (rule low_bits_push) (use 1 in simp_all)
    moreover have "low_bits k 0 = replicate k False" for k
      by (rule nth_equalityI) (simp_all add: low_bits_def)
    ultimately show ?thesis using 1 True
      by (intro exI [of _ "5 - bits"]) (simp add: base32_text_def base32_val_chr)
  next
    case False
    with 1 show ?thesis by (intro exI [of _ 0]) (simp add: base32_text_def)
  qed
next
  case (2 buffer bits byte data)
  let ?b = "push_bit 8 buffer OR byte_u64 byte"
  obtain cs r where e: "emit_groups ?b (bits + 8) = (cs, r)" by (cases "emit_groups ?b (bits + 8)")
  from emit_groups [OF e] 2 have g: "r < 5" "base32_text cs"
    "concat (map sym_bits cs) @ low_bits r ?b = low_bits (bits + 8) ?b" by simp_all
  from "2.IH" [OF refl e [symmetric] g(1)] obtain pad where IH: "pad < 5"
    "base32_text (base32_encode_loop ?b r data)"
    "concat (map sym_bits (base32_encode_loop ?b r data)) =
       low_bits r ?b @ concat (map octet_bits data) @ replicate pad False" by blast
  have "low_bits (bits + 8) ?b = low_bits bits buffer @ octet_bits byte"
    unfolding octet_bits_def by (rule low_bits_push) (use 2 in \<open>simp_all add: take_bit_byte\<close>)
  with g IH show ?case
    by (intro exI [of _ pad]) (simp add: Let_def e base32_text_def flip: append_assoc)
qed

lemma base32_decode_bits:
  "bits < 8 \<Longrightarrow> base32_text s \<Longrightarrow> \<exists>r rest. base32_decode_loop buffer bits s = Some r \<and> length rest < 8 \<and>
     concat (map octet_bits r) @ rest = low_bits bits buffer @ concat (map sym_bits s)"
proof (induction s arbitrary: buffer bits)
  case Nil
  then show ?case by simp
next
  case (Cons c s)
  from Cons.prems obtain v where v: "base32_val c = Some v" and s: "base32_text s"
    by (auto simp: base32_text_def)
  let ?b = "push_bit 5 buffer OR v"
  have b: "low_bits (bits + 5) ?b = low_bits bits buffer @ sym_bits c"
    unfolding sym_bits_def v option.case by (rule low_bits_push) (use Cons.prems base32_val_small [OF v] in simp_all)
  show ?case
  proof (cases "8 \<le> bits + 5")
    case True
    let ?n = "bits + 5 - 8"
    have "?n < 8" using Cons.prems by simp
    from Cons.IH [OF this s, of ?b] obtain r rest where IH: "base32_decode_loop ?b ?n s = Some r"
      "length rest < 8" "concat (map octet_bits r) @ rest = low_bits ?n ?b @ concat (map sym_bits s)" by blast
    have "8 + ?n = bits + 5" using True by simp
    then have split: "low_bits (bits + 5) ?b = low_bits 8 (drop_bit ?n ?b) @ low_bits ?n ?b"
      using low_bits_split [of 8 ?n ?b] by (simp only:)
    have run: "base32_decode_loop buffer bits (c # s) = Some (u64_byte (drop_bit ?n ?b) # r)"
      using v True IH(1) by (simp add: Let_def)
    have "concat (map octet_bits (u64_byte (drop_bit ?n ?b) # r)) @ rest =
        low_bits 8 (drop_bit ?n ?b) @ concat (map octet_bits r) @ rest"
      by (simp only: list.map concat.simps octet_bits_byte append_assoc)
    also have "\<dots> = low_bits (bits + 5) ?b @ concat (map sym_bits s)"
      by (simp only: IH(3) split append_assoc)
    also have "\<dots> = low_bits bits buffer @ concat (map sym_bits (c # s))"
      by (simp only: b list.map concat.simps append_assoc)
    finally show ?thesis using run IH(2) by blast
  next
    case False
    with Cons.IH [of "bits + 5" ?b] s b v show ?thesis by (auto simp: Let_def)
  qed
qed

lemma octet_bits_inject: "octet_bits c = octet_bits d \<Longrightarrow> c = d"
proof -
  assume "octet_bits c = octet_bits d"
  then have "bit (byte_u64 c) i = bit (byte_u64 d) i" if "i < 8" for i
    using that by (auto simp: octet_bits_def low_bits_def)
  then have "take_bit 8 (byte_u64 c) = take_bit 8 (byte_u64 d)"
    by (intro bit_eqI) (auto simp: bit_take_bit_iff)
  then have "byte_u64 c = byte_u64 d" by (simp add: take_bit_byte)
  then have "unat (byte_u64 c) = unat (byte_u64 d)" by simp
  then have "chr_code c = chr_code d"
    using chr_code_less [of c] chr_code_less [of d] by (simp add: byte_u64_def unat_of_nat)
  then show ?thesis by simp
qed

lemma length_octets: "length (concat (map octet_bits r)) = 8 * length r"
  by (induction r) (simp_all add: octet_bits_def)

lemma octets_unique:
  assumes "concat (map octet_bits r) @ rest = concat (map octet_bits data) @ pad"
    and "length rest < 8" and "length pad < 8"
  shows "r = data"
proof -
  have "8 * length r + length rest = 8 * length data + length pad"
    using arg_cong [OF assms(1), of length] by (simp add: length_octets)
  then have "(8 * length r + length rest) div 8 = (8 * length data + length pad) div 8" by (rule arg_cong)
  then have len: "length r = length data" using assms(2,3) by simp
  then have "length (concat (map octet_bits r)) = length (concat (map octet_bits data))"
    by (simp only: length_octets)
  with assms(1) have "concat (map octet_bits r) = concat (map octet_bits data)"
    using append_eq_append_conv [THEN iffD1, THEN conjunct1] by blast
  with len show ?thesis
  proof (induction r data rule: list_induct2)
    case (Cons c r d data)
    then have "octet_bits c = octet_bits d" "concat (map octet_bits r) = concat (map octet_bits data)"
      by (simp_all add: append_eq_append_conv octet_bits_def)
    with Cons octet_bits_inject show ?case by blast
  qed simp
qed

lemma base32_roundtrip: "base32_decode (base32_encode data) = Some data"
proof -
  from base32_encode_bits [of 0 0 data] obtain pad where e: "pad < 5" "base32_text (base32_encode data)"
    "concat (map sym_bits (base32_encode data)) = concat (map octet_bits data) @ replicate pad False"
    unfolding base32_encode_def by auto
  have "(0 :: nat) < 8" by simp
  from base32_decode_bits [OF this e(2), of 0] obtain r rest where
    d: "base32_decode (base32_encode data) = Some r" "length rest < 8"
    "concat (map octet_bits r) @ rest = low_bits 0 0 @ concat (map sym_bits (base32_encode data))"
    unfolding base32_decode_def by blast
  have pad: "length (replicate pad False) < 8" using e(1) by simp
  have "r = data"
    by (rule octets_unique [OF _ d(2) pad]) (simp add: d(3) e(3))
  with d(1) show ?thesis by simp
qed

section \<open>Codes\<close>

lemma byte_val_inject: "byte_val u = byte_val v \<longleftrightarrow> u = v"
proof -
  have val: "unat (byte_val c) = chr_code c" for c
  proof -
    have "byte_val c = of_nat (chr_code c)" by (simp add: byte_val_def chr_code_def of_nat_of_char)
    then show ?thesis using chr_code_less [of c] by (simp add: unat_of_nat)
  qed
  show ?thesis by (metis val chr_code_inject)
qed

lemma xor_0_iff: "a XOR b = 0 \<longleftrightarrow> a = (b :: u8)"
  by (auto simp: bit_eq_iff bit_xor_iff)

lemma fold_diff_0:
  "foldl (\<lambda>diff (u, v). diff OR (byte_val u XOR byte_val v)) d ps = 0 \<longleftrightarrow> d = 0 \<and> (\<forall>(u, v) \<in> set ps. u = v)"
proof (induction ps arbitrary: d)
  case (Cons p ps)
  obtain u v where p: "p = (u, v)" by (cases p)
  have "d OR (byte_val u XOR byte_val v) = 0 \<longleftrightarrow> d = 0 \<and> u = v"
    by (simp add: or_eq_0_iff xor_0_iff byte_val_inject)
  with Cons.IH p show ?case by auto
qed simp

text \<open>The constant-time comparison is equality.\<close>

lemma constant_time_eq_iff: "constant_time_eq a b \<longleftrightarrow> a = b"
proof -
  have "a = b" if "length a = length b" "\<forall>(u, v) \<in> set (zip a b). u = v"
    using that by (induction a b rule: list_induct2) auto
  moreover have "\<forall>(u, v) \<in> set (zip a a). u = v" by (induction a) auto
  ultimately show ?thesis unfolding constant_time_eq_def fold_diff_0 by auto
qed

lemma length_pad_zero: "length s \<le> n \<Longrightarrow> length (pad_zero n s) = n"
  by (simp add: pad_zero_def)

lemma length_show_nat: "0 < k \<Longrightarrow> n < 10 ^ k \<Longrightarrow> length (show_nat n) \<le> k"
proof (induction n arbitrary: k rule: show_nat.induct)
  case (1 n)
  show ?case
  proof (cases "n < 10")
    case True
    then show ?thesis using 1 by (simp add: show_nat.simps [of n])
  next
    case False
    from 1(3) False obtain j where j: "k = Suc j" "0 < j" by (cases k) (auto, cases "k - 1", auto)
    from 1(3) j have "n div 10 < 10 ^ j" by (simp add: less_mult_imp_div_less mult.commute)
    from 1(1) [OF False j(2) this] show ?thesis using j False by (simp add: show_nat.simps [of n])
  qed
qed

lemma show_nat_all_digits: "list_all is_digit (show_nat n)"
  using show_nat_digits by blast

text \<open>A code is six digits.\<close>

lemma compute_totp_shape: "length (compute_totp x secret step) = 6 \<and> list_all is_digit (compute_totp x secret step)"
proof -
  let ?otp = "truncate_code (x_hmac_sha1 x secret (to_be_bytes step)) mod 10 ^ totp_digits"
  have "unat ?otp < 10 ^ 6" by (simp add: totp_digits_def unat_mod_distrib)
  then have "length (show_nat (unat ?otp)) \<le> 6" by (intro length_show_nat) simp_all
  then have "length (show_u32 ?otp) \<le> totp_digits" by (simp add: totp_digits_def)
  moreover have "list_all is_digit (show_u32 ?otp)" by (simp add: show_nat_all_digits)
  moreover have "is_digit (CHR ''0'')" by code_simp
  ultimately show ?thesis
    by (simp add: compute_totp_def Let_def length_pad_zero totp_digits_def) (auto simp: pad_zero_def list_all_iff)
qed

section \<open>Properties\<close>

text \<open>C24. A secret survives the base32 text handed to the authenticator: decoding what the encoder wrote
  gives back the bytes, whatever they are.\<close>

theorem totp_secret_roundtrip: "base32_decode (base32_encode data) = Some data"
  by (rule base32_roundtrip)

text \<open>C25. The check of a one-time password is the plain one of RFC 6238 with one step of skew: for a
  well-formed secret, a code is accepted exactly when it is the code of the current time step, of the
  one before or of the one after, and every such code is six decimal digits.\<close>

theorem verify_totp_window:
  assumes "base32_decode secret_b32 = Some secret"
  shows "verify_totp x secret_b32 code w =
      (Ok (\<exists>step \<in> {w_clock w (w_ticks w) div 30 - 1, w_clock w (w_ticks w) div 30, w_clock w (w_ticks w) div 30 + 1}.
         code = compute_totp x secret step), w\<lparr>w_ticks := Suc (w_ticks w)\<rparr>) \<and>
    length (compute_totp x secret step) = 6 \<and> list_all is_digit (compute_totp x secret step)"
proof -
  let ?now = "w_clock w (w_ticks w)"
  have "verify_totp x secret_b32 code w =
      (Ok (List.find (\<lambda>step. constant_time_eq code (compute_totp x secret step)) (totp_steps ?now) \<noteq> None),
       w\<lparr>w_ticks := Suc (w_ticks w)\<rparr>)"
    by (simp add: verify_totp_def verify_totp_step_def try_io_def assms unix_now_def del: not_None_eq)
  moreover have "(List.find (\<lambda>step. constant_time_eq code (compute_totp x secret step)) (totp_steps ?now) \<noteq> None) \<longleftrightarrow>
      (\<exists>step \<in> set (totp_steps ?now). code = compute_totp x secret step)"
    by (auto simp: find_None_iff constant_time_eq_iff simp del: not_None_eq)
  ultimately show ?thesis
    by (simp add: totp_steps_def totp_period_def Let_def compute_totp_shape)
qed

lemma verify_totp_window_witness:
  "verify_totp mem_ext (base32_encode ''0123456789'') (compute_totp mem_ext ''0123456789'' 33) demo_world =
     (Ok True, demo_world\<lparr>w_ticks := 1\<rparr>)"
  using verify_totp_window [OF totp_secret_roundtrip, of mem_ext "''0123456789''" _ demo_world]
  by (simp add: demo_world_at_def demo_clock_def)

end
