(* ===== verification/Session.thy ===== *)
theory Session
  imports Http Store_Users
begin

text \<open>
  Browser sessions (\<open>account.rs\<close>): the account cookie of the self-service pages, the flow cookie that
  binds a browser to one authorization flow, and the cookie of the single sign-on session. Each
  cookie holds a random token (or a keyed digest) and the session store holds the record under the
  digest of the token.
\<close>

section \<open>Cookies\<close>

definition cookie_named :: "string \<Rightarrow> string \<Rightarrow> string option" where
  "cookie_named name part = (case split_once CHR ''='' (trim part) of
     Some (key, v) \<Rightarrow> if trim key = name then Some v else None | None \<Rightarrow> None)"

fun first_some :: "('a \<Rightarrow> 'b option) \<Rightarrow> 'a list \<Rightarrow> 'b option" where
  "first_some f [] = None"
| "first_some f (y # ys) = (case f y of Some r \<Rightarrow> Some r | None \<Rightarrow> first_some f ys)"

definition parse_cookie :: "headers \<Rightarrow> string \<Rightarrow> string option" where
  "parse_cookie hs name = Option.bind (header_str hs ''cookie'')
     (\<lambda>header. first_some (cookie_named name) (split_on CHR '';'' header))"

definition secure_attr :: "config option \<Rightarrow> string" where
  "secure_attr c = (if is_dev_mode c then [] else '' Secure;'')"

definition set_cookie :: "string \<Rightarrow> string \<Rightarrow> config option \<Rightarrow> string \<Rightarrow> string \<Rightarrow> u64 \<Rightarrow> string" where
  "set_cookie name v c same_site path max_age =
     name @ ''='' @ v @ ''; HttpOnly;'' @ secure_attr c @ '' SameSite='' @ same_site @ ''; Path='' @ path @
     ''; Max-Age='' @ show_u64 max_age"

lemma set_cookie_code [code]: "set_cookie name v c same_site path max_age =
     name @ ''='' @ v @ ''; HttpOnly;'' @ secure_attr c @ '' SameSite='' @ same_site @ ''; Path='' @ path @
     ''; Max-Age='' @ show_word max_age"
  by (simp add: set_cookie_def show_u64_word)

abbreviation account_cookie_name :: string where "account_cookie_name \<equiv> ''lid_account''"
abbreviation flow_cookie_name :: string where "flow_cookie_name \<equiv> ''lid_flow''"
abbreviation idp_cookie_name :: string where "idp_cookie_name \<equiv> ''lid_session''"
abbreviation flow_cookie_ttl :: u64 where "flow_cookie_ttl \<equiv> 600"

section \<open>The account session\<close>

definition create_session_cookie :: "'s ext \<Rightarrow> string \<Rightarrow> (string, 's) act" where
  "create_session_cookie x user_id =
     try_io (random_hex 32) (\<lambda>token.
     try_io (random_hex 24) (\<lambda>csrf.
     try_io unix_now (\<lambda>now.
     try_io (save_account_session x token \<lparr>av_user_id = user_id, av_created_at = now,
         av_expires_at = now + ttl_account_session, av_csrf_token = csrf\<rparr>) (\<lambda>_.
     try_io get_config (\<lambda>c.
     ret (set_cookie account_cookie_name token c ''Strict'' ''/account'' ttl_account_session))))))"

definition redirect_to_login :: "string \<Rightarrow> response" where
  "redirect_to_login msg = \<lparr>rs_status = 302,
     rs_headers = [(''location'', ''/?account_hint='' @ percent_encode msg), (''cache-control'', ''no-store'')],
     rs_body = []\<rparr>"

abbreviation session_expired :: response where
  "session_expired \<equiv> redirect_to_login ''Session expired. Please log in again.''"

text \<open>The user and the form token of the session, or the redirect to answer with.\<close>

definition require_account_session :: "'s ext \<Rightarrow> headers \<Rightarrow> (response + (user \<times> string), 's) act" where
  "require_account_session x hs =
     (case parse_cookie hs account_cookie_name of
        None \<Rightarrow> ret (Inl session_expired)
      | Some token \<Rightarrow>
          try_io (get_account_session x token) (\<lambda>o1. case o1 of
            None \<Rightarrow> ret (Inl session_expired)
          | Some session \<Rightarrow>
              try_io unix_now (\<lambda>now.
              if av_expires_at session < now
              then ignore_io (delete_account_session x token) (ret (Inl session_expired))
              else try_io (get_user x (av_user_id session)) (\<lambda>o2. case o2 of
                Some u \<Rightarrow>
                  if usr_status u \<noteq> ''active''
                  then ignore_io (delete_account_session x token) (ret (Inl session_expired))
                  else try_io (is_user_revoked x (usr_id u) (av_created_at session)) (\<lambda>revoked.
                    if revoked then ignore_io (delete_account_session x token) (ret (Inl session_expired))
                    else ret (Inr (u, av_csrf_token session)))
              | None \<Rightarrow> ignore_io (delete_account_session x token)
                  (ret (Inl (redirect_to_login ''Account not found.'')))))))"

section \<open>The flow cookie\<close>

definition create_flow_cookie :: "'s ext \<Rightarrow> string \<Rightarrow> (string, 's) act" where
  "create_flow_cookie x bound_value =
     try_io (hmac_client_secret x bound_value) (\<lambda>digest.
     try_io get_config (\<lambda>c. ret (set_cookie flow_cookie_name digest c ''Lax'' ''/'' flow_cookie_ttl)))"

definition flow_cookie_matches :: "'s ext \<Rightarrow> headers \<Rightarrow> string \<Rightarrow> (bool, 's) act" where
  "flow_cookie_matches x hs bound_value = (case parse_cookie hs flow_cookie_name of
     None \<Rightarrow> ret False
   | Some actual \<Rightarrow> try_io (hmac_client_secret x bound_value) (\<lambda>expected. ret (actual = expected)))"

section \<open>The single sign-on session\<close>

definition create_idp_session_cookie :: "'s ext \<Rightarrow> string \<Rightarrow> string list \<Rightarrow> u64 \<Rightarrow> (string, 's) act" where
  "create_idp_session_cookie x user_id amr auth_time =
     try_io (random_hex 32) (\<lambda>token.
     try_io (get_idp_session_ttl x) (\<lambda>ttl.
     try_io unix_now (\<lambda>now.
     try_io (save_idp_session x token \<lparr>is_user_id = user_id, is_auth_time = auth_time,
         is_expires_at = now + ttl, is_amr = amr\<rparr>) (\<lambda>_.
     try_io get_config (\<lambda>c. ret (set_cookie idp_cookie_name token c ''Lax'' ''/'' ttl))))))"

definition clear_idp_session_cookie :: "config option \<Rightarrow> string" where
  "clear_idp_session_cookie c = set_cookie idp_cookie_name [] c ''Lax'' ''/'' 0"

text \<open>Appended to the headers of a response; every value is visible ASCII, so each parses.\<close>

definition append_clear_all_cookies :: "config option \<Rightarrow> headers \<Rightarrow> headers" where
  "append_clear_all_cookies c hs = hs @ map (Pair ''set-cookie'')
     [set_cookie account_cookie_name [] c ''Lax'' ''/'' 0,
      set_cookie account_cookie_name [] c ''Strict'' ''/account'' 0,
      set_cookie idp_cookie_name [] c ''Lax'' ''/'' 0,
      ''lid_tenant=; HttpOnly; SameSite=Lax; Path=/admin; Max-Age=0'']"

definition extract_idp_session_token :: "headers \<Rightarrow> string option" where
  "extract_idp_session_token hs = parse_cookie hs idp_cookie_name"

text \<open>
  The first steps shared by the two readers of the session: the token of the cookie, the record
  (any error of the store counts as no session), its expiry and the revocation of its user (an error
  counts as revoked), and the status of the account.
\<close>

definition live_idp_session :: "'s ext \<Rightarrow> headers \<Rightarrow> ((string \<times> idp_session) option, 's) act" where
  "live_idp_session x hs = (case parse_cookie hs idp_cookie_name of
     None \<Rightarrow> ret None
   | Some token \<Rightarrow>
       try_io (or_else_io (get_idp_session x token) None) (\<lambda>o1. case o1 of
         None \<Rightarrow> ret None
       | Some session \<Rightarrow>
           (let drop = ignore_io (delete_idp_session x token) (ret None) in
            try_io unix_now (\<lambda>now.
            if is_expires_at session < now then drop
            else try_io (or_else_io (is_user_revoked x (is_user_id session) (is_auth_time session)) True) (\<lambda>revoked.
              if revoked then drop
              else match_io (get_user x (is_user_id session))
                (\<lambda>o2. case o2 of
                   Some u \<Rightarrow> if usr_status u = ''active'' then ret (Some (token, session)) else drop
                 | None \<Rightarrow> drop)
                (\<lambda>_. ret None))))))"

definition get_idp_session_from_headers :: "'s ext \<Rightarrow> headers \<Rightarrow> (idp_session option, 's) act" where
  "get_idp_session_from_headers x hs =
     try_io (live_idp_session x hs) (\<lambda>o1. ret (map_option snd o1))"

definition refresh_idp_session_cookie_header :: "'s ext \<Rightarrow> headers \<Rightarrow> (string option, 's) act" where
  "refresh_idp_session_cookie_header x hs =
     try_io (live_idp_session x hs) (\<lambda>o1. case o1 of
       None \<Rightarrow> ret None
     | Some (token, session) \<Rightarrow>
         try_io (get_idp_session_ttl x) (\<lambda>ttl.
         try_io unix_now (\<lambda>now.
         ignore_io (save_idp_session x token (session\<lparr>is_expires_at := now + ttl\<rparr>))
           (try_io get_config (\<lambda>c. ret (Some (set_cookie idp_cookie_name token c ''Lax'' ''/'' ttl)))))))"

lemmas session_runs [code] =
  create_session_cookie_def [THEN fun_cong] require_account_session_def [THEN fun_cong]
  create_flow_cookie_def [THEN fun_cong] flow_cookie_matches_def [THEN fun_cong]
  create_idp_session_cookie_def [THEN fun_cong] live_idp_session_def [THEN fun_cong]
  get_idp_session_from_headers_def [THEN fun_cong]
  refresh_idp_session_cookie_header_def [THEN fun_cong]

section \<open>Frames\<close>

context jetcache
begin

lemma session_cookie_frames [frames_intro]:
  "(\<And>t. sess (''acct:'' @ t) \<in> A) \<Longrightarrow> frames view A (create_session_cookie x u)"
  "(\<And>t. sess (''acct:'' @ t) \<in> A) \<Longrightarrow> frames view A (require_account_session x hs)"
  "frames view A (create_flow_cookie x v)"
  "frames view A (flow_cookie_matches x hs v)"
  "(\<And>t. sess (''idp:'' @ t) \<in> A) \<Longrightarrow> frames view A (create_idp_session_cookie x u amr at)"
  "(\<And>t. sess (''idp:'' @ t) \<in> A) \<Longrightarrow> frames view A (get_idp_session_from_headers x hs)"
  "(\<And>t. sess (''idp:'' @ t) \<in> A) \<Longrightarrow> frames view A (refresh_idp_session_cookie_header x hs)"
  unfolding create_session_cookie_def require_account_session_def create_flow_cookie_def
    flow_cookie_matches_def create_idp_session_cookie_def get_idp_session_from_headers_def
    refresh_idp_session_cookie_header_def live_idp_session_def save_account_session_def
    delete_account_session_def Let_def
  by (intro frames_intro; simp)+

end

section \<open>Cookie values\<close>

text \<open>A browser sends back the name and the value, without the attributes.\<close>

definition cookie_pair :: "string \<Rightarrow> string" where
  "cookie_pair c = takeWhile (\<lambda>d. d \<noteq> CHR '';'') c"

definition plain_value :: "string \<Rightarrow> bool" where
  "plain_value v \<longleftrightarrow> list_all (\<lambda>c. visible c \<and> c \<noteq> CHR '';'' \<and> \<not> is_ws c) v"

lemma hex_digit_plain: "n < 16 \<Longrightarrow> visible (hex_digit n) \<and> hex_digit n \<noteq> CHR '';'' \<and> \<not> is_ws (hex_digit n)"
  by (auto simp: hex_digit_def visible_def is_ws_def dest!: arg_cong [where f = chr_code] simp: chr_code_CHR)

lemma hex_lower_plain: "plain_value (hex_lower bs)"
proof -
  have "chr_code b div 16 < 16" for b using chr_code_less [of b] by simp
  then show ?thesis
    by (auto simp: plain_value_def list_all_iff hex_lower_def hex_byte_def hex_digit_plain)
qed

lemma set_cookie_pair:
  assumes "plain_value name" and "plain_value v"
  shows "cookie_pair (set_cookie name v c site path age) = name @ ''='' @ v"
proof -
  have "takeWhile (\<lambda>d. d \<noteq> CHR '';'') ((name @ ''='' @ v) @ CHR '';'' # r) = name @ ''='' @ v" for r
    using assms by (subst takeWhile_append2) (auto simp: plain_value_def list_all_iff)
  then show ?thesis by (simp add: cookie_pair_def set_cookie_def)
qed

lemma parse_cookie_pair:
  assumes n: "plain_value name" "name \<noteq> []" "CHR ''='' \<notin> set name" and v: "plain_value v"
  shows "parse_cookie [(''cookie'', name @ ''='' @ v)] name = Some v"
proof -
  have vis: "list_all visible (name @ ''='' @ v)"
    using n(1) v by (auto simp: plain_value_def list_all_iff visible_def)
  have split: "split_on CHR '';'' (name @ ''='' @ v) = [name @ ''='' @ v]"
    using n(1) v by (intro split_pred_no_sep) (auto simp: plain_value_def list_all_iff)
  have hd: "\<not> is_ws (hd (name @ ''='' @ v))" and last: "\<not> is_ws (last (name @ ''='' @ v))"
    using n(1,2) v by (cases name; auto simp: plain_value_def list_all_iff is_ws_def)+
  have trims: "trim (name @ ''='' @ v) = name @ ''='' @ v"
    using hd last by (intro trim_id) simp
  have "trim name = name"
    using n(1,2) by (intro trim_id) (auto simp: plain_value_def list_all_iff)
  then have "cookie_named name (name @ ''='' @ v) = Some v"
    unfolding cookie_named_def trims using split_once_at [OF n(3)] by simp
  then show ?thesis using vis split by (simp add: parse_cookie_def header_str_def)
qed
section \<open>What a session shows\<close>

definition revoked_since :: "'s ext \<Rightarrow> 's view \<Rightarrow> 's \<Rightarrow> string \<Rightarrow> u64 \<Rightarrow> bool" where
  "revoked_since x view s u t = (case bytes_at x view s (sess (''revoked:user:'' @ u)) of
     None \<Rightarrow> False | Some (bs, n) \<Rightarrow> length bs = 8 \<longrightarrow> t < from_be_bytes bs)"

lemma or_else_run: "or_else_io m d w = (Ok y, w') \<Longrightarrow> y \<noteq> d \<Longrightarrow> m w = (Ok y, w')"
  by (elim or_else_io_Ok) auto

text \<open>
  A record answered for a cookie is stored under the digest of the cookie or, with no entry there,
  under the cookie itself.
\<close>

definition idp_record :: "'s ext \<Rightarrow> 's view \<Rightarrow> 's \<Rightarrow> string \<Rightarrow> idp_session \<Rightarrow> bool" where
  "idp_record x view s t v \<longleftrightarrow>
     (\<exists>n. rec_at x view idp_session_of_json s (sess (''idp:'' @ sha256_hex x t)) = Some (v, n)) \<or>
     (\<exists>n. rec_at x view idp_session_of_json s (sess (''idp:'' @ t)) = Some (v, n))"

context gateway
begin

lemma kv_get_Some:
  assumes "kv_get x d t k w = (Ok (Some v), w')"
  shows "\<exists>n. rec_at x view d (w_kv w) (t, k) = Some (v, n)"
  using kv_get_Ok [OF assms] by (cases "rec_at x view d (w_kv w) (t, k)") auto

lemma get_user_Some:
  "get_user x i w = (Ok (Some u), w') \<Longrightarrow> \<exists>n. rec_at x view user_of_json (w_kv w) (usr_at i) = Some (u, n)"
  unfolding get_user_def by (rule kv_get_Some)

lemma get_idp_session_Some:
  assumes "get_idp_session x t w = (Ok (Some v), w')"
  shows "idp_record x view (w_kv w) t v"
proof -
  let ?d = idp_session_of_json
  from assms obtain o1 w1 where g: "kv_get x ?d sessions_store (''idp:'' @ sha256_hex x t) w = (Ok o1, w1)"
    and r: "(case o1 of Some s \<Rightarrow> ret (Some s) | None \<Rightarrow> kv_get x ?d sessions_store (''idp:'' @ t)) w1 = (Ok (Some v), w')"
    unfolding get_idp_session_def Let_def by (elim try_io_Ok)
  show ?thesis
  proof (cases o1)
    case None
    with r have g2: "kv_get x ?d sessions_store (''idp:'' @ t) w1 = (Ok (Some v), w')" by simp
    have "frames view {} (kv_get x ?d sessions_store (''idp:'' @ sha256_hex x t))"
      by (intro frames_intro) auto
    from frames_survives [OF this g, of "sess (''idp:'' @ t)"]
    have "survives view (w_kv w) (w_kv w1) (sess (''idp:'' @ t))" by (simp add: table_ok_def)
    with kv_get_Some [OF g2] show ?thesis
      unfolding idp_record_def by (blast dest: survives_rec_at)
  next
    case (Some s)
    with r g have "kv_get x ?d sessions_store (''idp:'' @ sha256_hex x t) w = (Ok (Some v), w1)" by simp
    from kv_get_Some [OF this] show ?thesis by (simp add: idp_record_def)
  qed
qed

lemma live_idp_session_Some:
  assumes "live_idp_session x hs w = (Ok (Some (t, v)), w')"
  shows "parse_cookie hs idp_cookie_name = Some t \<and> idp_record x view (w_kv w) t v \<and>
    (\<exists>w1. get_idp_session x t w = (Ok (Some v), w1) \<and> w_clock w1 (w_ticks w1) \<le> is_expires_at v) \<and>
    (\<exists>s. survives view (w_kv w) s (sess (''revoked:user:'' @ is_user_id v)) \<and>
      \<not> revoked_since x view s (is_user_id v) (is_auth_time v)) \<and>
    (\<exists>u n. rec_at x view user_of_json (w_kv w) (usr_at (is_user_id v)) = Some (u, n) \<and> usr_status u = ''active'')"
proof -
  let ?drop = "\<lambda>t. ignore_io (delete_idp_session x t) (ret None)"
  have no_drop: "?drop t w1 = (Ok (Some p), w2) \<Longrightarrow> False" for t w1 p w2
    by (elim ignore_io_Ok) simp
  from assms obtain t' where t': "parse_cookie hs idp_cookie_name = Some t'"
    by (auto simp: live_idp_session_def split: option.splits)
  with assms obtain o1 w1 where g: "or_else_io (get_idp_session x t') None w = (Ok o1, w1)"
    and r1: "(case o1 of None \<Rightarrow> ret None | Some session \<Rightarrow>
        try_io unix_now (\<lambda>now. if is_expires_at session < now then ?drop t'
            else try_io (or_else_io (is_user_revoked x (is_user_id session) (is_auth_time session)) True) (\<lambda>revoked.
              if revoked then ?drop t'
              else match_io (get_user x (is_user_id session))
                (\<lambda>o2. case o2 of
                   Some u \<Rightarrow> if usr_status u = ''active'' then ret (Some (t', session)) else ?drop t'
                 | None \<Rightarrow> ?drop t')
                (\<lambda>_. ret None)))) w1 = (Ok (Some (t, v)), w')"
    by (auto simp: live_idp_session_def Let_def elim!: try_io_Ok)
  from r1 obtain session where o1: "o1 = Some session" by (cases o1) simp_all
  define w2 where "w2 = w1\<lparr>w_ticks := Suc (w_ticks w1)\<rparr>"
  from r1 o1 have now: "w_clock w1 (w_ticks w1) \<le> is_expires_at session"
    by (auto simp: not_less split: if_splits dest: no_drop)
  with r1 o1 obtain b w3 where rv: "or_else_io (is_user_revoked x (is_user_id session) (is_auth_time session)) True w2 = (Ok b, w3)"
    and r2: "(if b then ?drop t' else match_io (get_user x (is_user_id session))
                (\<lambda>o2. case o2 of
                   Some u \<Rightarrow> if usr_status u = ''active'' then ret (Some (t', session)) else ?drop t'
                 | None \<Rightarrow> ?drop t')
                (\<lambda>_. ret None)) w3 = (Ok (Some (t, v)), w')"
    by (auto simp: w2_def split: if_splits elim!: try_io_Ok)
  have nb: "\<not> b" using r2 by (auto dest: no_drop)
  with r2 have "match_io (get_user x (is_user_id session))
                (\<lambda>o2. case o2 of
                   Some u \<Rightarrow> if usr_status u = ''active'' then ret (Some (t', session)) else ?drop t'
                 | None \<Rightarrow> ?drop t')
                (\<lambda>_. ret None) w3 = (Ok (Some (t, v)), w')" by simp
  then obtain u w4 where gu: "get_user x (is_user_id session) w3 = (Ok (Some u), w4)"
    and act: "usr_status u = ''active''" and eq: "t = t'" "v = session"
    by (elim match_io_cases) (auto split: option.splits if_splits dest: no_drop)
  from g o1 have gi: "get_idp_session x t' w = (Ok (Some session), w1)" by (auto dest: or_else_run)
  from rv nb have ru: "is_user_revoked x (is_user_id session) (is_auth_time session) w2 = (Ok b, w3)"
    by (auto dest: or_else_run)
  have f1: "frames view {} (get_idp_session x t')" by (intro frames_intro)
  have f2: "frames view {} (is_user_revoked x (is_user_id session) (is_auth_time session))" by (intro frames_intro)
  have kv2: "w_kv w2 = w_kv w1" by (simp add: w2_def)
  have s1: "table_ok a \<Longrightarrow> survives view (w_kv w) (w_kv w2) a" for a
    using frames_survives [OF f1 gi] kv2 by simp
  have s2: "table_ok a \<Longrightarrow> survives view (w_kv w) (w_kv w3) a" for a
    using frames_survives [OF f2 ru] s1 by (blast intro: survives_trans empty_iff [THEN iffD1])
  from get_user_Some [OF gu]
  obtain n where "rec_at x view user_of_json (w_kv w3) (usr_at (is_user_id session)) = Some (u, n)" by blast
  with s2 [of "usr_at (is_user_id session)"]
  have usr: "rec_at x view user_of_json (w_kv w) (usr_at (is_user_id session)) = Some (u, n)"
    by (auto simp: table_ok_def dest: survives_rec_at)
  have rev: "\<not> revoked_since x view (w_kv w2) (is_user_id session) (is_auth_time session)"
    using is_user_revoked_Ok [OF ru] nb by (simp add: revoked_since_def)
  from s1 [of "sess (''revoked:user:'' @ is_user_id session)"] rev
  have "\<exists>s. survives view (w_kv w) s (sess (''revoked:user:'' @ is_user_id session)) \<and>
      \<not> revoked_since x view s (is_user_id session) (is_auth_time session)"
    by (intro exI [of _ "w_kv w2"]) (simp add: table_ok_def)
  with t' get_idp_session_Some [OF gi] gi now usr act show ?thesis unfolding eq by blast
qed

end
context gateway
begin

lemma save_idp_session_Ok:
  assumes "save_idp_session x t v w = (Ok y, w')"
  shows "\<exists>n. rec_at x view idp_session_of_json (w_kv w') (sess (''idp:'' @ sha256_hex x t)) = Some (v, n)"
proof -
  from assms obtain ttl w1 where
    "kv_set_ttl x sessions_store (''idp:'' @ sha256_hex x t) (idp_session_to_json v) ttl w1 = (Ok y, w')"
    unfolding save_idp_session_def Let_def by (elim try_io_Ok)
  from kv_set_ttl_Ok [OF this] show ?thesis by (auto simp: rec_at_encoded idp_session_roundtrip)
qed

lemma create_idp_session_cookie_Ok:
  assumes "create_idp_session_cookie x u amr auth_time w = (Ok cookie, w')"
  shows "\<exists>token v n site path age. cookie = set_cookie idp_cookie_name token (w_config w') site path age \<and>
    token = hex_lower (map (w_rand w (w_draws w)) [0..<32]) \<and>
    is_user_id v = u \<and> is_auth_time v = auth_time \<and> is_amr v = amr \<and>
    rec_at x view idp_session_of_json (w_kv w') (sess (''idp:'' @ sha256_hex x token)) = Some (v, n)"
proof -
  from assms obtain token ttl w1 w2 w3 now where t: "random_hex 32 w = (Ok token, w1)"
    and now: "now = w_clock w2 (w_ticks w2)"
    and s: "save_idp_session x token \<lparr>is_user_id = u, is_auth_time = auth_time, is_expires_at = now + ttl, is_amr = amr\<rparr>
      (w2\<lparr>w_ticks := Suc (w_ticks w2)\<rparr>) = (Ok (), w3)"
    and r: "try_io get_config (\<lambda>c. ret (set_cookie idp_cookie_name token c ''Lax'' ''/'' ttl)) w3 = (Ok cookie, w')"
    unfolding create_idp_session_cookie_def by (auto elim!: try_io_Ok simp: unix_now_Ok get_config_Ok)
  from r have "cookie = set_cookie idp_cookie_name token (w_config w') ''Lax'' ''/'' ttl" "w' = w3" by auto
  with t save_idp_session_Ok [OF s] show ?thesis
    unfolding random_hex_Ok by (metis idp_session.select_convs(1,2,4))
qed

end

section \<open>Properties\<close>

text \<open>C26. A single sign-on session accepted from a cookie is on record for that cookie, had not expired
  when it was read, belongs to an existing active account, and was opened after the last revocation of
  that account's sessions.\<close>

theorem sso_session_sound:
  assumes "gateway x view" and "get_idp_session_from_headers x hs w = (Ok (Some v), w')"
  shows "\<exists>t w1 s u n. parse_cookie hs idp_cookie_name = Some t \<and> idp_record x view (w_kv w) t v \<and>
    get_idp_session x t w = (Ok (Some v), w1) \<and> w_clock w1 (w_ticks w1) \<le> is_expires_at v \<and>
    survives view (w_kv w) s (sess (''revoked:user:'' @ is_user_id v)) \<and>
    \<not> revoked_since x view s (is_user_id v) (is_auth_time v) \<and>
    rec_at x view user_of_json (w_kv w) (usr_at (is_user_id v)) = Some (u, n) \<and> usr_status u = ''active''"
proof -
  from assms(2) obtain t where "live_idp_session x hs w = (Ok (Some (t, v)), w')"
    unfolding get_idp_session_from_headers_def by (auto elim!: try_io_Ok)
  from gateway.live_idp_session_Some [OF assms(1) this] show ?thesis by blast
qed

definition session_user :: user where
  "session_user = \<lparr>usr_id = ''u'', usr_email = ''e@x'', usr_name = ''n'', usr_password_hash = ''h'', usr_status = ''active'',
     usr_created_at = 1, usr_superadmin = False, usr_totp_secret = None, usr_totp_enabled = False,
     usr_recovery_codes = [], usr_passkey_credentials = []\<rparr>"

definition demo_session :: idp_session where
  "demo_session = \<lparr>is_user_id = ''u'', is_auth_time = 900, is_expires_at = 2000, is_amr = [''pwd'']\<rparr>"

definition session_codes :: "(json \<times> char) list" where
  "session_codes = [(user_to_json session_user, CHR ''U''), (idp_session_to_json demo_session, CHR ''S'')]"

definition session_enc :: "json \<Rightarrow> bytes" where "session_enc j = short_text session_codes j"
definition session_dec :: "bytes \<Rightarrow> string + json" where "session_dec s = long_text session_codes s"
definition session_ext :: "kv_map ext" where "session_ext = coded session_enc session_dec"

lemma session_gateway: "gateway session_ext mem_view"
proof -
  have "codes_ok session_codes" by code_simp
  then have "session_dec (session_enc j) = Inr j" for j
    unfolding session_enc_def session_dec_def by (rule long_short_text)
  then show ?thesis unfolding session_ext_def by (rule coded_gateway)
qed

abbreviation "session_w \<equiv> demo_world_at 1000 [(''users:user:u'', ''U'', 1),
  (full_key sessions_store (''idp:'' @ sha256_hex session_ext ''tok''), ''S'', 1)]"
abbreviation "session_headers \<equiv> [(''cookie'', ''a=b; lid_session=tok'')]"

lemma sso_session_sound_witness:
  "\<exists>u n. rec_at session_ext mem_view user_of_json (w_kv session_w) (usr_at ''u'') = Some (u, n) \<and> usr_status u = ''active''"
proof -
  have "fst (get_idp_session_from_headers session_ext session_headers session_w) = Ok (Some demo_session)" by code_simp
  then have run: "get_idp_session_from_headers session_ext session_headers session_w =
      (Ok (Some demo_session), snd (get_idp_session_from_headers session_ext session_headers session_w))"
    by (rule run_Ok)
  from sso_session_sound [OF session_gateway run] show ?thesis
    by (simp add: demo_session_def) blast
qed

text \<open>C27. The cookie of a new session, sent back by a browser, names the record just stored: the user, the
  time and the methods of the login are those the session was opened with.\<close>

theorem session_cookie_roundtrip:
  assumes "gateway x view" and "create_idp_session_cookie x u amr auth_time w = (Ok cookie, w')"
  shows "\<exists>token v n. parse_cookie [(''cookie'', cookie_pair cookie)] idp_cookie_name = Some token \<and>
    length token = 64 \<and> is_user_id v = u \<and> is_auth_time v = auth_time \<and> is_amr v = amr \<and>
    rec_at x view idp_session_of_json (w_kv w') (sess (''idp:'' @ sha256_hex x token)) = Some (v, n)"
proof -
  from gateway.create_idp_session_cookie_Ok [OF assms] obtain token v n site path age where
    c: "cookie = set_cookie idp_cookie_name token (w_config w') site path age"
    and t: "token = hex_lower (map (w_rand w (w_draws w)) [0..<32])"
    and v: "is_user_id v = u" "is_auth_time v = auth_time" "is_amr v = amr"
      "rec_at x view idp_session_of_json (w_kv w') (sess (''idp:'' @ sha256_hex x token)) = Some (v, n)"
    by blast
  have p: "plain_value token" unfolding t by (rule hex_lower_plain)
  have i: "plain_value idp_cookie_name" by code_simp
  have "parse_cookie [(''cookie'', cookie_pair cookie)] idp_cookie_name = Some token"
    unfolding c set_cookie_pair [OF i p] by (rule parse_cookie_pair [OF i _ _ p]) simp_all
  moreover have "length token = 64" by (simp add: t)
  ultimately show ?thesis using v by blast
qed

lemma session_cookie_roundtrip_witness:
  "\<exists>cookie token. fst (create_idp_session_cookie session_ext ''u'' [''pwd''] 900 session_w) = Ok cookie \<and>
    parse_cookie [(''cookie'', cookie_pair cookie)] idp_cookie_name = Some token"
proof -
  have "is_ok (fst (create_idp_session_cookie session_ext ''u'' [''pwd''] 900 session_w))" by code_simp
  then obtain cookie w' where run: "create_idp_session_cookie session_ext ''u'' [''pwd''] 900 session_w = (Ok cookie, w')"
    by (rule is_ok_run)
  from session_cookie_roundtrip [OF session_gateway run] run show ?thesis by auto
qed



end
