(* ===== verification/Store_Admin.thy ===== *)
theory Store_Admin
  imports Totp Admin_Types
begin

text \<open>
  The administrative records of \<open>store.rs\<close>: the clients every deployment has, identity providers,
  SAML service providers with the versioned ring of signing keys, SCIM connections and identities,
  social identities, hooks with their history, and the migration that rewrites the tables once
  encryption at rest is switched on.
\<close>

section \<open>Encryption of the tables\<close>

abbreviation encryption_migration_marker :: string where
  "encryption_migration_marker \<equiv> ''migration:encrypt-v2''"

definition encrypted_tables :: "config option \<Rightarrow> string list" where
  "encrypted_tables c = [users_store, user_idx_store, sessions_store, clients_store c, tenants_store c,
     memberships_store, ''keys'', ''abuse-rate-limits'']"

definition kv_schema_set_encrypted :: "'s ext \<Rightarrow> string \<Rightarrow> (unit, 's) act" where
  "kv_schema_set_encrypted x store_name =
     try_io (ldb_request x ''schema.set'' (JObj [(''table'', JStr store_name),
       (''schema'', JObj [(''encrypted'', JBool True)])])) (\<lambda>_. ret ())"

fun warm_tables :: "'s ext \<Rightarrow> string list \<Rightarrow> (unit, 's) act" where
  "warm_tables x [] = ret ()"
| "warm_tables x (t # ts) = try_io (kv_get_raw x t ''__encryption_warmup__'') (\<lambda>_. warm_tables x ts)"

fun mark_encrypted :: "'s ext \<Rightarrow> string list \<Rightarrow> (unit, 's) act" where
  "mark_encrypted x [] = ret ()"
| "mark_encrypted x (t # ts) = try_io (kv_schema_set_encrypted x t) (\<lambda>_. mark_encrypted x ts)"

fun rewrite_keys :: "'s ext \<Rightarrow> string \<Rightarrow> string list \<Rightarrow> nat \<Rightarrow> (nat, 's) act" where
  "rewrite_keys x t [] rewritten = ret rewritten"
| "rewrite_keys x t (key # keys) rewritten =
     try_io (kv_get_raw x t key) (\<lambda>o1. case o1 of
       Some bytes \<Rightarrow> try_io (kv_set_raw x t key bytes) (\<lambda>_. rewrite_keys x t keys (rewritten + 1))
     | None \<Rightarrow> rewrite_keys x t keys rewritten)"

definition rewrite_error :: "string \<Rightarrow> nat \<Rightarrow> nat \<Rightarrow> string" where
  "rewrite_error t rewritten n = ''encryption rewrite of '' @ t @ '': only '' @ show_nat rewritten @ ''/'' @ show_nat n @
     '' rows readable '' @ [CHR 0xE2, CHR 0x80, CHR 0x94] @ '' refusing to mark migration complete''"

fun rewrite_tables :: "'s ext \<Rightarrow> string list \<Rightarrow> (unit, 's) act" where
  "rewrite_tables x [] = ret ()"
| "rewrite_tables x (t # ts) =
     (if t = ''abuse-rate-limits'' then rewrite_tables x ts
      else try_io (kv_list_keys x t) (\<lambda>keys.
        try_io (rewrite_keys x t keys 0) (\<lambda>rewritten.
        if rewritten \<noteq> length keys then fail (rewrite_error t rewritten (length keys))
        else rewrite_tables x ts)))"

definition ensure_table_encryption :: "'s ext \<Rightarrow> (unit, 's) act" where
  "ensure_table_encryption x = try_io get_config (\<lambda>c.
     if \<not> encrypt_tables_enabled c then ret ()
     else try_io (kv_get_raw x sessions_store encryption_migration_marker) (\<lambda>o1.
       if o1 \<noteq> None then ret ()
       else let tables = encrypted_tables c in
         try_io (warm_tables x tables) (\<lambda>_.
         try_io (mark_encrypted x tables) (\<lambda>_.
         try_io (rewrite_tables x tables) (\<lambda>_.
         kv_set_raw x sessions_store encryption_migration_marker ''{\"done\":true}'')))))"

section \<open>The clients of every deployment\<close>

definition builtin_client :: "string \<Rightarrow> string \<Rightarrow> string list \<Rightarrow> string list \<Rightarrow> string list \<Rightarrow> oidc_client" where
  "builtin_client i name redirects post_logout grants =
     \<lparr>cl_client_id = i, cl_client_secret = None, cl_redirect_uris = redirects,
      cl_post_logout_redirect_uris = post_logout, cl_grant_types = grants, cl_name = name,
      cl_theme = None, cl_backchannel_logout_uri = None, cl_backchannel_logout_session_required = False,
      cl_id_token_signed_response_alg = None, cl_first_party = True,
      cl_token_endpoint_auth_method = Some ''none'', cl_jwks = None,
      cl_require_pushed_authorization_requests = False\<rparr>"

definition default_dev_client :: oidc_client where
  "default_dev_client = builtin_client ''default'' ''Default Dev Client''
     [''http://localhost:8090/callback'', ''http://localhost:3000/callback'']
     [''http://localhost:8090/'', ''http://localhost:8090/callback'', ''http://localhost:3000/'']
     [''authorization_code'', ''refresh_token'']"

definition ensure_default_client :: "'s ext \<Rightarrow> (unit, 's) act" where
  "ensure_default_client x =
     try_io (get_client x ''default'') (\<lambda>o1.
     if o1 \<noteq> None then ret ()
     else try_io get_config (\<lambda>c.
       kv_set x (clients_store c) ''client:default'' (oidc_client_to_json default_dev_client)))"

definition admin_redirect_uris :: "string \<Rightarrow> bool \<Rightarrow> string list" where
  "admin_redirect_uris issuer dev_mode =
     [issuer, issuer @ ''/'', issuer @ ''/callback'', issuer @ ''/admin'', issuer @ ''/admin/'', ''/'', ''/admin'', ''/admin/''] @
     (if dev_mode then
        concat (map (\<lambda>port. [''http://localhost:'' @ port @ ''/'', ''http://localhost:'' @ port @ ''/callback''])
          [''8000'', ''8090'', ''8091'']) @
        [''http://localhost/admin'', ''http://localhost/admin/'', ''http://localhost/'', ''http://localhost/callback'']
      else [])"

definition admin_client :: "string \<Rightarrow> bool \<Rightarrow> oidc_client" where
  "admin_client issuer dev_mode = builtin_client ''lid-admin'' ''Lattice-ID Admin''
     (admin_redirect_uris issuer dev_mode) (admin_redirect_uris issuer dev_mode)
     [''authorization_code'', ''refresh_token'', ''urn:ietf:params:oauth:grant-type:device_code'']"

definition ensure_admin_client :: "'s ext \<Rightarrow> string \<Rightarrow> bool \<Rightarrow> (unit, 's) act" where
  "ensure_admin_client x issuer dev_mode =
     try_io (get_client x ''lid-admin'') (\<lambda>o1.
     if o1 = Some (admin_client issuer dev_mode) then ret ()
     else try_io get_config (\<lambda>c.
       kv_set x (clients_store c) ''client:lid-admin'' (oidc_client_to_json (admin_client issuer dev_mode))))"

section \<open>Identity providers\<close>

definition save_identity_provider :: "'s ext \<Rightarrow> identity_provider \<Rightarrow> (unit, 's) act" where
  "save_identity_provider x idp = try_io get_config (\<lambda>c.
     kv_set x (clients_store c) (''idp:'' @ ip_id idp) (identity_provider_to_json idp))"

definition get_identity_provider :: "'s ext \<Rightarrow> string \<Rightarrow> (identity_provider option, 's) act" where
  "get_identity_provider x i = try_io get_config (\<lambda>c.
     kv_get x identity_provider_of_json (clients_store c) (''idp:'' @ i))"

definition list_identity_providers :: "'s ext \<Rightarrow> (identity_provider list, 's) act" where
  "list_identity_providers x = try_io get_config (\<lambda>c.
     try_io (kv_prefix x identity_provider_of_json (clients_store c) ''idp:'') (\<lambda>rows. ret (map snd rows)))"

definition get_identity_provider_by_type :: "'s ext \<Rightarrow> string \<Rightarrow> (identity_provider option, 's) act" where
  "get_identity_provider_by_type x provider_type = try_io get_config (\<lambda>c.
     try_io (kv_prefix x identity_provider_of_json (clients_store c) ''idp:'') (\<lambda>rows.
     ret (find (\<lambda>idp. ip_provider_type idp = provider_type \<and> ip_enabled idp) (map snd rows))))"

definition delete_identity_provider :: "'s ext \<Rightarrow> string \<Rightarrow> (unit, 's) act" where
  "delete_identity_provider x i = try_io get_config (\<lambda>c. kv_delete x (clients_store c) (''idp:'' @ i))"

section \<open>SAML service providers and keys\<close>

definition save_saml_service_provider :: "'s ext \<Rightarrow> saml_service_provider \<Rightarrow> (unit, 's) act" where
  "save_saml_service_provider x sp = try_io get_config (\<lambda>c.
     kv_set x (clients_store c) (''saml_sp:'' @ sp_id sp) (saml_service_provider_to_json sp))"

definition get_saml_service_provider :: "'s ext \<Rightarrow> string \<Rightarrow> (saml_service_provider option, 's) act" where
  "get_saml_service_provider x i = try_io get_config (\<lambda>c.
     kv_get x saml_service_provider_of_json (clients_store c) (''saml_sp:'' @ i))"

definition list_saml_service_providers :: "'s ext \<Rightarrow> (saml_service_provider list, 's) act" where
  "list_saml_service_providers x = try_io get_config (\<lambda>c.
     try_io (kv_prefix x saml_service_provider_of_json (clients_store c) ''saml_sp:'') (\<lambda>rows. ret (map snd rows)))"

definition delete_saml_service_provider :: "'s ext \<Rightarrow> string \<Rightarrow> (unit, 's) act" where
  "delete_saml_service_provider x i = try_io get_config (\<lambda>c. kv_delete x (clients_store c) (''saml_sp:'' @ i))"

text \<open>\<open>max_by_key\<close> keeps the last of several maxima.\<close>

fun newest_pointer :: "saml_key_ring_pointer list \<Rightarrow> saml_key_ring_pointer option" where
  "newest_pointer [] = None"
| "newest_pointer (p # ps) = (case newest_pointer ps of None \<Rightarrow> Some p
     | Some q \<Rightarrow> Some (if kp_current_version q < kp_current_version p then p else q))"

definition saml_key_name :: "u32 \<Rightarrow> string" where
  "saml_key_name v = ''saml:key-v'' @ show_nat (unat v)"

definition get_saml_key_ring :: "'s ext \<Rightarrow> (saml_key_ring option, 's) act" where
  "get_saml_key_ring x =
     try_io (kv_prefix x saml_key_ring_pointer_of_json ''keys'' ''saml:key-ring-pointer-v'') (\<lambda>rows.
     case newest_pointer (map snd rows) of
       None \<Rightarrow> ret None
     | Some pointer \<Rightarrow>
         try_io (kv_get x saml_signing_key_of_json ''keys'' (saml_key_name (kp_current_version pointer))) (\<lambda>o1.
         try_io (lift (ok_or o1 ''SAML current signing key is missing'')) (\<lambda>current.
         try_io (case kp_previous_version pointer of
             Some v \<Rightarrow> kv_get x saml_signing_key_of_json ''keys'' (saml_key_name v)
           | None \<Rightarrow> ret None) (\<lambda>previous.
         ret (Some \<lparr>kr_current = current, kr_previous = previous,
           kr_previous_grace_expires = kp_previous_grace_expires pointer\<rparr>)))))"

definition save_saml_key_ring :: "'s ext \<Rightarrow> saml_key_ring \<Rightarrow> (unit, 's) act" where
  "save_saml_key_ring x ring =
     try_io (kv_create_raw x ''keys'' (saml_key_name (sk_version (kr_current ring)))
       (x_to_vec x (saml_signing_key_to_json (kr_current ring))) None) (\<lambda>_.
     ignore_io (case kr_previous ring of
         Some previous \<Rightarrow> kv_create_raw x ''keys'' (saml_key_name (sk_version previous))
           (x_to_vec x (saml_signing_key_to_json previous)) None
       | None \<Rightarrow> ret ())
     (kv_create_raw x ''keys'' (''saml:key-ring-pointer-v'' @ show_nat (unat (sk_version (kr_current ring))))
       (x_to_vec x (saml_key_ring_pointer_to_json
         \<lparr>kp_current_version = sk_version (kr_current ring),
          kp_previous_version = map_option sk_version (kr_previous ring),
          kp_previous_grace_expires = kr_previous_grace_expires ring\<rparr>)) None))"

definition create_saml_key_ring :: "'s ext \<Rightarrow> saml_key_ring \<Rightarrow> (unit, 's) act" where
  "create_saml_key_ring x ring = save_saml_key_ring x ring"

definition acquire_saml_rotation_lock :: "'s ext \<Rightarrow> (unit, 's) act" where
  "acquire_saml_rotation_lock x =
     map_err (\<lambda>e. if already_exists e then ''concurrent SAML key rotations'' else e)
       (kv_create_raw x ''keys'' ''saml:rotation-lock'' [] (Some 60))"

definition release_saml_rotation_lock :: "'s ext \<Rightarrow> (unit, 's) act" where
  "release_saml_rotation_lock x = ignore_io (kv_delete x ''keys'' ''saml:rotation-lock'') (ret ())"

definition save_saml_flow :: "'s ext \<Rightarrow> string \<Rightarrow> saml_flow \<Rightarrow> (unit, 's) act" where
  "save_saml_flow x session_id flow =
     kv_set_ttl x sessions_store (''saml_flow:'' @ session_id) (saml_flow_to_json flow) ttl_auth_session"

definition consume_saml_flow :: "'s ext \<Rightarrow> string \<Rightarrow> (saml_flow option, 's) act" where
  "consume_saml_flow x session_id =
     (let key = ''saml_flow:'' @ session_id in
      try_io (kv_get_revision x saml_flow_of_json sessions_store key) (\<lambda>o1. case o1 of
        Some (flow, revision) \<Rightarrow>
          match_io (kv_cas_delete x sessions_store key revision) (\<lambda>_. ret (Some flow)) (\<lambda>_. ret None)
      | None \<Rightarrow> ret None))"

definition reserve_saml_request :: "'s ext \<Rightarrow> string \<Rightarrow> string \<Rightarrow> (unit, 's) act" where
  "reserve_saml_request x i request_id =
     (let key = ''saml_request:'' @ i @ '':'' @ sha256_hex x request_id in
      map_err (\<lambda>e. if already_exists e then ''SAML request has already been used'' else e)
        (kv_create_raw x sessions_store key [] (Some ttl_auth_session)))"

section \<open>SCIM connections and identities\<close>

definition save_scim_connection :: "'s ext \<Rightarrow> scim_connection \<Rightarrow> (unit, 's) act" where
  "save_scim_connection x connection = try_io get_config (\<lambda>c.
     kv_set x (clients_store c) (''scim_connection:'' @ sc_id connection) (scim_connection_to_json connection))"

definition get_scim_connection :: "'s ext \<Rightarrow> string \<Rightarrow> (scim_connection option, 's) act" where
  "get_scim_connection x i = try_io get_config (\<lambda>c.
     kv_get x scim_connection_of_json (clients_store c) (''scim_connection:'' @ i))"

definition list_scim_connections :: "'s ext \<Rightarrow> (scim_connection list, 's) act" where
  "list_scim_connections x = try_io get_config (\<lambda>c.
     try_io (kv_prefix x scim_connection_of_json (clients_store c) ''scim_connection:'') (\<lambda>rows. ret (map snd rows)))"

definition delete_scim_connection :: "'s ext \<Rightarrow> string \<Rightarrow> (unit, 's) act" where
  "delete_scim_connection x i = try_io get_config (\<lambda>c. kv_delete x (clients_store c) (''scim_connection:'' @ i))"

definition scim_identity_key :: "string \<Rightarrow> string \<Rightarrow> string" where
  "scim_identity_key connection_id external_id = ''scim_identity:'' @ connection_id @ '':'' @ external_id"

definition scim_user_key :: "string \<Rightarrow> string \<Rightarrow> string" where
  "scim_user_key connection_id user_id = ''scim_user:'' @ connection_id @ '':'' @ user_id"

text \<open>Both index entries are created, or the first one is taken back.\<close>

definition create_scim_identity :: "'s ext \<Rightarrow> scim_identity \<Rightarrow> (unit, 's) act" where
  "create_scim_identity x identity =
     (let bytes = x_to_vec x (scim_identity_to_json identity);
          primary = scim_identity_key (sd_connection_id identity) (sd_external_id identity);
          secondary = scim_user_key (sd_connection_id identity) (sd_user_id identity)
      in try_io (map_err (\<lambda>e. if already_exists e then ''externalId already provisioned for this connection'' else e)
           (kv_cas_create_raw x user_idx_store primary bytes)) (\<lambda>_.
         match_io (kv_cas_create_raw x user_idx_store secondary bytes) (\<lambda>_. ret ())
           (\<lambda>e. ignore_io (kv_delete x user_idx_store primary) (fail e))))"

definition save_scim_identity :: "'s ext \<Rightarrow> scim_identity \<Rightarrow> (unit, 's) act" where
  "save_scim_identity x identity =
     (let bytes = x_to_vec x (scim_identity_to_json identity) in
      try_io (kv_set_raw x user_idx_store (scim_identity_key (sd_connection_id identity) (sd_external_id identity)) bytes) (\<lambda>_.
      kv_set_raw x user_idx_store (scim_user_key (sd_connection_id identity) (sd_user_id identity)) bytes))"

definition get_scim_identity :: "'s ext \<Rightarrow> string \<Rightarrow> string \<Rightarrow> (scim_identity option, 's) act" where
  "get_scim_identity x connection_id external_id =
     kv_get x scim_identity_of_json user_idx_store (scim_identity_key connection_id external_id)"

definition get_scim_identity_by_user :: "'s ext \<Rightarrow> string \<Rightarrow> string \<Rightarrow> (scim_identity option, 's) act" where
  "get_scim_identity_by_user x connection_id user_id =
     kv_get x scim_identity_of_json user_idx_store (scim_user_key connection_id user_id)"

definition list_scim_identities :: "'s ext \<Rightarrow> string \<Rightarrow> (scim_identity list, 's) act" where
  "list_scim_identities x connection_id =
     try_io (kv_prefix x scim_identity_of_json user_idx_store (''scim_identity:'' @ connection_id @ '':''))
       (\<lambda>rows. ret (map snd rows))"

definition delete_scim_identity :: "'s ext \<Rightarrow> scim_identity \<Rightarrow> (unit, 's) act" where
  "delete_scim_identity x identity =
     try_io (kv_delete x user_idx_store (scim_identity_key (sd_connection_id identity) (sd_external_id identity))) (\<lambda>_.
     kv_delete x user_idx_store (scim_user_key (sd_connection_id identity) (sd_user_id identity)))"

section \<open>Social identities\<close>

definition save_social_identity :: "'s ext \<Rightarrow> social_identity \<Rightarrow> (unit, 's) act" where
  "save_social_identity x si =
     kv_set x user_idx_store (''social:'' @ si_provider si @ '':'' @ si_provider_sub si) (social_identity_to_json si)"

definition get_social_identity :: "'s ext \<Rightarrow> string \<Rightarrow> string \<Rightarrow> (social_identity option, 's) act" where
  "get_social_identity x provider provider_sub =
     kv_get x social_identity_of_json user_idx_store (''social:'' @ provider @ '':'' @ provider_sub)"

definition delete_social_identity :: "'s ext \<Rightarrow> string \<Rightarrow> string \<Rightarrow> (unit, 's) act" where
  "delete_social_identity x provider provider_sub =
     kv_delete x user_idx_store (''social:'' @ provider @ '':'' @ provider_sub)"

section \<open>Hooks\<close>

definition save_hook :: "'s ext \<Rightarrow> hook \<Rightarrow> (unit, 's) act" where
  "save_hook x h = try_io get_config (\<lambda>c. kv_set x (clients_store c) (''hook:'' @ hk_id h) (hook_to_json h))"

definition get_hook :: "'s ext \<Rightarrow> string \<Rightarrow> (hook option, 's) act" where
  "get_hook x i = try_io get_config (\<lambda>c. kv_get x hook_of_json (clients_store c) (''hook:'' @ i))"

definition list_hooks :: "'s ext \<Rightarrow> (hook list, 's) act" where
  "list_hooks x = try_io get_config (\<lambda>c.
     try_io (kv_prefix x hook_of_json (clients_store c) ''hook:'') (\<lambda>rows. ret (map snd rows)))"

definition delete_hook :: "'s ext \<Rightarrow> string \<Rightarrow> (unit, 's) act" where
  "delete_hook x i = try_io get_config (\<lambda>c. kv_delete x (clients_store c) (''hook:'' @ i))"

definition save_hook_version :: "'s ext \<Rightarrow> hook_version \<Rightarrow> (unit, 's) act" where
  "save_hook_version x ver = try_io get_config (\<lambda>c.
     kv_set x (clients_store c) (''hookver:'' @ hv_hook_id ver @ '':'' @ pad_zero 6 (show_nat (unat (hv_version ver))))
       (hook_version_to_json ver))"

definition list_hook_versions :: "'s ext \<Rightarrow> string \<Rightarrow> (hook_version list, 's) act" where
  "list_hook_versions x hook_id = try_io get_config (\<lambda>c.
     try_io (kv_prefix x hook_version_of_json (clients_store c) (''hookver:'' @ hook_id @ '':'')) (\<lambda>rows.
     ret (sort_key hv_version (map snd rows))))"

lemmas store_admin_runs [code] =
  kv_schema_set_encrypted_def [THEN fun_cong] warm_tables.simps [THEN fun_cong] mark_encrypted.simps [THEN
  fun_cong] rewrite_keys.simps [THEN fun_cong] rewrite_tables.simps [THEN fun_cong]
  ensure_table_encryption_def [THEN fun_cong] ensure_default_client_def [THEN fun_cong]
  ensure_admin_client_def [THEN fun_cong] save_identity_provider_def [THEN fun_cong] get_identity_provider_def
  [THEN fun_cong] list_identity_providers_def [THEN fun_cong] get_identity_provider_by_type_def [THEN
  fun_cong] delete_identity_provider_def [THEN fun_cong] save_saml_service_provider_def [THEN fun_cong]
  get_saml_service_provider_def [THEN fun_cong] list_saml_service_providers_def [THEN fun_cong]
  delete_saml_service_provider_def [THEN fun_cong] get_saml_key_ring_def [THEN fun_cong]
  save_saml_key_ring_def [THEN fun_cong] create_saml_key_ring_def [THEN fun_cong]
  acquire_saml_rotation_lock_def [THEN fun_cong] release_saml_rotation_lock_def [THEN fun_cong]
  save_saml_flow_def [THEN fun_cong] consume_saml_flow_def [THEN fun_cong] reserve_saml_request_def [THEN
  fun_cong] save_scim_connection_def [THEN fun_cong] get_scim_connection_def [THEN fun_cong]
  list_scim_connections_def [THEN fun_cong] delete_scim_connection_def [THEN fun_cong]
  create_scim_identity_def [THEN fun_cong] save_scim_identity_def [THEN fun_cong] get_scim_identity_def [THEN
  fun_cong] get_scim_identity_by_user_def [THEN fun_cong] list_scim_identities_def [THEN fun_cong]
  delete_scim_identity_def [THEN fun_cong] save_social_identity_def [THEN fun_cong] get_social_identity_def
  [THEN fun_cong] delete_social_identity_def [THEN fun_cong] save_hook_def [THEN fun_cong] get_hook_def [THEN
  fun_cong] list_hooks_def [THEN fun_cong] delete_hook_def [THEN fun_cong] save_hook_version_def [THEN
  fun_cong] list_hook_versions_def [THEN fun_cong]

section \<open>Frames\<close>

context jetcache
begin

lemma admin_record_frames [frames_intro]:
  "frames view A (get_identity_provider x i)"
  "frames view A (list_identity_providers x)"
  "frames view A (get_identity_provider_by_type x ty)"
  "frames view A (get_saml_service_provider x i)"
  "frames view A (list_saml_service_providers x)"
  "frames view A (get_scim_connection x i)"
  "frames view A (list_scim_connections x)"
  "frames view A (get_scim_identity x c e)"
  "frames view A (get_scim_identity_by_user x c u)"
  "frames view A (list_scim_identities x c)"
  "frames view A (get_social_identity x p q)"
  "frames view A (get_hook x i)"
  "frames view A (list_hooks x)"
  "frames view A (list_hook_versions x i)"
  unfolding get_identity_provider_def list_identity_providers_def get_identity_provider_by_type_def
    get_saml_service_provider_def list_saml_service_providers_def get_scim_connection_def
    list_scim_connections_def get_scim_identity_def get_scim_identity_by_user_def
    list_scim_identities_def get_social_identity_def get_hook_def list_hooks_def list_hook_versions_def
  by (intro frames_intro; simp)+

end

section \<open>The migration keeps every record\<close>

text \<open>
  Between two worlds the bytes stored at an address outside \<open>A\<close> are those stored before, up to
  expiry; the revision may be another one.
\<close>

definition keeps_bytes :: "'s ext \<Rightarrow> 's view \<Rightarrow> addr set \<Rightarrow> 's world \<Rightarrow> 's world \<Rightarrow> bool" where
  "keeps_bytes x view A w w' \<longleftrightarrow> (\<forall>a b n. table_ok a \<longrightarrow> a \<notin> A \<longrightarrow>
     bytes_at x view (w_kv w') a = Some (b, n) \<longrightarrow> (\<exists>m. bytes_at x view (w_kv w) a = Some (b, m)))"

lemma survives_bytes_at:
  "survives view s s' a \<Longrightarrow> bytes_at x view s' a = Some e \<Longrightarrow> bytes_at x view s a = Some e"
  by (auto simp: survives_def bytes_at_None dest: bytes_at_cong [where x = x])

lemma keeps_bytes_trans: "keeps_bytes x view A w w1 \<Longrightarrow> keeps_bytes x view A w1 w2 \<Longrightarrow> keeps_bytes x view A w w2"
  unfolding keeps_bytes_def by blast

lemma keeps_bytes_touches: "touches view A w w' \<Longrightarrow> keeps_bytes x view A w w'"
  unfolding keeps_bytes_def touches_def survives_def bytes_at_def by force

lemma keeps_bytes_mono: "keeps_bytes x view A w w' \<Longrightarrow> A \<subseteq> B \<Longrightarrow> keeps_bytes x view B w w'"
  unfolding keeps_bytes_def by blast

context gateway
begin

lemma kv_rewrite_keeps:
  assumes t: "CHR '':'' \<notin> set t" and g: "kv_get_raw x t k w = (Ok (Some b), w1)" and s: "kv_set_raw x t k b w1 = (Ok u, w')"
  shows "keeps_bytes x view {} w w'"
  unfolding keeps_bytes_def
proof (intro allI impI)
  fix a c n
  assume ok: "table_ok a" and c: "bytes_at x view (w_kv w') a = Some (c, n)"
  have s1: "survives view (w_kv w) (w_kv w1) a" by (rule touchesD [OF kv_get_raw_touches [OF g t] ok]) simp
  show "\<exists>m. bytes_at x view (w_kv w) a = Some (c, m)"
  proof (cases "a = (t, k)")
    case True
    have "\<exists>m. bytes_at x view (w_kv w) (t, k) = Some (b, m)"
      using kv_get_raw_Ok [OF g] by (cases "bytes_at x view (w_kv w) (t, k)") auto
    moreover have "c = b" using kv_set_raw_Ok [OF s] c True by (auto simp: bytes_at_encoded)
    ultimately show ?thesis using True by simp
  next
    case False
    have "survives view (w_kv w1) (w_kv w') a" by (rule touchesD [OF kv_set_raw_touches [OF s t] ok]) (use False in simp)
    with s1 have "survives view (w_kv w) (w_kv w') a" by (rule survives_trans)
    from survives_bytes_at [OF this c] show ?thesis ..
  qed
qed

lemma rewrite_keys_keeps:
  assumes "CHR '':'' \<notin> set t"
  shows "rewrite_keys x t keys m w = (Ok n, w') \<Longrightarrow> keeps_bytes x view {} w w'"
proof (induction keys arbitrary: m w)
  case Nil
  then show ?case by (auto intro: keeps_bytes_touches)
next
  case (Cons k keys)
  from Cons.prems obtain o1 w1 where g: "kv_get_raw x t k w = (Ok o1, w1)"
    and r: "(case o1 of Some bytes \<Rightarrow> try_io (kv_set_raw x t k bytes) (\<lambda>_. rewrite_keys x t keys (m + 1))
     | None \<Rightarrow> rewrite_keys x t keys m) w1 = (Ok n, w')"
    unfolding rewrite_keys.simps by (elim try_io_Ok)
  show ?case
  proof (cases o1)
    case None
    with r Cons.IH have "keeps_bytes x view {} w1 w'" by simp
    with keeps_bytes_touches [OF kv_get_raw_touches [OF g assms]] show ?thesis by (rule keeps_bytes_trans)
  next
    case (Some b)
    with r obtain u w2 where s: "kv_set_raw x t k b w1 = (Ok u, w2)" and r2: "rewrite_keys x t keys (m + 1) w2 = (Ok n, w')"
      by (auto elim!: try_io_Ok)
    from kv_rewrite_keeps [OF assms g [unfolded Some] s] Cons.IH [OF r2] show ?thesis by (rule keeps_bytes_trans)
  qed
qed

lemma rewrite_tables_keeps:
  assumes "\<forall>t \<in> set ts. CHR '':'' \<notin> set t"
  shows "rewrite_tables x ts w = (Ok u, w') \<Longrightarrow> keeps_bytes x view {} w w'"
  using assms
proof (induction ts arbitrary: w)
  case Nil
  then show ?case by (auto intro: keeps_bytes_touches)
next
  case (Cons t ts)
  show ?case
  proof (cases "t = ''abuse-rate-limits''")
    case True
    with Cons show ?thesis by simp
  next
    case False
    with Cons.prems(1) obtain keys w1 n w2 where l: "kv_list_keys x t w = (Ok keys, w1)"
      and k: "rewrite_keys x t keys 0 w1 = (Ok n, w2)" and r: "rewrite_tables x ts w2 = (Ok u, w')"
      by (auto elim!: try_io_Ok split: if_splits)
    have c: "CHR '':'' \<notin> set t" using Cons.prems(2) by simp
    have "keeps_bytes x view {} w w1" by (rule keeps_bytes_touches [OF framesD [OF kv_list_keys_frames [OF c] l]])
    moreover have "keeps_bytes x view {} w1 w2" by (rule rewrite_keys_keeps [OF c k])
    moreover have "keeps_bytes x view {} w2 w'" using Cons.IH [OF r] Cons.prems(2) by simp
    ultimately show ?thesis by (blast intro: keeps_bytes_trans)
  qed
qed

lemma warm_tables_touches: "\<forall>t \<in> set ts. CHR '':'' \<notin> set t \<Longrightarrow> frames view {} (warm_tables x ts)"
proof (induction ts)
  case Nil
  show ?case unfolding warm_tables.simps by (intro frames_intro)
next
  case (Cons t ts)
  then show ?case unfolding warm_tables.simps by (intro frames_intro) auto
qed

text \<open>A schema request names a table and no key.\<close>

lemma mark_encrypted_touches:
  "\<forall>t \<in> set ts. CHR '':'' \<notin> set t \<Longrightarrow> frames view {(t, []) | t. True} (mark_encrypted x ts)"
proof (induction ts)
  case Nil
  show ?case unfolding mark_encrypted.simps by (intro frames_intro)
next
  case (Cons t ts)
  let ?p = "JObj [(''table'', JStr t), (''schema'', JObj [(''encrypted'', JBool True)])]"
  have a: "addr_of ?p = (t, [])" by (simp add: addr_of_def jget_str_def)
  have "frames view {(t, []) | t. True} (ldb_request x ''schema.set'' ?p)"
  proof (rule framesI [OF _ steady_request])
    fix w r w'
    assume "ldb_request x ''schema.set'' ?p w = (r, w')"
    then have "touches view {(t, [])} w w'"
      using request_touches [of "''schema.set''" ?p w r w'] Cons.prems by (simp add: a table_ok_def)
    then show "touches view {(t, []) | t. True} w w'" by (rule touches_mono) blast
  qed
  then show ?case
    unfolding mark_encrypted.simps kv_schema_set_encrypted_def using Cons by (intro frames_intro) auto
qed

end
context gateway
begin

lemma ensure_table_encryption_Ok:
  assumes tn: "CHR '':'' \<notin> set (tenants_store (w_config w))" and run: "ensure_table_encryption x w = (Ok u, w')"
  shows "keeps_bytes x view {(t, k). k = [] \<or> k = encryption_migration_marker} w w' \<and>
    (encrypt_tables_enabled (w_config w) \<longrightarrow> view (w_kv w) (sess encryption_migration_marker) \<noteq> None \<or>
       view (w_kv w') (sess encryption_migration_marker) \<noteq> None)"
    (is "keeps_bytes x view ?A w w' \<and> _")
proof (cases "encrypt_tables_enabled (w_config w)")
  case False
  with run have "w' = w" by (simp add: ensure_table_encryption_def)
  with False show ?thesis by (auto intro: keeps_bytes_touches)
next
  case True
  let ?ts = "encrypted_tables (w_config w)"
  have ts: "\<forall>t \<in> set ?ts. CHR '':'' \<notin> set t" using tn by (simp add: encrypted_tables_def)
  from run True obtain o1 w1 where g: "kv_get_raw x sessions_store encryption_migration_marker w = (Ok o1, w1)"
    and r: "(if o1 \<noteq> None then ret () else
         try_io (warm_tables x ?ts) (\<lambda>_. try_io (mark_encrypted x ?ts) (\<lambda>_. try_io (rewrite_tables x ?ts) (\<lambda>_.
         kv_set_raw x sessions_store encryption_migration_marker ''{\"done\":true}'')))) w1 = (Ok u, w')"
    unfolding ensure_table_encryption_def Let_def try_get_config by (auto elim!: try_io_Ok)
  have k1: "keeps_bytes x view ?A w w1"
    by (rule keeps_bytes_touches, rule touches_mono [OF kv_get_raw_touches [OF g]]) simp_all
  show ?thesis
  proof (cases o1)
    case (Some b)
    have "view (w_kv w) (sess encryption_migration_marker) \<noteq> None"
    proof
      assume "view (w_kv w) (sess encryption_migration_marker) = None"
      with kv_get_raw_Ok [OF g] Some show False by (simp add: bytes_at_def)
    qed
    with Some r k1 show ?thesis by simp
  next
    case None
    with r obtain a b c w2 w3 w4 where wt: "warm_tables x ?ts w1 = (Ok a, w2)" and m: "mark_encrypted x ?ts w2 = (Ok b, w3)"
      and rw: "rewrite_tables x ?ts w3 = (Ok c, w4)"
      and s: "kv_set_raw x sessions_store encryption_migration_marker ''{\"done\":true}'' w4 = (Ok u, w')"
      by (auto elim!: try_io_Ok)
    have "keeps_bytes x view ?A w1 w2"
      by (rule keeps_bytes_touches, rule touches_mono [OF framesD [OF warm_tables_touches [OF ts] wt]]) simp
    moreover have "keeps_bytes x view ?A w2 w3"
      by (rule keeps_bytes_touches, rule touches_mono [OF framesD [OF mark_encrypted_touches [OF ts] m]]) auto
    moreover have "keeps_bytes x view ?A w3 w4"
      by (rule keeps_bytes_mono [OF rewrite_tables_keeps [OF ts rw]]) simp
    moreover have "keeps_bytes x view ?A w4 w'"
      by (rule keeps_bytes_touches, rule touches_mono [OF kv_set_raw_touches [OF s]]) auto
    ultimately have "keeps_bytes x view ?A w w'" using k1 by (blast intro: keeps_bytes_trans)
    moreover have "view (w_kv w') (sess encryption_migration_marker) \<noteq> None" using kv_set_raw_Ok [OF s] by auto
    ultimately show ?thesis by blast
  qed
qed

text \<open>A SCIM identity is found by its external identifier and by its user, or it is not created.\<close>

lemma create_scim_identity_Ok:
  assumes run: "create_scim_identity x d w = (Ok u, w')"
    and ne: "scim_identity_key (sd_connection_id d) (sd_external_id d) \<noteq> scim_user_key (sd_connection_id d) (sd_user_id d)"
  shows "view (w_kv w) (idx_at (scim_identity_key (sd_connection_id d) (sd_external_id d))) = None \<and>
    (\<exists>s n. rec_at x view scim_identity_of_json s (idx_at (scim_identity_key (sd_connection_id d) (sd_external_id d))) = Some (d, n) \<and>
      survives view s (w_kv w') (idx_at (scim_identity_key (sd_connection_id d) (sd_external_id d)))) \<and>
    (\<exists>n. rec_at x view scim_identity_of_json (w_kv w') (idx_at (scim_user_key (sd_connection_id d) (sd_user_id d))) = Some (d, n))"
proof -
  let ?p = "scim_identity_key (sd_connection_id d) (sd_external_id d)" and ?q = "scim_user_key (sd_connection_id d) (sd_user_id d)"
  let ?b = "x_to_vec x (scim_identity_to_json d)"
  from run obtain r1 w1 where c1: "kv_cas_create_raw x user_idx_store ?p ?b w = (Ok r1, w1)"
    and m: "match_io (kv_cas_create_raw x user_idx_store ?q ?b) (\<lambda>_. ret ())
           (\<lambda>e. ignore_io (kv_delete x user_idx_store ?p) (fail e)) w1 = (Ok u, w')"
    unfolding create_scim_identity_def Let_def by (auto elim!: try_io_Ok simp: map_err_Ok)
  from m obtain r2 where c2: "kv_cas_create_raw x user_idx_store ?q ?b w1 = (Ok r2, w')"
    by (elim match_io_cases) (auto elim!: ignore_io_Ok)
  have "survives view (w_kv w1) (w_kv w') (idx_at ?p)"
    by (rule touchesD [OF kv_cas_create_raw_touches [OF c2]]) (use ne in \<open>simp_all add: table_ok_def\<close>)
  moreover have "\<exists>n. rec_at x view scim_identity_of_json (w_kv w1) (idx_at ?p) = Some (d, n)"
    using kv_cas_create_raw_Ok [OF c1] by (auto simp: rec_at_encoded scim_identity_roundtrip)
  moreover have "\<exists>n. rec_at x view scim_identity_of_json (w_kv w') (idx_at ?q) = Some (d, n)"
    using kv_cas_create_raw_Ok [OF c2] by (auto simp: rec_at_encoded scim_identity_roundtrip)
  ultimately show ?thesis using kv_cas_create_raw_Ok [OF c1] by blast
qed

end

section \<open>Properties\<close>


text \<open>A storage server that accepts schema requests.\<close>

definition schema_tcp :: "string \<Rightarrow> json \<Rightarrow> kv_map \<Rightarrow> (string + json) \<times> kv_map" where
  "schema_tcp op p m = (if op = ''schema.set'' then (Inr (JObj []), m) else handle_test_ldb_request op p m)"

definition schema_ext :: "kv_map ext" where
  "schema_ext = mem_ext\<lparr>x_tcp := schema_tcp\<rparr>"

lemma schema_reply: "ldb_reply schema_ext op p m =
    (if op = ''schema.set'' then (Inr (JObj []), m) else ldb_reply mem_ext op p m)"
  by (simp add: ldb_reply_def schema_ext_def schema_tcp_def jget_str_def)

lemma schema_gateway: "gateway schema_ext mem_view"
proof -
  have j: "jetcache mem_ext mem_view" and c: "codec mem_ext"
    using mem_gateway by (simp_all add: gateway_def)
  from j have "jetcache schema_ext mem_view"
    unfolding jetcache_def schema_reply by (auto split: if_splits)
  moreover from c have "codec schema_ext" by (simp add: codec_def schema_ext_def)
  ultimately show ?thesis by (simp add: gateway_def)
qed

definition migration_w :: "kv_map world" where
  "migration_w = (demo_world_at 1000 [(''users:user:u'', ''x'', 1), (''sessions:code:c'', ''y'', 2)])
     \<lparr>w_config := Some (init_config (map_of [(''encrypt_tables'', ''true'')]))\<rparr>"


text \<open>C30. A SAML request is answered once: while the mark of its first use is in place, using the same
  request of the same service provider again is refused.\<close>

theorem saml_request_answered_once:
  assumes "gateway x view" and "reserve_saml_request x i r w = (Ok u, w1)"
    and "view (w_kv w2) (sess (''saml_request:'' @ i @ '':'' @ sha256_hex x r)) =
      view (w_kv w1) (sess (''saml_request:'' @ i @ '':'' @ sha256_hex x r))"
    and "reserve_saml_request x i r w2 = (q, w3)"
  shows "view (w_kv w) (sess (''saml_request:'' @ i @ '':'' @ sha256_hex x r)) = None \<and> q \<noteq> Ok u'"
proof -
  let ?k = "''saml_request:'' @ i @ '':'' @ sha256_hex x r"
  note j = gateway.axioms(1) [OF assms(1)]
  from assms(2) have "kv_create_raw x sessions_store ?k [] (Some ttl_auth_session) w = (Ok u, w1)"
    by (simp add: reserve_saml_request_def map_err_Ok)
  from jetcache.kv_create_raw_Ok [OF j this] have a: "view (w_kv w) (sess ?k) = None" "view (w_kv w1) (sess ?k) \<noteq> None" by auto
  have "q \<noteq> Ok u'"
  proof
    assume "q = Ok u'"
    with assms(4) have "kv_create_raw x sessions_store ?k [] (Some ttl_auth_session) w2 = (Ok u', w3)"
      by (simp add: reserve_saml_request_def map_err_Ok)
    from jetcache.kv_create_raw_Ok [OF j this] a assms(3) show False by simp
  qed
  with a show ?thesis by blast
qed

lemma saml_request_answered_once_witness:
  "\<exists>w1. reserve_saml_request mem_ext ''sp'' ''r'' demo_world = (Ok (), w1) \<and>
    fst (reserve_saml_request mem_ext ''sp'' ''r'' w1) \<noteq> Ok ()"
proof -
  have "fst (reserve_saml_request mem_ext ''sp'' ''r'' demo_world) = Ok ()" by code_simp
  then have run: "reserve_saml_request mem_ext ''sp'' ''r'' demo_world = (Ok (), snd (reserve_saml_request mem_ext ''sp'' ''r'' demo_world))"
    by (rule run_Ok)
  from saml_request_answered_once [OF mem_gateway run refl
    run_fst [of "reserve_saml_request mem_ext ''sp'' ''r''"], where u' = "()"] run show ?thesis by blast
qed

end
