(* ===== verification/Par.thy ===== *)
theory Par
  imports Token
begin

text \<open>
  Pushed authorization requests (\<open>par.rs\<close>): the endpoint authenticates the client, checks the
  parameters and stores them, without credentials, under a fresh reference with a short lifetime.
\<close>

section \<open>The endpoint\<close>

definition par_error :: "'s ext \<Rightarrow> nat \<Rightarrow> string \<Rightarrow> string \<Rightarrow> response" where
  "par_error x status error description =
     json_no_store x status (JObj [(''error'', JStr error), (''error_description'', JStr description)])"

text \<open>The checks between authentication and storing, in the order of the code.\<close>

definition check_par :: "'s ext \<Rightarrow> (string \<times> string) list \<Rightarrow> oidc_client \<Rightarrow> string \<Rightarrow> response option" where
  "check_par x form client auth_method =
    (if confidential client \<and> auth_method = ''none''
     then Some (par_error x 401 ''invalid_client'' ''confidential client must authenticate at the PAR endpoint'')
     else if form_value form ''request_uri'' \<noteq> None
     then Some (par_error x 400 ''invalid_request''
       ''request_uri parameter is not permitted in a pushed authorization request'')
     else if form_value form ''client_id'' \<notin> {None, Some (cl_client_id client)}
     then Some (par_error x 400 ''invalid_request'' ''client_id mismatch between authentication and request body'')
     else (case form_value form ''response_type'' of
         None \<Rightarrow> Some (par_error x 400 ''invalid_request'' ''missing response_type'')
       | Some response_type \<Rightarrow>
           if response_type \<noteq> ''code''
           then Some (par_error x 400 ''unsupported_response_type'' ''only response_type=code is supported'')
           else (case form_value form ''redirect_uri'' of
               None \<Rightarrow> Some (par_error x 400 ''invalid_request'' ''missing redirect_uri'')
             | Some redirect_uri \<Rightarrow>
                 if redirect_uri \<notin> set (cl_redirect_uris client)
                 then Some (par_error x 400 ''invalid_request'' ''redirect_uri is not registered for this client'')
                 else if form_value form ''code_challenge_method'' \<notin> {None, Some ''S256''}
                 then Some (par_error x 400 ''invalid_request'' ''code_challenge_method must be S256'')
                 else None)))"

definition credential_names :: "string list" where
  "credential_names = [''client_secret'', ''client_assertion'', ''client_assertion_type'']"

text \<open>Inserting into a map keeps the last of several values of a parameter.\<close>

definition keep_param :: "(string \<times> string) list \<Rightarrow> string \<times> string \<Rightarrow> (string \<times> string) list" where
  "keep_param m = (\<lambda>(k, v). if k \<in> set credential_names then m else AList.update k v m)"

definition par_params :: "(string \<times> string) list \<Rightarrow> string \<Rightarrow> (string \<times> string) list" where
  "par_params form client_id = AList.update ''client_id'' client_id (foldl keep_param [] form)"

definition store_par :: "'s ext \<Rightarrow> (string \<times> string) list \<Rightarrow> oidc_client \<Rightarrow> (response, 's) act" where
  "store_par x form client =
     try_io (random_hex 24) (\<lambda>nonce.
     let request_uri = ''urn:ietf:params:oauth:request_uri:'' @ nonce in
     try_io unix_now (\<lambda>now.
     let expires_at = now + ttl_par_request in
     try_io unix_now (\<lambda>created_at.
     match_io (save_pushed_auth_request x request_uri \<lparr>par_client_id = cl_client_id client,
         par_parameters = par_params form (cl_client_id client), par_created_at = created_at,
         par_expires_at = expires_at\<rparr> ttl_par_request)
       (\<lambda>_. ret (json_no_store x 201 (JObj [(''request_uri'', JStr request_uri), (''expires_in'', jnum ttl_par_request)])))
       (\<lambda>e. ret (par_error x 500 ''server_error'' (''failed to store PAR request: '' @ e))))))"

definition handle_par :: "'s ext \<Rightarrow> bytes \<Rightarrow> string \<Rightarrow> string option \<Rightarrow> (response, 's) act" where
  "handle_par x body issuer auth_header =
     (let form = parse_form body in
      match_io (authenticate_client x form auth_header issuer ''/connect/par'')
        (\<lambda>ac. case check_par x form (au_client ac) (au_method ac) of
            Some error \<Rightarrow> ret error
          | None \<Rightarrow> store_par x form (au_client ac))
        (\<lambda>e. ret (par_error x (if mentions [''multiple'', ''missing''] e then 400 else 401) ''invalid_client'' e)))"

lemmas par_runs [code] = store_par_def [THEN fun_cong] handle_par_def [THEN fun_cong]

section \<open>Lemmas\<close>

lemma par_params_client [simp]: "map_of (par_params form i) ''client_id'' = Some i"
  by (simp add: par_params_def update_conv)

lemma keep_param_names:
  "fst ` set m \<inter> set credential_names = {} \<Longrightarrow> fst ` set (foldl keep_param m form) \<inter> set credential_names = {}"
proof (induction form arbitrary: m)
  case Nil
  then show ?case by simp
next
  case (Cons kv form)
  obtain k v where kv: "kv = (k, v)" by (cases kv)
  have "fst ` set (keep_param m kv) \<inter> set credential_names = {}"
    using Cons.prems by (auto simp: keep_param_def kv dom_update)
  then show ?case using Cons.IH by simp
qed

lemma par_params_no_credentials: "fst ` set (par_params form i) \<inter> set credential_names = {}"
proof -
  have "fst ` set (foldl keep_param [] form) \<inter> set credential_names = {}" by (rule keep_param_names) simp
  then show ?thesis by (auto simp: par_params_def dom_update credential_names_def)
qed

definition par_addrs :: "addr set" where
  "par_addrs = {a. \<exists>k. a = sess (''par:'' @ k)}"

context gateway
begin

lemma store_par_Ok:
  assumes "store_par x form client w = (Ok resp, w')" and "rs_status resp = 201"
  shows "\<exists>uri e n now. rs_body resp = json_text x (JObj [(''request_uri'', JStr uri), (''expires_in'', jnum ttl_par_request)]) \<and>
    rec_at x view pushed_auth_request_of_json (w_kv w') (sess (''par:'' @ uri)) = Some (e, n) \<and>
    par_client_id e = cl_client_id client \<and> par_parameters e = par_params form (cl_client_id client) \<and>
    now = w_clock w (w_ticks w) \<and> par_expires_at e = now + ttl_par_request"
proof -
  from assms(1) obtain nonce w1 where n: "random_hex 24 w = (Ok nonce, w1)" and r: "try_io unix_now (\<lambda>now.
       try_io unix_now (\<lambda>created_at. match_io (save_pushed_auth_request x (''urn:ietf:params:oauth:request_uri:'' @ nonce)
         \<lparr>par_client_id = cl_client_id client, par_parameters = par_params form (cl_client_id client),
          par_created_at = created_at, par_expires_at = now + ttl_par_request\<rparr> ttl_par_request)
       (\<lambda>_. ret (json_no_store x 201 (JObj [(''request_uri'', JStr (''urn:ietf:params:oauth:request_uri:'' @ nonce)),
          (''expires_in'', jnum ttl_par_request)])))
       (\<lambda>e. ret (par_error x 500 ''server_error'' (''failed to store PAR request: '' @ e))))) w1 = (Ok resp, w')"
    unfolding store_par_def Let_def by (rule try_io_Ok)
  from n have w1: "w_clock w1 = w_clock w" "w_ticks w1 = w_ticks w" by (simp_all add: random_hex_Ok)
  from r show ?thesis unfolding try_unix_now
  proof (cases rule: match_io_cases)
    case (ok y w2)
    from ok(1) have "\<exists>m. rec_at x view pushed_auth_request_of_json (w_kv w2)
        (sess (''par:'' @ ''urn:ietf:params:oauth:request_uri:'' @ nonce)) =
      Some (\<lparr>par_client_id = cl_client_id client, par_parameters = par_params form (cl_client_id client),
          par_created_at = w_clock w1 (Suc (w_ticks w1)), par_expires_at = w_clock w1 (w_ticks w1) + ttl_par_request\<rparr>, m)"
      unfolding save_pushed_auth_request_def
      by (auto dest!: kv_set_ttl_Ok simp: rec_at_encoded pushed_auth_request_roundtrip)
    with ok(2) w1 show ?thesis by fastforce
  next
    case (err e w2)
    then have "resp = par_error x 500 ''server_error'' (''failed to store PAR request: '' @ e)" by simp
    with assms(2) show ?thesis by (simp add: par_error_def)
  qed
qed

end

lemma check_par_status: "check_par x form client m = Some r \<Longrightarrow> rs_status r \<in> {400, 401}"
  by (auto simp: check_par_def par_error_def split: if_splits option.splits)

lemma check_par_None: "check_par x form client m = None \<Longrightarrow>
    (confidential client \<longrightarrow> m \<noteq> ''none'') \<and> form_value form ''request_uri'' = None \<and>
    form_value form ''response_type'' = Some ''code'' \<and>
    (\<exists>u \<in> set (cl_redirect_uris client). form_value form ''redirect_uri'' = Some u) \<and>
    form_value form ''code_challenge_method'' \<in> {None, Some ''S256''}"
  by (auto simp: check_par_def split: if_splits option.splits)

section \<open>Properties\<close>

text \<open>C31. A pushed request that is accepted was sent by a client that authenticated (a confidential one
  with a credential), asks for a code with a registered redirect address and no challenge method but
  S256, and is stored under the reference returned, for that client, without its credentials and
  with the lifetime announced.\<close>

theorem pushed_request_sound:
  assumes "gateway x view" and "handle_par x body issuer hdr w = (Ok resp, w')" and "rs_status resp = 201"
  shows "\<exists>ac w1 uri e n now. authenticate_client x (parse_form body) hdr issuer ''/connect/par'' w = (Ok ac, w1) \<and>
    (confidential (au_client ac) \<longrightarrow> au_method ac \<noteq> ''none'') \<and>
    (\<exists>u \<in> set (cl_redirect_uris (au_client ac)). form_value (parse_form body) ''redirect_uri'' = Some u) \<and>
    form_value (parse_form body) ''code_challenge_method'' \<in> {None, Some ''S256''} \<and>
    rs_body resp = json_text x (JObj [(''request_uri'', JStr uri), (''expires_in'', jnum ttl_par_request)]) \<and>
    rec_at x view pushed_auth_request_of_json (w_kv w') (sess (''par:'' @ uri)) = Some (e, n) \<and>
    par_client_id e = cl_client_id (au_client ac) \<and>
    map_of (par_parameters e) ''client_id'' = Some (cl_client_id (au_client ac)) \<and>
    fst ` set (par_parameters e) \<inter> set credential_names = {} \<and>
    now = w_clock w1 (w_ticks w1) \<and> par_expires_at e = now + ttl_par_request"
proof -
  let ?f = "parse_form body"
  from assms(2) show ?thesis unfolding handle_par_def Let_def
  proof (cases rule: match_io_cases)
    case (ok ac w1)
    from ok(2) assms(3) have none: "check_par x ?f (au_client ac) (au_method ac) = None"
      and st: "store_par x ?f (au_client ac) w1 = (Ok resp, w')"
      by (auto split: option.splits dest: check_par_status)
    from gateway.store_par_Ok [OF assms(1) st assms(3)] ok(1) check_par_None [OF none]
      par_params_no_credentials [of ?f "cl_client_id (au_client ac)"] par_params_client [of ?f "cl_client_id (au_client ac)"]
    show ?thesis by metis
  next
    case (err e w1)
    then have "resp = par_error x (if mentions [''multiple'', ''missing''] e then 400 else 401) ''invalid_client'' e" by simp
    with assms(3) show ?thesis by (simp add: par_error_def split: if_splits)
  qed
qed

definition par_body :: bytes where
  "par_body = ''client_id=app&client_secret=pw&response_type=code&redirect_uri=https://app/cb&code_challenge_method=S256''"

lemma pushed_request_sound_witness:
  "\<exists>resp w' e n uri. handle_par mem_ext par_body ''https://id'' None client_w0 = (Ok resp, w') \<and>
    rec_at mem_ext mem_view pushed_auth_request_of_json (w_kv w') (sess (''par:'' @ uri)) = Some (e, n) \<and>
    fst ` set (par_parameters e) \<inter> set credential_names = {}"
proof -
  let ?run = "handle_par mem_ext par_body ''https://id'' None"
  have st: "map_option rs_status (case fst (?run client_w0) of Ok r \<Rightarrow> Some r | _ \<Rightarrow> None) = Some 201" by code_simp
  then obtain resp where "fst (?run client_w0) = Ok resp" and s: "rs_status resp = 201"
    by (auto split: res.splits)
  then have run: "?run client_w0 = (Ok resp, snd (?run client_w0))" by (intro run_Ok [where m = ?run])
  from pushed_request_sound [OF mem_gateway run s] run show ?thesis by blast
qed

end
