(* ===== verification/Theme.thy ===== *)
theory Theme
  imports Store_Admin
begin

text \<open>
  The themes of the hosted pages (\<open>theme.rs\<close>): the built-in presets and how a client's theme is
  laid over the global one and a preset, the validation of a theme before it is stored, and the
  rendering of its parts into a page, with the sanitising of everything that comes from a theme.
\<close>

section \<open>Presets\<close>

definition theme_jetauth_dark :: client_theme where
  "theme_jetauth_dark = \<lparr>th_app_name = ''JetAuth'',
     th_logo_url = None,
     th_logo_height = Some ''48px'',
     th_favicon_url = None,
     th_theme_preset = Some ''jetauth-dark'',
     th_primary_color = Some ''#10b981'',
     th_primary_hover_color = Some ''#059669'',
     th_background_color = Some ''linear-gradient(135deg, #090d16 0%, #0d1b2a 50%, #061e24 100%)'',
     th_background_image_url = None,
     th_card_background = Some ''rgba(15, 23, 42, 0.75)'',
     th_card_border = Some ''1px solid rgba(255, 255, 255, 0.12)'',
     th_card_shadow = Some ''0 25px 50px -12px rgba(0, 0, 0, 0.5), 0 0 30px rgba(16, 185, 129, 0.12)'',
     th_card_backdrop_blur = Some ''20px'',
     th_text_color = Some ''#f8fafc'',
     th_text_muted_color = Some ''#94a3b8'',
     th_input_background = Some ''rgba(30, 41, 59, 0.6)'',
     th_input_border_color = Some ''rgba(255, 255, 255, 0.16)'',
     th_input_text_color = Some ''#f8fafc'',
     th_button_text_color = Some ''#ffffff'',
     th_border_radius = Some ''14px'',
     th_font_family = Some ([CHR 0x27] @ ''Plus Jakarta Sans'' @ [CHR 0x27] @ '', system-ui, -apple-system, sans-serif''),
     th_font_url = Some ''https://fonts.googleapis.com/css2?family=Plus+Jakarta+Sans:wght@400;500;600;700&display=swap'',
     th_footer_text = None,
     th_powered_by_text = Some ''Powered by JetAuth'',
     th_hide_powered_by = False,
     th_terms_url = None,
     th_privacy_url = None,
     th_help_url = None,
     th_custom_css = None\<rparr>"

definition theme_jetauth_light :: client_theme where
  "theme_jetauth_light = \<lparr>th_app_name = ''JetAuth'',
     th_logo_url = None,
     th_logo_height = Some ''48px'',
     th_favicon_url = None,
     th_theme_preset = Some ''jetauth-light'',
     th_primary_color = Some ''#059669'',
     th_primary_hover_color = Some ''#047857'',
     th_background_color = Some ''linear-gradient(135deg, #f0fdf4 0%, #f8fafc 50%, #ecfdf5 100%)'',
     th_background_image_url = None,
     th_card_background = Some ''#ffffff'',
     th_card_border = Some ''1px solid #e2e8f0'',
     th_card_shadow = Some ''0 20px 25px -5px rgba(0, 0, 0, 0.05), 0 8px 10px -6px rgba(0, 0, 0, 0.03)'',
     th_card_backdrop_blur = Some ''0px'',
     th_text_color = Some ''#0f172a'',
     th_text_muted_color = Some ''#64748b'',
     th_input_background = Some ''#f8fafc'',
     th_input_border_color = Some ''#cbd5e1'',
     th_input_text_color = Some ''#0f172a'',
     th_button_text_color = Some ''#ffffff'',
     th_border_radius = Some ''12px'',
     th_font_family = Some ([CHR 0x27] @ ''Plus Jakarta Sans'' @ [CHR 0x27] @ '', system-ui, -apple-system, sans-serif''),
     th_font_url = Some ''https://fonts.googleapis.com/css2?family=Plus+Jakarta+Sans:wght@400;500;600;700&display=swap'',
     th_footer_text = None,
     th_powered_by_text = Some ''Powered by JetAuth'',
     th_hide_powered_by = False,
     th_terms_url = None,
     th_privacy_url = None,
     th_help_url = None,
     th_custom_css = None\<rparr>"

definition theme_glassmorphism :: client_theme where
  "theme_glassmorphism = \<lparr>th_app_name = ''JetAuth'',
     th_logo_url = None,
     th_logo_height = Some ''48px'',
     th_favicon_url = None,
     th_theme_preset = Some ''glassmorphism'',
     th_primary_color = Some ''#6366f1'',
     th_primary_hover_color = Some ''#4f46e5'',
     th_background_color = Some ''radial-gradient(at 0% 0%, #c084fc 0px, transparent 50%), radial-gradient(at 100% 0%, #38bdf8 0px, transparent 50%), radial-gradient(at 100% 100%, #818cf8 0px, transparent 50%), radial-gradient(at 0% 100%, #f472b6 0px, transparent 50%), #0f172a'',
     th_background_image_url = None,
     th_card_background = Some ''rgba(255, 255, 255, 0.12)'',
     th_card_border = Some ''1px solid rgba(255, 255, 255, 0.25)'',
     th_card_shadow = Some ''0 8px 32px 0 rgba(0, 0, 0, 0.37)'',
     th_card_backdrop_blur = Some ''24px'',
     th_text_color = Some ''#ffffff'',
     th_text_muted_color = Some ''rgba(255, 255, 255, 0.75)'',
     th_input_background = Some ''rgba(255, 255, 255, 0.08)'',
     th_input_border_color = Some ''rgba(255, 255, 255, 0.2)'',
     th_input_text_color = Some ''#ffffff'',
     th_button_text_color = Some ''#ffffff'',
     th_border_radius = Some ''20px'',
     th_font_family = Some ([CHR 0x27] @ ''Inter'' @ [CHR 0x27] @ '', system-ui, -apple-system, sans-serif''),
     th_font_url = Some ''https://fonts.googleapis.com/css2?family=Inter:wght@400;500;600;700&display=swap'',
     th_footer_text = None,
     th_powered_by_text = Some ''Powered by JetAuth'',
     th_hide_powered_by = False,
     th_terms_url = None,
     th_privacy_url = None,
     th_help_url = None,
     th_custom_css = None\<rparr>"

definition theme_cyberpunk :: client_theme where
  "theme_cyberpunk = \<lparr>th_app_name = ''JetAuth'',
     th_logo_url = None,
     th_logo_height = Some ''48px'',
     th_favicon_url = None,
     th_theme_preset = Some ''cyberpunk'',
     th_primary_color = Some ''#06b6d4'',
     th_primary_hover_color = Some ''#0891b2'',
     th_background_color = Some ''#05050a'',
     th_background_image_url = None,
     th_card_background = Some ''rgba(13, 14, 25, 0.92)'',
     th_card_border = Some ''1px solid #06b6d4'',
     th_card_shadow = Some ''0 0 25px rgba(6, 182, 212, 0.35), inset 0 0 15px rgba(6, 182, 212, 0.05)'',
     th_card_backdrop_blur = Some ''10px'',
     th_text_color = Some ''#f0fdf4'',
     th_text_muted_color = Some ''#94a3b8'',
     th_input_background = Some ''#0d1117'',
     th_input_border_color = Some ''#1e293b'',
     th_input_text_color = Some ''#38bdf8'',
     th_button_text_color = Some ''#05050a'',
     th_border_radius = Some ''4px'',
     th_font_family = Some ([CHR 0x27] @ ''Space Grotesk'' @ [CHR 0x27] @ '', system-ui, -apple-system, sans-serif''),
     th_font_url = Some ''https://fonts.googleapis.com/css2?family=Space+Grotesk:wght@400;600;700&display=swap'',
     th_footer_text = None,
     th_powered_by_text = Some ''Powered by JetAuth'',
     th_hide_powered_by = False,
     th_terms_url = None,
     th_privacy_url = None,
     th_help_url = None,
     th_custom_css = None\<rparr>"

definition theme_minimal_noir :: client_theme where
  "theme_minimal_noir = \<lparr>th_app_name = ''JetAuth'',
     th_logo_url = None,
     th_logo_height = Some ''48px'',
     th_favicon_url = None,
     th_theme_preset = Some ''minimal-noir'',
     th_primary_color = Some ''#ffffff'',
     th_primary_hover_color = Some ''#e2e8f0'',
     th_background_color = Some ''#09090b'',
     th_background_image_url = None,
     th_card_background = Some ''#121215'',
     th_card_border = Some ''1px solid #27272a'',
     th_card_shadow = Some ''0 20px 25px -5px rgba(0, 0, 0, 0.5)'',
     th_card_backdrop_blur = Some ''0px'',
     th_text_color = Some ''#fafafa'',
     th_text_muted_color = Some ''#a1a1aa'',
     th_input_background = Some ''#18181b'',
     th_input_border_color = Some ''#27272a'',
     th_input_text_color = Some ''#fafafa'',
     th_button_text_color = Some ''#09090b'',
     th_border_radius = Some ''8px'',
     th_font_family = Some ([CHR 0x27] @ ''Inter'' @ [CHR 0x27] @ '', system-ui, -apple-system, sans-serif''),
     th_font_url = Some ''https://fonts.googleapis.com/css2?family=Inter:wght@400;500;600&display=swap'',
     th_footer_text = None,
     th_powered_by_text = Some ''Powered by JetAuth'',
     th_hide_powered_by = False,
     th_terms_url = None,
     th_privacy_url = None,
     th_help_url = None,
     th_custom_css = None\<rparr>"

definition theme_neo_brutalist :: client_theme where
  "theme_neo_brutalist = \<lparr>th_app_name = ''JetAuth'',
     th_logo_url = None,
     th_logo_height = Some ''48px'',
     th_favicon_url = None,
     th_theme_preset = Some ''neo-brutalist'',
     th_primary_color = Some ''#facc15'',
     th_primary_hover_color = Some ''#eab308'',
     th_background_color = Some ''#fffbeb'',
     th_background_image_url = None,
     th_card_background = Some ''#ffffff'',
     th_card_border = Some ''3px solid #000000'',
     th_card_shadow = Some ''6px 6px 0px #000000'',
     th_card_backdrop_blur = Some ''0px'',
     th_text_color = Some ''#000000'',
     th_text_muted_color = Some ''#4b5563'',
     th_input_background = Some ''#ffffff'',
     th_input_border_color = Some ''2px solid #000000'',
     th_input_text_color = Some ''#000000'',
     th_button_text_color = Some ''#000000'',
     th_border_radius = Some ''0px'',
     th_font_family = Some ''system-ui, -apple-system, sans-serif'',
     th_font_url = None,
     th_footer_text = None,
     th_powered_by_text = Some ''Powered by JetAuth'',
     th_hide_powered_by = False,
     th_terms_url = None,
     th_privacy_url = None,
     th_help_url = None,
     th_custom_css = None\<rparr>"

definition theme_default :: client_theme where
  "theme_default = \<lparr>th_app_name = ''JetAuth'',
     th_logo_url = None,
     th_logo_height = Some ''48px'',
     th_favicon_url = None,
     th_theme_preset = Some ''default'',
     th_primary_color = Some ''#2563eb'',
     th_primary_hover_color = Some ''#1d4ed8'',
     th_background_color = Some ''#f8fafc'',
     th_background_image_url = None,
     th_card_background = Some ''#ffffff'',
     th_card_border = Some ''1px solid #e2e8f0'',
     th_card_shadow = Some ''0 4px 6px -1px rgba(0, 0, 0, 0.1), 0 2px 4px -2px rgba(0, 0, 0, 0.1)'',
     th_card_backdrop_blur = Some ''0px'',
     th_text_color = Some ''#0f172a'',
     th_text_muted_color = Some ''#64748b'',
     th_input_background = Some ''#ffffff'',
     th_input_border_color = Some ''#cbd5e1'',
     th_input_text_color = Some ''#0f172a'',
     th_button_text_color = Some ''#ffffff'',
     th_border_radius = Some ''12px'',
     th_font_family = Some ''system-ui, -apple-system, sans-serif'',
     th_font_url = None,
     th_footer_text = None,
     th_powered_by_text = Some ''Powered by JetAuth'',
     th_hide_powered_by = False,
     th_terms_url = None,
     th_privacy_url = None,
     th_help_url = None,
     th_custom_css = None\<rparr>"

definition apply_preset :: "string \<Rightarrow> client_theme" where
  "apply_preset preset_name =
    (if preset_name = ''jetauth-dark'' then theme_jetauth_dark
     else if preset_name = ''jetauth-light'' then theme_jetauth_light
     else if preset_name \<in> {''glassmorphism'', ''glassmorphic'', ''glassmorphic-frost''} then theme_glassmorphism
     else if preset_name \<in> {''cyberpunk'', ''midnight-neon''} then theme_cyberpunk
     else if preset_name \<in> {''minimal-noir'', ''dark-luxury''} then theme_minimal_noir
     else if preset_name = ''neo-brutalist'' then theme_neo_brutalist
     else theme_default)"

definition known_theme_presets :: "string list" where
  "known_theme_presets = [''jetauth-dark'', ''jetauth-light'', ''glassmorphism'', ''glassmorphic'', ''glassmorphic-frost'', ''cyberpunk'', ''midnight-neon'', ''minimal-noir'', ''dark-luxury'', ''neo-brutalist'', ''default'']"

definition is_known_preset :: "string \<Rightarrow> bool" where
  "is_known_preset name \<longleftrightarrow> name \<in> set known_theme_presets"

definition over :: "'a option \<Rightarrow> 'a option \<Rightarrow> 'a option" where
  "over o1 base = (case o1 of None \<Rightarrow> base | Some v \<Rightarrow> Some v)"

definition overlay :: "client_theme \<Rightarrow> client_theme \<Rightarrow> client_theme" where
  "overlay base o1 = \<lparr>th_app_name = (if th_app_name o1 \<noteq> [] then th_app_name o1 else th_app_name base),
     th_logo_url = over (th_logo_url o1) (th_logo_url base),
     th_logo_height = over (th_logo_height o1) (th_logo_height base),
     th_favicon_url = over (th_favicon_url o1) (th_favicon_url base),
     th_theme_preset = over (th_theme_preset o1) (th_theme_preset base),
     th_primary_color = over (th_primary_color o1) (th_primary_color base),
     th_primary_hover_color = over (th_primary_hover_color o1) (th_primary_hover_color base),
     th_background_color = over (th_background_color o1) (th_background_color base),
     th_background_image_url = over (th_background_image_url o1) (th_background_image_url base),
     th_card_background = over (th_card_background o1) (th_card_background base),
     th_card_border = over (th_card_border o1) (th_card_border base),
     th_card_shadow = over (th_card_shadow o1) (th_card_shadow base),
     th_card_backdrop_blur = over (th_card_backdrop_blur o1) (th_card_backdrop_blur base),
     th_text_color = over (th_text_color o1) (th_text_color base),
     th_text_muted_color = over (th_text_muted_color o1) (th_text_muted_color base),
     th_input_background = over (th_input_background o1) (th_input_background base),
     th_input_border_color = over (th_input_border_color o1) (th_input_border_color base),
     th_input_text_color = over (th_input_text_color o1) (th_input_text_color base),
     th_button_text_color = over (th_button_text_color o1) (th_button_text_color base),
     th_border_radius = over (th_border_radius o1) (th_border_radius base),
     th_font_family = over (th_font_family o1) (th_font_family base),
     th_font_url = over (th_font_url o1) (th_font_url base),
     th_footer_text = over (th_footer_text o1) (th_footer_text base),
     th_powered_by_text = over (th_powered_by_text o1) (th_powered_by_text base),
     th_hide_powered_by = (th_hide_powered_by o1 \<or> th_hide_powered_by base),
     th_terms_url = over (th_terms_url o1) (th_terms_url base),
     th_privacy_url = over (th_privacy_url o1) (th_privacy_url base),
     th_help_url = over (th_help_url o1) (th_help_url base),
     th_custom_css = over (th_custom_css o1) (th_custom_css base)\<rparr>"

section \<open>Sanitising\<close>

text \<open>What follows an opening angle bracket up to the closing one is dropped; a comment ends at a
  closing bracket after two dashes.\<close>

fun skip_tag :: "string \<Rightarrow> string" where
  "skip_tag [] = []"
| "skip_tag (c # cs) = (if c = CHR ''>'' then cs else skip_tag cs)"

fun skip_comment :: "nat \<Rightarrow> string \<Rightarrow> string" where
  "skip_comment dash_count [] = []"
| "skip_comment dash_count (c # cs) =
     (if c = CHR ''-'' then skip_comment (dash_count + 1) cs
      else if c = CHR ''>'' \<and> 2 \<le> dash_count then cs
      else skip_comment 0 cs)"

lemma length_skip_tag: "length (skip_tag cs) \<le> length cs"
  by (induction cs) auto

lemma length_skip_comment: "length (skip_comment n cs) \<le> length cs"
  by (induction n cs rule: skip_comment.induct) auto

definition dangerous_tag :: "string \<Rightarrow> bool" where
  "dangerous_tag rem \<longleftrightarrow> (let lower = to_lowercase (take 8 rem) in
     starts_with ''</style'' lower \<or> starts_with ''<style'' lower \<or> starts_with ''<script'' lower \<or>
     starts_with ''</script'' lower)"

function strip_dangerous_css_tags_once :: "string \<Rightarrow> string" where
  "strip_dangerous_css_tags_once [] = []"
| "strip_dangerous_css_tags_once (c # cs) =
     (if dangerous_tag (c # cs) then strip_dangerous_css_tags_once (skip_tag cs)
      else if starts_with ''<!--'' (c # cs) then strip_dangerous_css_tags_once (skip_comment 0 cs)
      else c # strip_dangerous_css_tags_once cs)"
  by pat_completeness auto
termination
  by (relation "measure length") (auto simp: less_Suc_eq_le length_skip_tag length_skip_comment)

fun strip_passes :: "nat \<Rightarrow> string \<Rightarrow> string" where
  "strip_passes 0 current = current"
| "strip_passes (Suc n) current =
     (let next = strip_dangerous_css_tags_once current in
      if next = current then current else strip_passes n next)"

definition sanitize_custom_css :: "string \<Rightarrow> string" where
  "sanitize_custom_css css = filter (\<lambda>c. c \<noteq> CHR ''<'') (strip_passes 8 css)"

definition css_breaker :: "char \<Rightarrow> bool" where
  "css_breaker c \<longleftrightarrow> c \<in> {CHR ''<'', CHR ''>'', CHR ''{'', CHR ''}'', CHR '';'', CHR 0x5C, CHR 0x0A, CHR 0x0D, CHR 0x00}"

definition is_safe_css_value :: "string \<Rightarrow> bool" where
  "is_safe_css_value val \<longleftrightarrow> length val \<le> 512 \<and> list_all (\<lambda>c. \<not> css_breaker c) val \<and>
     (let lower = to_lowercase val in \<not> contains_str ''url('' lower \<and> \<not> contains_str ''@import'' lower \<and>
        \<not> contains_str ''expression('' lower)"

definition sanitize_css_value :: "string option \<Rightarrow> string \<Rightarrow> string" where
  "sanitize_css_value val fallback = (case val of
     Some v \<Rightarrow> if trim v \<noteq> [] \<and> is_safe_css_value v then v else fallback
   | None \<Rightarrow> fallback)"

section \<open>Validation\<close>

definition css_fields :: "client_theme \<Rightarrow> (string \<times> string option) list" where
  "css_fields t = [(''logo_height'', th_logo_height t), (''primary_color'', th_primary_color t),
     (''primary_hover_color'', th_primary_hover_color t), (''background_color'', th_background_color t),
     (''card_background'', th_card_background t), (''card_border'', th_card_border t),
     (''card_shadow'', th_card_shadow t), (''card_backdrop_blur'', th_card_backdrop_blur t),
     (''text_color'', th_text_color t), (''text_muted_color'', th_text_muted_color t),
     (''input_background'', th_input_background t), (''input_border_color'', th_input_border_color t),
     (''input_text_color'', th_input_text_color t), (''button_text_color'', th_button_text_color t),
     (''border_radius'', th_border_radius t), (''font_family'', th_font_family t)]"

definition url_fields :: "client_theme \<Rightarrow> (string \<times> string option) list" where
  "url_fields t = [(''logo_url'', th_logo_url t), (''favicon_url'', th_favicon_url t),
     (''background_image_url'', th_background_image_url t), (''font_url'', th_font_url t),
     (''terms_url'', th_terms_url t), (''privacy_url'', th_privacy_url t), (''help_url'', th_help_url t)]"

definition url_breaker :: "char \<Rightarrow> bool" where
  "url_breaker c \<longleftrightarrow> c \<in> {CHR 0x22, CHR 0x27, CHR ''('', CHR '')'', CHR '';'', CHR ''{'', CHR ''}'', CHR ''<'', CHR ''>'',
     CHR 0x5C, CHR 0x0A, CHR 0x0D}"

definition bad_css :: "string \<times> string option \<Rightarrow> bool" where
  "bad_css = (\<lambda>(name, v). case v of Some s \<Rightarrow> \<not> is_safe_css_value s | None \<Rightarrow> False)"

definition bad_url :: "string \<times> string option \<Rightarrow> bool" where
  "bad_url = (\<lambda>(name, v). case v of
     Some u \<Rightarrow> u \<noteq> [] \<and> (\<not> is_safe_url u \<or> list_ex url_breaker u) | None \<Rightarrow> False)"

definition validate_theme :: "client_theme \<Rightarrow> unit res" where
  "validate_theme t =
     (if (case th_theme_preset t of Some p \<Rightarrow> p \<noteq> [] \<and> \<not> is_known_preset p | None \<Rightarrow> False)
      then Err (''unknown theme preset (valid: '' @ join_with '', '' known_theme_presets @ '')'')
      else (case find bad_css (css_fields t) of
          Some (name, _) \<Rightarrow> Err (''invalid or unsafe CSS value in theme.'' @ name)
        | None \<Rightarrow> (case find bad_url (url_fields t) of
            Some (name, _) \<Rightarrow> Err (''invalid or unsafe URL in theme.'' @ name)
          | None \<Rightarrow> Ok ())))"

section \<open>The effective theme\<close>

definition merge_themes :: "client_theme \<Rightarrow> client_theme option \<Rightarrow> client_theme" where
  "merge_themes base override_theme = (case override_theme of None \<Rightarrow> base | Some o1 \<Rightarrow> overlay base o1)"

definition preset_of :: "client_theme option \<Rightarrow> string option" where
  "preset_of t = Option.bind t th_theme_preset"

definition resolve_effective_theme :: "client_theme option \<Rightarrow> runtime_settings \<Rightarrow> client_theme" where
  "resolve_effective_theme theme_opt settings =
     (let preset_name = (case preset_of theme_opt of Some p \<Rightarrow> p
            | None \<Rightarrow> (case preset_of (rs_default_theme settings) of Some p \<Rightarrow> p | None \<Rightarrow> ''jetauth-dark''));
          base = apply_preset preset_name;
          with_global = merge_themes base (rs_default_theme settings)
      in merge_themes with_global theme_opt)"

text \<open>Any failure to read the session, the provider or the client leaves the default theme.\<close>

definition resolve_theme_for_client :: "'s ext \<Rightarrow> string \<Rightarrow> (client_theme, 's) act" where
  "resolve_theme_for_client x client_id =
     try_io (get_runtime_settings x) (\<lambda>settings.
     try_io (or_else_io (get_client x client_id) None) (\<lambda>o1.
     ret (resolve_effective_theme (Option.bind o1 cl_theme) settings)))"

definition resolve_global_theme :: "'s ext \<Rightarrow> (client_theme, 's) act" where
  "resolve_global_theme x = try_io (get_runtime_settings x) (\<lambda>settings. ret (resolve_effective_theme None settings))"

definition resolve_theme_for_session :: "'s ext \<Rightarrow> string \<Rightarrow> (client_theme, 's) act" where
  "resolve_theme_for_session x session_id =
     try_io (get_runtime_settings x) (\<lambda>settings.
     try_io (or_else_io (get_auth_session x session_id) None) (\<lambda>o1. case o1 of
       None \<Rightarrow> ret (resolve_effective_theme None settings)
     | Some s \<Rightarrow> (case strip_prefix ''saml:'' (as_client_id s) of
         Some i \<Rightarrow> try_io (or_else_io (get_saml_service_provider x i) None) (\<lambda>o2.
           ret (resolve_effective_theme (Option.bind o2 sp_theme) settings))
       | None \<Rightarrow> try_io (or_else_io (get_client x (as_client_id s)) None) (\<lambda>o2.
           ret (resolve_effective_theme (Option.bind o2 cl_theme) settings)))))"

lemmas theme_runs [code] =
  resolve_theme_for_client_def [THEN fun_cong] resolve_global_theme_def [THEN fun_cong]
  resolve_theme_for_session_def [THEN fun_cong]

section \<open>Rendering\<close>

abbreviation newline :: string where "newline \<equiv> [CHR 0x0A]"

definition safe_url_of :: "string option \<Rightarrow> string option" where
  "safe_url_of u = (case u of Some s \<Rightarrow> if is_safe_url s then Some s else None | None \<Rightarrow> None)"

definition with_url :: "string option \<Rightarrow> (string \<Rightarrow> string) \<Rightarrow> string" where
  "with_url u f = (case safe_url_of u of Some s \<Rightarrow> f (html_escape s) | None \<Rightarrow> [])"

definition render_head_tags :: "client_theme \<Rightarrow> string" where
  "render_head_tags t =
     with_url (th_favicon_url t) (\<lambda>u. ''<link rel=\"icon\" href=\"'' @ u @ ''\">'' @ newline) @
     with_url (th_font_url t) (\<lambda>u. ''<link rel=\"preconnect\" href=\"https://fonts.googleapis.com\"><link rel=\"preconnect\" href=\"https://fonts.gstatic.com\" crossorigin><link rel=\"stylesheet\" href=\"'' @ u @ ''\">'' @ newline)"

definition css_vars :: "client_theme \<Rightarrow> (string \<times> string) list" where
  "css_vars t = [
     (''primary'', sanitize_css_value (th_primary_color t) ''#10b981''),
     (''primary-hover'', sanitize_css_value (th_primary_hover_color t) ''#059669''),
     (''bg'', sanitize_css_value (th_background_color t) ''linear-gradient(135deg, #090d16 0%, #0d1b2a 50%, #061e24 100%)''),
     (''card-bg'', sanitize_css_value (th_card_background t) ''rgba(15, 23, 42, 0.75)''),
     (''card-border'', sanitize_css_value (th_card_border t) ''1px solid rgba(255, 255, 255, 0.12)''),
     (''card-shadow'', sanitize_css_value (th_card_shadow t) ''0 25px 50px -12px rgba(0, 0, 0, 0.5)''),
     (''card-backdrop-blur'', sanitize_css_value (th_card_backdrop_blur t) ''20px''),
     (''text'', sanitize_css_value (th_text_color t) ''#f8fafc''),
     (''text-muted'', sanitize_css_value (th_text_muted_color t) ''#94a3b8''),
     (''input-bg'', sanitize_css_value (th_input_background t) ''rgba(30, 41, 59, 0.6)''),
     (''input-border'', sanitize_css_value (th_input_border_color t) ''rgba(255, 255, 255, 0.16)''),
     (''input-text'', sanitize_css_value (th_input_text_color t) ''#f8fafc''),
     (''button-text'', sanitize_css_value (th_button_text_color t) ''#ffffff''),
     (''radius'', sanitize_css_value (th_border_radius t) ''14px''),
     (''font-family'', sanitize_css_value (th_font_family t)
       ([CHR 0x27] @ ''Plus Jakarta Sans'' @ [CHR 0x27] @ '', system-ui, -apple-system, sans-serif''))]"

definition css_declaration :: "string \<times> string \<Rightarrow> string" where
  "css_declaration = (\<lambda>(name, v). ''  --'' @ name @ '': '' @ v @ '';'' @ newline)"

definition background_image :: "client_theme \<Rightarrow> string" where
  "background_image t = (case th_background_image_url t of
     Some u \<Rightarrow> if is_safe_url u \<and> \<not> list_ex url_breaker u
       then ''body { background-image: url(\"'' @ html_escape u @
         ''\"); background-size: cover; background-position: center; }'' @ newline else []
   | None \<Rightarrow> [])"

definition custom_css_block :: "client_theme \<Rightarrow> string" where
  "custom_css_block t = (case th_custom_css t of
     Some custom \<Rightarrow> (let clean = sanitize_custom_css custom in
       if trim clean \<noteq> [] then ''/* Custom CSS */'' @ newline @ clean @ newline else [])
   | None \<Rightarrow> [])"

definition render_css_variables :: "client_theme \<Rightarrow> string" where
  "render_css_variables t = '':root {'' @ newline @ concat (map css_declaration (css_vars t)) @ ''}'' @ newline @
     background_image t @ custom_css_block t"

definition render_logo :: "client_theme \<Rightarrow> string" where
  "render_logo t = with_url (th_logo_url t) (\<lambda>u.
     ''<div style=\"text-align:center;margin-bottom:20px\"><img src=\"'' @ u @ ''\" alt=\"'' @ html_escape (th_app_name t) @
     ''\" style=\"max-height:'' @ html_escape (sanitize_css_value (th_logo_height t) ''48px'') @
     '';max-width:100%;object-fit:contain\"></div>'')"

definition footer_link :: "string option \<Rightarrow> string \<Rightarrow> string list" where
  "footer_link u label = (case safe_url_of u of
     Some s \<Rightarrow> [''<a href=\"'' @ html_escape s @
       ''\" target=\"_blank\" rel=\"noopener\" style=\"color:inherit;text-decoration:none\">'' @ label @ ''</a>'']
   | None \<Rightarrow> [])"

definition footer_parts :: "client_theme \<Rightarrow> string option \<Rightarrow> string list" where
  "footer_parts t extra_links =
     (case extra_links of Some e \<Rightarrow> [e] | None \<Rightarrow> []) @
     footer_link (th_terms_url t) ''Terms'' @ footer_link (th_privacy_url t) ''Privacy'' @
     footer_link (th_help_url t) ''Help'' @
     (case th_footer_text t of Some f \<Rightarrow> if trim f \<noteq> [] then [html_escape f] else [] | None \<Rightarrow> []) @
     (if th_hide_powered_by t then [] else
       let powered_by = (case th_powered_by_text t of Some p \<Rightarrow> p | None \<Rightarrow> ''Powered by JetAuth'') in
       if trim powered_by \<noteq> [] then [html_escape powered_by] else [])"

definition render_footer :: "client_theme \<Rightarrow> string option \<Rightarrow> string" where
  "render_footer t extra_links = (let parts = footer_parts t extra_links in
     if parts = [] then []
     else ''<p class=\"footer\">'' @ join_with ('' '' @ [CHR 0xC2, CHR 0xB7] @ '' '') parts @ ''</p>'')"

section \<open>Lemmas\<close>

lemma replace_chr_absent: "d \<notin> set s \<Longrightarrow> d \<notin> set r \<Longrightarrow> d \<notin> set (replace_chr e r s)"
  by (auto simp: replace_chr_def)

lemma replace_chr_removes: "d \<notin> set r \<Longrightarrow> d \<notin> set (replace_chr d r s)"
  by (auto simp: replace_chr_def split: if_splits)

text \<open>No angle bracket and no quote survives the escaping of HTML.\<close>

lemma chr_nat_39: "chr_nat 39 = CHR 0x27"
  by (simp add: chr_nat_def char_of_def bit_0)

lemma html_escape_absent:
  "CHR ''<'' \<notin> set (html_escape s)" "CHR ''>'' \<notin> set (html_escape s)" "CHR 0x22 \<notin> set (html_escape s)"
  unfolding html_escape_def chr_nat_39
  by (intro replace_chr_absent replace_chr_removes; simp)+

lemma strip_no_bracket: "CHR ''<'' \<notin> set s \<Longrightarrow> strip_dangerous_css_tags_once s = s"
proof (induction s)
  case Nil
  then show ?case by simp
next
  case (Cons c cs)
  have "\<not> starts_with ''<'' (to_lowercase (take 8 (c # cs)))"
  proof
    assume "starts_with ''<'' (to_lowercase (take 8 (c # cs)))"
    then have "lower_chr c = CHR ''<''" by (simp add: to_lowercase_def)
    then have "c = CHR ''<''"
      by (auto simp: lower_chr_def dest!: arg_cong [where f = chr_code] split: if_splits)
    with Cons.prems show False by simp
  qed
  then have "\<not> dangerous_tag (c # cs)"
    unfolding dangerous_tag_def Let_def by (auto dest: prefix_order.trans [of "''<''", rotated])
  moreover have "\<not> starts_with ''<!--'' (c # cs)" using Cons.prems by auto
  ultimately show ?case using Cons by simp
qed

lemma sanitize_custom_css_no_bracket: "CHR ''<'' \<notin> set (sanitize_custom_css s)"
  by (simp add: sanitize_custom_css_def)

lemma strip_passes_no_bracket: "CHR ''<'' \<notin> set s \<Longrightarrow> strip_passes n s = s"
  by (cases n) (simp_all add: strip_no_bracket Let_def)

lemma sanitize_custom_css_idem: "sanitize_custom_css (sanitize_custom_css s) = sanitize_custom_css s"
  using sanitize_custom_css_no_bracket [of s]
  by (simp add: sanitize_custom_css_def [of "sanitize_custom_css s"] strip_passes_no_bracket filter_id_conv)
    (metis (mono_tags, lifting) filter_True)

lemma sanitize_css_value_safe:
  "is_safe_css_value fallback \<Longrightarrow> is_safe_css_value (sanitize_css_value v fallback)"
  by (auto simp: sanitize_css_value_def split: option.splits)

lemma safe_value_plain: "is_safe_css_value v \<Longrightarrow> list_all (\<lambda>c. \<not> css_breaker c) v"
  by (simp add: is_safe_css_value_def)

lemma css_vars_safe: "list_all (\<lambda>(name, v). is_safe_css_value v) (css_vars t)"
  unfolding css_vars_def list.pred_inject prod.case
  by (intro conjI sanitize_css_value_safe TrueI) code_simp+

lemma css_declaration_no_bracket:
  "CHR ''<'' \<notin> set a \<Longrightarrow> CHR ''<'' \<notin> set b \<Longrightarrow> CHR ''<'' \<notin> set (css_declaration (a, b))"
  unfolding css_declaration_def prod.case by simp

lemma css_declarations_no_bracket:
  "list_all (\<lambda>(name, v). CHR ''<'' \<notin> set name \<and> CHR ''<'' \<notin> set v) vs \<Longrightarrow>
    CHR ''<'' \<notin> set (concat (map css_declaration vs))"
  using css_declaration_no_bracket by (fastforce simp: list_all_iff)

lemma render_css_no_bracket: "CHR ''<'' \<notin> set (render_css_variables t)"
proof -
  have "list_all (\<lambda>(name, v). CHR ''<'' \<notin> set v) (css_vars t)"
    using css_vars_safe [of t]
    by (auto simp: list_all_iff is_safe_css_value_def css_breaker_def)
  moreover have "list_all (\<lambda>(name, v). CHR ''<'' \<notin> set name) (css_vars t)"
    unfolding css_vars_def list.pred_inject prod.case by (intro conjI; simp)
  ultimately have "list_all (\<lambda>(name, v). CHR ''<'' \<notin> set name \<and> CHR ''<'' \<notin> set v) (css_vars t)"
    by (auto simp: list_all_iff)
  then have "CHR ''<'' \<notin> set (concat (map css_declaration (css_vars t)))" by (rule css_declarations_no_bracket)
  moreover have "CHR ''<'' \<notin> set (background_image t)"
    by (auto simp: background_image_def html_escape_absent split: option.splits)
  moreover have "CHR ''<'' \<notin> set (custom_css_block t)"
    by (auto simp: custom_css_block_def Let_def sanitize_custom_css_no_bracket split: option.splits)
  ultimately show ?thesis by (simp add: render_css_variables_def)
qed
lemma find_None_all: "find P xs = None \<Longrightarrow> list_all (\<lambda>y. \<not> P y) xs"
  by (induction xs) (auto split: if_splits)

lemma not_bad_css: "\<not> bad_css y \<longleftrightarrow> (case y of (name, v) \<Rightarrow> case v of Some s \<Rightarrow> is_safe_css_value s | None \<Rightarrow> True)"
  by (cases y) (simp add: bad_css_def split: option.split)

lemma not_bad_url: "\<not> bad_url y \<longleftrightarrow>
    (case y of (name, v) \<Rightarrow> case v of Some s \<Rightarrow> s \<noteq> [] \<longrightarrow> is_safe_url s \<and> \<not> list_ex url_breaker s | None \<Rightarrow> True)"
  by (cases y) (auto simp: bad_url_def split: option.split)

lemma validated_fields:
  assumes "validate_theme t = Ok u"
  shows "list_all (\<lambda>(name, v). case v of Some s \<Rightarrow> is_safe_css_value s | None \<Rightarrow> True) (css_fields t) \<and>
    list_all (\<lambda>(name, v). case v of Some s \<Rightarrow> s \<noteq> [] \<longrightarrow> is_safe_url s \<and> \<not> list_ex url_breaker s | None \<Rightarrow> True) (url_fields t)"
proof -
  from assms have "find bad_css (css_fields t) = None" "find bad_url (url_fields t) = None"
    by (auto simp: validate_theme_def split: if_splits option.splits)
  then have "list_all (\<lambda>y. \<not> bad_css y) (css_fields t)" "list_all (\<lambda>y. \<not> bad_url y) (url_fields t)"
    by (simp_all add: find_None_all)
  then show ?thesis unfolding not_bad_css not_bad_url by blast
qed

section \<open>Properties\<close>

text \<open>C32. No theme can break out of the style element of a page: whatever the stored theme holds, the
  rendered style text has no opening angle bracket, the values of the style variables hold no character
  that ends a declaration or a block, and sanitising custom style text twice changes nothing more.\<close>

theorem theme_css_contained:
  "CHR ''<'' \<notin> set (render_css_variables t) \<and>
    list_all (\<lambda>(name, v). list_all (\<lambda>c. \<not> css_breaker c) v) (css_vars t) \<and>
    sanitize_custom_css (sanitize_custom_css css) = sanitize_custom_css css"
proof -
  have "list_all (\<lambda>(name, v). list_all (\<lambda>c. \<not> css_breaker c) v) (css_vars t)"
    using css_vars_safe [of t] safe_value_plain by (fastforce simp: list_all_iff)
  then show ?thesis using render_css_no_bracket sanitize_custom_css_idem by blast
qed



end
