(* ===== verification/Hooks.thy ===== *)
theory Hooks
  imports Token Store_Admin Session
begin

text \<open>
  Scripting hooks (\<open>hooks.rs\<close>): scripts run at points of a login or registration and call back to
  deny it, to change the account, to create tenants and memberships and to add claims. The script
  engine (the rhai crate) is a parameter: what a script calls and whether it fails, for each context.
  Everything the calls and their outcome do is the gateway's.
\<close>

section \<open>The outcome of a script\<close>

record hook_outcome =
  ho_deny_reason :: "string option"
  ho_set_superadmin :: "bool option"
  ho_set_active :: "bool option"
  ho_create_tenants :: "(string \<times> string \<times> string) list"
  ho_add_to_tenants :: "(string \<times> string) list"
  ho_extra_claims :: "(string \<times> string) list"
  ho_log_messages :: "string list"

definition default_outcome :: hook_outcome where
  "default_outcome = \<lparr>ho_deny_reason = None, ho_set_superadmin = None, ho_set_active = None,
     ho_create_tenants = [], ho_add_to_tenants = [], ho_extra_claims = [], ho_log_messages = []\<rparr>"

text \<open>The functions registered with the engine.\<close>

datatype hook_call =
    Deny string
  | Set_superadmin bool
  | Set_active bool
  | Add_to_tenant string string
  | Set_claim string string
  | Log_message string
  | Create_tenant string string string

definition valid_roles :: "string list" where
  "valid_roles = [''owner'', ''admin'', ''manager'', ''member'']"

definition reserved_claims :: "string list" where
  "reserved_claims = [''iss'', ''sub'', ''aud'', ''exp'', ''iat'', ''nbf'', ''nonce'', ''auth_time'', ''token_type'',
     ''role'', ''tenant_id'', ''tenants'', ''email'', ''name'', ''email_verified'', ''amr'', ''acr'', ''scope'',
     ''at_hash'', ''c_hash'', ''azp'']"

definition tenant_id_chr :: "char \<Rightarrow> bool" where
  "tenant_id_chr c \<longleftrightarrow> 97 \<le> chr_code c \<and> chr_code c \<le> 122 \<or> is_digit c \<or> c = CHR ''-''"

definition valid_tenant_id :: "string \<Rightarrow> bool" where
  "valid_tenant_id i \<longleftrightarrow> 2 \<le> length i \<and> length i \<le> 63 \<and> list_all tenant_id_chr i \<and>
     \<not> starts_with ''-'' i \<and> \<not> ends_with ''-'' i"

fun apply_call :: "hook_call \<Rightarrow> hook_outcome \<Rightarrow> hook_outcome" where
  "apply_call (Deny msg) acc = acc\<lparr>ho_deny_reason := Some msg\<rparr>"
| "apply_call (Set_superadmin v) acc = acc\<lparr>ho_set_superadmin := Some v\<rparr>"
| "apply_call (Set_active v) acc = acc\<lparr>ho_set_active := Some v\<rparr>"
| "apply_call (Add_to_tenant tenant_id role) acc =
     (if role \<in> set valid_roles
      then acc\<lparr>ho_add_to_tenants := ho_add_to_tenants acc @ [(tenant_id, role)]\<rparr> else acc)"
| "apply_call (Set_claim key v) acc =
     (if key \<notin> set reserved_claims
      then acc\<lparr>ho_extra_claims := ho_extra_claims acc @ [(key, v)]\<rparr> else acc)"
| "apply_call (Log_message msg) acc = acc\<lparr>ho_log_messages := ho_log_messages acc @ [msg]\<rparr>"
| "apply_call (Create_tenant i name display_name) acc =
     (if valid_tenant_id i \<and> name \<noteq> [] \<and> display_name \<noteq> []
      then acc\<lparr>ho_create_tenants := ho_create_tenants acc @ [(i, name, display_name)]\<rparr> else acc)"

section \<open>The engine\<close>

text \<open>
  \<open>en_compile script\<close> answers with an error message or the compiled script; \<open>en_run script context\<close> with
  the calls made, in order, and the error message of a run that failed.
\<close>

record hook_context =
  hc_user :: json
  hc_event :: string
  hc_tenants :: "json list"

record engine =
  en_compile :: "string \<Rightarrow> string + unit"
  en_run :: "string \<Rightarrow> hook_context \<Rightarrow> hook_call list \<times> string option"

definition user_to_map :: "user \<Rightarrow> json" where
  "user_to_map u = JObj [(''id'', JStr (usr_id u)), (''email'', JStr (usr_email u)), (''name'', JStr (usr_name u)),
     (''superadmin'', JBool (usr_superadmin u)), (''created_at'', JNum (sint (usr_created_at u))),
     (''status'', JStr (usr_status u)), (''totp_enabled'', JBool (usr_totp_enabled u))]"

definition tenants_to_array :: "'s ext \<Rightarrow> string \<Rightarrow> (json list, 's) act" where
  "tenants_to_array x user_id =
     try_io (or_else_io (list_user_tenants x user_id) []) (\<lambda>memberships.
     ret (map (\<lambda>m. JObj [(''tenant_id'', JStr (mb_tenant_id m)), (''role'', JStr (mb_role m))]) memberships))"

section \<open>Running the hooks of a trigger\<close>

definition load_hooks_for_trigger :: "'s ext \<Rightarrow> string \<Rightarrow> (hook list, 's) act" where
  "load_hooks_for_trigger x trigger = try_io (list_hooks x) (\<lambda>hooks.
     ret (sort_key (\<lambda>h. sint (hk_priority h)) (filter (\<lambda>h. hk_enabled h \<and> hk_trigger h = trigger) hooks)))"

definition error_message :: "string \<Rightarrow> string \<Rightarrow> (unit, 's) act" where
  "error_message event e = log_event event (JObj [(''error'', JStr e)])"

definition hook_executed_details :: "string \<Rightarrow> hook \<Rightarrow> string" where
  "hook_executed_details trigger h = ''trigger='' @ trigger @ '' name='' @ hk_name h @ '' v='' @
     show_u32 (hk_version h) @ '' hash='' @ hk_script_hash h"

fun run_hooks :: "'s ext \<Rightarrow> engine \<Rightarrow> string \<Rightarrow> string \<Rightarrow> hook_context \<Rightarrow> hook list \<Rightarrow> hook_outcome \<Rightarrow>
    (hook_outcome, 's) act" where
  "run_hooks x en trigger user_id ctx [] acc = ret acc"
| "run_hooks x en trigger user_id ctx (h # hooks) acc =
     try_io (log_audit ''hook_executed'' (hk_id h) user_id (hook_executed_details trigger h)) (\<lambda>_.
     case en_compile en (hk_script h) of
       Inl e \<Rightarrow>
         try_io (error_message ''hooks.compile_failed'' (''hook '' @ quoted (hk_name h) @ '': '' @ e)) (\<lambda>_.
         try_io (log_audit ''hook_error'' (hk_id h) [] (''compile error: '' @ e)) (\<lambda>_.
         run_hooks x en trigger user_id ctx hooks acc))
     | Inr _ \<Rightarrow>
         (case en_run en (hk_script h) ctx of (calls, failed) \<Rightarrow>
           let acc = fold apply_call calls acc in
           try_io (case failed of
               Some e \<Rightarrow> try_io (error_message ''hooks.runtime_error'' (''hook '' @ quoted (hk_name h) @ '': '' @ e)) (\<lambda>_.
                 log_audit ''hook_error'' (hk_id h) user_id (''runtime error: '' @ e))
             | None \<Rightarrow> ret ()) (\<lambda>_.
           if ho_deny_reason acc \<noteq> None then ret acc
           else run_hooks x en trigger user_id ctx hooks acc)))"

definition execute_hooks :: "'s ext \<Rightarrow> engine \<Rightarrow> string \<Rightarrow> user \<Rightarrow> (hook_outcome, 's) act" where
  "execute_hooks x en trigger u =
     match_io (load_hooks_for_trigger x trigger)
       (\<lambda>hooks. if hooks = [] then ret default_outcome
         else try_io (tenants_to_array x (usr_id u)) (\<lambda>tenants.
           run_hooks x en trigger (usr_id u) \<lparr>hc_user = user_to_map u, hc_event = trigger, hc_tenants = tenants\<rparr>
             hooks default_outcome))
       (\<lambda>e. try_io (error_message ''hooks.load_failed'' e) (\<lambda>_. ret default_outcome))"

section \<open>Applying an outcome\<close>

text \<open>
  A read-modify-write whose closure also updates a variable of the caller: the variable is threaded
  through the attempts.
\<close>

fun update_user_fold ::
    "'s ext \<Rightarrow> nat \<Rightarrow> string \<Rightarrow> ('c \<Rightarrow> user \<Rightarrow> ('c \<times> user \<times> bool) res) \<Rightarrow> 'c \<Rightarrow> ('c, 's) act" where
  "update_user_fold x 0 user_id modify c = fail ''update_user_rmw: too many retries''"
| "update_user_fold x (Suc left) user_id modify c =
     try_io (get_user_cas x user_id) (\<lambda>o1.
     try_io (lift (require_user o1)) (\<lambda>(usr, revision).
     try_io (lift (modify c usr)) (\<lambda>(c, usr, commit).
     if \<not> commit then ret c
     else match_io (update_user_cas x usr revision) (\<lambda>_. ret c)
       (\<lambda>e. if revision_mismatch e \<and> 0 < left then update_user_fold x left user_id modify c else fail e))))"

definition status_name :: "bool \<Rightarrow> string" where
  "status_name active = (if active then ''active'' else ''suspended'')"

text \<open>The closure of \<open>apply_outcome\<close>; its variable says whether the status changed in the stored record
  only.\<close>

definition hook_promote :: "bool option \<Rightarrow> bool \<Rightarrow> user \<Rightarrow> user \<times> bool" where
  "hook_promote set_sa require_verification u = (case set_sa of
     None \<Rightarrow> (u, False)
   | Some sa \<Rightarrow>
       (let changed = (usr_superadmin u \<noteq> sa);
            u1 = (if changed then u\<lparr>usr_superadmin := sa\<rparr> else u);
            activate = (sa \<and> \<not> require_verification \<and> usr_status u1 \<noteq> ''active'');
            u2 = (if activate then u1\<lparr>usr_status := ''active''\<rparr> else u1)
        in (u2, changed \<or> activate)))"

definition hook_update ::
    "hook_outcome \<Rightarrow> bool \<Rightarrow> string \<Rightarrow> bool \<Rightarrow> user \<Rightarrow> (bool \<times> user \<times> bool) res" where
  "hook_update outcome require_verification in_mem_status seen u =
     (case hook_promote (ho_set_superadmin outcome) require_verification u of (u, modified) \<Rightarrow>
        (case map_option status_name (ho_set_active outcome) of
           None \<Rightarrow> Ok (seen, u, modified)
         | Some st \<Rightarrow>
             if usr_status u \<noteq> st
             then Ok (seen \<or> in_mem_status = st, u\<lparr>usr_status := st\<rparr>, True)
             else Ok (seen, u, modified)))"

definition bool_name :: "bool \<Rightarrow> string" where
  "bool_name b = (if b then ''true'' else ''false'')"

definition outcome_changes :: "config option \<Rightarrow> user \<Rightarrow> hook_outcome \<Rightarrow> bool" where
  "outcome_changes c u outcome \<longleftrightarrow>
     (case ho_set_superadmin outcome of None \<Rightarrow> False
      | Some sa \<Rightarrow> usr_superadmin u \<noteq> sa \<or> sa \<and> \<not> require_email_verification c \<and> usr_status u \<noteq> ''active'') \<or>
     ho_set_active outcome \<noteq> None"

definition audit_if :: "bool \<Rightarrow> string \<Rightarrow> string \<Rightarrow> string \<Rightarrow> (unit, 's) act" where
  "audit_if c event user_id details = (if c then log_audit event ''system'' user_id details else ret ())"

definition apply_record :: "'s ext \<Rightarrow> user \<Rightarrow> hook_outcome \<Rightarrow> (user, 's) act" where
  "apply_record x u outcome = try_io get_config (\<lambda>c.
     try_io (case ho_set_superadmin outcome of
         Some sa \<Rightarrow> audit_if (usr_superadmin u \<noteq> sa) ''hook_set_superadmin'' (usr_id u) (''superadmin='' @ bool_name sa)
       | None \<Rightarrow> ret ()) (\<lambda>_.
     try_io (case ho_set_active outcome of
         Some a \<Rightarrow> audit_if (usr_status u \<noteq> status_name a) ''hook_set_status'' (usr_id u) (''status='' @ status_name a)
       | None \<Rightarrow> ret ()) (\<lambda>_.
     if \<not> outcome_changes c u outcome then ret u
     else try_io (update_user_fold x 5 (usr_id u)
           (hook_update outcome (require_email_verification c) (usr_status u)) False) (\<lambda>seen.
       try_io (case ho_set_active outcome of
           Some a \<Rightarrow> audit_if seen ''hook_set_status'' (usr_id u) (''status='' @ status_name a)
         | None \<Rightarrow> ret ()) (\<lambda>_.
       ignore_io (if ho_set_superadmin outcome = Some True then set_superadmin_flag x True else ret ())
       (try_io (get_user x (usr_id u)) (\<lambda>o1. ret (case o1 of Some updated \<Rightarrow> updated | None \<Rightarrow> u)))))))) "

definition new_tenant :: "string \<Rightarrow> string \<Rightarrow> string \<Rightarrow> u64 \<Rightarrow> tenant" where
  "new_tenant i name display_name now = \<lparr>tn_id = i, tn_name = name, tn_display_name = display_name,
     tn_status = ''active'', tn_created_at = now\<rparr>"

fun create_hook_tenants :: "'s ext \<Rightarrow> string \<Rightarrow> (string \<times> string \<times> string) list \<Rightarrow> (unit, 's) act" where
  "create_hook_tenants x user_id [] = ret ()"
| "create_hook_tenants x user_id ((i, name, display_name) # ts) =
     try_io (get_tenant x i) (\<lambda>o1.
     if o1 \<noteq> None then create_hook_tenants x user_id ts
     else try_io unix_now (\<lambda>now.
       try_io (create_tenant x (new_tenant i name display_name now)) (\<lambda>_.
       try_io (log_audit ''hook_create_tenant'' ''system'' user_id (''tenant='' @ i @ '' name='' @ name)) (\<lambda>_.
       create_hook_tenants x user_id ts))))"

fun add_hook_memberships :: "'s ext \<Rightarrow> string \<Rightarrow> (string \<times> string) list \<Rightarrow> (unit, 's) act" where
  "add_hook_memberships x user_id [] = ret ()"
| "add_hook_memberships x user_id ((tenant_id, role) # ms) =
     try_io (or_else_io (list_user_tenants x user_id) []) (\<lambda>existing.
     if list_ex (\<lambda>m. mb_tenant_id m = tenant_id) existing then add_hook_memberships x user_id ms
     else try_io (get_tenant x tenant_id) (\<lambda>o1.
       try_io (if o1 \<noteq> None then ret ()
         else try_io unix_now (\<lambda>now.
           ignore_io (create_tenant x (new_tenant tenant_id tenant_id tenant_id now)) (ret ()))) (\<lambda>_.
       try_io unix_now (\<lambda>now.
       try_io (add_membership x \<lparr>mb_tenant_id = tenant_id, mb_user_id = user_id, mb_role = role, mb_joined_at = now\<rparr>) (\<lambda>_.
       try_io (log_audit ''hook_add_to_tenant'' ''system'' user_id (''tenant='' @ tenant_id @ '' role='' @ role)) (\<lambda>_.
       add_hook_memberships x user_id ms))))))"

fun log_hook_messages :: "string \<Rightarrow> string list \<Rightarrow> (unit, 's) act" where
  "log_hook_messages user_id [] = ret ()"
| "log_hook_messages user_id (m # ms) =
     try_io (log_audit ''hook_log'' ''system'' user_id m) (\<lambda>_. log_hook_messages user_id ms)"

text \<open>
  The caller's user is updated in place: it is part of the result also when a later step fails.
\<close>

definition apply_outcome :: "'s ext \<Rightarrow> user \<Rightarrow> hook_outcome \<Rightarrow> (user \<times> string option, 's) act" where
  "apply_outcome x u outcome =
     match_io (apply_record x u outcome)
       (\<lambda>u. match_io
         (try_io (create_hook_tenants x (usr_id u) (ho_create_tenants outcome)) (\<lambda>_.
          try_io (add_hook_memberships x (usr_id u) (ho_add_to_tenants outcome)) (\<lambda>_.
          log_hook_messages (usr_id u) (ho_log_messages outcome))))
         (\<lambda>_. ret (u, None)) (\<lambda>e. ret (u, Some e)))
       (\<lambda>e. ret (u, Some e))"

section \<open>The bootstrap hook\<close>

definition has_superadmin :: "'s ext \<Rightarrow> (bool, 's) act" where
  "has_superadmin x =
     try_io (or_else_io (get_superadmin_flag x) None) (\<lambda>flag.
     if flag = Some True then ret True
     else try_io (or_else_io (list_users x) []) (\<lambda>users.
       if list_ex usr_superadmin users
       then ignore_io (set_superadmin_flag x True) (ret True) else ret False))"

definition get_bootstrap_hook :: "config option \<Rightarrow> string option" where
  "get_bootstrap_hook c = (case config_value c ''bootstrap_hook'' of
     Some s \<Rightarrow> if trim s \<noteq> [] then Some s else None | None \<Rightarrow> None)"

text \<open>The audit line prints options the way \<open>Debug\<close> does; quotes and backslashes are escaped.\<close>

definition debug_str :: "string \<Rightarrow> string" where
  "debug_str s = [CHR 0x22] @ concat (map (\<lambda>c. if c = CHR 0x22 \<or> c = CHR 0x5C then [CHR 0x5C, c]
     else if c = CHR 0x0A then CHR 0x5C # ''n'' else if c = CHR 0x0D then CHR 0x5C # ''r''
     else if c = CHR 0x09 then CHR 0x5C # ''t'' else [c]) s) @ [CHR 0x22]"

definition debug_option :: "('a \<Rightarrow> string) \<Rightarrow> 'a option \<Rightarrow> string" where
  "debug_option f v = (case v of None \<Rightarrow> ''None'' | Some y \<Rightarrow> ''Some('' @ f y @ '')'')"

definition execute_bootstrap_hook :: "'s ext \<Rightarrow> engine \<Rightarrow> user \<Rightarrow> (hook_outcome, 's) act" where
  "execute_bootstrap_hook x en u =
     try_io (has_superadmin x) (\<lambda>found.
     if found then ret default_outcome
     else try_io get_config (\<lambda>c. case get_bootstrap_hook c of
       None \<Rightarrow> ret default_outcome
     | Some script \<Rightarrow>
         try_io (log_event ''bootstrap_hook.executing'' (JObj [(''email'', JStr (usr_email u))])) (\<lambda>_.
         case en_compile en script of
           Inl e \<Rightarrow> try_io (error_message ''bootstrap_hook.compile_failed'' e) (\<lambda>_. ret default_outcome)
         | Inr _ \<Rightarrow>
             try_io (tenants_to_array x (usr_id u)) (\<lambda>tenants.
             case en_run en script \<lparr>hc_user = user_to_map u, hc_event = ''post-registration'', hc_tenants = tenants\<rparr> of
               (calls, failed) \<Rightarrow>
                 let outcome = fold apply_call calls default_outcome in
                 try_io (case failed of Some e \<Rightarrow> error_message ''bootstrap_hook.runtime_error'' e | None \<Rightarrow> ret ()) (\<lambda>_.
                 try_io (log_audit ''bootstrap_hook_executed'' ''config'' (usr_id u)
                   (''hash='' @ sha256_hex x script @ '' set_superadmin='' @ debug_option bool_name (ho_set_superadmin outcome) @
                    '' deny='' @ debug_option debug_str (ho_deny_reason outcome))) (\<lambda>_.
                 ret outcome))))))"

section \<open>Dry runs\<close>

definition test_user :: "u64 \<Rightarrow> user" where
  "test_user now = \<lparr>usr_id = ''test-user-id'', usr_email = ''test@example.com'', usr_name = ''Test User'',
     usr_password_hash = [], usr_status = ''active'', usr_created_at = now, usr_superadmin = False,
     usr_totp_secret = None, usr_totp_enabled = False, usr_recovery_codes = [], usr_passkey_credentials = []\<rparr>"

definition test_hook :: "engine \<Rightarrow> string \<Rightarrow> string \<Rightarrow> (hook_outcome, 's) act" where
  "test_hook en script trigger =
     try_io unix_now (\<lambda>now.
     try_io (lift (of_sum (\<lambda>e. ''compile error: '' @ e) (en_compile en script))) (\<lambda>_.
     case en_run en script \<lparr>hc_user = user_to_map (test_user now), hc_event = trigger, hc_tenants = []\<rparr> of
       (calls, failed) \<Rightarrow> (case failed of
           Some e \<Rightarrow> fail (''runtime error: '' @ e)
         | None \<Rightarrow> ret (fold apply_call calls default_outcome))))"

lemmas hooks_runs [code] =
  tenants_to_array_def [THEN fun_cong] load_hooks_for_trigger_def [THEN fun_cong] error_message_def [THEN
  fun_cong] run_hooks.simps [THEN fun_cong] execute_hooks_def [THEN fun_cong] update_user_fold.simps [THEN
  fun_cong] audit_if_def [THEN fun_cong] apply_record_def [THEN fun_cong] create_hook_tenants.simps [THEN
  fun_cong] add_hook_memberships.simps [THEN fun_cong] log_hook_messages.simps [THEN fun_cong]
  apply_outcome_def [THEN fun_cong] has_superadmin_def [THEN fun_cong] execute_bootstrap_hook_def [THEN
  fun_cong] test_hook_def [THEN fun_cong]

section \<open>What an outcome can hold\<close>

definition outcome_ok :: "hook_outcome \<Rightarrow> bool" where
  "outcome_ok o1 \<longleftrightarrow> list_all (\<lambda>(t, r). r \<in> set valid_roles) (ho_add_to_tenants o1) \<and>
     list_all (\<lambda>(k, v). k \<notin> set reserved_claims) (ho_extra_claims o1) \<and>
     list_all (\<lambda>(i, n, d). valid_tenant_id i \<and> n \<noteq> [] \<and> d \<noteq> []) (ho_create_tenants o1)"

lemma outcome_ok_default: "outcome_ok default_outcome"
  by (simp add: outcome_ok_def default_outcome_def)

lemma apply_call_ok: "outcome_ok acc \<Longrightarrow> outcome_ok (apply_call c acc)"
  by (cases c) (auto simp: outcome_ok_def)

lemma fold_calls_ok: "outcome_ok acc \<Longrightarrow> outcome_ok (fold apply_call calls acc)"
  by (induction calls arbitrary: acc) (simp_all add: apply_call_ok)

lemma run_hooks_Ok:
  "run_hooks x en trigger i ctx hs acc w = (Ok o1, w') \<Longrightarrow> outcome_ok acc \<Longrightarrow> outcome_ok o1"
proof (induction hs arbitrary: acc w)
  case Nil
  then show ?case by simp
next
  case (Cons h hs)
  show ?case
  proof (cases "en_compile en (hk_script h)")
    case (Inl e)
    with Cons.prems(1) obtain w1 where "run_hooks x en trigger i ctx hs acc w1 = (Ok o1, w')"
      by (auto elim!: try_io_Ok)
    with Cons.IH Cons.prems(2) show ?thesis by blast
  next
    case (Inr u)
    obtain calls failed where r: "en_run en (hk_script h) ctx = (calls, failed)" by (cases "en_run en (hk_script h) ctx")
    let ?acc = "fold apply_call calls acc"
    have ok: "outcome_ok ?acc" using Cons.prems(2) by (rule fold_calls_ok)
    from Cons.prems(1) Inr r obtain w1 where
      "(if ho_deny_reason ?acc \<noteq> None then ret ?acc else run_hooks x en trigger i ctx hs ?acc) w1 = (Ok o1, w')"
      by (auto simp: Let_def elim!: try_io_Ok)
    with Cons.IH ok show ?thesis by (auto split: if_splits)
  qed
qed

lemma execute_hooks_outcome_ok:
  assumes "execute_hooks x en trigger u w = (Ok o1, w')"
  shows "outcome_ok o1"
  using assms unfolding execute_hooks_def
proof (cases rule: match_io_cases)
  case (ok hooks w1)
  then show ?thesis
    using run_hooks_Ok [OF _ outcome_ok_default] outcome_ok_default by (auto split: if_splits elim!: try_io_Ok)
next
  case (err e w1)
  then show ?thesis using outcome_ok_default by (auto elim!: try_io_Ok)
qed

lemma execute_bootstrap_outcome_ok:
  assumes "execute_bootstrap_hook x en u w = (Ok o1, w')"
  shows "outcome_ok o1"
proof -
  have "outcome_ok (fold apply_call calls default_outcome)" for calls
    using outcome_ok_default by (rule fold_calls_ok)
  then show ?thesis
    using assms outcome_ok_default unfolding execute_bootstrap_hook_def
    by (auto simp: Let_def elim!: try_io_Ok split: if_splits option.splits sum.splits prod.splits)
qed

lemma jget_extra_reserved:
  "is_obj j \<Longrightarrow> list_all (\<lambda>(k, v). k \<notin> set reserved_claims) extra \<Longrightarrow> k \<in> set reserved_claims \<Longrightarrow>
    jget (add_extra_claims extra j) k = jget j k"
  by (rule jget_extra) (auto simp: list_all_iff)

lemma access_claims_extra:
  "access_claims_of now usr ms q = add_extra_claims (cq_extra_claims q) (access_claims_of now usr ms (q\<lparr>cq_extra_claims := []\<rparr>))"
  by (simp add: access_claims_of_def Let_def identity_claims_def session_claims_def add_extra_claims_def)

lemma id_claims_extra:
  "id_claims_of now usr ms q = add_extra_claims (cq_extra_claims q) (id_claims_of now usr ms (q\<lparr>cq_extra_claims := []\<rparr>))"
  by (simp add: id_claims_of_def Let_def identity_claims_def session_claims_def add_extra_claims_def)

lemma is_obj_claims [simp]: "is_obj (access_claims_of now usr ms q)" "is_obj (id_claims_of now usr ms q)"
  by (simp_all add: access_claims_of_def id_claims_of_def Let_def)

lemma claims_reserved:
  assumes "outcome_ok o1" and "cq_extra_claims q = ho_extra_claims o1" and "k \<in> set reserved_claims"
  shows "jget (access_claims_of now usr ms q) k = jget (access_claims_of now usr ms (q\<lparr>cq_extra_claims := []\<rparr>)) k"
    and "jget (id_claims_of now usr ms q) k = jget (id_claims_of now usr ms (q\<lparr>cq_extra_claims := []\<rparr>)) k"
  using assms
  by (subst access_claims_extra id_claims_extra; simp add: jget_extra_reserved outcome_ok_def)+

section \<open>Properties\<close>

text \<open>C34. A hook cannot forge what a token says about its subject: whatever the scripts call, the
  memberships and tenants they ask for are well formed, and in the tokens that carry their claims each
  reserved claim has the value it has without any hook.\<close>

theorem hook_claims_reserved:
  assumes "execute_hooks x en trigger u w = (Ok outcome, w')" and "cq_extra_claims q = ho_extra_claims outcome"
  shows "outcome_ok outcome \<and>
    list_all (\<lambda>k. jget (access_claims_of now usr ms q) k = jget (access_claims_of now usr ms (q\<lparr>cq_extra_claims := []\<rparr>)) k \<and>
      jget (id_claims_of now usr ms q) k = jget (id_claims_of now usr ms (q\<lparr>cq_extra_claims := []\<rparr>)) k) reserved_claims"
  using execute_hooks_outcome_ok [OF assms(1)] claims_reserved [OF _ assms(2)] by (simp add: list_all_iff)

definition demo_hook :: hook where
  "demo_hook = \<lparr>hk_id = ''h'', hk_name = ''n'', hk_trigger = ''post-login'', hk_script = ''s'', hk_enabled = True,
     hk_priority = 0, hk_created_at = 1, hk_version = 1, hk_script_hash = [], hk_updated_by = [], hk_updated_at = 1\<rparr>"

definition demo_engine :: "hook_call list \<Rightarrow> engine" where
  "demo_engine calls = \<lparr>en_compile = (\<lambda>s. Inr ()), en_run = (\<lambda>s c. (calls, None))\<rparr>"

definition hook_codes :: "(json \<times> char) list" where
  "hook_codes = [(hook_to_json demo_hook, CHR ''H'')]"

definition hook_enc :: "json \<Rightarrow> bytes" where "hook_enc j = short_text hook_codes j"
definition hook_dec :: "bytes \<Rightarrow> string + json" where "hook_dec s = long_text hook_codes s"
definition hook_ext :: "kv_map ext" where "hook_ext = coded hook_enc hook_dec"

lemma hook_gateway: "gateway hook_ext mem_view"
proof -
  have "codes_ok hook_codes" by code_simp
  then have "hook_dec (hook_enc j) = Inr j" for j
    unfolding hook_enc_def hook_dec_def by (rule long_short_text)
  then show ?thesis unfolding hook_ext_def by (rule coded_gateway)
qed

abbreviation "hook_w \<equiv> demo_world_at 1000 [(''clients:hook:h'', ''H'', 1)]"

abbreviation "claim_calls \<equiv> [Set_claim ''sub'' ''evil'', Set_claim ''org'' ''a'', Set_claim ''cnf'' ''c'']"

definition plain_request :: "(string \<times> string) list \<Rightarrow> claim_request" where
  "plain_request extra = \<lparr>cq_issuer = ''https://id'', cq_client_id = ''app'', cq_nonce = None, cq_auth_time = 900,
     cq_amr = [''pwd''], cq_acr = None, cq_scope = ''openid'', cq_id_token_claims = [], cq_userinfo_claims = [],
     cq_extra_claims = extra, cq_dpop_jkt = Some ''thumb'', cq_sid = None\<rparr>"

lemma hook_run: "fst (execute_hooks hook_ext (demo_engine claim_calls) ''post-login'' session_user hook_w) =
    Ok (default_outcome\<lparr>ho_extra_claims := [(''org'', ''a''), (''cnf'', ''c'')]\<rparr>)"
  by code_simp

lemma hook_claims_reserved_witness:
  "jget (access_claims_of 1000 session_user [] (plain_request [(''org'', ''a''), (''cnf'', ''c'')])) ''sub'' = Some (JStr ''u'')"
proof -
  let ?run = "execute_hooks hook_ext (demo_engine claim_calls) ''post-login'' session_user"
  let ?o = "default_outcome\<lparr>ho_extra_claims := [(''org'', ''a''), (''cnf'', ''c'')]\<rparr>"
  have run: "?run hook_w = (Ok ?o, snd (?run hook_w))" by (rule run_Ok [where m = ?run, OF hook_run])
  have q: "cq_extra_claims (plain_request [(''org'', ''a''), (''cnf'', ''c'')]) = ho_extra_claims ?o" by (simp add: plain_request_def)
  have "''sub'' \<in> set reserved_claims" by (simp add: reserved_claims_def)
  with hook_claims_reserved [OF run q, of 1000 session_user "[]"]
  have "jget (access_claims_of 1000 session_user [] (plain_request [(''org'', ''a''), (''cnf'', ''c'')])) ''sub'' =
      jget (access_claims_of 1000 session_user [] (plain_request [])) ''sub''"
    by (simp add: list_all_iff plain_request_def)
  also have "\<dots> = Some (JStr ''u'')" by code_simp
  finally show ?thesis .
qed

text \<open>C35. The confirmation claim is not among the reserved ones: a hook that sets a claim of that name
  replaces the key a token is bound to by its own text, in every access token the login leads to.\<close>

theorem hook_replaces_confirmation:
  assumes "execute_hooks x en trigger u w = (Ok outcome, w')" and "cq_extra_claims q = ho_extra_claims outcome"
    and "map_of (rev (ho_extra_claims outcome)) ''cnf'' = Some v"
  shows "jget (access_claims_of now usr ms q) ''cnf'' = Some (JStr v) \<and> ''cnf'' \<notin> set reserved_claims"
proof -
  have last: "is_obj j \<Longrightarrow> map_of (rev extra) k = Some s \<Longrightarrow> jget (add_extra_claims extra j) k = Some (JStr s)" for extra j k s
  proof (induction extra rule: rev_induct)
    case (snoc kv extra)
    then show ?case
      by (cases kv) (auto simp: add_extra_claims_def jget_jset is_obj_extra [unfolded add_extra_claims_def] split: if_splits)
  qed simp
  have "jget (access_claims_of now usr ms q) ''cnf'' = Some (JStr v)"
    by (subst access_claims_extra) (rule last, simp, simp add: assms(2,3))
  then show ?thesis by (simp add: reserved_claims_def)
qed

lemma hook_replaces_confirmation_witness:
  "jget (access_claims_of 1000 session_user [] (plain_request [(''org'', ''a''), (''cnf'', ''c'')])) ''cnf'' = Some (JStr ''c'')"
proof -
  let ?run = "execute_hooks hook_ext (demo_engine claim_calls) ''post-login'' session_user"
  let ?o = "default_outcome\<lparr>ho_extra_claims := [(''org'', ''a''), (''cnf'', ''c'')]\<rparr>"
  have run: "?run hook_w = (Ok ?o, snd (?run hook_w))" by (rule run_Ok [where m = ?run, OF hook_run])
  have q: "cq_extra_claims (plain_request [(''org'', ''a''), (''cnf'', ''c'')]) = ho_extra_claims ?o" by (simp add: plain_request_def)
  have m: "map_of (rev (ho_extra_claims ?o)) ''cnf'' = Some ''c''" by simp
  from hook_replaces_confirmation [OF run q m] show ?thesis by blast
qed

text \<open>C36. Hooks fail open and the bootstrap hook can fire again: a trigger whose hooks cannot be read runs
  none and denies nothing, and when neither the flag nor the accounts can be read the deployment counts
  as having no superadmin.\<close>

theorem hooks_fail_open:
  assumes "load_hooks_for_trigger x trigger w = (Err e, w1)"
    and "get_superadmin_flag x w2 = (Err e2, w3)" and "list_users x w3 = (Err e3, w4)"
  shows "fst (execute_hooks x en trigger u w) = Ok default_outcome \<and> ho_deny_reason default_outcome = None \<and>
    has_superadmin x w2 = (Ok False, w4)"
  using assms by (simp add: execute_hooks_def error_message_def has_superadmin_def or_else_io_def default_outcome_def)

definition down_tcp :: "string \<Rightarrow> json \<Rightarrow> kv_map \<Rightarrow> (string + json) \<times> kv_map" where
  "down_tcp op p m = (Inl ''connection refused'', m)"

definition down_ext :: "kv_map ext" where
  "down_ext = mem_ext\<lparr>x_tcp := down_tcp\<rparr>"

definition is_err :: "'a res \<Rightarrow> bool" where
  "is_err r = (case r of Err e \<Rightarrow> True | _ \<Rightarrow> False)"

lemma is_err_run: "is_err (fst p) \<Longrightarrow> \<exists>e w'. p = (Err e, w')"
  by (cases p; cases "fst p") (auto simp: is_err_def)

lemma hooks_fail_open_witness:
  "fst (execute_hooks down_ext (demo_engine [Deny ''no'']) ''post-login'' session_user hook_w) = Ok default_outcome \<and>
    fst (has_superadmin down_ext hook_w) = Ok False"
proof -
  have "is_err (fst (load_hooks_for_trigger down_ext ''post-login'' hook_w)) \<and> is_err (fst (get_superadmin_flag down_ext hook_w)) \<and>
      is_err (fst (list_users down_ext (snd (get_superadmin_flag down_ext hook_w))))" by code_simp
  then have e1: "is_err (fst (load_hooks_for_trigger down_ext ''post-login'' hook_w))"
    and e2: "is_err (fst (get_superadmin_flag down_ext hook_w))"
    and e3: "is_err (fst (list_users down_ext (snd (get_superadmin_flag down_ext hook_w))))" by blast+
  from is_err_run [OF e1] obtain e w1 where a: "load_hooks_for_trigger down_ext ''post-login'' hook_w = (Err e, w1)" by blast
  from is_err_run [OF e2] obtain f w3 where b: "get_superadmin_flag down_ext hook_w = (Err f, w3)" by blast
  with is_err_run [OF e3] obtain g w4 where c: "list_users down_ext w3 = (Err g, w4)" by auto
  from hooks_fail_open [OF a b c, of "demo_engine [Deny ''no'']" session_user] show ?thesis by simp
qed

end
