(* ===== verification/Pages.thy ===== *)
theory Pages
  imports Theme Session
begin

text \<open>
  The HTML pages of the sign-in and device flows (\<open>login.rs\<close>, \<open>device.rs\<close>): the text of each page as the
  format string of the source has it, as a function of the values it places, and the pieces the
  handlers compute for them. A page is answered as UTF-8 HTML that no cache may keep.
\<close>

section \<open>Pieces\<close>

text \<open>A piece of a page.\<close>

type_synonym html = string

definition html_page :: "nat \<Rightarrow> string \<Rightarrow> response" where
  "html_page status html = \<lparr>rs_status = status,
     rs_headers = [(''content-type'', ''text/html; charset=utf-8''), (''cache-control'', ''no-store'')], rs_body = html\<rparr>"

definition error_div :: "string \<Rightarrow> string option \<Rightarrow> string" where
  "error_div kind error = (case error of None \<Rightarrow> []
   | Some msg \<Rightarrow> ''<div class=\"'' @ kind @ ''\">'' @ html_escape msg @ ''</div>'')"

definition scope_item :: "string \<Rightarrow> string" where
  "scope_item desc =
     ''<li style=\"padding:8px 0;border-bottom:1px solid var(--input-border);color:var(--text)\">'' @ html_escape desc @ ''</li>''"

definition scope_text :: "string \<Rightarrow> string \<Rightarrow> string" where
  "scope_text offline s =
     (if s = ''openid'' then ''Verify your identity''
      else if s = ''email'' then ''Read your email address''
      else if s = ''profile'' then ''Read your name and profile info''
      else if s = ''offline_access'' then offline else s)"

definition scopes_list :: "string \<Rightarrow> string \<Rightarrow> string" where
  "scopes_list offline scope = join_with newline (map (\<lambda>s. scope_item (scope_text offline s)) (split_whitespace scope))"

section \<open>Sign-in pages\<close>

definition google_button :: "string \<Rightarrow> string" where
  "google_button session_id_url = join_with newline
    [''<a href=\"/auth/google?session_id='' @ session_id_url @ ''\" class=\"google-btn\" style=\"margin-top: 8px;\">'',
     ''<svg width=\"18\" height=\"18\" viewBox=\"0 0 48 48\"><path fill=\"#EA4335\" d=\"M24 9.5c3.54 0 6.71 1.22 9.21 3.6l6.85-6.85C35.9 2.38 30.47 0 24 0 14.62 0 6.51 5.38 2.56 13.22l7.98 6.19C12.43 13.72 17.74 9.5 24 9.5z\"/><path fill=\"#4285F4\" d=\"M46.98 24.55c0-1.57-.15-3.09-.38-4.55H24v9.02h12.94c-.58 2.96-2.26 5.48-4.78 7.18l7.73 6c4.51-4.18 7.09-10.36 7.09-17.65z\"/><path fill=\"#FBBC05\" d=\"M10.53 28.59c-.48-1.45-.76-2.99-.76-4.59s.27-3.14.76-4.59l-7.98-6.19C.92 16.46 0 20.12 0 24c0 3.88.92 7.54 2.56 10.78l7.97-6.19z\"/><path fill=\"#34A853\" d=\"M24 48c6.48 0 11.93-2.13 15.89-5.81l-7.73-6c-2.15 1.45-4.92 2.3-8.16 2.3-6.26 0-11.57-4.22-13.47-9.91l-7.98 6.19C6.51 42.62 14.62 48 24 48z\"/></svg>'',
     ''Continue with Google'',
     ''</a>'']"

definition github_button :: "string \<Rightarrow> string" where
  "github_button session_id_url = join_with newline
    [''<a href=\"/auth/github?session_id='' @ session_id_url @ ''\" class=\"google-btn\" style=\"margin-top: 8px;\">'',
     ''<svg width=\"18\" height=\"18\" viewBox=\"0 0 24 24\" fill=\"currentColor\"><path d=\"M12 0C5.37 0 0 5.37 0 12c0 5.31 3.435 9.795 8.205 11.385.6.105.825-.255.825-.57 0-.285-.015-1.23-.015-2.235-3.015.555-3.795-.735-4.035-1.41-.135-.345-.72-1.41-1.23-1.695-.42-.225-1.02-.78-.015-.795.945-.015 1.62.87 1.845 1.23 1.08 1.815 2.805 1.305 3.495.99.105-.78.42-1.305.765-1.605-2.67-.3-5.46-1.335-5.46-5.925 0-1.305.465-2.385 1.23-3.225-.12-.3-.54-1.53.12-3.18 0 0 1.005-.315 3.3 1.23.96-.27 1.98-.405 3-.405s2.04.135 3 .405c2.295-1.56 3.3-1.23 3.3-1.23.66 1.65.24 2.88.12 3.18.765.84 1.23 1.905 1.23 3.225 0 4.605-2.805 5.625-5.475 5.925.435.375.81 1.095.81 2.22 0 1.605-.015 2.895-.015 3.3 0 .315.225.69.825.57A12.02 12.02 0 0024 12c0-6.63-5.37-12-12-12z\"/></svg>'',
     ''Continue with GitHub'',
     ''</a>'']"

definition microsoft_button :: "string \<Rightarrow> string" where
  "microsoft_button session_id_url = join_with newline
    [''<a href=\"/auth/microsoft?session_id='' @ session_id_url @ ''\" class=\"google-btn\" style=\"margin-top: 8px;\">'',
     ''<svg width=\"18\" height=\"18\" viewBox=\"0 0 24 24\"><path fill=\"#F25022\" d=\"M1 1h10v10H1z\"/><path fill=\"#7FBA00\" d=\"M13 1h10v10H13z\"/><path fill=\"#00A4EF\" d=\"M1 13h10v10H1z\"/><path fill=\"#FFB900\" d=\"M13 13h10v10H13z\"/></svg>'',
     ''Continue with Microsoft'',
     ''</a>'']"

definition device_hint :: string where
  "device_hint = ''<div style=\"color:#b45309;background:rgba(245,158,11,.12);border:1px solid rgba(245,158,11,.3);padding:10px 14px;border-radius:calc(var(--radius) * 0.6);margin-bottom:16px;font-size:13px\">You are signing in to authorize a device. Only continue if you started this on your own device.</div>''"

definition login_html :: "html \<Rightarrow> html \<Rightarrow> html \<Rightarrow> html \<Rightarrow> html \<Rightarrow> html \<Rightarrow> html \<Rightarrow> html \<Rightarrow> html \<Rightarrow> html \<Rightarrow> html \<Rightarrow> html" where
  "login_html app_name head_tags css logo_html error_html device_hint_html session_id_html hinted_email idp_html footer_html session_id_js = join_with newline
    [''<!DOCTYPE html>'',
     ''<html lang=\"en\">'',
     ''<head>'',
     ''<meta charset=\"utf-8\">'',
     ''<meta name=\"viewport\" content=\"width=device-width, initial-scale=1\">'',
     ''<title>Sign In '' @ [CHR 0xE2, CHR 0x80, CHR 0x94] @ '' '' @ app_name @ ''</title>'',
     head_tags,
     ''<style>'',
     ''*{margin:0;padding:0;box-sizing:border-box}'',
     css,
     ''body{font-family:var(--font-family);background:var(--bg);min-height:100vh;display:flex;align-items:center;justify-content:center;color:var(--text);padding:20px}'',
     ''.card{background:var(--card-bg);border:var(--card-border);box-shadow:var(--card-shadow);backdrop-filter:blur(var(--card-backdrop-blur));-webkit-backdrop-filter:blur(var(--card-backdrop-blur));border-radius:var(--radius);padding:40px;width:100%;max-width:420px}'',
     ''h1{font-size:24px;font-weight:700;color:var(--text);margin-bottom:6px}'',
     ''.sub{color:var(--text-muted);font-size:14px;margin-bottom:24px}'',
     ''label{display:block;font-size:13px;font-weight:600;color:var(--text-muted);margin-bottom:6px;text-transform:uppercase;letter-spacing:0.04em}'',
     ''input[type=email],input[type=password]{width:100%;padding:12px 14px;border:1px solid var(--input-border);border-radius:calc(var(--radius) * 0.7);background:var(--input-bg);color:var(--input-text);font-size:15px;margin-bottom:16px;outline:none;transition:all .15s ease}'',
     ''input:focus{border-color:var(--primary);box-shadow:0 0 0 3px rgba(16,185,129,.25)}'',
     ''button,.passkey-btn{width:100%;padding:12px;background:var(--primary);color:var(--button-text);border:none;border-radius:calc(var(--radius) * 0.7);font-size:15px;font-weight:600;cursor:pointer;transition:all .15s ease}'',
     ''button:hover,.passkey-btn:hover{background:var(--primary-hover);transform:translateY(-1px)}'',
     ''.passkey-btn{display:flex;align-items:center;justify-content:center;gap:8px;background:transparent;color:var(--text);border:1px solid var(--input-border)}'',
     ''.passkey-btn:hover{background:rgba(255,255,255,.08)}'',
     ''.divider{display:flex;align-items:center;margin:20px 0;color:var(--text-muted);font-size:13px}'',
     ''.divider::before,.divider::after{content:'' @ [CHR 0x27, CHR 0x27] @ '';flex:1;border-bottom:1px solid var(--input-border)}'',
     ''.divider span{padding:0 12px}'',
     ''.google-btn{display:flex;align-items:center;justify-content:center;gap:10px;width:100%;padding:11px;border:1px solid var(--input-border);border-radius:calc(var(--radius) * 0.7);font-size:15px;font-weight:500;color:var(--text);background:var(--input-bg);text-decoration:none;transition:all .15s ease;cursor:pointer}'',
     ''.google-btn:hover{background:rgba(255,255,255,.08)}'',
     ''.error-banner{color:#ef4444;background:rgba(239,68,68,.12);border:1px solid rgba(239,68,68,.3);padding:10px 14px;border-radius:calc(var(--radius) * 0.6);margin-bottom:16px;font-size:14px}'',
     ''.footer{text-align:center;margin-top:24px;font-size:13px;color:var(--text-muted)}'',
     ''.passkey-error{color:#ef4444;font-size:13px;margin-top:8px;display:none}'',
     ''</style>'',
     ''</head>'',
     ''<body>'',
     ''<div class=\"card\">'',
     logo_html,
     ''<h1>Sign In</h1>'',
     ''<p class=\"sub\">'' @ app_name @ ''</p>'',
     error_html,
     device_hint_html,
     ''<form method=\"POST\" action=\"/login\" id=\"login-form\">'',
     ''<input type=\"hidden\" name=\"session_id\" value=\"'' @ session_id_html @ ''\">'',
     ''<label for=\"email\">Email</label>'',
     ''<input type=\"email\" id=\"email\" name=\"email\" value=\"'' @ hinted_email @ ''\" required autocomplete=\"email\" autofocus>'',
     ''<label for=\"password\">Password</label>'',
     ''<input type=\"password\" id=\"password\" name=\"password\" required autocomplete=\"current-password\">'',
     ''<button type=\"submit\" id=\"login-btn\">Sign In</button>'',
     ''</form>'',
     idp_html,
     ''<div id=\"passkey-section\" style=\"display:none\">'',
     ''<div class=\"divider\"><span>or</span></div>'',
     ''<button type=\"button\" class=\"passkey-btn\" id=\"passkey-btn\" onclick=\"startPasskeyAuth()\">'',
     ''<svg width=\"20\" height=\"20\" viewBox=\"0 0 24 24\" fill=\"none\" stroke=\"currentColor\" stroke-width=\"2\" stroke-linecap=\"round\" stroke-linejoin=\"round\"><path d=\"M2 18v3c0 .6.4 1 1 1h4v-3h3v-3h2l1.4-1.4a6.5 6.5 0 1 0-4-4Z\"/><circle cx=\"16.5\" cy=\"7.5\" r=\".5\" fill=\"currentColor\"/></svg>'',
     ''Sign in with passkey'',
     ''</button>'',
     ''<div class=\"passkey-error\" id=\"passkey-error\"></div>'',
     ''</div>'',
     footer_html,
     ''</div>'',
     ''<script>'',
     ''(function(){'',
     ''  if(!window.PublicKeyCredential)return;'',
     ''  document.getElementById('' @ [CHR 0x27] @ ''passkey-section'' @ [CHR 0x27] @ '').style.display='' @ [CHR 0x27] @ ''block'' @ [CHR 0x27] @ '';'',
     [],
     ''  function b64url(buf){'',
     ''    var s='' @ [CHR 0x27, CHR 0x27] @ '',b=new Uint8Array(buf);'',
     ''    for(var i=0;i<b.length;i++)s+=String.fromCharCode(b[i]);'',
     ''    return btoa(s).replace(/'' @ [CHR 0x5C] @ ''+/g,'' @ [CHR 0x27] @ ''-'' @ [CHR 0x27] @ '').replace(/'' @ [CHR 0x5C] @ ''//g,'' @ [CHR 0x27] @ ''_'' @ [CHR 0x27] @ '').replace(/=+$/,'' @ [CHR 0x27, CHR 0x27] @ '');'',
     ''  }'',
     ''  function b64urlDecode(s){'',
     ''    s=s.replace(/-/g,'' @ [CHR 0x27] @ ''+'' @ [CHR 0x27] @ '').replace(/_/g,'' @ [CHR 0x27] @ ''/'' @ [CHR 0x27] @ '');'',
     ''    while(s.length%4)s+='' @ [CHR 0x27] @ ''='' @ [CHR 0x27] @ '';'',
     ''    var b=atob(s),a=new Uint8Array(b.length);'',
     ''    for(var i=0;i<b.length;i++)a[i]=b.charCodeAt(i);'',
     ''    return a.buffer;'',
     ''  }'',
     [],
     ''  window.startPasskeyAuth=async function(){'',
     ''    var errEl=document.getElementById('' @ [CHR 0x27] @ ''passkey-error'' @ [CHR 0x27] @ '');'',
     ''    var btn=document.getElementById('' @ [CHR 0x27] @ ''passkey-btn'' @ [CHR 0x27] @ '');'',
     ''    errEl.style.display='' @ [CHR 0x27] @ ''none'' @ [CHR 0x27] @ '';'',
     ''    btn.disabled=true;'',
     ''    btn.textContent='' @ [CHR 0x27] @ ''Waiting for passkey'' @ [CHR 0x5C] @ ''u2026'' @ [CHR 0x27] @ '';'',
     ''    try{'',
     ''      var r=await fetch('' @ [CHR 0x27] @ ''/passkeys/auth-options'' @ [CHR 0x27] @ '',{method:'' @ [CHR 0x27] @ ''POST'' @ [CHR 0x27] @ '',headers:{'' @ [CHR 0x27] @ ''content-type'' @ [CHR 0x27] @ '':'' @ [CHR 0x27] @ ''application/json'' @ [CHR 0x27] @ ''},body:'' @ [CHR 0x27] @ ''{}'' @ [CHR 0x27] @ ''});'',
     ''      if(!r.ok)throw new Error(await r.text());'',
     ''      var d=await r.json();'',
     ''      var opts=d.publicKey;'',
     ''      opts.challenge=b64urlDecode(opts.challenge);'',
     ''      if(opts.allowCredentials){'',
     ''        opts.allowCredentials=opts.allowCredentials.map(function(c){'',
     ''          c.id=b64urlDecode(c.id);return c;'',
     ''        });'',
     ''      }'',
     ''      var cred=await navigator.credentials.get({publicKey:opts});'',
     ''      var body=JSON.stringify({'',
     ''        token:d.token,'',
     ''        session_id:'' @ [CHR 0x27] @ session_id_js @ [CHR 0x27] @ '','',
     ''        credential_id:b64url(cred.rawId),'',
     ''        clientDataJSON:b64url(cred.response.clientDataJSON),'',
     ''        authenticatorData:b64url(cred.response.authenticatorData),'',
     ''        signature:b64url(cred.response.signature)'',
     ''      });'',
     ''      var r2=await fetch('' @ [CHR 0x27] @ ''/passkeys/auth-complete'' @ [CHR 0x27] @ '',{method:'' @ [CHR 0x27] @ ''POST'' @ [CHR 0x27] @ '',headers:{'' @ [CHR 0x27] @ ''content-type'' @ [CHR 0x27] @ '':'' @ [CHR 0x27] @ ''application/json'' @ [CHR 0x27] @ ''},body:body});'',
     ''      if(!r2.ok)throw new Error(await r2.text());'',
     ''      var d2=await r2.json();'',
     ''      if(d2.redirect){window.location.href=d2.redirect;return;}'',
     ''      window.location.reload();'',
     ''    }catch(e){'',
     ''      if(e.name==='' @ [CHR 0x27] @ ''NotAllowedError'' @ [CHR 0x27] @ ''){'',
     ''        errEl.textContent='' @ [CHR 0x27] @ ''Passkey authentication was cancelled.'' @ [CHR 0x27] @ '';'',
     ''      }else{'',
     ''        errEl.textContent='' @ [CHR 0x27] @ ''Passkey error: '' @ [CHR 0x27] @ ''+(e.message||e);'',
     ''      }'',
     ''      errEl.style.display='' @ [CHR 0x27] @ ''block'' @ [CHR 0x27] @ '';'',
     ''      btn.disabled=false;'',
     ''      btn.innerHTML='' @ [CHR 0x27] @ ''<svg width=\"20\" height=\"20\" viewBox=\"0 0 24 24\" fill=\"none\" stroke=\"currentColor\" stroke-width=\"2\" stroke-linecap=\"round\" stroke-linejoin=\"round\"><path d=\"M2 18v3c0 .6.4 1 1 1h4v-3h3v-3h2l1.4-1.4a6.5 6.5 0 1 0-4-4Z\"/><circle cx=\"16.5\" cy=\"7.5\" r=\".5\" fill=\"currentColor\"/></svg> Sign in with passkey'' @ [CHR 0x27] @ '';'',
     ''    }'',
     ''  };'',
     ''})();'',
     ''// Prevent double-submit on login form'',
     ''var f=document.getElementById('' @ [CHR 0x27] @ ''login-form'' @ [CHR 0x27] @ '');'',
     ''if(f)f.addEventListener('' @ [CHR 0x27] @ ''submit'' @ [CHR 0x27] @ '',function(){'',
     ''  var b=document.getElementById('' @ [CHR 0x27] @ ''login-btn'' @ [CHR 0x27] @ '');'',
     ''  if(b){b.disabled=true;b.textContent='' @ [CHR 0x27] @ ''Signing in'' @ [CHR 0x5C] @ ''u2026'' @ [CHR 0x27] @ '';}'',
     ''});'',
     ''</script>'',
     ''</body>'',
     ''</html>'']"

definition mfa_html :: "html \<Rightarrow> html \<Rightarrow> html \<Rightarrow> html \<Rightarrow> html \<Rightarrow> html \<Rightarrow> html \<Rightarrow> html \<Rightarrow> html" where
  "mfa_html app_name head_tags css logo_html error_html mfa_token_html session_id_html footer_html = join_with newline
    [''<!DOCTYPE html>'',
     ''<html lang=\"en\">'',
     ''<head>'',
     ''<meta charset=\"utf-8\">'',
     ''<meta name=\"viewport\" content=\"width=device-width, initial-scale=1\">'',
     ''<title>Two-Factor Authentication '' @ [CHR 0xE2, CHR 0x80, CHR 0x94] @ '' '' @ app_name @ ''</title>'',
     head_tags,
     ''<style>'',
     ''*{margin:0;padding:0;box-sizing:border-box}'',
     css,
     ''body{font-family:var(--font-family);background:var(--bg);min-height:100vh;display:flex;align-items:center;justify-content:center;color:var(--text);padding:20px}'',
     ''.card{background:var(--card-bg);border:var(--card-border);box-shadow:var(--card-shadow);backdrop-filter:blur(var(--card-backdrop-blur));-webkit-backdrop-filter:blur(var(--card-backdrop-blur));border-radius:var(--radius);padding:40px;width:100%;max-width:420px}'',
     ''h1{font-size:24px;font-weight:700;color:var(--text);margin-bottom:6px}'',
     ''.sub{color:var(--text-muted);font-size:14px;margin-bottom:24px}'',
     ''label{display:block;font-size:13px;font-weight:600;color:var(--text-muted);margin-bottom:6px;text-transform:uppercase;letter-spacing:0.04em}'',
     ''input[type=text]{width:100%;padding:12px 14px;border:1px solid var(--input-border);border-radius:calc(var(--radius) * 0.7);background:var(--input-bg);color:var(--input-text);font-size:20px;margin-bottom:16px;outline:none;text-align:center;letter-spacing:8px;font-family:monospace;transition:all .15s ease}'',
     ''input:focus{border-color:var(--primary);box-shadow:0 0 0 3px rgba(16,185,129,.25)}'',
     ''button{width:100%;padding:12px;background:var(--primary);color:var(--button-text);border:none;border-radius:calc(var(--radius) * 0.7);font-size:15px;font-weight:600;cursor:pointer;transition:all .15s ease}'',
     ''button:hover{background:var(--primary-hover);transform:translateY(-1px)}'',
     ''.hint{color:var(--text-muted);font-size:13px;margin-top:12px;text-align:center}'',
     ''.error-banner{color:#ef4444;background:rgba(239,68,68,.12);border:1px solid rgba(239,68,68,.3);padding:10px 14px;border-radius:calc(var(--radius) * 0.6);margin-bottom:16px;font-size:14px}'',
     ''.footer{text-align:center;margin-top:24px;font-size:13px;color:var(--text-muted)}'',
     ''</style>'',
     ''</head>'',
     ''<body>'',
     ''<div class=\"card\">'',
     logo_html,
     ''<h1>Two-Factor Authentication</h1>'',
     ''<p class=\"sub\">Enter the code from your authenticator app</p>'',
     error_html,
     ''<form method=\"POST\" action=\"/login/mfa\" id=\"mfa-form\">'',
     ''<input type=\"hidden\" name=\"mfa_token\" value=\"'' @ mfa_token_html @ ''\">'',
     ''<input type=\"hidden\" name=\"session_id\" value=\"'' @ session_id_html @ ''\">'',
     ''<label for=\"code\">Authentication Code</label>'',
     ''<input type=\"text\" id=\"code\" name=\"code\" required autocomplete=\"one-time-code\" inputmode=\"numeric\" pattern=\"[0-9]{6,8}\" maxlength=\"8\" autofocus>'',
     ''<button type=\"submit\" id=\"mfa-btn\">Verify</button>'',
     ''</form>'',
     ''<p class=\"hint\">You can also use a recovery code</p>'',
     footer_html,
     ''</div>'',
     ''<script>'',
     ''var f=document.getElementById('' @ [CHR 0x27] @ ''mfa-form'' @ [CHR 0x27] @ '');'',
     ''if(f)f.addEventListener('' @ [CHR 0x27] @ ''submit'' @ [CHR 0x27] @ '',function(){'',
     ''  var b=document.getElementById('' @ [CHR 0x27] @ ''mfa-btn'' @ [CHR 0x27] @ '');'',
     ''  if(b){b.disabled=true;b.textContent='' @ [CHR 0x27] @ ''Verifying'' @ [CHR 0x5C] @ ''u2026'' @ [CHR 0x27] @ '';}'',
     ''});'',
     ''</script>'',
     ''</body>'',
     ''</html>'']"

definition generic_error_html :: "html \<Rightarrow> html" where
  "generic_error_html msg = join_with newline
    [''<!DOCTYPE html>'',
     ''<html lang=\"en\">'',
     ''<head>'',
     ''<meta charset=\"utf-8\">'',
     ''<meta name=\"viewport\" content=\"width=device-width, initial-scale=1\">'',
     ''<title>Sign-in Error</title>'',
     ''<style>body{font-family:system-ui,-apple-system,sans-serif;display:flex;align-items:center;justify-content:center;min-height:100vh;margin:0;background:#f8fafc;color:#0f172a}.card{max-width:400px;background:#fff;border:1px solid #e2e8f0;border-radius:12px;padding:32px;text-align:center}h1{font-size:20px;margin-bottom:8px}p{font-size:14px;color:#475569}a{color:#0f766e}</style>'',
     ''</head>'',
     ''<body><div class=\"card\"><h1>Sign-in Error</h1><p>'' @ msg @ ''</p><p><a href=\"/\">Start over</a></p></div></body>'',
     ''</html>'']"

definition consent_html :: "html \<Rightarrow> html \<Rightarrow> html \<Rightarrow> html \<Rightarrow> html \<Rightarrow> html \<Rightarrow> html \<Rightarrow> html \<Rightarrow> html \<Rightarrow> html \<Rightarrow> html" where
  "consent_html app_name head_tags css logo_html user_email logout_link scopes_html code_html csrf_token footer_html = join_with newline
    [''<!DOCTYPE html>'',
     ''<html lang=\"en\">'',
     ''<head>'',
     ''<meta charset=\"utf-8\">'',
     ''<meta name=\"viewport\" content=\"width=device-width, initial-scale=1\">'',
     ''<title>Authorise '' @ app_name @ ''</title>'',
     head_tags,
     ''<style>'',
     ''*{margin:0;padding:0;box-sizing:border-box}'',
     css,
     ''body{font-family:var(--font-family);background:var(--bg);min-height:100vh;display:flex;align-items:center;justify-content:center;color:var(--text);padding:20px}'',
     ''.card{background:var(--card-bg);border:var(--card-border);box-shadow:var(--card-shadow);backdrop-filter:blur(var(--card-backdrop-blur));-webkit-backdrop-filter:blur(var(--card-backdrop-blur));border-radius:var(--radius);padding:40px;width:100%;max-width:440px}'',
     ''h1{font-size:22px;font-weight:700;color:var(--text);margin-bottom:6px}'',
     ''.sub{color:var(--text-muted);font-size:14px;margin-bottom:24px}'',
     ''.client-name{font-weight:700;color:var(--text)}'',
     ''ul{list-style:none;margin-bottom:24px;padding:0;border-top:1px solid var(--input-border)}'',
     ''.actions{display:flex;gap:12px}'',
     ''button{flex:1;padding:12px;border:none;border-radius:calc(var(--radius) * 0.7);font-size:15px;font-weight:600;cursor:pointer;transition:all .15s ease}'',
     ''.btn-approve{background:var(--primary);color:var(--button-text)}'',
     ''.btn-approve:hover{background:var(--primary-hover);transform:translateY(-1px)}'',
     ''.btn-deny{background:transparent;color:var(--text);border:1px solid var(--input-border)}'',
     ''.btn-deny:hover{background:rgba(255,255,255,.08)}'',
     ''.footer{text-align:center;margin-top:24px;font-size:13px;color:var(--text-muted)}'',
     ''</style>'',
     ''</head>'',
     ''<body>'',
     ''<div class=\"card\">'',
     logo_html,
     ''<h1>Authorise <span class=\"client-name\">'' @ app_name @ ''</span></h1>'',
     ''<p class=\"sub\">Signed in as <strong>'' @ user_email @ ''</strong> &bull; <a href=\"'' @ logout_link @ ''\" style=\"color:var(--primary);text-decoration:none\">Switch account</a></p>'',
     [],
     ''<p style=\"font-size:14px;color:var(--text-muted);margin-bottom:12px\"><strong>'' @ app_name @ ''</strong> is requesting access to:</p>'',
     ''<ul>'',
     scopes_html,
     ''</ul>'',
     [],
     ''<form method=\"POST\" action=\"/consent\">'',
     ''<input type=\"hidden\" name=\"code\" value=\"'' @ code_html @ ''\">'',
     ''<input type=\"hidden\" name=\"csrf_token\" value=\"'' @ csrf_token @ ''\">'',
     ''<div class=\"actions\">'',
     ''<button type=\"submit\" class=\"btn-approve\" name=\"decision\" value=\"approve\">Allow access</button>'',
     ''<button type=\"submit\" class=\"btn-deny\" name=\"decision\" value=\"deny\">Deny</button>'',
     ''</div>'',
     ''</form>'',
     [],
     footer_html,
     ''</div>'',
     ''</body>'',
     ''</html>'']"

section \<open>Device pages\<close>

definition device_html :: "html \<Rightarrow> html \<Rightarrow> html \<Rightarrow> html \<Rightarrow> html \<Rightarrow> html \<Rightarrow> html \<Rightarrow> html" where
  "device_html app_name head_tags css logo_html code_html error_html footer_html = join_with newline
    [''<!DOCTYPE html>'',
     ''<html lang=\"en\">'',
     ''<head>'',
     ''<meta charset=\"utf-8\">'',
     ''<meta name=\"viewport\" content=\"width=device-width,initial-scale=1\">'',
     ''<title>Device Activation '' @ [CHR 0xE2, CHR 0x80, CHR 0x94] @ '' '' @ app_name @ ''</title>'',
     head_tags,
     ''<style>'',
     ''*{margin:0;padding:0;box-sizing:border-box}'',
     css,
     ''body { font-family: var(--font-family); background: var(--bg); color: var(--text); display:flex; justify-content:center; align-items:center; min-height:100vh; margin:0; padding:20px; }'',
     ''.card { background: var(--card-bg); border: var(--card-border); box-shadow: var(--card-shadow); backdrop-filter: blur(var(--card-backdrop-blur)); -webkit-backdrop-filter: blur(var(--card-backdrop-blur)); border-radius: var(--radius); padding:40px; max-width:420px; width:100%; }'',
     ''h1 { font-size:1.5rem; font-weight:700; color:var(--text); margin-bottom:8px; }'',
     ''p { color:var(--text-muted); margin-bottom:24px; font-size:.95rem; }'',
     ''input { width:100%; box-sizing:border-box; padding:14px; border:1px solid var(--input-border); border-radius:calc(var(--radius) * 0.7); background:var(--input-bg); color:var(--input-text); font-size:1.4rem; letter-spacing:.3em; text-align:center; text-transform:uppercase; outline:none; transition:all .15s ease; }'',
     ''input:focus { border-color:var(--primary); box-shadow:0 0 0 3px rgba(16,185,129,.25); }'',
     ''button { width:100%; margin-top:20px; padding:14px; border:none; border-radius:calc(var(--radius) * 0.7); background:var(--primary); color:var(--button-text); font-size:1rem; font-weight:600; cursor:pointer; transition:all .15s ease; }'',
     ''button:hover { background:var(--primary-hover); transform:translateY(-1px); }'',
     ''.error { background:rgba(239,68,68,.15); border:1px solid rgba(239,68,68,.3); color:#ef4444; border-radius:calc(var(--radius) * 0.6); padding:10px 14px; margin-top:16px; font-size:.9rem; text-align:center; }'',
     ''</style>'',
     ''</head>'',
     ''<body>'',
     ''<div class=\"card\">'',
     ''  '' @ logo_html,
     ''  <h1>Device Activation</h1>'',
     ''  <p>Enter the code displayed on your device to sign in to '' @ app_name @ ''.</p>'',
     ''  <form method=\"POST\" action=\"/device\">'',
     ''    <input type=\"text\" name=\"user_code\" value=\"'' @ code_html @ ''\" placeholder=\"XXXX-XXXX\" autocomplete=\"off\" spellcheck=\"false\" maxlength=\"9\" required>'',
     ''    <button type=\"submit\">Continue</button>'',
     ''  </form>'',
     ''  '' @ error_html,
     ''  '' @ footer_html,
     ''</div>'',
     ''</body>'',
     ''</html>'']"

definition confirm_html :: "html \<Rightarrow> html \<Rightarrow> html \<Rightarrow> html \<Rightarrow> html \<Rightarrow> html \<Rightarrow> html \<Rightarrow> html \<Rightarrow> html \<Rightarrow> html \<Rightarrow> html" where
  "confirm_html client_name head_tags css logo_html user_email error_html user_code_html scopes_html approval_token_html footer_html = join_with newline
    [''<!DOCTYPE html>'',
     ''<html lang=\"en\">'',
     ''<head>'',
     ''<meta charset=\"utf-8\">'',
     ''<meta name=\"viewport\" content=\"width=device-width,initial-scale=1\">'',
     ''<title>Authorize Device '' @ [CHR 0xE2, CHR 0x80, CHR 0x94] @ '' '' @ client_name @ ''</title>'',
     head_tags,
     ''<style>'',
     ''*{margin:0;padding:0;box-sizing:border-box}'',
     css,
     ''body{font-family:var(--font-family);background:var(--bg);min-height:100vh;display:flex;align-items:center;justify-content:center;color:var(--text);padding:20px}'',
     ''.card{background:var(--card-bg);border:var(--card-border);box-shadow:var(--card-shadow);backdrop-filter:blur(var(--card-backdrop-blur));-webkit-backdrop-filter:blur(var(--card-backdrop-blur));border-radius:var(--radius);padding:40px;width:100%;max-width:440px}'',
     ''h1{font-size:22px;font-weight:700;color:var(--text);margin-bottom:6px}'',
     ''.sub{color:var(--text-muted);font-size:14px;margin-bottom:24px}'',
     ''.code{font-family:monospace;font-size:1.6rem;letter-spacing:.3em;text-align:center;background:var(--input-bg);border:1px solid var(--input-border);border-radius:calc(var(--radius) * 0.7);padding:14px;margin:0 0 20px;color:var(--text)}'',
     ''ul{list-style:none;margin-bottom:24px;padding:0;border-top:1px solid var(--input-border)}'',
     ''.actions{display:flex;gap:12px}'',
     ''button{flex:1;padding:12px;border:none;border-radius:calc(var(--radius) * 0.7);font-size:15px;font-weight:600;cursor:pointer;transition:all .15s ease}'',
     ''.btn-approve{background:var(--primary);color:var(--button-text)}'',
     ''.btn-approve:hover{background:var(--primary-hover);transform:translateY(-1px)}'',
     ''.btn-deny{background:transparent;color:var(--text);border:1px solid var(--input-border)}'',
     ''.btn-deny:hover{background:rgba(255,255,255,.08)}'',
     ''.error-banner{color:#ef4444;background:rgba(239,68,68,.12);border:1px solid rgba(239,68,68,.3);padding:10px 14px;border-radius:calc(var(--radius) * 0.6);margin-bottom:16px;font-size:14px}'',
     ''.warning{color:#b45309;background:rgba(245,158,11,.12);border:1px solid rgba(245,158,11,.3);padding:10px 14px;border-radius:calc(var(--radius) * 0.6);margin-bottom:16px;font-size:13px}'',
     ''</style>'',
     ''</head>'',
     ''<body>'',
     ''<div class=\"card\">'',
     logo_html,
     ''<h1>Authorize a device?</h1>'',
     ''<p class=\"sub\">Signed in as <strong>'' @ user_email @ ''</strong></p>'',
     error_html,
     ''<p style=\"font-size:14px;color:var(--text-muted);margin-bottom:12px\"><strong>'' @ client_name @ ''</strong> wants to sign in on a device. Confirm that the code below matches the one shown on that device:</p>'',
     ''<div class=\"code\">'' @ user_code_html @ ''</div>'',
     ''<p style=\"font-size:13px;color:var(--text-muted);margin-bottom:12px\">The device will get access to:</p>'',
     ''<ul>'',
     scopes_html,
     ''</ul>'',
     ''<div class=\"warning\">Only approve if you started this sign-in yourself on the device.</div>'',
     ''<form method=\"POST\" action=\"/device\">'',
     ''<input type=\"hidden\" name=\"approval_token\" value=\"'' @ approval_token_html @ ''\">'',
     ''<div class=\"actions\">'',
     ''<button type=\"submit\" class=\"btn-approve\" name=\"decision\" value=\"approve\">Authorize device</button>'',
     ''<button type=\"submit\" class=\"btn-deny\" name=\"decision\" value=\"deny\">Deny</button>'',
     ''</div>'',
     ''</form>'',
     footer_html,
     ''</div>'',
     ''</body>'',
     ''</html>'']"

definition outcome_html :: "html \<Rightarrow> html \<Rightarrow> html \<Rightarrow> html \<Rightarrow> html \<Rightarrow> html \<Rightarrow> html \<Rightarrow> html \<Rightarrow> html \<Rightarrow> html" where
  "outcome_html title_html app_name head_tags css color logo_html icon message_html footer_html = join_with newline
    [''<!DOCTYPE html>'',
     ''<html lang=\"en\">'',
     ''<head>'',
     ''<meta charset=\"utf-8\">'',
     ''<meta name=\"viewport\" content=\"width=device-width,initial-scale=1\">'',
     ''<title>'' @ title_html @ '' '' @ [CHR 0xE2, CHR 0x80, CHR 0x94] @ '' '' @ app_name @ ''</title>'',
     head_tags,
     ''<style>'',
     ''*{margin:0;padding:0;box-sizing:border-box}'',
     css,
     ''body { font-family: var(--font-family); background: var(--bg); color: var(--text); display:flex; justify-content:center; align-items:center; min-height:100vh; margin:0; padding:20px; }'',
     ''.card { background: var(--card-bg); border: var(--card-border); box-shadow: var(--card-shadow); backdrop-filter: blur(var(--card-backdrop-blur)); -webkit-backdrop-filter: blur(var(--card-backdrop-blur)); border-radius: var(--radius); padding:40px; max-width:420px; width:100%; text-align:center; }'',
     ''.icon { font-size:3.5rem; color:'' @ color @ ''; margin-bottom:16px; }'',
     ''h1 { font-size:1.5rem; font-weight:700; color:var(--text); margin-bottom:8px; }'',
     ''p { color:var(--text-muted); font-size:.95rem; margin-bottom:24px; }'',
     ''</style>'',
     ''</head>'',
     ''<body>'',
     ''<div class=\"card\">'',
     ''  '' @ logo_html,
     ''  <div class=\"icon\">'' @ icon @ ''</div>'',
     ''  <h1>'' @ title_html @ ''</h1>'',
     ''  <p>'' @ message_html @ ''</p>'',
     ''  '' @ footer_html,
     ''</div>'',
     ''</body>'',
     ''</html>'']"

section \<open>Rendering\<close>

definition idp_button :: "string \<Rightarrow> identity_provider \<Rightarrow> string" where
  "idp_button session_id_url p =
     (if ip_provider_type p = ''google'' then google_button session_id_url
      else if ip_provider_type p = ''github'' then github_button session_id_url
      else if ip_provider_type p = ''microsoft'' then microsoft_button session_id_url
      else [])"

definition idp_section :: "string \<Rightarrow> identity_provider list \<Rightarrow> string" where
  "idp_section session_id_url idps =
     (let idp_buttons = concat (map (idp_button session_id_url) (filter ip_enabled idps)) in
      if idp_buttons = [] then [] else ''<div class=\"divider\"><span>or</span></div>'' @ idp_buttons)"

definition generic_error_page :: "string \<Rightarrow> response" where
  "generic_error_page msg = html_page 400 (generic_error_html (html_escape msg))"

definition render_device_page :: "string \<Rightarrow> string option \<Rightarrow> client_theme \<Rightarrow> response" where
  "render_device_page prefilled_code error t = html_page 200
     (device_html (html_escape (th_app_name t)) (render_head_tags t) (render_css_variables t) (render_logo t)
       (html_escape prefilled_code) (error_div ''error'' error) (render_footer t None))"

definition render_outcome_page :: "string \<Rightarrow> string \<Rightarrow> bool \<Rightarrow> client_theme \<Rightarrow> response" where
  "render_outcome_page title message success t =
     (let (icon, color) = (if success then ([CHR 0xE2, CHR 0x9C, CHR 0x93], ''var(--primary)'')
        else ([CHR 0xE2, CHR 0x9C, CHR 0x95], ''#ef4444'')) in
      html_page 200 (outcome_html (html_escape title) (html_escape (th_app_name t)) (render_head_tags t)
        (render_css_variables t) color (render_logo t) icon (html_escape message) (render_footer t None)))"

section \<open>Pages of a sign-in session\<close>

text \<open>A session that cannot be read leaves the page without its hints.\<close>

definition hinted_email :: "'s ext \<Rightarrow> string \<Rightarrow> (string option, 's) act" where
  "hinted_email x session_id = try_io (or_else_io (get_auth_session x session_id) None) (\<lambda>o1.
     ret (Option.bind o1 as_hinted_email))"

definition account_link :: string where
  "account_link = ''<a href=\"/account\" style=\"color:inherit;text-decoration:none\">Manage your account</a>''"

definition login_page :: "'s ext \<Rightarrow> string \<Rightarrow> string option \<Rightarrow> (response, 's) act" where
  "login_page x session_id error =
     try_io (resolve_theme_for_session x session_id) (\<lambda>t.
     try_io (hinted_email x session_id) (\<lambda>hint.
     try_io (or_else_io (get_auth_session x session_id) None) (\<lambda>o1.
     try_io (or_else_io (list_identity_providers x) []) (\<lambda>idps.
     let hinted = html_escape (case hint of Some e \<Rightarrow> e | None \<Rightarrow> []);
         is_device_flow = (case o1 of Some s \<Rightarrow> as_code_challenge_method s = ''device'' | None \<Rightarrow> False)
     in ret (html_page 200 (login_html (html_escape (th_app_name t)) (render_head_tags t) (render_css_variables t)
          (render_logo t) (error_div ''error-banner'' error) (if is_device_flow then device_hint else [])
          (html_escape session_id) hinted (idp_section (percent_encode session_id) idps)
          (render_footer t (Some account_link)) (js_string_escape session_id)))))))"

definition mfa_page :: "'s ext \<Rightarrow> string \<Rightarrow> string \<Rightarrow> string option \<Rightarrow> (response, 's) act" where
  "mfa_page x mfa_token session_id error =
     try_io (resolve_theme_for_session x session_id) (\<lambda>t.
     ret (html_page 200 (mfa_html (html_escape (th_app_name t)) (render_head_tags t) (render_css_variables t)
       (render_logo t) (error_div ''error-banner'' error) (html_escape mfa_token) (html_escape session_id)
       (render_footer t None))))"

definition consent_page :: "'s ext \<Rightarrow> string \<Rightarrow> auth_code \<Rightarrow> oidc_client \<Rightarrow> user \<Rightarrow> (response, 's) act" where
  "consent_page x code ac client u =
     try_io (get_runtime_settings x) (\<lambda>settings.
     let t = resolve_effective_theme (cl_theme client) settings;
         logout_link = ''/logout?client_id='' @ percent_encode (ac_client_id ac) @ ''&post_logout_redirect_uri='' @
           percent_encode (ac_redirect_uri ac)
     in ret (html_page 200 (consent_html (html_escape (cl_name client)) (render_head_tags t) (render_css_variables t)
          (render_logo t) (html_escape (usr_email u)) logout_link
          (scopes_list ''Stay signed in (refresh tokens)'' (ac_scope ac)) (html_escape code)
          (html_escape (ac_csrf_token ac)) (render_footer t None))))"

text \<open>Appending a cookie to a response; one that could not be made is left out.\<close>

definition with_cookie :: "string \<Rightarrow> response \<Rightarrow> response" where
  "with_cookie cookie r = r\<lparr>rs_headers := rs_headers r @ [(''set-cookie'', cookie)]\<rparr>"

definition add_cookie :: "(string, 's) act \<Rightarrow> response \<Rightarrow> (response, 's) act" where
  "add_cookie m r = match_io m (\<lambda>cookie. ret (with_cookie cookie r)) (\<lambda>_. ret r)"

lemmas pages_runs [code] =
  hinted_email_def [THEN fun_cong] login_page_def [THEN fun_cong] mfa_page_def [THEN fun_cong]
  consent_page_def [THEN fun_cong] add_cookie_def [THEN fun_cong]

context jetcache
begin

lemma resolve_theme_frames [frames_intro]:
  "frames view A (resolve_global_theme x)" "frames view A (resolve_theme_for_client x i)"
  "frames view A (resolve_theme_for_session x i)"
  unfolding resolve_global_theme_def resolve_theme_for_client_def resolve_theme_for_session_def
    get_saml_service_provider_def
  by (intro frames_intro; simp)+

lemma page_frames [frames_intro]:
  "frames view A (login_page x i e)" "frames view A (mfa_page x t i e)" "frames view A (consent_page x c ac cl u)"
  unfolding login_page_def mfa_page_def consent_page_def hinted_email_def list_identity_providers_def Let_def
  by (intro frames_intro; simp)+

lemma add_cookie_frames [frames_intro]: "frames view A m \<Longrightarrow> frames view A (add_cookie m r)"
  unfolding add_cookie_def by (intro frames_intro)

end

end
