(* ===== verification/Writes.thy ===== *)
theory Writes
  imports Frames
begin

text \<open>
  Whatever a computation answers, the entry at an address survives or is one of the entries allowed.
  The rules follow the combinators, so a computation is bounded write by write.
\<close>

definition writes :: "'s view \<Rightarrow> addr \<Rightarrow> (string \<times> u64 \<Rightarrow> bool) \<Rightarrow> ('a, 's) act \<Rightarrow> bool" where
  "writes view a P m \<longleftrightarrow> (\<forall>w r w'. m w = (r, w') \<longrightarrow>
     survives view (w_kv w) (w_kv w') a \<or> (\<exists>e. view (w_kv w') a = Some e \<and> P e))"

named_theorems writes_intro

lemma writesD: "writes view a P m \<Longrightarrow> m w = (r, w') \<Longrightarrow>
    survives view (w_kv w) (w_kv w') a \<or> (\<exists>e. view (w_kv w') a = Some e \<and> P e)"
  unfolding writes_def by blast

lemma writes_frames: "frames view (- {a}) m \<Longrightarrow> table_ok a \<Longrightarrow> writes view a P m"
  unfolding writes_def using frames_survives by fastforce

lemma writes_match [writes_intro]:
  assumes m: "writes view a P m" and k: "\<And>y. writes view a P (k y)" and h: "\<And>e. writes view a P (h e)"
  shows "writes view a P (match_io m k h)"
  unfolding writes_def
proof (intro allI impI)
  fix w r w' assume run: "match_io m k h w = (r, w')"
  obtain q w1 where mw: "m w = (q, w1)" by (cases "m w")
  note step = writesD [OF m mw]
  have "survives view (w_kv w1) (w_kv w') a \<or> (\<exists>e. view (w_kv w') a = Some e \<and> P e)"
  proof (cases q)
    case (Ok y)
    with run mw have "k y w1 = (r, w')" by (simp add: match_io_def)
    then show ?thesis by (rule writesD [OF k])
  next
    case (Err e)
    with run mw have "h e w1 = (r, w')" by (simp add: match_io_def)
    then show ?thesis by (rule writesD [OF h])
  next
    case (Panic p)
    with run mw show ?thesis by (simp add: match_io_def)
  qed
  with step show "survives view (w_kv w) (w_kv w') a \<or> (\<exists>e. view (w_kv w') a = Some e \<and> P e)"
    by (auto simp: survives_def)
qed

lemma writes_lift [writes_intro]: "writes view a P (lift r)" by (simp add: writes_def)

lemma writes_try [writes_intro]:
  "writes view a P m \<Longrightarrow> (\<And>y. writes view a P (k y)) \<Longrightarrow> writes view a P (try_io m k)"
  unfolding try_io_match by (intro writes_match) (simp_all add: fail_lift writes_lift)

lemma writes_ignore [writes_intro]:
  "writes view a P m \<Longrightarrow> writes view a P k \<Longrightarrow> writes view a P (ignore_io m k)"
  unfolding ignore_io_def by (intro writes_match)

lemma writes_if [writes_intro]:
  "(c \<Longrightarrow> writes view a P m) \<Longrightarrow> (\<not> c \<Longrightarrow> writes view a P n) \<Longrightarrow> writes view a P (if c then m else n)"
  by simp

lemma writes_option [writes_intro]:
  "(v = None \<Longrightarrow> writes view a P m) \<Longrightarrow> (\<And>y. v = Some y \<Longrightarrow> writes view a P (k y)) \<Longrightarrow>
    writes view a P (case v of None \<Rightarrow> m | Some y \<Rightarrow> k y)"
  by (cases v) auto

lemma writes_prod [writes_intro]:
  "(\<And>a b. v = (a, b) \<Longrightarrow> writes view c P (k a b)) \<Longrightarrow> writes view c P (case v of (a, b) \<Rightarrow> k a b)"
  by (cases v) auto

lemma writes_mono: "writes view a P m \<Longrightarrow> (\<And>e. P e \<Longrightarrow> Q e) \<Longrightarrow> writes view a Q m"
  unfolding writes_def by blast

lemma survives_rec_at_not:
  "survives view s s' a \<Longrightarrow> rec_at x view d s a \<noteq> Some e \<Longrightarrow> rec_at x view d s' a \<noteq> Some e"
  by (auto dest: survives_rec_at)

text \<open>A step either hands its value on or ends the computation.\<close>

lemma try_io_split:
  assumes "try_io m k w = (r, w')"
  obtains (ok) y w1 where "m w = (Ok y, w1)" "k y w1 = (r, w')" | (stop) q where "m w = (q, w')"
  using assms by (cases "m w"; cases "fst (m w)") (auto simp: try_io_def)

lemma ignore_io_split:
  assumes "ignore_io m k w = (r, w')"
  obtains (go) q w1 where "m w = (q, w1)" "k w1 = (r, w')" | (stop) q where "m w = (q, w')"
  using assms by (cases "m w"; cases "fst (m w)") (auto simp: ignore_io_def match_io_def)

end
