(* ===== verification/Device.thy ===== *)
theory Device
  imports Pages Token Writes
begin

text \<open>
  The device authorization grant (RFC 8628, \<open>device.rs\<close>): a device asks for a code pair, a user enters
  the user code in a browser, signs in and confirms, and the device polls the token endpoint. The
  sign-in in between is the ordinary one; its end mints an approval token, and only a post of that token
  approves the device.
\<close>

section \<open>User codes\<close>

definition user_code_chars :: string where
  "user_code_chars = ''ACDEFGHJKMNPQRTVWXY2345679''"

text \<open>Random bytes at or above the largest multiple of the alphabet size give no character and are drawn
  again; the number of draws is bounded by the fuel, and running out of it is a panic.\<close>

definition user_code_char :: "char \<Rightarrow> string" where
  "user_code_char c =
     (let b = chr_code c;
          limit = 256 - 256 mod length user_code_chars
      in if b < limit then [user_code_chars ! (b mod length user_code_chars)] else [])"

fun user_code_loop :: "nat \<Rightarrow> string \<Rightarrow> (string, 's) act" where
  "user_code_loop fuel chars =
     (if 8 \<le> length chars then ret chars
      else case fuel of 0 \<Rightarrow> panic ''generate_user_code: draw bound''
        | Suc f \<Rightarrow> try_io (random_bytes 1) (\<lambda>buf. user_code_loop f (chars @ user_code_char (hd buf))))"

declare user_code_loop.simps [simp del, code del]

lemma user_code_loop_code [code]:
  "user_code_loop 0 chars w = (if 8 \<le> length chars then ret chars else panic ''generate_user_code: draw bound'') w"
  "user_code_loop (Suc f) chars w = (if 8 \<le> length chars then ret chars else
     try_io (random_bytes 1) (\<lambda>buf. user_code_loop f (chars @ user_code_char (hd buf)))) w"
  by (subst user_code_loop.simps; simp)+

lemma user_code_char_code [code]:
  "user_code_char c = (let b = of_char c :: int in if b < 234 then [user_code_chars ! nat (b mod 26)] else [])"
proof -
  have c: "of_char c = int (chr_code c)" by (simp add: chr_code_def of_char_def)
  have "length user_code_chars = 26" by (simp add: user_code_chars_def)
  then show ?thesis unfolding user_code_char_def Let_def c by (simp add: nat_mod_distrib)
qed

definition generate_user_code :: "'s ext \<Rightarrow> (string, 's) act" where
  "generate_user_code x = try_io (user_code_loop (x_draws x 8) []) (\<lambda>chars.
     ret (take 4 chars @ ''-'' @ drop 4 chars))"

text \<open>Slicing a text inside a character panics.\<close>

definition display_user_code :: "string \<Rightarrow> string res" where
  "display_user_code user_code =
     (if length user_code = 8
      then if 128 \<le> chr_code (user_code ! 4) \<and> chr_code (user_code ! 4) < 192
        then Panic ''byte index 4 is not a char boundary''
        else Ok (take 4 user_code @ ''-'' @ drop 4 user_code)
      else Ok user_code)"

definition typed_user_code :: "string \<Rightarrow> string" where
  "typed_user_code s = filter (\<lambda>c. c \<noteq> CHR ''-'' \<and> c \<noteq> CHR '' '') (to_uppercase (trim s))"

section \<open>The request of the device\<close>

definition device_grant :: string where
  "device_grant = ''urn:ietf:params:oauth:grant-type:device_code''"

abbreviation device_code_lifetime :: u64 where "device_code_lifetime \<equiv> 300"
abbreviation device_poll_interval :: u64 where "device_poll_interval \<equiv> 5"

definition json_error :: "'s ext \<Rightarrow> nat \<Rightarrow> string \<Rightarrow> string \<Rightarrow> response" where
  "json_error x status error description =
     json_no_store x status (JObj [(''error'', JStr error), (''error_description'', JStr description)])"

definition too_many_requests :: "'s ext \<Rightarrow> response" where
  "too_many_requests x = json_error x 429 ''rate_limit_exceeded''
     ''too many device authorization requests. please try again later.''"

definition strictly_confidential :: "oidc_client \<Rightarrow> bool" where
  "strictly_confidential client \<longleftrightarrow>
     confidential client \<or> cl_token_endpoint_auth_method client \<notin> {None, Some ''none''}"

definition client_auth_warning :: "string \<Rightarrow> (unit, 's) act" where
  "client_auth_warning e = log_event ''device_authorization.client_auth_failed'' (JObj [(''error'', JStr e)])"

definition new_device_code :: "string \<Rightarrow> string \<Rightarrow> string \<Rightarrow> string \<Rightarrow> u64 \<Rightarrow> device_code" where
  "new_device_code code user_code client_id scope now =
     \<lparr>dc_device_code = code, dc_user_code = user_code, dc_client_id = client_id, dc_scope = scope,
      dc_expires_at = now + device_code_lifetime, dc_status = ''pending'', dc_user_id = None, dc_sid = None\<rparr>"

definition device_reply :: "string \<Rightarrow> string \<Rightarrow> string \<Rightarrow> json" where
  "device_reply issuer code user_code_display = JObj [(''device_code'', JStr code),
     (''user_code'', JStr user_code_display), (''verification_uri'', JStr (issuer @ ''/device'')),
     (''verification_uri_complete'', JStr (issuer @ ''/device?user_code='' @ percent_encode user_code_display)),
     (''expires_in'', jnum device_code_lifetime), (''interval'', jnum device_poll_interval)]"

definition issue_device_code :: "'s ext \<Rightarrow> string \<Rightarrow> oidc_client \<Rightarrow> string \<Rightarrow> (response, 's) act" where
  "issue_device_code x issuer client scope =
     try_io (random_hex 32) (\<lambda>code.
     try_io (generate_user_code x) (\<lambda>user_code_display.
     let user_code = filter (\<lambda>c. c \<noteq> CHR ''-'') user_code_display in
     try_io unix_now (\<lambda>now.
     try_io (save_device_code x (new_device_code code user_code (cl_client_id client) scope now)) (\<lambda>_.
     try_io (increment_metric ''lattice_id_device_auth_total'' [(''client_id'', cl_client_id client)]) (\<lambda>_.
     ret \<lparr>rs_status = 200, rs_headers = [(''content-type'', ''application/json''), (''cache-control'', ''no-store'')],
       rs_body = json_text x (device_reply issuer code user_code_display)\<rparr>)))))"

definition authenticate_device :: "'s ext \<Rightarrow> (string \<times> string) list \<Rightarrow> string option \<Rightarrow> string \<Rightarrow> (oidc_client, 's) act" where
  "authenticate_device x form auth_header issuer =
     match_io (authenticate_client x form auth_header issuer ''/device_authorization'')
       (\<lambda>ac. if strictly_confidential (au_client ac) \<and> au_method ac = ''none''
          then try_io (client_auth_warning ''confidential client presented no credentials'')
            (\<lambda>_. fail ''client authentication failed'')
          else ret (au_client ac))
       (\<lambda>e. try_io (client_auth_warning e) (\<lambda>_. fail ''client authentication failed''))"

definition device_client_id :: "'s ext \<Rightarrow> (string \<times> string) list \<Rightarrow> string option \<Rightarrow> string option" where
  "device_client_id x form auth_header = (case form_value form ''client_id'' of
     Some i \<Rightarrow> Some i | None \<Rightarrow> map_option fst (parse_basic_auth x auth_header))"

definition start_device :: "'s ext \<Rightarrow> bytes \<Rightarrow> string \<Rightarrow> string option \<Rightarrow> (response, 's) act" where
  "start_device x body issuer auth_header =
     (let form = parse_form body in
      case device_client_id x form auth_header of
        None \<Rightarrow> fail ''missing client_id''
      | Some client_id \<Rightarrow>
          (let scope = (case form_value form ''scope'' of Some s \<Rightarrow> s | None \<Rightarrow> ''openid email'') in
           match_io (check_rate x (''device_authorization:'' @ client_id) 20 3600)
             (\<lambda>(allowed, _). if \<not> allowed then ret (too_many_requests x)
                else try_io (if client_id = ''lid-admin'' then ignore_io (ensure_admin_client x issuer False) (ret ())
                    else ret ()) (\<lambda>_.
                  try_io (authenticate_device x form auth_header issuer) (\<lambda>client.
                  if device_grant \<notin> set (cl_grant_types client)
                  then fail (''client '' @ quoted (cl_client_id client) @
                    '' is not authorized to use the device authorization grant'')
                  else issue_device_code x issuer client scope)))
             (\<lambda>e. try_io (log_event ''rate_limit.device_authorization_check_failed'' (JObj [(''error'', JStr e)]))
                (\<lambda>_. ret (too_many_requests x)))))"

lemmas device_start_runs [code] =
  generate_user_code_def [THEN fun_cong] issue_device_code_def [THEN fun_cong]
  authenticate_device_def [THEN fun_cong] start_device_def [THEN fun_cong]

section \<open>Entering the code\<close>

definition device_page :: "'s ext \<Rightarrow> string \<Rightarrow> (response, 's) act" where
  "device_page x query =
     try_io (resolve_global_theme x) (\<lambda>t.
     let prefilled_code = (case form_value (parse_query query) ''user_code'' of Some c \<Rightarrow> c | None \<Rightarrow> []) in
     ret (render_device_page prefilled_code None t))"

definition device_notice :: "'s ext \<Rightarrow> string \<Rightarrow> (response, 's) act" where
  "device_notice x msg = try_io (resolve_global_theme x) (\<lambda>t. ret (render_device_page [] (Some msg) t))"

definition device_session :: "string \<Rightarrow> device_code \<Rightarrow> u64 \<Rightarrow> string \<Rightarrow> auth_session" where
  "device_session issuer dc now sid =
     \<lparr>as_client_id = dc_client_id dc, as_redirect_uri = issuer @ ''/device/complete'', as_code_challenge = [],
      as_code_challenge_method = ''device'', as_state = dc_device_code dc, as_scope = dc_scope dc, as_nonce = [],
      as_max_age = None, as_acr_values = [], as_requested_id_token_claims = [],
      as_requested_userinfo_claims = [], as_hinted_user_id = None, as_hinted_email = None,
      as_created_at = now, as_needs_consent = False, as_prompt = None, as_sid = Some sid\<rparr>"

text \<open>Too many attempts on one user code deny the request it belongs to while it is still pending.\<close>

definition lock_user_code :: "'s ext \<Rightarrow> string \<Rightarrow> (unit, 's) act" where
  "lock_user_code x user_code =
     try_io (get_device_code_by_user_code x user_code) (\<lambda>o1. case o1 of
       Some dc \<Rightarrow>
         if dc_status dc = ''pending''
         then ignore_io (update_device_code_status x (dc_device_code dc) ''denied'' None None)
           (log_audit ''device_code_locked'' [] (dc_client_id dc) ''user_code locked after too many attempts'')
         else ret ()
     | None \<Rightarrow> ret ())"

definition begin_device_session :: "'s ext \<Rightarrow> string \<Rightarrow> device_code \<Rightarrow> (response, 's) act" where
  "begin_device_session x issuer dc =
     try_io (random_hex 32) (\<lambda>session_id.
     try_io unix_now (\<lambda>now.
     try_io (random_hex 16) (\<lambda>sid.
     try_io (save_auth_session x session_id (device_session issuer dc now sid)) (\<lambda>_.
     try_io (create_flow_cookie x session_id) (\<lambda>cookie.
     ret \<lparr>rs_status = 302, rs_headers = [(''location'', ''/login?session_id='' @ session_id),
       (''set-cookie'', cookie), (''cache-control'', ''no-store'')], rs_body = []\<rparr>)))))"

definition open_user_code :: "'s ext \<Rightarrow> string \<Rightarrow> string \<Rightarrow> (response, 's) act" where
  "open_user_code x issuer user_code =
     try_io (get_device_code_by_user_code x user_code) (\<lambda>o1. case o1 of
       None \<Rightarrow> fail ''invalid or expired user code''
     | Some dc \<Rightarrow>
         try_io (resolve_global_theme x) (\<lambda>t.
         try_io unix_now (\<lambda>now.
         if dc_expires_at dc < now
         then ret (render_device_page [] (Some ''Code has expired. Please restart on your device.'') t)
         else if dc_status dc \<noteq> ''pending''
         then ret (render_device_page [] (Some ''This code has already been used.'') t)
         else begin_device_session x issuer dc)))"

definition submit_user_code :: "'s ext \<Rightarrow> string \<Rightarrow> string \<Rightarrow> (response, 's) act" where
  "submit_user_code x issuer user_code =
     match_io (check_rate x (''device_user_code:'' @ user_code) 5 900)
       (\<lambda>(allowed, _). if allowed then open_user_code x issuer user_code
          else try_io (lock_user_code x user_code) (\<lambda>_.
            device_notice x ''Too many attempts. Please restart the sign-in on your device.''))
       (\<lambda>e. try_io (log_event ''rate_limit.device_user_code_check_failed'' (JObj [(''error'', JStr e)])) (\<lambda>_.
          device_notice x ''Too many attempts. Please wait and try again.''))"

section \<open>Confirmation\<close>

definition approval_key :: "string \<Rightarrow> string" where
  "approval_key approval_token = ''device_approval:'' @ approval_token"

definition approval_record :: "auth_session \<Rightarrow> user \<Rightarrow> json" where
  "approval_record s u = JObj [(''device_code'', JStr (as_state s)), (''user_id'', JStr (usr_id u)),
     (''client_id'', JStr (as_client_id s)), (''sid'', jopt JStr (as_sid s))]"

definition create_approval :: "'s ext \<Rightarrow> auth_session \<Rightarrow> user \<Rightarrow> (string, 's) act" where
  "create_approval x s u =
     try_io (random_hex 32) (\<lambda>approval_token.
     try_io (kv_cache_set x (approval_key approval_token) (approval_record s u) 300) (\<lambda>_. ret approval_token))"

definition unavailable :: "client_theme \<Rightarrow> response" where
  "unavailable t = render_outcome_page ''Confirmation Unavailable''
     ''This device confirmation has expired or was already used. Please restart on your device.'' False t"

definition text_of :: "json \<Rightarrow> string \<Rightarrow> string" where
  "text_of j k = (case jget_str j k of Some s \<Rightarrow> s | None \<Rightarrow> [])"

definition confirm_form :: "string \<Rightarrow> string option \<Rightarrow> oidc_client \<Rightarrow> client_theme \<Rightarrow> device_code \<Rightarrow> user \<Rightarrow> response res" where
  "confirm_form approval_token error client t dc u =
     res_bind (display_user_code (dc_user_code dc)) (\<lambda>shown.
     Ok (html_page 200 (confirm_html (html_escape (cl_name client)) (render_head_tags t) (render_css_variables t)
       (render_logo t) (html_escape (usr_email u)) (error_div ''error-banner'' error) (html_escape shown)
       (scopes_list ''Stay signed in on the device (refresh tokens)'' (dc_scope dc))
       (html_escape approval_token) (render_footer t None))))"

definition still_pending :: "device_code option \<Rightarrow> (bool, 's) act" where
  "still_pending o1 = (case o1 of
     Some d \<Rightarrow> if dc_status d = ''pending'' then try_io unix_now (\<lambda>now. ret (now \<le> dc_expires_at d)) else ret False
   | None \<Rightarrow> ret False)"

definition confirm_page :: "'s ext \<Rightarrow> string \<Rightarrow> string option \<Rightarrow> (response, 's) act" where
  "confirm_page x approval_token error =
     try_io (or_else_io (kv_cache_get x de_value (approval_key approval_token)) None) (\<lambda>o1. case o1 of
       None \<Rightarrow> try_io (resolve_global_theme x) (\<lambda>t. ret (unavailable t))
     | Some record \<Rightarrow>
         try_io (or_else_io (get_client x (text_of record ''client_id'')) None) (\<lambda>c1.
         let client = (case c1 of Some c \<Rightarrow> c | None \<Rightarrow> default_client) in
         try_io (or_else_io (get_device_code x (text_of record ''device_code'')) None) (\<lambda>d1.
         try_io (or_else_io (get_user x (text_of record ''user_id'')) None) (\<lambda>u1.
         try_io (get_runtime_settings x) (\<lambda>settings.
         let t = resolve_effective_theme (cl_theme client) settings in
         try_io (still_pending d1) (\<lambda>pending. case (d1, u1) of
           (Some dc, Some u) \<Rightarrow>
             if pending then lift (confirm_form approval_token error client t dc u) else ret (unavailable t)
         | _ \<Rightarrow> ret (unavailable t)))))))"

definition confirm_view :: "'s ext \<Rightarrow> string \<Rightarrow> (response, 's) act" where
  "confirm_view x query =
     confirm_page x (case form_value (parse_query query) ''token'' of Some t \<Rightarrow> t | None \<Rightarrow> []) None"

definition decide_open ::
    "'s ext \<Rightarrow> string \<Rightarrow> string \<Rightarrow> string \<Rightarrow> string option \<Rightarrow> string \<Rightarrow> device_code \<Rightarrow> (response, 's) act" where
  "decide_open x decision code user_id sid client_id dc =
     try_io (resolve_global_theme x) (\<lambda>t.
     try_io unix_now (\<lambda>now.
     if dc_expires_at dc < now
     then ret (render_device_page [] (Some ''Code has expired. Please restart on your device.'') t)
     else if dc_status dc \<noteq> ''pending''
     then ret (render_device_page [] (Some ''This code has already been used.'') t)
     else if decision \<noteq> ''approve''
     then try_io (update_device_code_status x code ''denied'' None None) (\<lambda>_.
       try_io (log_audit ''device_denied'' user_id client_id ''user denied device'') (\<lambda>_.
       ret (render_outcome_page ''Device Not Authorized''
         ''You declined the device sign-in. Nothing was authorized on your account.'' False t)))
     else try_io (update_device_code_status x code ''approved'' (Some user_id) sid) (\<lambda>_.
       try_io (log_audit ''device_approved'' user_id client_id ''user approved device'') (\<lambda>_.
       ret (render_outcome_page ''Device Activated!''
         ''You can close this window. Your device is now signed in.'' True t)))))"

definition decide_device ::
    "'s ext \<Rightarrow> string \<Rightarrow> string \<Rightarrow> string \<Rightarrow> string option \<Rightarrow> string \<Rightarrow> (response, 's) act" where
  "decide_device x decision code user_id sid client_id =
     try_io (get_device_code x code) (\<lambda>o1. case o1 of
       None \<Rightarrow> fail ''device code not found or expired''
     | Some dc \<Rightarrow> decide_open x decision code user_id sid client_id dc)"

definition handle_confirmation :: "'s ext \<Rightarrow> (string \<times> string) list \<Rightarrow> (response, 's) act" where
  "handle_confirmation x form = (case form_value form ''approval_token'' of
     None \<Rightarrow> fail ''missing approval_token''
   | Some approval_token \<Rightarrow>
       (let decision = (case form_value form ''decision'' of Some d \<Rightarrow> d | None \<Rightarrow> ''deny'');
            key = approval_key approval_token in
        try_io (kv_cache_get x de_value key) (\<lambda>o1. case o1 of
          None \<Rightarrow> device_notice x
            ''This confirmation has expired or was already used. Please restart on your device.''
        | Some record \<Rightarrow>
            ignore_io (kv_delete x ''cache'' key)
              (case (jget_str record ''device_code'', jget_str record ''user_id'') of
                 (Some code, Some user_id) \<Rightarrow>
                   decide_device x decision code user_id (jget_str record ''sid'') (text_of record ''client_id'')
               | _ \<Rightarrow> fail ''invalid approval record''))))"

definition submit_device :: "'s ext \<Rightarrow> bytes \<Rightarrow> string \<Rightarrow> (response, 's) act" where
  "submit_device x body issuer =
     (let form = parse_form body in
      if form_value form ''approval_token'' \<noteq> None then handle_confirmation x form
      else case form_value form ''user_code'' of
        None \<Rightarrow> fail ''missing user_code''
      | Some typed \<Rightarrow> submit_user_code x issuer (typed_user_code typed))"

definition complete_device :: "'s ext \<Rightarrow> (response, 's) act" where
  "complete_device x = try_io (resolve_global_theme x) (\<lambda>t. ret (render_outcome_page ''Device Activated!''
     ''You can close this window. Your device is now signed in.'' True t))"

lemmas device_runs [code] =
  client_auth_warning_def [THEN fun_cong] device_page_def [THEN fun_cong] device_notice_def [THEN fun_cong]
  lock_user_code_def [THEN fun_cong]
  begin_device_session_def [THEN fun_cong] open_user_code_def [THEN fun_cong] submit_user_code_def
  [THEN fun_cong] create_approval_def [THEN fun_cong] still_pending_def [THEN fun_cong] confirm_page_def [THEN
  fun_cong] confirm_view_def [THEN fun_cong] decide_open_def [THEN fun_cong] decide_device_def [THEN fun_cong] handle_confirmation_def [THEN
  fun_cong] submit_device_def [THEN fun_cong] complete_device_def [THEN fun_cong]

section \<open>Frames and writes\<close>

definition encodes_device :: "'s ext \<Rightarrow> (device_code \<Rightarrow> bool) \<Rightarrow> string \<times> u64 \<Rightarrow> bool" where
  "encodes_device x Q e \<longleftrightarrow> (\<exists>dc. fst e = x_b64_encode x (x_to_vec x (device_code_to_json dc)) \<and> Q dc)"

abbreviation device_at :: "string \<Rightarrow> addr" where "device_at code \<equiv> sess (''device:'' @ code)"

context jetcache
begin

lemma user_code_loop_frames: "frames view A (user_code_loop f chars)"
  by (induction f arbitrary: chars) (subst user_code_loop.simps, simp only: nat.case, intro frames_intro; assumption?)+

lemma generate_user_code_frames [frames_intro]: "frames view A (generate_user_code x)"
  unfolding generate_user_code_def by (intro frames_intro user_code_loop_frames)

lemma cache_frames [frames_intro]:
  "(''cache'', k) \<in> A \<Longrightarrow> frames view A (kv_cache_get x d k)"
  "(''cache'', k) \<in> A \<Longrightarrow> frames view A (kv_cache_set x k v ttl)"
  unfolding kv_cache_get_def kv_cache_set_def by (intro frames_intro; simp)+

lemma device_page_frames [frames_intro]:
  "frames view A (device_page x q)" "frames view A (device_notice x m)" "frames view A (still_pending o1)"
  "(\<And>i. sess (''session:'' @ i) \<in> A) \<Longrightarrow> frames view A (begin_device_session x issuer dc)"
  "(\<And>k. (''cache'', k) \<in> A) \<Longrightarrow> frames view A (create_approval x s u)"
  "(\<And>k. (''cache'', k) \<in> A) \<Longrightarrow> frames view A (confirm_page x t e)"
  unfolding device_page_def device_notice_def still_pending_def begin_device_session_def create_approval_def
    confirm_page_def Let_def
  by (intro frames_intro; simp)+

lemma open_user_code_frames [frames_intro]:
  "(\<And>i. sess (''session:'' @ i) \<in> A) \<Longrightarrow> frames view A (open_user_code x issuer c)"
  unfolding open_user_code_def by (intro frames_intro; simp)

lemma writes_rest:
  "frames view (- {device_at code}) m \<Longrightarrow> writes view (device_at code) P m"
  by (rule writes_frames) (simp_all add: table_ok_def)

lemma update_device_writes:
  assumes "\<And>dc. c = code \<Longrightarrow> dc_status dc = st \<Longrightarrow> dc_user_id dc = u \<Longrightarrow> Q dc"
  shows "writes view (device_at code) (encodes_device x Q) (update_device_code_status x c st u sid)"
proof (cases "c = code")
  case False
  then show ?thesis by (intro writes_rest frames_intro) simp
next
  case True
  have swap: "writes view (device_at code) (encodes_device x Q)
      (kv_cas_swap_ttl x sessions_store (''device:'' @ c) (device_code_to_json dc) n ttl)"
    if "dc_status dc = st" "dc_user_id dc = u" for dc n ttl
    unfolding writes_def
  proof (intro allI impI)
    fix w r w'
    assume "kv_cas_swap_ttl x sessions_store (''device:'' @ c) (device_code_to_json dc) n ttl w = (r, w')"
    from kv_cas_swap_ttl_outcome [OF this] assms [OF True that] True
    show "survives view (w_kv w) (w_kv w') (device_at code) \<or>
        (\<exists>e. view (w_kv w') (device_at code) = Some e \<and> encodes_device x Q e)"
      by (auto simp: encodes_device_def)
  qed
  have "writes view (device_at code) (encodes_device x Q) (get_device_code_cas x c)"
    "writes view (device_at code) (encodes_device x Q) unix_now" by (intro writes_rest frames_intro)+
  then show ?thesis unfolding update_device_code_status_def Let_def ret_lift
    by (intro writes_intro swap; simp)
qed

end

section \<open>User codes\<close>

lemma user_code_char_set: "set (user_code_char c) \<subseteq> set user_code_chars" "length (user_code_char c) \<le> 1"
proof -
  have "user_code_chars ! (chr_code c mod length user_code_chars) \<in> set user_code_chars"
    by (rule nth_mem) (simp add: user_code_chars_def)
  then show "set (user_code_char c) \<subseteq> set user_code_chars" "length (user_code_char c) \<le> 1"
    by (auto simp: user_code_char_def Let_def)
qed

lemma user_code_loop_Ok: "length acc \<le> 8 \<Longrightarrow> set acc \<subseteq> set user_code_chars \<Longrightarrow> user_code_loop f acc w = (Ok s, w') \<Longrightarrow>
    length s = 8 \<and> set s \<subseteq> set user_code_chars"
proof (induction f arbitrary: acc w)
  case 0
  then show ?case by (auto simp: user_code_loop.simps split: if_splits)
next
  case (Suc f)
  show ?case
  proof (cases "8 \<le> length acc")
    case True
    with Suc.prems show ?thesis by (subst (asm) user_code_loop.simps) simp
  next
    case False
    with Suc.prems(3) obtain buf w1 where run: "user_code_loop f (acc @ user_code_char (hd buf)) w1 = (Ok s, w')"
      by (subst (asm) user_code_loop.simps) (auto elim!: try_io_Ok)
    show ?thesis
      by (rule Suc.IH [OF _ _ run]) (use False Suc.prems(2) user_code_char_set [of "hd buf"] in auto)
  qed
qed

text \<open>A character of the alphabet is plain upper case.\<close>

definition code_chr :: "char \<Rightarrow> bool" where
  "code_chr c \<longleftrightarrow> upper_chr c = c \<and> upper_chr (lower_chr c) = c \<and> c \<noteq> CHR ''-'' \<and> c \<noteq> CHR '' '' \<and>
     \<not> is_ws c \<and> \<not> is_ws (lower_chr c) \<and> \<not> 128 \<le> chr_code c"

lemma user_code_chars_plain: "list_all code_chr user_code_chars"
  by code_simp

lemma hyphen_plain: "\<not> is_ws CHR ''-'' \<and> upper_chr CHR ''-'' = CHR ''-'' \<and> lower_chr CHR ''-'' = CHR ''-''"
  by code_simp

lemma trim_plain: "list_all (\<lambda>c. \<not> is_ws c) s \<Longrightarrow> trim s = s"
proof -
  assume "list_all (\<lambda>c. \<not> is_ws c) s"
  then have "dropWhile is_ws s = s" "dropWhile is_ws (rev s) = rev s"
    by (auto simp: dropWhile_eq_self_iff list_all_iff hd_rev)
  then show ?thesis by (simp add: trim_def)
qed

lemma typed_shown:
  assumes "list_all code_chr (a @ b)"
  shows "typed_user_code (a @ ''-'' @ b) = a @ b" "typed_user_code (to_lowercase (a @ ''-'' @ b)) = a @ b"
    "typed_user_code (a @ b) = a @ b" "filter (\<lambda>c. c \<noteq> CHR ''-'') (a @ ''-'' @ b) = a @ b"
proof -
  have up: "map upper_chr s = s" "map (upper_chr \<circ> lower_chr) s = s" "filter (\<lambda>c. c \<noteq> CHR ''-'' \<and> c \<noteq> CHR '' '') s = s"
      "filter (\<lambda>c. c \<noteq> CHR ''-'') s = s" if "list_all code_chr s" for s
    using that by (auto simp: list_all_iff code_chr_def map_idI filter_id_conv)
  have ws: "trim (a @ ''-'' @ b) = a @ ''-'' @ b" "trim (to_lowercase (a @ ''-'' @ b)) = to_lowercase (a @ ''-'' @ b)"
      "trim (a @ b) = a @ b"
    by (rule trim_plain; use assms hyphen_plain in \<open>auto simp: list_all_iff code_chr_def to_lowercase_def\<close>)+
  from assms up [of a] up [of b] hyphen_plain
  show "typed_user_code (a @ ''-'' @ b) = a @ b" "typed_user_code (to_lowercase (a @ ''-'' @ b)) = a @ b"
    "typed_user_code (a @ b) = a @ b" "filter (\<lambda>c. c \<noteq> CHR ''-'') (a @ ''-'' @ b) = a @ b"
    unfolding typed_user_code_def ws by (simp_all add: to_uppercase_def to_lowercase_def)
qed

lemma display_code:
  assumes "length s = 8" and "list_all code_chr s"
  shows "display_user_code s = Ok (take 4 s @ ''-'' @ drop 4 s)"
proof -
  have "s ! 4 \<in> set s" using assms(1) by simp
  with assms show ?thesis by (auto simp: display_user_code_def list_all_iff code_chr_def)
qed

lemma generate_user_code_Ok:
  assumes "generate_user_code x w = (Ok shown, w')"
  shows "\<exists>s. length s = 8 \<and> list_all code_chr s \<and> shown = take 4 s @ ''-'' @ drop 4 s"
proof -
  from assms obtain s w1 where s: "user_code_loop (x_draws x 8) [] w = (Ok s, w1)" and r: "shown = take 4 s @ ''-'' @ drop 4 s"
    unfolding generate_user_code_def by (auto elim!: try_io_Ok)
  from user_code_loop_Ok [OF _ _ s] user_code_chars_plain have "length s = 8" "list_all code_chr s"
    by (auto simp: list_all_iff)
  with r show ?thesis by blast
qed

section \<open>Approval\<close>

abbreviation approved_for :: "string option \<Rightarrow> device_code \<Rightarrow> bool" where
  "approved_for u dc \<equiv> dc_status dc = ''approved'' \<and> dc_user_id dc = u"

context gateway
begin

lemma encodes_device_rec:
  "view s a = Some e \<Longrightarrow> encodes_device x Q e \<Longrightarrow>
    \<exists>dc. rec_at x view device_code_of_json s a = Some (dc, snd e) \<and> Q dc"
  by (cases e) (auto simp: encodes_device_def rec_at_encoded device_code_roundtrip)

text \<open>An entry that was written holds a record of the kind the computation writes.\<close>

lemma writes_changed:
  assumes "writes view (device_at code) (encodes_device x Q) m" and "m w = (r, w')"
    and "rec_at x view device_code_of_json (w_kv w') (device_at code) = Some e"
    and "rec_at x view device_code_of_json (w_kv w) (device_at code) \<noteq> Some e"
  shows "Q (fst e)"
proof -
  from writesD [OF assms(1,2)] show ?thesis
  proof
    assume "survives view (w_kv w) (w_kv w') (device_at code)"
    from survives_rec_at [OF this assms(3)] assms(4) show ?thesis by simp
  next
    assume "\<exists>e. view (w_kv w') (device_at code) = Some e \<and> encodes_device x Q e"
    then obtain e1 where e1: "view (w_kv w') (device_at code) = Some e1" "encodes_device x Q e1" by blast
    from encodes_device_rec [OF e1] assms(3) show ?thesis by force
  qed
qed

lemma submit_user_code_writes:
  "writes view (device_at code) (encodes_device x (\<lambda>dc. dc_status dc = ''denied'')) (submit_user_code x issuer c)"
proof -
  have rest: "writes view (device_at code) P (open_user_code x issuer c)"
    "writes view (device_at code) P (check_rate x k l n)"
    "writes view (device_at code) P (device_notice x m)" "writes view (device_at code) P (log_event ev j)"
    "writes view (device_at code) P (log_audit a b d f)" "writes view (device_at code) P (get_device_code_by_user_code x c)"
    "writes view (device_at code) P (ret u)"
    for P k l n m ev j a b d f and u :: unit
    by (intro writes_rest frames_intro; simp)+
  show ?thesis unfolding submit_user_code_def lock_user_code_def
    by (intro writes_intro rest update_device_writes)
qed

lemma kv_cache_get_Some:
  assumes "kv_cache_get x d k w = (Ok (Some v), w')"
  shows "\<exists>t n. rec_at x view (cache_entry_of_json d) (w_kv w) (''cache'', k) = Some ((v, t), n)"
proof -
  from assms obtain o1 w1 where g: "kv_get_raw x ''cache'' k w = (Ok o1, w1)"
    and r: "(case o1 of Some b \<Rightarrow>
         try_io (lift (res_map_err (\<lambda>e. ''cache deserialize: '' @ e)
             (from_slice x (cache_entry_of_json d) b))) (\<lambda>(value, expires_at).
         try_io unix_now (\<lambda>now.
         if now < expires_at then ret (Some value)
         else ignore_io (kv_delete x ''cache'' k) (ret None)))
       | None \<Rightarrow> ret None) w1 = (Ok (Some v), w')"
    unfolding kv_cache_get_def by (rule try_io_Ok)
  from r obtain b where b: "o1 = Some b" by (cases o1) auto
  from r obtain t where "from_slice x (cache_entry_of_json d) b = Ok (v, t)"
    unfolding b option.case
    by (cases "from_slice x (cache_entry_of_json d) b") (auto elim!: try_io_Ok ignore_io_Ok simp: lift_Ok split: if_splits prod.splits)
  with kv_get_raw_Ok [OF g] b show ?thesis
    by (cases "bytes_at x view (w_kv w) (''cache'', k)") (auto simp: rec_at_def)
qed

lemma decide_open_writes:
  "writes view (device_at code) (encodes_device x (\<lambda>dc'. dc_status dc = ''pending'' \<and> (dc_status dc' = ''denied'' \<or>
     code' = code \<and> decision = ''approve'' \<and> dc_user_id dc' = Some u))) (decide_open x decision code' u sid i dc)"
proof -
  have rest: "writes view (device_at code) P (resolve_global_theme x)" "writes view (device_at code) P unix_now"
    "writes view (device_at code) P (log_audit a b d f)" "writes view (device_at code) P (ret q)"
    for P a b d f and q :: response
    by (intro writes_rest frames_intro)+
  show ?thesis unfolding decide_open_def by (intro writes_intro rest update_device_writes; simp)
qed

lemma decide_device_approves:
  assumes run: "decide_device x decision code' u sid i w = (r, w')"
    and now: "rec_at x view device_code_of_json (w_kv w') (device_at code) = Some (dc', n')" "dc_status dc' = ''approved''"
    and before: "rec_at x view device_code_of_json (w_kv w) (device_at code) \<noteq> Some (dc', n')"
  shows "code' = code \<and> decision = ''approve'' \<and> dc_user_id dc' = Some u \<and>
    (\<exists>dc n. rec_at x view device_code_of_json (w_kv w) (device_at code) = Some (dc, n) \<and> dc_status dc = ''pending'')"
  using run unfolding decide_device_def
proof (cases rule: try_io_split)
  case (stop q)
  have "writes view (device_at code) (encodes_device x (\<lambda>_. False)) (get_device_code x code')"
    by (intro writes_rest frames_intro)
  from writes_changed [OF this stop now(1) before] show ?thesis by simp
next
  case (ok o1 w1)
  have "survives view (w_kv w) (w_kv w1) (device_at code)"
    by (rule frames_survives [OF device_frames(2) ok(1), where A = "{}"]) (simp_all add: table_ok_def)
  from survives_rec_at_not [OF this before]
  have w1: "rec_at x view device_code_of_json (w_kv w1) (device_at code) \<noteq> Some (dc', n')" .
  show ?thesis
  proof (cases o1)
    case None
    have "writes view (device_at code) (encodes_device x (\<lambda>_. False)) (fail e)" for e
      by (intro writes_rest frames_intro)
    from writes_changed [OF this _ now(1) w1] ok(2) None show ?thesis by simp
  next
    case (Some dc)
    with ok(2) have run1: "decide_open x decision code' u sid i dc w1 = (r, w')" by simp
    from writes_changed [OF decide_open_writes run1 now(1) w1] now(2)
    have q: "dc_status dc = ''pending''" "code' = code" "decision = ''approve''" "dc_user_id dc' = Some u" by simp_all
    from kv_get_Ok [OF ok(1) [unfolded get_device_code_def]] Some q(2) obtain n
      where "rec_at x view device_code_of_json (w_kv w) (device_at code) = Some (dc, n)"
      by (cases "rec_at x view device_code_of_json (w_kv w) (device_at code)") auto
    with q show ?thesis by blast
  qed
qed

lemma handle_confirmation_approves:
  assumes run: "handle_confirmation x form w = (r, w')"
    and now: "rec_at x view device_code_of_json (w_kv w') (device_at code) = Some (dc', n')" "dc_status dc' = ''approved''"
    and before: "rec_at x view device_code_of_json (w_kv w) (device_at code) \<noteq> Some (dc', n')"
  shows "form_value form ''decision'' = Some ''approve'' \<and>
    (\<exists>token record t n u dc m. form_value form ''approval_token'' = Some token \<and>
      rec_at x view (cache_entry_of_json de_value) (w_kv w) (''cache'', approval_key token) = Some ((record, t), n) \<and>
      jget_str record ''device_code'' = Some code \<and> jget_str record ''user_id'' = Some u \<and>
      dc_user_id dc' = Some u \<and>
      rec_at x view device_code_of_json (w_kv w) (device_at code) = Some (dc, m) \<and> dc_status dc = ''pending'')"
proof -
  have still: "survives view (w_kv w1) (w_kv w2) (device_at code)"
    if "touches view {(''cache'', k)} w1 w2" for k and w1 w2 :: "'s world"
    by (rule touchesD [OF that]) (simp_all add: table_ok_def)
  have quiet: "False" if "frames view (- {device_at code}) m" "m w1 = (q, w')"
      "rec_at x view device_code_of_json (w_kv w1) (device_at code) \<noteq> Some (dc', n')"
    for m :: "(response, 's) act" and w1 q
    using writes_changed [OF writes_rest [OF that(1)] that(2) now(1) that(3), of "\<lambda>_. False"] .
  obtain token where token: "form_value form ''approval_token'' = Some token"
    using run now(1) before by (cases "form_value form ''approval_token''") (auto simp: handle_confirmation_def)
  let ?key = "approval_key token"
  let ?d = "case form_value form ''decision'' of Some d \<Rightarrow> d | None \<Rightarrow> ''deny''"
  from run have run1: "try_io (kv_cache_get x de_value ?key) (\<lambda>o1. case o1 of
      None \<Rightarrow> device_notice x ''This confirmation has expired or was already used. Please restart on your device.''
    | Some record \<Rightarrow> ignore_io (kv_delete x ''cache'' ?key)
          (case (jget_str record ''device_code'', jget_str record ''user_id'') of
             (Some code, Some user_id) \<Rightarrow>
               decide_device x ?d code user_id (jget_str record ''sid'') (text_of record ''client_id'')
           | _ \<Rightarrow> fail ''invalid approval record'')) w = (r, w')"
    unfolding handle_confirmation_def Let_def token option.case .
  note cached = framesD [OF cache_frames(1) [where A = "{(''cache'', ?key)}"]]
  show ?thesis using run1
  proof (cases rule: try_io_split)
    case (stop q)
    from survives_rec_at_not [OF still [OF cached [OF _ stop]] before] now(1) show ?thesis by simp
  next
    case (ok o1 w1)
    from survives_rec_at_not [OF still [OF cached [OF _ ok(1)]] before]
    have w1: "rec_at x view device_code_of_json (w_kv w1) (device_at code) \<noteq> Some (dc', n')" by simp
    show ?thesis
    proof (cases o1)
      case None
      with ok(2) have "device_notice x
          ''This confirmation has expired or was already used. Please restart on your device.'' w1 = (r, w')" by simp
      from quiet [OF device_page_frames(2) this w1] show ?thesis by simp
    next
      case (Some rc)
      with ok(2) have "ignore_io (kv_delete x ''cache'' ?key)
          (case (jget_str rc ''device_code'', jget_str rc ''user_id'') of
             (Some code, Some user_id) \<Rightarrow>
               decide_device x ?d code user_id (jget_str rc ''sid'') (text_of rc ''client_id'')
           | _ \<Rightarrow> fail ''invalid approval record'') w1 = (r, w')" by simp
      then show ?thesis
      proof (cases rule: ignore_io_split)
        case (stop q)
        from survives_rec_at_not [OF still [OF kv_delete_touches [OF stop]] w1] now(1) show ?thesis by simp
      next
        case (go q w2)
        have s: "survives view (w_kv w) (w_kv w2) (device_at code)"
          by (rule survives_trans [OF still [OF cached [OF _ ok(1)]] still [OF kv_delete_touches [OF go(1)]]]) simp_all
        from survives_rec_at_not [OF s before]
        have w2: "rec_at x view device_code_of_json (w_kv w2) (device_at code) \<noteq> Some (dc', n')" .
        with go(2) now(1) obtain c u where cu: "jget_str rc ''device_code'' = Some c" "jget_str rc ''user_id'' = Some u"
          by (cases "jget_str rc ''device_code''"; cases "jget_str rc ''user_id''") auto
        with go(2) have "decide_device x ?d c u (jget_str rc ''sid'') (text_of rc ''client_id'') w2 = (r, w')" by simp
        from decide_device_approves [OF this now w2] obtain dc m where
          d: "c = code" "?d = ''approve''" "dc_user_id dc' = Some u" "dc_status dc = ''pending''"
            "rec_at x view device_code_of_json (w_kv w2) (device_at code) = Some (dc, m)" by blast
        from kv_cache_get_Some [OF ok(1) [unfolded Some]] obtain t n where
          "rec_at x view (cache_entry_of_json de_value) (w_kv w) (''cache'', ?key) = Some ((rc, t), n)" by blast
        moreover have "form_value form ''decision'' = Some ''approve''"
          using d(2) by (cases "form_value form ''decision''") simp_all
        ultimately show ?thesis
          using cu token survives_rec_at [OF s d(5)] d(3,4) unfolding d(1) by blast
      qed
    qed
  qed
qed

lemma submit_device_writes:
  assumes "form_value (parse_form body) ''approval_token'' = None"
  shows "writes view (device_at code) (encodes_device x (\<lambda>dc. dc_status dc = ''denied'')) (submit_device x body issuer)"
proof -
  have "writes view (device_at code) P (fail ''missing user_code'')" for P by (intro writes_rest frames_intro)
  then show ?thesis unfolding submit_device_def Let_def
    by (intro writes_intro submit_user_code_writes) (simp_all add: assms)
qed

lemma issue_device_code_Ok:
  assumes run: "issue_device_code x issuer client scope w = (Ok resp, w')"
  shows "\<exists>code shown now n m. rs_body resp = json_text x (device_reply issuer code shown) \<and>
    typed_user_code (to_lowercase shown) = typed_user_code shown \<and>
    typed_user_code (filter (\<lambda>c. c \<noteq> CHR ''-'') shown) = typed_user_code shown \<and>
    display_user_code (typed_user_code shown) = Ok shown \<and>
    bytes_at x view (w_kv w') (sess (''device_user_code:'' @ to_uppercase (typed_user_code shown))) = Some (code, n) \<and>
    (view (w_kv w') (device_at code) = None \<or>
     rec_at x view device_code_of_json (w_kv w') (device_at code) =
       Some (new_device_code code (typed_user_code shown) (cl_client_id client) scope now, m))"
proof -
  from run obtain code shown now w1 w2 w3 where g: "generate_user_code x w1 = (Ok shown, w2)"
    and s: "save_device_code x (new_device_code code (filter (\<lambda>c. c \<noteq> CHR ''-'') shown) (cl_client_id client) scope now) w3 = (Ok (), w')"
    and b: "rs_body resp = json_text x (device_reply issuer code shown)"
    unfolding issue_device_code_def Let_def by (auto elim!: try_io_Ok)
  from generate_user_code_Ok [OF g] obtain cs where cs: "length cs = 8" "list_all code_chr cs"
    and shown: "shown = take 4 cs @ ''-'' @ drop 4 cs" by blast
  from cs(2) have "list_all code_chr (take 4 cs @ drop 4 cs)" by simp
  note typed = typed_shown [OF this, folded shown, unfolded append_take_drop_id]
  let ?dc = "new_device_code code cs (cl_client_id client) scope now"
  let ?uc = "sess (''device_user_code:'' @ to_uppercase cs)"
  from s [unfolded typed(4)] obtain w4 u where
    s1: "kv_set_ttl x sessions_store (''device:'' @ code) (device_code_to_json ?dc) ttl_device_code w3 = (Ok u, w4)"
    and s2: "kv_set_raw_ttl x sessions_store (''device_user_code:'' @ to_uppercase cs) code ttl_device_code w4 = (Ok (), w')"
    unfolding save_device_code_def by (auto elim!: try_io_Ok simp: new_device_code_def)
  from kv_set_ttl_Ok [OF s1] obtain m where
    r: "rec_at x view device_code_of_json (w_kv w4) (device_at code) = Some (?dc, m)"
    by (auto simp: rec_at_encoded device_code_roundtrip)
  have "survives view (w_kv w4) (w_kv w') (device_at code)"
    by (rule touchesD [OF kv_set_raw_ttl_touches [OF s2]]) (simp_all add: table_ok_def)
  then have d: "view (w_kv w') (device_at code) = None \<or>
      rec_at x view device_code_of_json (w_kv w') (device_at code) = Some (?dc, m)"
    unfolding survives_def using r rec_at_cong [of view "w_kv w'" "device_at code" "w_kv w4" x device_code_of_json] by auto
  from kv_set_raw_ttl_Ok [OF s2] obtain n where "bytes_at x view (w_kv w') ?uc = Some (code, n)"
    by (auto simp: bytes_at_encoded)
  with b d display_code [OF cs, folded shown] show ?thesis
    by (intro exI [of _ code] exI [of _ shown] exI [of _ now] exI [of _ n] exI [of _ m]) (simp only: typed simp_thms)
qed

end

section \<open>Properties\<close>

text \<open>C37. A device code becomes approved only by its user: whatever a post to the device page answers, if
  it leaves the record of a code approved that was not so before, then the post carried an approval
  token that was on record for this code and the decision to approve, the record names the user of the
  sign-in the token was minted for, and the code was pending.\<close>

theorem device_approved_by_token:
  assumes gw: "gateway x view" and run: "submit_device x body issuer w = (r, w')"
    and now: "rec_at x view device_code_of_json (w_kv w') (device_at code) = Some (dc', n')"
    and approved: "dc_status dc' = ''approved''"
    and before: "rec_at x view device_code_of_json (w_kv w) (device_at code) \<noteq> Some (dc', n')"
  shows "form_value (parse_form body) ''decision'' = Some ''approve'' \<and>
    (\<exists>token record t n u dc m. form_value (parse_form body) ''approval_token'' = Some token \<and>
      rec_at x view (cache_entry_of_json de_value) (w_kv w) (''cache'', approval_key token) = Some ((record, t), n) \<and>
      jget_str record ''device_code'' = Some code \<and> jget_str record ''user_id'' = Some u \<and>
      dc_user_id dc' = Some u \<and>
      rec_at x view device_code_of_json (w_kv w) (device_at code) = Some (dc, m) \<and> dc_status dc = ''pending'')"
proof (cases "form_value (parse_form body) ''approval_token''")
  case None
  have "writes view (device_at code) (encodes_device x (\<lambda>dc. dc_status dc = ''denied'')) (submit_device x body issuer)"
    by (rule gateway.submit_device_writes [OF gw None])
  from gateway.writes_changed [OF gw this run now before] approved show ?thesis by simp
next
  case (Some token)
  from run Some have "handle_confirmation x (parse_form body) w = (r, w')" by (simp add: submit_device_def Let_def)
  from gateway.handle_confirmation_approves [OF gw this now approved before] show ?thesis .
qed

definition asked_device :: device_code where
  "asked_device = new_device_code ''d'' ''ACDEFGHJ'' ''app'' ''openid'' 1000"

definition device_approval :: json where
  "device_approval = JObj [(''device_code'', JStr ''d''), (''user_id'', JStr ''u''), (''client_id'', JStr ''app''), (''sid'', JStr ''s'')]"

definition device_codes :: "(json \<times> char) list" where
  "device_codes = [(device_code_to_json asked_device, CHR ''D''),
     (device_code_to_json (asked_device\<lparr>dc_status := ''approved'', dc_user_id := Some ''u'', dc_sid := Some ''s''\<rparr>), CHR ''E''),
     (cache_entry_to_json device_approval 1300, CHR ''A'')]"

definition device_enc :: "json \<Rightarrow> bytes" where "device_enc j = short_text device_codes j"
definition device_dec :: "bytes \<Rightarrow> string + json" where "device_dec s = long_text device_codes s"
definition device_ext :: "kv_map ext" where "device_ext = coded device_enc device_dec"

lemma device_gateway: "gateway device_ext mem_view"
proof -
  have "codes_ok device_codes" by code_simp
  then have "device_dec (device_enc j) = Inr j" for j
    unfolding device_enc_def device_dec_def by (rule long_short_text)
  then show ?thesis unfolding device_ext_def by (rule coded_gateway)
qed

abbreviation "device_w \<equiv> demo_world_at 1000 [(full_key sessions_store (''device:d''), ''D'', 1),
  (full_key ''cache'' (approval_key ''t''), ''A'', 1)]"

abbreviation device_body :: bytes where "device_body \<equiv> ''approval_token=t&decision=approve''"

abbreviation device_run :: "response res \<times> kv_map world" where
  "device_run \<equiv> submit_device device_ext device_body ''https://id'' device_w"

lemma device_approved_by_token_witness:
  "\<exists>dc n. rec_at device_ext mem_view device_code_of_json (w_kv (snd device_run)) (device_at ''d'') = Some (dc, n) \<and>
     dc_status dc = ''approved'' \<and> dc_user_id dc \<noteq> None"
proof -
  let ?now = "rec_at device_ext mem_view device_code_of_json (w_kv (snd device_run)) (device_at ''d'')"
  have "map_option (dc_status \<circ> fst) ?now = Some ''approved''" by code_simp
  then obtain dc n where now: "?now = Some (dc, n)" and st: "dc_status dc = ''approved''" by (cases ?now) auto
  have "map_option (dc_status \<circ> fst) (rec_at device_ext mem_view device_code_of_json (w_kv device_w) (device_at ''d''))
      = Some ''pending''" by code_simp
  with st have before: "rec_at device_ext mem_view device_code_of_json (w_kv device_w) (device_at ''d'') \<noteq> Some (dc, n)" by auto
  have run: "submit_device device_ext device_body ''https://id'' device_w = (fst device_run, snd device_run)" by simp
  from device_approved_by_token [OF device_gateway run now st before] now st show ?thesis by auto
qed



end
