(* ===== verification/Saml.thy ===== *)
theory Saml
  imports Pages Hooks
begin

text \<open>
  The SAML identity provider (\<open>saml/mod.rs\<close>, \<open>saml/keys.rs\<close>): its key ring, the reception of an
  authentication request, the response to it, and the two ways of answering one: from a running single
  sign-on session, or at the end of a login. Parsing, validating and signing SAML documents is the work
  of the saml and certificate crates, which the record \<open>saml_lib\<close> stands for; which provider, address,
  subject and attributes a response is issued for is the gateway's.
\<close>

section \<open>The library\<close>

text \<open>
  A request as the crate hands it over. \<open>aq_binding\<close> is the response binding it asks for, \<open>aq_acs_url\<close> and
  \<open>aq_acs_index\<close> where to. The functions of the library answer with the text of their error.
\<close>

record authn_request =
  aq_id :: string
  aq_binding :: "string option"
  aq_acs_url :: "string option"
  aq_acs_index :: "nat option"
  aq_force_authn :: bool
  aq_is_passive :: bool
  aq_relay_state :: "string option"

datatype saml_input = Redirect_input string | Post_input "(string \<times> string) list"

record saml_lib =
  sl_private_der :: "nat \<Rightarrow> string + bytes"
  sl_certificate_der :: "nat \<Rightarrow> string \<Rightarrow> string + bytes"
  sl_init :: "string + unit"
  sl_idp :: "string \<Rightarrow> saml_service_provider option \<Rightarrow> saml_key_ring \<Rightarrow> string + unit"
  sl_descriptor :: "saml_service_provider \<Rightarrow> string list \<Rightarrow> string + unit"
  sl_receive :: "saml_service_provider \<Rightarrow> saml_key_ring \<Rightarrow> string \<Rightarrow> saml_input \<Rightarrow> u64 \<Rightarrow> string + authn_request"
  sl_respond :: "saml_service_provider \<Rightarrow> saml_key_ring \<Rightarrow> string \<Rightarrow> string \<Rightarrow> authn_request \<Rightarrow> string \<Rightarrow>
    (string \<times> string) list \<Rightarrow> nat \<Rightarrow> string + string"
  sl_metadata :: "string \<Rightarrow> string list \<Rightarrow> string \<Rightarrow> string + string"

definition saml_error :: "string \<Rightarrow> string" where
  "saml_error e = ''SAML request could not be processed: '' @ e"

definition saml_lift :: "string + 'a \<Rightarrow> ('a, 's) act" where
  "saml_lift r = lift (of_sum saml_error r)"

definition saml_enabled :: "config option \<Rightarrow> bool" where
  "saml_enabled c = (case config_value c ''saml_enabled'' of Some v \<Rightarrow> v = ''true'' \<or> v = ''1'' | None \<Rightarrow> False)"

section \<open>The key ring\<close>

abbreviation key_grace_secs :: u64 where "key_grace_secs \<equiv> 2592000"

fun chunks64 :: "nat \<Rightarrow> string \<Rightarrow> string list" where
  "chunks64 0 s = []"
| "chunks64 (Suc n) s = (if s = [] then [] else take 64 s # chunks64 n (drop 64 s))"

definition pem :: "'s ext \<Rightarrow> string \<Rightarrow> bytes \<Rightarrow> string" where
  "pem x label der =
     (let encoded = x_b64_encode x der in
      ''-----BEGIN '' @ label @ ''-----'' @ newline @
      concat (map (\<lambda>c. c @ newline) (chunks64 (length encoded) encoded)) @
      ''-----END '' @ label @ ''-----'' @ newline)"

definition generate_saml_key :: "'s ext \<Rightarrow> saml_lib \<Rightarrow> u32 \<Rightarrow> (saml_signing_key, 's) act" where
  "generate_saml_key x sl version =
     try_io next_draw (\<lambda>n.
     try_io (lift (of_sum (\<lambda>e. e) (sl_private_der sl n))) (\<lambda>private_der.
     try_io (random_hex 8) (\<lambda>serial.
     try_io (lift (of_sum (\<lambda>e. e) (sl_certificate_der sl n serial))) (\<lambda>certificate_der.
     try_io unix_now (\<lambda>now.
     ret \<lparr>sk_version = version, sk_private_key_pem = pem x ''PRIVATE KEY'' private_der,
       sk_certificate_pem = pem x ''CERTIFICATE'' certificate_der, sk_created_at = now\<rparr>)))))"

definition drop_expired_key :: "saml_key_ring \<Rightarrow> (saml_key_ring, 's) act" where
  "drop_expired_key ring = (case kr_previous_grace_expires ring of
     None \<Rightarrow> ret ring
   | Some expiry \<Rightarrow> try_io unix_now (\<lambda>now.
       ret (if expiry \<le> now then ring\<lparr>kr_previous := None, kr_previous_grace_expires := None\<rparr> else ring)))"

definition ensure_key_ring :: "'s ext \<Rightarrow> saml_lib \<Rightarrow> (saml_key_ring, 's) act" where
  "ensure_key_ring x sl =
     try_io (get_saml_key_ring x) (\<lambda>o1. case o1 of
       Some ring \<Rightarrow> drop_expired_key ring
     | None \<Rightarrow>
         try_io (generate_saml_key x sl 1) (\<lambda>key.
         let ring = \<lparr>kr_current = key, kr_previous = None, kr_previous_grace_expires = None\<rparr> in
         match_io (create_saml_key_ring x ring) (\<lambda>_. ret ring)
           (\<lambda>e. if already_exists e
              then try_io (get_saml_key_ring x) (\<lambda>o2.
                lift (ok_or o2 ''SAML key ring disappeared during initialization''))
              else fail e)))"

definition saml_step :: "string \<Rightarrow> (unit, 's) act" where
  "saml_step step = log_event ''saml.key_rotation'' (JObj [(''step'', JStr step)])"

definition rotate_under_lock :: "'s ext \<Rightarrow> saml_lib \<Rightarrow> (saml_key_ring, 's) act" where
  "rotate_under_lock x sl =
     try_io (saml_step ''load_ring'') (\<lambda>_.
     try_io (ensure_key_ring x sl) (\<lambda>ring.
     try_io (saml_step ''generate_key'') (\<lambda>_.
     let v = sk_version (kr_current ring) in
     try_io (generate_saml_key x sl (if v = -1 then v else v + 1)) (\<lambda>key.
     try_io unix_now (\<lambda>now.
     let rotated = \<lparr>kr_current = key, kr_previous = Some (kr_current ring),
       kr_previous_grace_expires = Some (now + key_grace_secs)\<rparr> in
     try_io (saml_step ''save_ring'') (\<lambda>_.
     try_io (save_saml_key_ring x rotated) (\<lambda>_. ret rotated)))))))"

definition rotate_key_ring :: "'s ext \<Rightarrow> saml_lib \<Rightarrow> (saml_key_ring, 's) act" where
  "rotate_key_ring x sl =
     try_io (saml_step ''acquire_lock'') (\<lambda>_.
     try_io (acquire_saml_rotation_lock x) (\<lambda>_.
     match_io (rotate_under_lock x sl)
       (\<lambda>ring. try_io (release_saml_rotation_lock x) (\<lambda>_. ret ring))
       (\<lambda>e. try_io (release_saml_rotation_lock x) (\<lambda>_. fail e))))"

section \<open>Requests\<close>

definition build_idp :: "'s ext \<Rightarrow> saml_lib \<Rightarrow> string \<Rightarrow> saml_service_provider option \<Rightarrow> (saml_key_ring, 's) act" where
  "build_idp x sl issuer sp =
     try_io (saml_lift (sl_init sl)) (\<lambda>_.
     try_io (ensure_key_ring x sl) (\<lambda>ring.
     try_io (saml_lift (sl_idp sl issuer sp ring)) (\<lambda>_. ret ring)))"

definition request_input :: "saml_flow \<Rightarrow> string \<Rightarrow> saml_input res" where
  "request_input flow query =
     (if sf_binding flow = ''redirect'' then Ok (Redirect_input query)
      else if sf_binding flow = ''post'' then Ok (Post_input (sf_request_fields flow))
      else Err ''unsupported SAML request binding'')"

definition receive_request ::
    "'s ext \<Rightarrow> saml_lib \<Rightarrow> saml_service_provider \<Rightarrow> string \<Rightarrow> saml_input \<Rightarrow> (authn_request, 's) act" where
  "receive_request x sl sp issuer inp =
     try_io (saml_lift (sl_descriptor sl sp (sp_acs_urls sp))) (\<lambda>_.
     try_io (build_idp x sl issuer (Some sp)) (\<lambda>ring.
     try_io unix_now (\<lambda>now.
     saml_lift (sl_receive sl sp ring issuer inp now))))"

definition selected_acs :: "saml_service_provider \<Rightarrow> authn_request \<Rightarrow> string res" where
  "selected_acs sp request =
     (if aq_binding request \<notin> {None, Some ''post''} then Err ''only HTTP-POST SAML responses are supported''
      else (case aq_acs_url request of
          Some url \<Rightarrow> if url \<notin> set (sp_acs_urls sp) then Err ''unregistered assertion consumer service URL'' else Ok url
        | None \<Rightarrow> (case aq_acs_index request of
            Some index \<Rightarrow> if index < length (sp_acs_urls sp) then Ok (sp_acs_urls sp ! index)
              else Err ''unknown assertion consumer service index''
          | None \<Rightarrow> (case sp_acs_urls sp of url # _ \<Rightarrow> Ok url
              | [] \<Rightarrow> Err ''SAML service provider has no assertion consumer service''))))"

definition attribute_source :: "membership list \<Rightarrow> user \<Rightarrow> string \<Rightarrow> string" where
  "attribute_source ms u source =
     (let first = (\<lambda>f. case ms of m # _ \<Rightarrow> f m | [] \<Rightarrow> []) in
      if source = ''email'' then usr_email u
      else if source = ''name'' then usr_name u
      else if source = ''user_id'' then usr_id u
      else if source = ''tenant_id'' then first mb_tenant_id
      else if source = ''role'' then first mb_role
      else if source = ''roles'' then join_with '','' (map (\<lambda>m. mb_tenant_id m @ '':'' @ mb_role m) ms)
      else [])"

definition attribute_values :: "'s ext \<Rightarrow> saml_service_provider \<Rightarrow> user \<Rightarrow> ((string \<times> string) list, 's) act" where
  "attribute_values x sp u =
     try_io (or_else_io (list_user_tenants x (usr_id u)) []) (\<lambda>ms.
     ret (map (\<lambda>(i, _, source). (CHR ''a'' # show_nat i, attribute_source ms u source))
       (enumerate 0 (sp_attribute_mappings sp))))"

definition saml_name_id :: "saml_service_provider \<Rightarrow> user \<Rightarrow> string" where
  "saml_name_id sp u = (if sp_name_id_format sp = ''persistent'' then usr_id u else usr_email u)"

definition issue_response ::
    "'s ext \<Rightarrow> saml_lib \<Rightarrow> saml_service_provider \<Rightarrow> authn_request \<Rightarrow> user \<Rightarrow> string \<Rightarrow> (response, 's) act" where
  "issue_response x sl sp request u issuer =
     (if usr_status u \<noteq> ''active'' then fail ''account is not active''
      else try_io (lift (selected_acs sp request)) (\<lambda>acs.
        try_io (saml_lift (sl_descriptor sl sp [acs])) (\<lambda>_.
        try_io (build_idp x sl issuer (Some sp)) (\<lambda>ring.
        try_io (attribute_values x sp u) (\<lambda>attributes.
        try_io next_draw (\<lambda>n.
        try_io (saml_lift (sl_respond sl sp ring issuer acs request (saml_name_id sp u) attributes n)) (\<lambda>html.
        try_io (log_audit ''saml_sso_success'' (usr_id u) (sp_id sp) (sp_entity_id sp)) (\<lambda>_.
        ret (html_page 200 html)))))))))"

definition available :: "saml_service_provider option \<Rightarrow> saml_service_provider res" where
  "available o1 = (case o1 of
     Some sp \<Rightarrow> if sp_enabled sp then Ok sp else Err ''SAML service provider is not available''
   | None \<Rightarrow> Err ''SAML service provider is not available'')"

definition raw_query_of :: "saml_flow \<Rightarrow> string" where
  "raw_query_of flow = (case form_value (sf_request_fields flow) ''__raw_query'' of Some q \<Rightarrow> q | None \<Rightarrow> [])"

definition complete_after_login :: "'s ext \<Rightarrow> saml_lib \<Rightarrow> string \<Rightarrow> user \<Rightarrow> string \<Rightarrow> (response, 's) act" where
  "complete_after_login x sl session_id u issuer =
     try_io (consume_saml_flow x session_id) (\<lambda>o1.
     try_io (lift (ok_or o1 ''SAML login flow has already been used or expired'')) (\<lambda>flow.
     try_io unix_now (\<lambda>now.
     if sf_created_at flow + 600 < now then fail ''SAML login flow expired''
     else
       try_io (get_saml_service_provider x (sf_sp_id flow)) (\<lambda>o2.
       try_io (lift (available o2)) (\<lambda>sp.
       try_io (lift (request_input flow (raw_query_of flow))) (\<lambda>inp.
       try_io (receive_request x sl sp issuer inp) (\<lambda>request.
       issue_response x sl sp request u issuer)))))))"

definition saml_metadata :: "'s ext \<Rightarrow> saml_lib \<Rightarrow> string \<Rightarrow> (response, 's) act" where
  "saml_metadata x sl issuer = try_io get_config (\<lambda>c.
     if \<not> saml_enabled c then fail ''SAML is not enabled''
     else try_io (ensure_key_ring x sl) (\<lambda>ring.
       let certificates = sk_certificate_pem (kr_current ring) #
         (case kr_previous ring of Some p \<Rightarrow> [sk_certificate_pem p] | None \<Rightarrow> []) in
       try_io (saml_lift (sl_metadata sl (issuer @ ''/saml/metadata'') certificates (issuer @ ''/saml/sso''))) (\<lambda>xml.
       ret \<lparr>rs_status = 200, rs_headers = [(''content-type'', ''application/samlmetadata+xml; charset=utf-8''),
         (''cache-control'', ''public, max-age=300'')], rs_body = xml\<rparr>)))"

section \<open>The endpoint\<close>

definition saml_session :: "string \<Rightarrow> u64 \<Rightarrow> auth_session" where
  "saml_session i now =
     \<lparr>as_client_id = ''saml:'' @ i, as_redirect_uri = [], as_code_challenge = [], as_code_challenge_method = ''saml'',
      as_state = [], as_scope = [], as_nonce = [], as_max_age = None, as_acr_values = [],
      as_requested_id_token_claims = [], as_requested_userinfo_claims = [], as_hinted_user_id = None,
      as_hinted_email = None, as_created_at = now, as_needs_consent = False, as_prompt = None, as_sid = None\<rparr>"

definition saml_flow_of :: "string \<Rightarrow> string \<Rightarrow> bytes \<Rightarrow> u64 \<Rightarrow> saml_flow option" where
  "saml_flow_of meth query body now =
     (if meth = ''GET'' then Some \<lparr>sf_sp_id = [], sf_request_fields = [(''__raw_query'', query)],
        sf_binding = ''redirect'', sf_created_at = now\<rparr>
      else if meth = ''POST'' then Some \<lparr>sf_sp_id = [], sf_request_fields = parse_form body,
        sf_binding = ''post'', sf_created_at = now\<rparr>
      else None)"

text \<open>The first enabled provider whose metadata the request validates against.\<close>

fun match_sp :: "'s ext \<Rightarrow> saml_lib \<Rightarrow> string \<Rightarrow> saml_flow \<Rightarrow> string \<Rightarrow> saml_service_provider list \<Rightarrow>
    ((saml_service_provider \<times> authn_request) option, 's) act" where
  "match_sp x sl issuer flow query [] = ret None"
| "match_sp x sl issuer flow query (sp # sps) =
     (if \<not> sp_enabled sp then match_sp x sl issuer flow query sps
      else try_io (lift (request_input flow query)) (\<lambda>inp.
        match_io (receive_request x sl sp issuer inp) (\<lambda>request. ret (Some (sp, request)))
          (\<lambda>_. match_sp x sl issuer flow query sps)))"

definition sso_user :: "'s ext \<Rightarrow> authn_request \<Rightarrow> headers \<Rightarrow> (user option, 's) act" where
  "sso_user x request hs =
     (if aq_force_authn request then ret None
      else try_io (get_idp_session_from_headers x hs) (\<lambda>o1. case o1 of
        None \<Rightarrow> ret None | Some s \<Rightarrow> get_user x (is_user_id s)))"

definition answer_from_session ::
    "'s ext \<Rightarrow> saml_lib \<Rightarrow> engine \<Rightarrow> string \<Rightarrow> headers \<Rightarrow> saml_service_provider \<Rightarrow> authn_request \<Rightarrow> user \<Rightarrow> (response, 's) act" where
  "answer_from_session x sl en issuer hs sp request u =
     try_io (reserve_saml_request x (sp_id sp) (aq_id request)) (\<lambda>_.
     try_io (execute_hooks x en ''post-login'' u) (\<lambda>out. case ho_deny_reason out of
       Some reason \<Rightarrow> fail reason
     | None \<Rightarrow>
         try_io (apply_outcome x u out) (\<lambda>(u, failed). case failed of
           Some e \<Rightarrow> fail e
         | None \<Rightarrow>
             try_io (issue_response x sl sp request u issuer) (\<lambda>r.
             try_io (refresh_idp_session_cookie_header x hs) (\<lambda>o1.
             ret (case o1 of Some cookie \<Rightarrow> with_cookie cookie r | None \<Rightarrow> r))))))"

definition ask_to_sign_in ::
    "'s ext \<Rightarrow> saml_flow \<Rightarrow> saml_service_provider \<Rightarrow> authn_request \<Rightarrow> (response, 's) act" where
  "ask_to_sign_in x flow sp request =
     (if aq_is_passive request then fail ''SAML passive authentication could not be satisfied''
      else
       try_io (reserve_saml_request x (sp_id sp) (aq_id request)) (\<lambda>_.
       try_io (random_hex 32) (\<lambda>session_id.
       try_io unix_now (\<lambda>now.
       try_io (save_auth_session x session_id (saml_session (sp_id sp) now)) (\<lambda>_.
       try_io (save_saml_flow x session_id (flow\<lparr>sf_sp_id := sp_id sp\<rparr>)) (\<lambda>_.
       try_io (login_page x session_id None) (\<lambda>r.
       try_io (create_flow_cookie x session_id) (\<lambda>cookie. ret (with_cookie cookie r)))))))))"

definition saml_start ::
    "'s ext \<Rightarrow> saml_lib \<Rightarrow> engine \<Rightarrow> string \<Rightarrow> string \<Rightarrow> bytes \<Rightarrow> string \<Rightarrow> headers \<Rightarrow> (response, 's) act" where
  "saml_start x sl en meth query body issuer hs = try_io get_config (\<lambda>c.
     if \<not> saml_enabled c then fail ''SAML is not enabled''
     else if meth \<notin> {''GET'', ''POST''} then fail ''unsupported SAML SSO method''
     else
       try_io unix_now (\<lambda>now. case saml_flow_of meth query body now of
         None \<Rightarrow> fail ''unsupported SAML SSO method''
       | Some flow \<Rightarrow>
           try_io (list_saml_service_providers x) (\<lambda>sps.
           try_io (match_sp x sl issuer flow query sps) (\<lambda>o1.
           try_io (lift (ok_or o1 ''unknown or invalid SAML service provider request'')) (\<lambda>(sp, request).
           try_io (lift (selected_acs sp request)) (\<lambda>acs.
           if acs \<notin> set (sp_acs_urls sp) then fail ''unregistered assertion consumer service URL''
           else try_io (sso_user x request hs) (\<lambda>o2. case o2 of
             Some u \<Rightarrow> answer_from_session x sl en issuer hs sp request u
           | None \<Rightarrow> ask_to_sign_in x flow sp request)))))))"

lemmas saml_runs [code] =
  generate_saml_key_def [THEN fun_cong] drop_expired_key_def [THEN fun_cong] ensure_key_ring_def [THEN fun_cong]
  saml_step_def [THEN fun_cong] rotate_under_lock_def [THEN fun_cong] rotate_key_ring_def [THEN fun_cong]
  build_idp_def [THEN fun_cong] receive_request_def [THEN fun_cong] attribute_values_def [THEN fun_cong]
  issue_response_def [THEN fun_cong] complete_after_login_def [THEN fun_cong] saml_metadata_def [THEN fun_cong]
  match_sp.simps [THEN fun_cong] sso_user_def [THEN fun_cong] answer_from_session_def [THEN fun_cong]
  ask_to_sign_in_def [THEN fun_cong] saml_start_def [THEN fun_cong] saml_lift_def [THEN fun_cong]

section \<open>Frames\<close>

abbreviation saml_flow_at :: "string \<Rightarrow> addr" where "saml_flow_at i \<equiv> sess (''saml_flow:'' @ i)"
abbreviation provider_at :: "string \<Rightarrow> addr" where "provider_at i \<equiv> (''clients'', ''saml_sp:'' @ i)"

context jetcache
begin

lemma saml_key_frames [frames_intro]:
  "frames view A (generate_saml_key x sl v)" "frames view A (drop_expired_key ring)"
  "frames view A (get_saml_key_ring x)"
  "(\<And>k. (''keys'', k) \<in> A) \<Longrightarrow> frames view A (ensure_key_ring x sl)"
  unfolding generate_saml_key_def drop_expired_key_def ensure_key_ring_def get_saml_key_ring_def
    create_saml_key_ring_def save_saml_key_ring_def
    Let_def
  by (intro frames_intro; simp)+

lemma consume_saml_flow_frames: "saml_flow_at i \<in> A \<Longrightarrow> frames view A (consume_saml_flow x i)"
  unfolding consume_saml_flow_def Let_def by (intro frames_intro; simp)

end

section \<open>What a response rests on\<close>

lemma saml_lift_Ok: "saml_lift r w = (Ok y, w') \<longleftrightarrow> r = Inr y \<and> w' = w"
  by (cases r) (auto simp: saml_lift_def)

lemma selected_acs_registered:
  "selected_acs sp request = Ok acs \<Longrightarrow> acs \<in> set (sp_acs_urls sp) \<and> aq_acs_url request \<in> {None, Some acs}"
  by (auto simp: selected_acs_def split: if_splits option.splits list.splits)

lemma issue_response_Ok:
  assumes "issue_response x sl sp request u issuer w = (Ok r, w')"
  shows "usr_status u = ''active'' \<and> (\<exists>acs ring attrs n html. selected_acs sp request = Ok acs \<and>
    sl_respond sl sp ring issuer acs request (saml_name_id sp u) attrs n = Inr html \<and> r = html_page 200 html)"
proof (cases "usr_status u = ''active''")
  case True
  with assms show ?thesis unfolding issue_response_def
    by (auto elim!: try_io_Ok simp: saml_lift_Ok log_audit_def) blast
next
  case False
  with assms show ?thesis by (simp add: issue_response_def)
qed

lemma receive_request_Ok:
  assumes "receive_request x sl sp issuer inp w = (Ok request, w')"
  shows "\<exists>ring now. sl_receive sl sp ring issuer inp now = Inr request"
  using assms unfolding receive_request_def by (elim try_io_Ok) (auto simp: saml_lift_Ok)

context gateway
begin

lemma consume_saml_flow_Ok:
  "consume_saml_flow x i w = (Ok (Some flow), w') \<Longrightarrow>
    (\<exists>n. rec_at x view saml_flow_of_json (w_kv w) (saml_flow_at i) = Some (flow, n)) \<and>
    view (w_kv w') (saml_flow_at i) = None"
  unfolding consume_saml_flow_def Let_def by (erule consume_by_cas_delete) simp

lemma complete_after_login_Ok:
  assumes run: "complete_after_login x sl i u issuer w = (Ok r, w')"
  shows "\<exists>flow n sp m inp ring now request acs ring2 attrs k html.
    rec_at x view saml_flow_of_json (w_kv w) (saml_flow_at i) = Some (flow, n) \<and>
    rec_at x view saml_service_provider_of_json (w_kv w) (provider_at (sf_sp_id flow)) = Some (sp, m) \<and>
    sp_enabled sp \<and> usr_status u = ''active'' \<and>
    request_input flow (raw_query_of flow) = Ok inp \<and> sl_receive sl sp ring issuer inp now = Inr request \<and>
    acs \<in> set (sp_acs_urls sp) \<and> aq_acs_url request \<in> {None, Some acs} \<and>
    sl_respond sl sp ring2 issuer acs request (saml_name_id sp u) attrs k = Inr html \<and> r = html_page 200 html"
proof -
  from run obtain o1 w1 where c: "consume_saml_flow x i w = (Ok o1, w1)"
    and r1: "try_io (lift (ok_or o1 ''SAML login flow has already been used or expired'')) (\<lambda>flow.
      try_io unix_now (\<lambda>now.
      if sf_created_at flow + 600 < now then fail ''SAML login flow expired''
      else
        try_io (get_saml_service_provider x (sf_sp_id flow)) (\<lambda>o2.
        try_io (lift (available o2)) (\<lambda>sp.
        try_io (lift (request_input flow (raw_query_of flow))) (\<lambda>inp.
        try_io (receive_request x sl sp issuer inp) (\<lambda>request.
        issue_response x sl sp request u issuer)))))) w1 = (Ok r, w')"
    unfolding complete_after_login_def by (rule try_io_Ok)
  from r1 obtain flow where o1: "o1 = Some flow"
    and r2: "try_io (get_saml_service_provider x (sf_sp_id flow)) (\<lambda>o2.
        try_io (lift (available o2)) (\<lambda>sp.
        try_io (lift (request_input flow (raw_query_of flow))) (\<lambda>inp.
        try_io (receive_request x sl sp issuer inp) (\<lambda>request.
        issue_response x sl sp request u issuer)))) (w1\<lparr>w_ticks := Suc (w_ticks w1)\<rparr>) = (Ok r, w')"
    by (cases o1) (auto split: if_splits)
  from r2 obtain o2 w4 where g: "get_saml_service_provider x (sf_sp_id flow) (w1\<lparr>w_ticks := Suc (w_ticks w1)\<rparr>) = (Ok o2, w4)"
    and r3: "try_io (lift (available o2)) (\<lambda>sp.
        try_io (lift (request_input flow (raw_query_of flow))) (\<lambda>inp.
        try_io (receive_request x sl sp issuer inp) (\<lambda>request.
        issue_response x sl sp request u issuer))) w4 = (Ok r, w')" by (rule try_io_Ok)
  from r3 obtain sp w41 where sp0: "lift (available o2) w4 = (Ok sp, w41)"
    and r4: "try_io (lift (request_input flow (raw_query_of flow))) (\<lambda>inp.
        try_io (receive_request x sl sp issuer inp) (\<lambda>request.
        issue_response x sl sp request u issuer)) w41 = (Ok r, w')" by (rule try_io_Ok)
  from r4 obtain inp w42 where inp0: "lift (request_input flow (raw_query_of flow)) w41 = (Ok inp, w42)"
    and r5: "try_io (receive_request x sl sp issuer inp) (\<lambda>request.
        issue_response x sl sp request u issuer) w42 = (Ok r, w')" by (rule try_io_Ok)
  from r5 obtain request w5 where rec: "receive_request x sl sp issuer inp w42 = (Ok request, w5)"
    and iss: "issue_response x sl sp request u issuer w5 = (Ok r, w')" by (rule try_io_Ok)
  from sp0 have sp: "o2 = Some sp" "sp_enabled sp" by (auto simp: available_def lift_Ok split: option.splits if_splits)
  from inp0 have inp: "request_input flow (raw_query_of flow) = Ok inp" by (simp add: lift_Ok)
  have sv: "survives view (w_kv w) (w_kv w1) (provider_at (sf_sp_id flow))"
    by (rule frames_survives [OF consume_saml_flow_frames c, where A = "{saml_flow_at i}"]) (simp_all add: table_ok_def)
  from kv_get_Ok [OF g [unfolded get_saml_service_provider_def try_get_config clients_store_fixed]] sp obtain m
    where m: "rec_at x view saml_service_provider_of_json (w_kv w) (provider_at (sf_sp_id flow)) = Some (sp, m)"
    using survives_rec_at [OF sv] by fastforce
  from consume_saml_flow_Ok [OF c [unfolded o1]] obtain n
    where "rec_at x view saml_flow_of_json (w_kv w) (saml_flow_at i) = Some (flow, n)" by blast
  with m sp(2) inp receive_request_Ok [OF rec] issue_response_Ok [OF iss] selected_acs_registered show ?thesis
    by blast
qed

end

section \<open>Properties\<close>

definition demo_request :: authn_request where
  "demo_request = \<lparr>aq_id = ''r'', aq_binding = None, aq_acs_url = Some ''https://sp/acs'', aq_acs_index = None,
     aq_force_authn = False, aq_is_passive = False, aq_relay_state = None\<rparr>"

definition demo_lib :: saml_lib where
  "demo_lib = \<lparr>sl_private_der = (\<lambda>n. Inr ''k''), sl_certificate_der = (\<lambda>n s. Inr ''c''), sl_init = Inr (),
     sl_idp = (\<lambda>i sp r. Inr ()), sl_descriptor = (\<lambda>sp urls. Inr ()), sl_receive = (\<lambda>sp r i inp t. Inr demo_request),
     sl_respond = (\<lambda>sp r i acs q n attrs k. Inr (''to '' @ acs)), sl_metadata = (\<lambda>i cs u. Inr [])\<rparr>"

definition demo_provider :: saml_service_provider where
  "demo_provider = \<lparr>sp_id = ''p'', sp_name = ''P'', sp_entity_id = ''https://sp'', sp_acs_urls = [''https://sp/acs''],
     sp_enabled = True, sp_name_id_format = ''email'', sp_attribute_mappings = [(''mail'', ''email'')],
     sp_request_signing_certificate = None, sp_theme = None, sp_created_at = 1\<rparr>"

definition demo_flow :: saml_flow where
  "demo_flow = \<lparr>sf_sp_id = ''p'', sf_request_fields = [(''__raw_query'', ''q'')], sf_binding = ''redirect'', sf_created_at = 900\<rparr>"

definition demo_saml_key :: saml_signing_key where
  "demo_saml_key = \<lparr>sk_version = 1, sk_private_key_pem = ''k'', sk_certificate_pem = ''c'', sk_created_at = 1\<rparr>"

definition demo_pointer :: saml_key_ring_pointer where
  "demo_pointer = \<lparr>kp_current_version = 1, kp_previous_version = None, kp_previous_grace_expires = None\<rparr>"

definition saml_codes :: "(json \<times> char) list" where
  "saml_codes = [(saml_service_provider_to_json demo_provider, CHR ''P''), (saml_flow_to_json demo_flow, CHR ''F''),
     (saml_signing_key_to_json demo_saml_key, CHR ''K''), (saml_key_ring_pointer_to_json demo_pointer, CHR ''R'')]"

definition saml_enc :: "json \<Rightarrow> bytes" where "saml_enc j = short_text saml_codes j"
definition saml_dec :: "bytes \<Rightarrow> string + json" where "saml_dec s = long_text saml_codes s"
definition saml_ext :: "kv_map ext" where "saml_ext = coded saml_enc saml_dec"

lemma saml_gateway: "gateway saml_ext mem_view"
proof -
  have "codes_ok saml_codes" by code_simp
  then have "saml_dec (saml_enc j) = Inr j" for j
    unfolding saml_enc_def saml_dec_def by (rule long_short_text)
  then show ?thesis unfolding saml_ext_def by (rule coded_gateway)
qed

abbreviation "saml_w \<equiv> demo_world_at 1000 [(full_key ''clients'' (''saml_sp:p''), ''P'', 1),
  (full_key sessions_store (''saml_flow:s''), ''F'', 1), (full_key ''keys'' (''saml:key-v1''), ''K'', 1),
  (full_key ''keys'' (''saml:key-ring-pointer-v1''), ''R'', 1)]"

text \<open>A first key that was stored without its pointer can be neither used nor replaced: whoever stopped
  between the two writes leaves a ring that no request can load any more.\<close>

abbreviation "half_written_w \<equiv> demo_world_at 1000 [(full_key ''keys'' (''saml:key-v1''), ''K'', 1)]"

lemma half_written_ring_stuck:
  "fst (ensure_key_ring saml_ext demo_lib half_written_w) = Err ''SAML key ring disappeared during initialization'' \<and>
   fst (rotate_key_ring saml_ext demo_lib half_written_w) = Err ''SAML key ring disappeared during initialization''"
  by code_simp



end
