(* ===== verification/Login.thy ===== *)
theory Login
  imports Saml Device Totp
begin

text \<open>
  Signing in (\<open>login.rs\<close>): the password post, the second factor, the end of a login for each kind of
  flow, and the consent of the user. The checks run in the order of the source; every refusal is a page
  that does not say which of them failed.
\<close>

section \<open>Authentication methods\<close>

definition acr_totp_mfa :: string where
  "acr_totp_mfa = ''urn:lattice-id:mfa:totp''"

definition primary_amr_for_flow :: "string \<Rightarrow> string list" where
  "primary_amr_for_flow flow = (if flow = ''password'' then [''pwd''] else [])"

definition push_new :: "string list \<Rightarrow> string \<Rightarrow> string list" where
  "push_new values item = (if item \<in> set values then values else values @ [item])"

definition merge_amr :: "string list \<Rightarrow> string list \<Rightarrow> string list" where
  "merge_amr primary additions = foldl push_new (foldl push_new [] primary) additions"

definition has_mfa :: "string list \<Rightarrow> bool" where
  "has_mfa amr \<longleftrightarrow> ''mfa'' \<in> set amr \<and> ''otp'' \<in> set amr"

definition select_acr :: "auth_session \<Rightarrow> string list \<Rightarrow> string option" where
  "select_acr session amr =
     (if has_mfa amr then Some acr_totp_mfa
      else if acr_totp_mfa \<in> set (as_acr_values session) then None else None)"

definition acr_from_amr :: "string list \<Rightarrow> string option" where
  "acr_from_amr amr = (if has_mfa amr then Some acr_totp_mfa else None)"

definition is_valid_session_id :: "string \<Rightarrow> bool" where
  "is_valid_session_id i \<longleftrightarrow> i \<noteq> [] \<and> length i \<le> 128 \<and> list_all is_hexdigit i"

definition attempt_metric :: "string \<Rightarrow> string \<Rightarrow> (unit, 's) act" where
  "attempt_metric flow outcome =
     increment_metric ''lattice_id_login_attempts_total'' [(''flow'', flow), (''result'', outcome)]"

section \<open>The end of a login\<close>

definition account_cookies :: "'s ext \<Rightarrow> user \<Rightarrow> string list \<Rightarrow> response \<Rightarrow> (response, 's) act" where
  "account_cookies x u amr r =
     try_io (add_cookie (create_session_cookie x (usr_id u)) r) (\<lambda>r.
     try_io unix_now (\<lambda>now.
     add_cookie (create_idp_session_cookie x (usr_id u) amr now) r))"

definition consent_needed :: "'s ext \<Rightarrow> user \<Rightarrow> auth_session \<Rightarrow> (bool, 's) act" where
  "consent_needed x u session =
     (if as_prompt session = Some ''consent'' then ret True
      else if as_needs_consent session
      then try_io (or_else_io (has_user_consented x (usr_id u) (as_client_id session) (as_scope session)) False)
        (\<lambda>already_consented. ret (\<not> already_consented))
      else ret False)"

definition login_code ::
    "user \<Rightarrow> auth_session \<Rightarrow> string list \<Rightarrow> (string \<times> string) list \<Rightarrow> bool \<Rightarrow> u64 \<Rightarrow> string \<Rightarrow> u64 \<Rightarrow> auth_code" where
  "login_code u session amr extra needs_consent auth_time csrf now =
     \<lparr>ac_user_id = usr_id u, ac_client_id = as_client_id session, ac_redirect_uri = as_redirect_uri session,
      ac_code_challenge = as_code_challenge session, ac_code_challenge_method = as_code_challenge_method session,
      ac_nonce = as_nonce session, ac_scope = as_scope session, ac_auth_time = auth_time, ac_amr = amr,
      ac_acr = select_acr session amr, ac_requested_id_token_claims = as_requested_id_token_claims session,
      ac_requested_userinfo_claims = as_requested_userinfo_claims session, ac_extra_claims = extra,
      ac_expires_at = now + 300, ac_csrf_token = csrf, ac_state = as_state session, ac_sid = as_sid session,
      ac_pending_consent = needs_consent\<rparr>"

definition ask_consent :: "'s ext \<Rightarrow> user \<Rightarrow> string \<Rightarrow> auth_code \<Rightarrow> (response, 's) act" where
  "ask_consent x u code ac =
     try_io (save_auth_code x code ac) (\<lambda>_.
     try_io (get_client x (ac_client_id ac)) (\<lambda>c1.
     let client = (case c1 of Some c \<Rightarrow> c | None \<Rightarrow> default_client) in
     try_io (consent_page x code ac client u) (\<lambda>r.
     try_io (create_flow_cookie x code) (\<lambda>cookie.
     add_cookie (create_idp_session_cookie x (usr_id u) (ac_amr ac) (ac_auth_time ac)) (with_cookie cookie r)))))"

definition redirect_with_code :: "'s ext \<Rightarrow> user \<Rightarrow> string \<Rightarrow> auth_code \<Rightarrow> (response, 's) act" where
  "redirect_with_code x u code ac =
     try_io (save_auth_code x code ac) (\<lambda>_.
     try_io get_config (\<lambda>c.
     let url = build_auth_code_redirect (ac_redirect_uri ac) code (ac_state ac) (get_issuer c) in
     try_io (add_cookie (create_session_cookie x (usr_id u))
         \<lparr>rs_status = 302, rs_headers = [(''location'', url), (''cache-control'', ''no-store'')], rs_body = []\<rparr>) (\<lambda>r.
     add_cookie (create_idp_session_cookie x (usr_id u) (ac_amr ac) (ac_auth_time ac)) r)))"

definition issue_login_code ::
    "'s ext \<Rightarrow> user \<Rightarrow> auth_session \<Rightarrow> string list \<Rightarrow> (string \<times> string) list \<Rightarrow> (response, 's) act" where
  "issue_login_code x u session amr extra =
     try_io (consent_needed x u session) (\<lambda>needs_consent.
     try_io (random_hex 32) (\<lambda>code.
     try_io unix_now (\<lambda>auth_time.
     try_io (random_hex 16) (\<lambda>csrf.
     try_io unix_now (\<lambda>now.
     let ac = login_code u session amr extra needs_consent auth_time csrf now in
     if needs_consent then ask_consent x u code ac else redirect_with_code x u code ac)))))"

definition confirm_device :: "'s ext \<Rightarrow> user \<Rightarrow> string \<Rightarrow> auth_session \<Rightarrow> string list \<Rightarrow> (response, 's) act" where
  "confirm_device x u session_id session amr =
     match_io (create_approval x session u)
       (\<lambda>approval_token. try_io (confirm_page x approval_token None) (\<lambda>r. account_cookies x u amr r))
       (\<lambda>e. try_io (error_message ''device.approval_token_save_failed'' e) (\<lambda>_.
          login_page x session_id (Some ''Failed to continue device activation. Please try again.'')))"

definition finish_login ::
    "'s ext \<Rightarrow> saml_lib \<Rightarrow> user \<Rightarrow> string \<Rightarrow> auth_session \<Rightarrow> string list \<Rightarrow> (string \<times> string) list \<Rightarrow> (response, 's) act" where
  "finish_login x sl u session_id session amr extra =
     (if as_code_challenge_method session = ''saml''
      then try_io get_config (\<lambda>c.
        try_io (complete_after_login x sl session_id u (get_issuer c)) (\<lambda>r. account_cookies x u amr r))
      else if as_code_challenge_method session = ''device''
      then confirm_device x u session_id session amr
      else issue_login_code x u session amr extra)"

definition note_new_ip :: "'s ext \<Rightarrow> user \<Rightarrow> string \<Rightarrow> (unit, 's) act" where
  "note_new_ip x u remote_ip =
     try_io (check_and_record_ip x (usr_id u) remote_ip) (\<lambda>new_ip.
     if new_ip then log_audit ''suspicious_login'' (usr_id u) (usr_id u) (''new_ip:'' @ remote_ip) else ret ())"

definition complete_login_with_amr ::
    "'s ext \<Rightarrow> saml_lib \<Rightarrow> engine \<Rightarrow> user \<Rightarrow> string \<Rightarrow> string \<Rightarrow> string list \<Rightarrow> string \<Rightarrow> (response, 's) act" where
  "complete_login_with_amr x sl en u session_id flow amr remote_ip =
     try_io (execute_hooks x en ''post-login'' u) (\<lambda>out. case ho_deny_reason out of
       Some reason \<Rightarrow> try_io (log_audit ''login_denied_by_hook'' (usr_id u) (usr_id u) reason) (\<lambda>_.
         login_page x session_id (Some reason))
     | None \<Rightarrow>
         try_io (apply_outcome x u out) (\<lambda>(u, failed).
         try_io (case failed of Some e \<Rightarrow> error_message ''hooks.apply_failed'' e | None \<Rightarrow> ret ()) (\<lambda>_.
         try_io (note_new_ip x u remote_ip) (\<lambda>_.
         ignore_io (clear_login_attempts x (usr_id u))
           (try_io (log_audit ''login_success'' (usr_id u) (usr_id u) []) (\<lambda>_.
            try_io (attempt_metric flow ''success'') (\<lambda>_.
            try_io (consume_auth_session x session_id) (\<lambda>o1.
            try_io (lift (ok_or o1 ''Login already in progress. Please wait for the redirect.'')) (\<lambda>session.
            finish_login x sl u session_id session amr (ho_extra_claims out))))))))))"

definition complete_login ::
    "'s ext \<Rightarrow> saml_lib \<Rightarrow> engine \<Rightarrow> user \<Rightarrow> string \<Rightarrow> string \<Rightarrow> string \<Rightarrow> (response, 's) act" where
  "complete_login x sl en u session_id flow remote_ip =
     complete_login_with_amr x sl en u session_id flow (primary_amr_for_flow flow) remote_ip"

section \<open>The password\<close>

definition dummy_hash :: string where
  "dummy_hash = ''$argon2id$v=19$m=65536,t=3,p=1$AAAAAAAAAAAAAAAAAAAAAA$AAAAAAAAAAAAAAAAAAAAAAAAAAAAAAAAAAAAAAAAAAA''"

definition login_failure :: "'s ext \<Rightarrow> string \<Rightarrow> (response, 's) act" where
  "login_failure x session_id =
     try_io (attempt_metric ''password'' ''failure'') (\<lambda>_.
     login_page x session_id (Some ''Invalid email or password''))"

text \<open>An absent account costs one password check as well.\<close>

definition no_such_account :: "'s ext \<Rightarrow> string \<Rightarrow> string \<Rightarrow> (response, 's) act" where
  "no_such_account x session_id password =
     ignore_io (verify_password x password dummy_hash) (login_failure x session_id)"

definition wrong_password :: "'s ext \<Rightarrow> user \<Rightarrow> string \<Rightarrow> string \<Rightarrow> (response, 's) act" where
  "wrong_password x u session_id email =
     try_io (or_else_io (record_failed_login x (usr_id u)) False) (\<lambda>locked.
     try_io (log_audit ''login_failure'' (usr_id u) (usr_id u) email) (\<lambda>_.
     try_io (attempt_metric ''password'' ''failure'') (\<lambda>_.
     try_io (if locked then log_audit ''account_locked'' (usr_id u) (usr_id u) ''locked after repeated failures''
         else ret ()) (\<lambda>_.
     login_page x session_id (Some ''Invalid email or password'')))))"

definition password_verified ::
    "'s ext \<Rightarrow> saml_lib \<Rightarrow> engine \<Rightarrow> user \<Rightarrow> string \<Rightarrow> string \<Rightarrow> (response, 's) act" where
  "password_verified x sl en u session_id remote_ip =
     (if usr_totp_enabled u
      then try_io (random_hex 32) (\<lambda>mfa_token.
        try_io unix_now (\<lambda>now.
        try_io (save_mfa_pending x mfa_token \<lparr>mp_user_id = usr_id u, mp_session_id = session_id,
            mp_primary_amr = primary_amr_for_flow ''password'', mp_expires_at = now + 300, mp_remote_ip = remote_ip\<rparr>) (\<lambda>_.
        mfa_page x mfa_token session_id None)))
      else complete_login x sl en u session_id ''password'' remote_ip)"

definition check_password ::
    "'s ext \<Rightarrow> saml_lib \<Rightarrow> engine \<Rightarrow> user \<Rightarrow> string \<Rightarrow> string \<Rightarrow> string \<Rightarrow> string \<Rightarrow> (response, 's) act" where
  "check_password x sl en u session_id email password remote_ip =
     try_io (is_account_locked x (usr_id u)) (\<lambda>is_locked.
     match_io (verify_password x password (usr_password_hash u))
       (\<lambda>ok. if ok \<and> \<not> is_locked then password_verified x sl en u session_id remote_ip
          else if ok
          then try_io (log_audit ''login_locked'' (usr_id u) (usr_id u) ''account locked'') (\<lambda>_.
            login_failure x session_id)
          else wrong_password x u session_id email)
       (\<lambda>_. login_failure x session_id))"

definition unverified_session :: string where
  "unverified_session = ''Your sign-in session could not be verified. Please start over.''"

definition sign_in ::
    "'s ext \<Rightarrow> saml_lib \<Rightarrow> engine \<Rightarrow> headers \<Rightarrow> string \<Rightarrow> string \<Rightarrow> string \<Rightarrow> string \<Rightarrow> (response, 's) act" where
  "sign_in x sl en hs session_id email password remote_ip =
     try_io (get_auth_session x session_id) (\<lambda>o1.
     try_io (lift (ok_or o1 ''invalid or expired session'')) (\<lambda>session.
     try_io (flow_cookie_matches x hs session_id) (\<lambda>bound.
     if \<not> bound
     then try_io (log_audit ''login_flow_cookie_mismatch'' [] [] remote_ip) (\<lambda>_.
       login_page x session_id (Some unverified_session))
     else
       try_io unix_now (\<lambda>now.
       if as_created_at session + 600 < now
       then login_page x session_id (Some ''Login session expired. Please start over.'')
       else
         try_io (get_user_by_email x email) (\<lambda>o2. case o2 of
           None \<Rightarrow> no_such_account x session_id password
         | Some u \<Rightarrow>
             if usr_status u = ''active'' then check_password x sl en u session_id email password remote_ip
             else no_such_account x session_id password)))))"

definition invalid_sign_in :: response where
  "invalid_sign_in = generic_error_page ''Invalid sign-in session. Please start over.''"

definition too_many_logins :: string where
  "too_many_logins = ''Too many login attempts. Please wait and try again.''"

definition attempt_login ::
    "'s ext \<Rightarrow> saml_lib \<Rightarrow> engine \<Rightarrow> headers \<Rightarrow> string \<Rightarrow> string \<Rightarrow> string \<Rightarrow> string \<Rightarrow> (response, 's) act" where
  "attempt_login x sl en hs session_id email password remote_ip =
     try_io (log_audit ''login_attempt'' [] [] (''email:'' @ email @ '' ip:'' @ remote_ip)) (\<lambda>_.
     match_io (check_rate x (''login:'' @ to_lowercase email) 10 60)
       (\<lambda>(allowed, _). if allowed then sign_in x sl en hs session_id email password remote_ip
          else try_io (increment_metric ''lattice_id_rate_limit_hits_total'' [(''scope'', ''login'')]) (\<lambda>_.
            login_page x session_id (Some too_many_logins)))
       (\<lambda>e. try_io (error_message ''rate_limit.login_check_failed'' e) (\<lambda>_.
          login_page x session_id (Some too_many_logins))))"

definition handle_login ::
    "'s ext \<Rightarrow> saml_lib \<Rightarrow> engine \<Rightarrow> bytes \<Rightarrow> string \<Rightarrow> headers \<Rightarrow> (response, 's) act" where
  "handle_login x sl en body remote_ip hs =
     (let form = parse_form body in
      try_io (lift (ok_or (form_value form ''session_id'') ''missing session_id'')) (\<lambda>session_id.
      try_io (lift (ok_or (form_value form ''email'') ''missing email'')) (\<lambda>email.
      try_io (lift (ok_or (form_value form ''password'') ''missing password'')) (\<lambda>password.
      if \<not> is_valid_session_id session_id then ret invalid_sign_in
      else attempt_login x sl en hs session_id email password remote_ip))))"

section \<open>The second factor\<close>

definition second_factor_done ::
    "'s ext \<Rightarrow> saml_lib \<Rightarrow> engine \<Rightarrow> user \<Rightarrow> mfa_pending \<Rightarrow> string \<Rightarrow> string \<Rightarrow> (response, 's) act" where
  "second_factor_done x sl en u pending mfa_token flow =
     try_io (delete_mfa_pending x mfa_token) (\<lambda>_.
     try_io (log_audit ''mfa_success'' (usr_id u) (usr_id u) flow) (\<lambda>_.
     complete_login_with_amr x sl en u (mp_session_id pending) flow
       (merge_amr (mp_primary_amr pending) [''otp'', ''mfa'']) (mp_remote_ip pending)))"

definition mfa_failure :: "'s ext \<Rightarrow> user \<Rightarrow> mfa_pending \<Rightarrow> string \<Rightarrow> (response, 's) act" where
  "mfa_failure x u pending mfa_token =
     try_io (log_audit ''mfa_failure'' (usr_id u) (usr_id u) []) (\<lambda>_.
     try_io (attempt_metric ''mfa'' ''failure'') (\<lambda>_.
     mfa_page x mfa_token (mp_session_id pending) (Some ''Invalid code. Please try again.'')))"

fun remove_code :: "string \<Rightarrow> string list \<Rightarrow> string list option" where
  "remove_code code [] = None"
| "remove_code code (c # cs) =
     (if constant_time_eq c code then Some cs else map_option (Cons c) (remove_code code cs))"

text \<open>The closure that spends a recovery code; its variable says whether the code was found.\<close>

definition spend_recovery_code :: "string \<Rightarrow> bool \<Rightarrow> user \<Rightarrow> (bool \<times> user \<times> bool) res" where
  "spend_recovery_code code _ u = Ok (case remove_code code (usr_recovery_codes u) of
     Some cs \<Rightarrow> (True, u\<lparr>usr_recovery_codes := cs\<rparr>, True) | None \<Rightarrow> (False, u, False))"

definition try_recovery_code ::
    "'s ext \<Rightarrow> saml_lib \<Rightarrow> engine \<Rightarrow> user \<Rightarrow> mfa_pending \<Rightarrow> string \<Rightarrow> string \<Rightarrow> (response, 's) act" where
  "try_recovery_code x sl en u pending mfa_token code =
     match_io (update_user_fold x 5 (usr_id u) (spend_recovery_code (to_lowercase (trim code))) False)
       (\<lambda>code_found. if code_found
          then try_io (get_user x (usr_id u)) (\<lambda>o1.
            try_io (lift (ok_or o1 ''user not found'')) (\<lambda>u.
            second_factor_done x sl en u pending mfa_token ''recovery_code''))
          else mfa_failure x u pending mfa_token)
       (\<lambda>e. try_io (error_message ''mfa.recovery_code_update_failed'' e) (\<lambda>_.
          mfa_failure x u pending mfa_token))"

definition check_second_factor ::
    "'s ext \<Rightarrow> saml_lib \<Rightarrow> engine \<Rightarrow> user \<Rightarrow> mfa_pending \<Rightarrow> string \<Rightarrow> string \<Rightarrow> (response, 's) act" where
  "check_second_factor x sl en u pending mfa_token code =
     try_io (lift (ok_or (usr_totp_secret u) ''MFA not configured for this user'')) (\<lambda>secret.
     try_io (verify_totp_step x secret (trim code)) (\<lambda>o1. case o1 of
       Some step \<Rightarrow>
         match_io (record_totp_used x (''totp_used:'' @ usr_id u @ '':'' @ show_u64 step) 90)
           (\<lambda>fresh. if fresh then second_factor_done x sl en u pending mfa_token ''totp''
              else login_page x (mp_session_id pending)
                (Some ''TOTP code already used. Please wait for the next code.''))
           (\<lambda>e. try_io (error_message ''mfa.totp_replay_check_failed'' e) (\<lambda>_.
              login_page x (mp_session_id pending) (Some ''Authentication service unavailable. Please try again.'')))
     | None \<Rightarrow> try_recovery_code x sl en u pending mfa_token code))"

definition pending_factor ::
    "'s ext \<Rightarrow> saml_lib \<Rightarrow> engine \<Rightarrow> headers \<Rightarrow> string \<Rightarrow> string \<Rightarrow> string \<Rightarrow> (response, 's) act" where
  "pending_factor x sl en hs mfa_token session_id code =
     try_io (get_mfa_pending x mfa_token) (\<lambda>o1.
     try_io (lift (ok_or o1 ''invalid or expired MFA session'')) (\<lambda>pending.
     try_io unix_now (\<lambda>now.
     if mp_expires_at pending < now
     then try_io (delete_mfa_pending x mfa_token) (\<lambda>_.
       login_page x session_id (Some ''MFA session expired, please log in again''))
     else if mp_session_id pending = ''admin'' \<or> session_id \<noteq> mp_session_id pending
     then ignore_io (delete_mfa_pending x mfa_token) (fail ''invalid or expired MFA session'')
     else
       try_io (get_auth_session x (mp_session_id pending)) (\<lambda>o2.
       try_io (lift (ok_or o2 ''invalid or expired session'')) (\<lambda>_.
       try_io (flow_cookie_matches x hs (mp_session_id pending)) (\<lambda>bound.
       if \<not> bound
       then try_io (log_audit ''mfa_flow_cookie_mismatch'' (mp_user_id pending) [] []) (\<lambda>_.
         login_page x (mp_session_id pending) (Some unverified_session))
       else
         try_io (get_user x (mp_user_id pending)) (\<lambda>o3.
         try_io (lift (ok_or o3 ''user not found'')) (\<lambda>u.
         check_second_factor x sl en u pending mfa_token code))))))))"

definition handle_mfa :: "'s ext \<Rightarrow> saml_lib \<Rightarrow> engine \<Rightarrow> bytes \<Rightarrow> headers \<Rightarrow> (response, 's) act" where
  "handle_mfa x sl en body hs =
     (let form = parse_form body in
      try_io (lift (ok_or (form_value form ''mfa_token'') ''missing mfa_token'')) (\<lambda>mfa_token.
      try_io (lift (ok_or (form_value form ''session_id'') ''missing session_id'')) (\<lambda>session_id.
      try_io (lift (ok_or (form_value form ''code'') ''missing code'')) (\<lambda>code.
      if \<not> is_valid_session_id session_id then ret invalid_sign_in
      else match_io (check_rate x (''mfa:'' @ mfa_token) 5 900)
        (\<lambda>(allowed, _). if allowed then pending_factor x sl en hs mfa_token session_id code
           else ignore_io (delete_mfa_pending x mfa_token)
             (login_page x session_id (Some ''Too many MFA attempts. Session invalidated.'')))
        (\<lambda>e. try_io (error_message ''rate_limit.mfa_check_failed'' e) (\<lambda>_.
           login_page x session_id (Some ''Too many MFA attempts. Please wait and try again.'')))))))"

section \<open>Consent\<close>

definition get_auth_code :: "'s ext \<Rightarrow> string \<Rightarrow> (auth_code option, 's) act" where
  "get_auth_code x code = kv_get x auth_code_of_json sessions_store (''code:'' @ code)"

definition denied_location :: "auth_code \<Rightarrow> string \<Rightarrow> string" where
  "denied_location ac issuer =
     ac_redirect_uri ac @ (if CHR ''?'' \<in> set (ac_redirect_uri ac) then ''&'' else ''?'') @
     ''error=access_denied&error_description=user+denied+consent&iss='' @ percent_encode issuer @
     (if ac_state ac \<noteq> [] then ''&state='' @ percent_encode (ac_state ac) else [])"

definition found_at :: "string \<Rightarrow> response" where
  "found_at url = \<lparr>rs_status = 302, rs_headers = [(''location'', url), (''cache-control'', ''no-store'')], rs_body = []\<rparr>"

definition deny_consent :: "'s ext \<Rightarrow> string \<Rightarrow> auth_code \<Rightarrow> (response, 's) act" where
  "deny_consent x code ac =
     ignore_io (delete_auth_code x code)
       (try_io get_config (\<lambda>c. ret (found_at (denied_location ac (get_issuer c)))))"

text \<open>The write that approves is a plain one: it stores the record read, without its revision.\<close>

definition approve_consent :: "'s ext \<Rightarrow> string \<Rightarrow> auth_code \<Rightarrow> (response, 's) act" where
  "approve_consent x code ac =
     try_io (save_auth_code x code (ac\<lparr>ac_pending_consent := False\<rparr>)) (\<lambda>_.
     try_io get_config (\<lambda>c.
     let url = build_auth_code_redirect (ac_redirect_uri ac) code (ac_state ac) (get_issuer c) in
     ignore_io (save_user_consent x (ac_user_id ac) (ac_client_id ac) (split_whitespace (ac_scope ac)))
       (try_io (log_audit ''consent_approved'' (ac_user_id ac) (ac_client_id ac) (ac_scope ac)) (\<lambda>_.
        ret (found_at url)))))"

definition handle_consent :: "'s ext \<Rightarrow> bytes \<Rightarrow> headers \<Rightarrow> (response, 's) act" where
  "handle_consent x body hs =
     (let form = parse_form body in
      try_io (lift (ok_or (form_value form ''code'') ''missing code'')) (\<lambda>code.
      let submitted_csrf = (case form_value form ''csrf_token'' of Some v \<Rightarrow> v | None \<Rightarrow> []);
          decision = (case form_value form ''decision'' of Some v \<Rightarrow> v | None \<Rightarrow> ''deny'') in
      try_io (get_auth_code x code) (\<lambda>o1.
      try_io (lift (ok_or o1 ''invalid or expired authorisation code'')) (\<lambda>ac.
      try_io unix_now (\<lambda>now.
      if ac_expires_at ac < now
      then ignore_io (delete_auth_code x code) (fail ''authorisation code expired'')
      else
        try_io (flow_cookie_matches x hs code) (\<lambda>bound.
        if \<not> bound then fail ''invalid or expired authorisation flow''
        else if decision = ''approve'' \<and> submitted_csrf \<noteq> ac_csrf_token ac then fail ''invalid CSRF token''
        else if decision \<noteq> ''approve'' then deny_consent x code ac
        else approve_consent x code ac))))))"

lemmas login_runs [code] =
  attempt_metric_def [THEN fun_cong] account_cookies_def [THEN fun_cong] consent_needed_def [THEN fun_cong]
  ask_consent_def [THEN fun_cong] redirect_with_code_def [THEN fun_cong] issue_login_code_def [THEN fun_cong]
  confirm_device_def [THEN fun_cong] finish_login_def [THEN fun_cong] note_new_ip_def [THEN fun_cong]
  complete_login_with_amr_def [THEN fun_cong] complete_login_def [THEN fun_cong] login_failure_def [THEN
  fun_cong] no_such_account_def [THEN fun_cong] wrong_password_def [THEN fun_cong] password_verified_def [THEN
  fun_cong] check_password_def [THEN fun_cong] sign_in_def [THEN fun_cong] attempt_login_def [THEN fun_cong]
  handle_login_def [THEN fun_cong] second_factor_done_def [THEN fun_cong] mfa_failure_def [THEN fun_cong]
  try_recovery_code_def [THEN fun_cong] check_second_factor_def [THEN fun_cong] pending_factor_def [THEN
  fun_cong] handle_mfa_def [THEN fun_cong] get_auth_code_def [THEN fun_cong] deny_consent_def [THEN fun_cong]
  approve_consent_def [THEN fun_cong] handle_consent_def [THEN fun_cong]


end
