(* ===== verification/Authorize.thy ===== *)
theory Authorize
  imports Login Par
begin

text \<open>
  The authorization endpoint (\<open>authorize.rs\<close>). The client and its redirect address are established before
  any answer that redirects; the remaining checks answer with an error redirect. A request is then
  answered from a running single sign-on session, or a sign-in session is stored and the login page shown.
\<close>

section \<open>Requested claims\<close>

record claims_request =
  cq_id_token_claims :: "string list"
  cq_userinfo_claims :: "string list"
  cq_acr_values :: "string list"

record validated_hint =
  vh_user_id :: string
  vh_email :: string

definition push_unique :: "string list \<Rightarrow> string \<Rightarrow> string list" where
  "push_unique values candidate =
     (if candidate \<noteq> [] \<and> candidate \<notin> set values then values @ [candidate] else values)"

definition parse_acr_values :: "string option \<Rightarrow> string list" where
  "parse_acr_values raw =
     foldl push_unique [] (map trim (split_pred (\<lambda>c. c = CHR '' '') (case raw of Some s \<Rightarrow> s | None \<Rightarrow> [])))"

definition satisfiable_id_token_claims :: "string list" where
  "satisfiable_id_token_claims =
     [''sub'', ''iss'', ''aud'', ''exp'', ''iat'', ''nbf'', ''auth_time'', ''nonce'', ''acr'', ''amr'', ''sid'', ''email'',
      ''email_verified'', ''name'', ''given_name'', ''family_name'', ''preferred_username'', ''tenant_id'',
      ''tenants'', ''role'']"

definition satisfiable_userinfo_claims :: "string list" where
  "satisfiable_userinfo_claims =
     [''sub'', ''email'', ''email_verified'', ''name'', ''given_name'', ''family_name'', ''preferred_username'',
      ''tenant_id'', ''tenants'', ''role'', ''auth_time'', ''amr'']"

definition default_claims_request :: claims_request where
  "default_claims_request = \<lparr>cq_id_token_claims = [], cq_userinfo_claims = [], cq_acr_values = []\<rparr>"

definition add_claim :: "string \<Rightarrow> string \<Rightarrow> claims_request \<Rightarrow> claims_request" where
  "add_claim target claim_name q =
     (if target = ''id_token'' then q\<lparr>cq_id_token_claims := push_unique (cq_id_token_claims q) claim_name\<rparr>
      else q\<lparr>cq_userinfo_claims := push_unique (cq_userinfo_claims q) claim_name\<rparr>)"

definition essential :: "json \<Rightarrow> bool" where
  "essential descriptor \<longleftrightarrow> jget descriptor ''essential'' = Some (JBool True)"

text \<open>An essential claim must be one the provider delivers, and without a prescribed value.\<close>

definition unsatisfiable :: "string \<Rightarrow> string \<Rightarrow> json \<Rightarrow> string option" where
  "unsatisfiable target claim_name descriptor =
     (if claim_name \<notin> set (if target = ''id_token'' then satisfiable_id_token_claims else satisfiable_userinfo_claims)
      then Some (''cannot satisfy essential claim '' @ quoted claim_name @ '' in '' @ target)
      else if (jget descriptor ''value'' \<noteq> None \<or> jget descriptor ''values'' \<noteq> None) \<and>
        \<not> (target = ''id_token'' \<and> claim_name = ''acr'')
      then Some (''cannot satisfy essential claim '' @ quoted claim_name @ '' with a specific value in '' @ target)
      else None)"

fun push_values :: "json list \<Rightarrow> string list \<Rightarrow> string list res" where
  "push_values [] acc = Ok acc"
| "push_values (JStr v # vs) acc = push_values vs (push_unique acc v)"
| "push_values (_ # vs) acc = Err ''invalid claims parameter acr values''"

definition acr_request :: "json \<Rightarrow> claims_request \<Rightarrow> claims_request res" where
  "acr_request descriptor q =
     (let acr = (case jget_str descriptor ''value'' of Some v \<Rightarrow> push_unique (cq_acr_values q) v
        | None \<Rightarrow> cq_acr_values q) in
      case jget_array descriptor ''values'' of
        None \<Rightarrow> Ok (q\<lparr>cq_acr_values := acr\<rparr>)
      | Some vs \<Rightarrow> res_bind (push_values vs acr) (\<lambda>acr. Ok (q\<lparr>cq_acr_values := acr\<rparr>)))"

definition parse_claim :: "string \<Rightarrow> string \<times> json \<Rightarrow> claims_request \<Rightarrow> claims_request res" where
  "parse_claim target = (\<lambda>(claim_name, descriptor) q.
     let q = add_claim target claim_name q in
     case descriptor of
       JNull \<Rightarrow> Ok q
     | JObj _ \<Rightarrow>
         (case (if essential descriptor then unsatisfiable target claim_name descriptor else None) of
            Some e \<Rightarrow> Err e
          | None \<Rightarrow> if target = ''id_token'' \<and> claim_name = ''acr'' then acr_request descriptor q else Ok q)
     | _ \<Rightarrow> Err ''invalid claims parameter claim descriptor'')"

fun parse_claims :: "string \<Rightarrow> (string \<times> json) list \<Rightarrow> claims_request \<Rightarrow> claims_request res" where
  "parse_claims target [] q = Ok q"
| "parse_claims target (c # cs) q = res_bind (parse_claim target c q) (parse_claims target cs)"

definition parse_target :: "json \<Rightarrow> string \<Rightarrow> claims_request \<Rightarrow> claims_request res" where
  "parse_target claims_json target q = (case jget claims_json target of
     None \<Rightarrow> Ok q
   | Some (JObj requested) \<Rightarrow> parse_claims target requested q
   | Some _ \<Rightarrow> Err ''invalid claims parameter target (must be object)'')"

definition parse_claims_param :: "'s ext \<Rightarrow> string option \<Rightarrow> claims_request res" where
  "parse_claims_param x raw = (case raw of
     None \<Rightarrow> Ok default_claims_request
   | Some [] \<Rightarrow> Ok default_claims_request
   | Some raw \<Rightarrow>
       (case x_from_slice x raw of
          Inr (JObj ms) \<Rightarrow>
            res_bind (parse_target (JObj ms) ''id_token'' default_claims_request) (parse_target (JObj ms) ''userinfo'')
        | _ \<Rightarrow> Err ''invalid claims parameter (must be JSON object)''))"

section \<open>The request\<close>

definition authorize_error_redirect :: "string \<Rightarrow> string \<Rightarrow> string \<Rightarrow> string \<Rightarrow> string \<Rightarrow> response" where
  "authorize_error_redirect redirect_uri state error description issuer = found_at
     (redirect_uri @ (if CHR ''?'' \<in> set redirect_uri then ''&'' else ''?'') @ ''error='' @ percent_encode error @
      ''&error_description='' @ percent_encode description @ ''&iss='' @ percent_encode issuer @
      (if state \<noteq> [] then ''&state='' @ percent_encode state else []))"

definition validate_id_token_hint ::
    "'s ext \<Rightarrow> string option \<Rightarrow> string \<Rightarrow> string \<Rightarrow> (validated_hint option, 's) act" where
  "validate_id_token_hint x raw_hint issuer client_id = (case raw_hint of
     None \<Rightarrow> ret None
   | Some [] \<Rightarrow> ret None
   | Some raw_hint \<Rightarrow>
       match_io (verify_token_scoped x raw_hint (Some issuer) (Some client_id) None)
         (\<lambda>claims.
            if jget_str claims ''token_type'' \<noteq> None then fail ''invalid id_token_hint''
            else case jget_str claims ''sub'' of
              None \<Rightarrow> fail ''invalid id_token_hint''
            | Some [] \<Rightarrow> fail ''invalid id_token_hint''
            | Some user_id \<Rightarrow> try_io (get_user x user_id) (\<lambda>o1. case o1 of
                None \<Rightarrow> fail ''invalid id_token_hint''
              | Some u \<Rightarrow>
                  if usr_status u = ''active'' then ret (Some \<lparr>vh_user_id = usr_id u, vh_email = usr_email u\<rparr>)
                  else fail ''invalid id_token_hint''))
         (\<lambda>_. fail ''invalid id_token_hint''))"

text \<open>The locals of the handler once the client and the redirect address are known.\<close>

record authorize_request =
  ar_params :: "(string \<times> string) list"
  ar_issuer :: string
  ar_client :: oidc_client
  ar_client_id :: string
  ar_redirect_uri :: string
  ar_state :: string

definition asked :: "authorize_request \<Rightarrow> string \<Rightarrow> string option" where
  "asked q key = form_value (ar_params q) key"

definition asked_or :: "authorize_request \<Rightarrow> string \<Rightarrow> string \<Rightarrow> string" where
  "asked_or q key d = (case asked q key of Some v \<Rightarrow> v | None \<Rightarrow> d)"

definition prompt_of :: "authorize_request \<Rightarrow> string" where
  "prompt_of q = asked_or q ''prompt'' []"

definition refuse :: "authorize_request \<Rightarrow> string \<Rightarrow> string \<Rightarrow> response" where
  "refuse q error description =
     authorize_error_redirect (ar_redirect_uri q) (ar_state q) error description (ar_issuer q)"

definition request_uri_prefix :: string where
  "request_uri_prefix = ''urn:ietf:params:oauth:request_uri:''"

text \<open>The parameters of the query, or those pushed before; whether they were pushed.\<close>

definition pushed_params ::
    "'s ext \<Rightarrow> (string \<times> string) list \<Rightarrow> string \<Rightarrow> ((string \<times> string) list, 's) act" where
  "pushed_params x query_params req_uri =
     (if \<not> prefix request_uri_prefix req_uri then fail ''invalid request_uri parameter format''
      else try_io (get_pushed_auth_request x req_uri) (\<lambda>o1.
        try_io (lift (ok_or o1 ''invalid or expired request_uri'')) (\<lambda>par_entry.
        ignore_io (delete_pushed_auth_request x req_uri)
          (try_io unix_now (\<lambda>now.
           if par_expires_at par_entry < now then fail ''request_uri has expired''
           else if form_value query_params ''client_id'' \<notin> {None, Some (par_client_id par_entry)}
           then fail ''client_id in authorization request does not match request_uri''
           else if \<not> list_all (\<lambda>(k, v). k = ''client_id'' \<or> k = ''request_uri'') query_params
           then fail ''authorization request with request_uri MUST NOT contain other parameters''
           else ret (par_parameters par_entry))))))"

definition request_params ::
    "'s ext \<Rightarrow> (string \<times> string) list \<Rightarrow> ((string \<times> string) list \<times> bool, 's) act" where
  "request_params x query_params = (case form_value query_params ''request_uri'' of
     None \<Rightarrow> ret (query_params, False)
   | Some req_uri \<Rightarrow> try_io (pushed_params x query_params req_uri) (\<lambda>params. ret (params, True)))"

definition has_control :: "string \<Rightarrow> bool" where
  "has_control s \<longleftrightarrow> list_ex (\<lambda>c. chr_code c < 32 \<or> chr_code c = 127) s"

definition authorize_client :: "'s ext \<Rightarrow> string \<Rightarrow> string \<Rightarrow> (oidc_client, 's) act" where
  "authorize_client x issuer client_id =
     try_io (get_client x client_id) (\<lambda>o1. case o1 of
       Some c \<Rightarrow> ret c
     | None \<Rightarrow>
         if client_id = ''lid-admin''
         then try_io (ensure_admin_client x issuer False) (\<lambda>_.
           try_io (get_client x client_id) (\<lambda>o2. lift (ok_or o2 (''unknown client_id: '' @ client_id))))
         else fail (''unknown client_id: '' @ client_id))"

definition registered_redirect :: "oidc_client \<Rightarrow> string \<Rightarrow> string \<Rightarrow> bool" where
  "registered_redirect client issuer redirect_uri \<longleftrightarrow>
     redirect_uri \<in> set (cl_redirect_uris client) \<or>
     cl_first_party client \<and> prefix ''/'' redirect_uri \<and> issuer @ redirect_uri \<in> set (cl_redirect_uris client)"

text \<open>The code challenge, unless the request is refused.\<close>

definition check_request :: "authorize_request \<Rightarrow> bool \<Rightarrow> (response + string) res" where
  "check_request q used_par = (case asked q ''response_type'' of
     None \<Rightarrow> Ok (Inl (refuse q ''invalid_request'' ''missing response_type''))
   | Some response_type \<Rightarrow>
       if response_type \<noteq> ''code''
       then Ok (Inl (refuse q ''unsupported_response_type'' (''unsupported response_type: '' @ response_type)))
       else if cl_require_pushed_authorization_requests (ar_client q) \<and> \<not> used_par
       then Err ''client is required to use pushed authorization requests (PAR)''
       else if asked_or q ''code_challenge_method'' ''S256'' \<noteq> ''S256''
       then Ok (Inl (refuse q ''invalid_request'' ''only S256 code_challenge_method is supported''))
       else if asked_or q ''code_challenge'' [] = []
       then Ok (Inl (refuse q ''invalid_request'' ''missing code_challenge (PKCE S256 is required for all clients)''))
       else Ok (Inr (asked_or q ''code_challenge'' [])))"

definition max_age_of :: "authorize_request \<Rightarrow> response + u64 option" where
  "max_age_of q = (case asked q ''max_age'' of
     None \<Rightarrow> Inr None
   | Some v \<Rightarrow> (case parse_u64 v of
        Some age \<Rightarrow> Inr (Some age)
      | None \<Rightarrow> Inl (refuse q ''invalid_request'' ''invalid max_age (must be a non-negative integer)'')))"

definition requested_acr :: "authorize_request \<Rightarrow> claims_request \<Rightarrow> response + string list" where
  "requested_acr q claims =
     (let acr_values = parse_acr_values (asked q ''acr_values'');
          acr = (if acr_values = [] then cq_acr_values claims else acr_values) in
      if acr_values \<noteq> [] \<and> cq_acr_values claims \<noteq> []
      then Inl (refuse q ''invalid_request'' ''claims parameter acr request cannot be combined with acr_values'')
      else if list_ex (\<lambda>v. v \<noteq> acr_totp_mfa) acr
      then Inl (refuse q ''access_denied'' ''requested acr_values are not supported by this provider'')
      else Inr acr)"

section \<open>Answering from a session\<close>

definition recent_enough :: "u64 option \<Rightarrow> idp_session \<Rightarrow> u64 \<Rightarrow> bool" where
  "recent_enough max_age sso now = (case max_age of
     None \<Rightarrow> True | Some age \<Rightarrow> (if is_auth_time sso \<le> now then now - is_auth_time sso else 0) \<le> age)"

definition sso_session :: "'s ext \<Rightarrow> authorize_request \<Rightarrow> u64 option \<Rightarrow> headers \<Rightarrow> (idp_session option, 's) act" where
  "sso_session x q max_age hs =
     (if prompt_of q = ''login'' then ret None
      else try_io (get_idp_session_from_headers x hs) (\<lambda>o1. case o1 of
        None \<Rightarrow> ret None
      | Some sso \<Rightarrow>
          if max_age = None then ret (Some sso)
          else try_io unix_now (\<lambda>now. ret (if recent_enough max_age sso now then Some sso else None))))"

definition acr_satisfied :: "string list \<Rightarrow> idp_session \<Rightarrow> bool" where
  "acr_satisfied acr sso \<longleftrightarrow> list_all (\<lambda>v. v = acr_totp_mfa \<and> has_mfa (is_amr sso)) acr"

definition sso_account ::
    "'s ext \<Rightarrow> validated_hint option \<Rightarrow> string list \<Rightarrow> idp_session \<Rightarrow> (user option, 's) act" where
  "sso_account x hint acr sso =
     (if hint \<noteq> None \<and> map_option vh_user_id hint \<noteq> Some (is_user_id sso) \<or> \<not> acr_satisfied acr sso then ret None
      else try_io (or_else_io (is_user_revoked x (is_user_id sso) (is_auth_time sso)) True) (\<lambda>revoked.
        if revoked then ret None
        else match_io (get_user x (is_user_id sso))
          (\<lambda>o1. ret (case o1 of
             Some u \<Rightarrow> if usr_status u = ''active'' then Some u else None | None \<Rightarrow> None))
          (\<lambda>_. ret None)))"

definition is_first_party :: "authorize_request \<Rightarrow> bool" where
  "is_first_party q \<longleftrightarrow> cl_first_party (ar_client q) \<or> ar_client_id q \<in> {''lid-admin'', ''lid-default''}"

definition sso_consent :: "'s ext \<Rightarrow> authorize_request \<Rightarrow> user \<Rightarrow> (bool, 's) act" where
  "sso_consent x q u =
     (if prompt_of q = ''consent'' then ret True
      else try_io (or_else_io (has_user_consented x (usr_id u) (ar_client_id q) (asked_or q ''scope'' ''openid'')) False)
        (\<lambda>already_consented. ret (\<not> is_first_party q \<and> \<not> already_consented)))"

definition sso_code ::
    "authorize_request \<Rightarrow> string \<Rightarrow> claims_request \<Rightarrow> idp_session \<Rightarrow> user \<Rightarrow> bool \<Rightarrow> string \<Rightarrow> string \<Rightarrow> u64 \<Rightarrow> auth_code" where
  "sso_code q challenge claims sso u needs_consent sid csrf now =
     \<lparr>ac_user_id = usr_id u, ac_client_id = ar_client_id q, ac_redirect_uri = ar_redirect_uri q,
      ac_code_challenge = challenge, ac_code_challenge_method = asked_or q ''code_challenge_method'' ''S256'',
      ac_nonce = asked_or q ''nonce'' [], ac_scope = asked_or q ''scope'' ''openid'', ac_auth_time = is_auth_time sso,
      ac_amr = is_amr sso, ac_acr = acr_from_amr (is_amr sso),
      ac_requested_id_token_claims = cq_id_token_claims claims,
      ac_requested_userinfo_claims = cq_userinfo_claims claims, ac_extra_claims = [],
      ac_expires_at = now + 300, ac_csrf_token = csrf, ac_state = ar_state q, ac_sid = Some sid,
      ac_pending_consent = needs_consent\<rparr>"

definition optional_cookie :: "string option \<Rightarrow> response \<Rightarrow> response" where
  "optional_cookie c r = (case c of Some cookie \<Rightarrow> with_cookie cookie r | None \<Rightarrow> r)"

definition sso_reply ::
    "'s ext \<Rightarrow> authorize_request \<Rightarrow> string \<Rightarrow> auth_code \<Rightarrow> user \<Rightarrow> headers \<Rightarrow> (response, 's) act" where
  "sso_reply x q code ac u hs =
     try_io (log_audit ''sso_reuse'' (usr_id u) (usr_id u) (ar_client_id q)) (\<lambda>_.
     try_io (refresh_idp_session_cookie_header x hs) (\<lambda>refreshed_idp.
     try_io (or_else_io (try_io (create_session_cookie x (usr_id u)) (\<lambda>c. ret (Some c))) None) (\<lambda>account_cookie.
     try_io (if ac_pending_consent ac then consent_page x code ac (ar_client q) u
         else ret (found_at (build_auth_code_redirect (ar_redirect_uri q) code (ar_state q) (ar_issuer q)))) (\<lambda>r.
     try_io (create_flow_cookie x code) (\<lambda>flow_cookie.
     ret (optional_cookie account_cookie (optional_cookie refreshed_idp (with_cookie flow_cookie r))))))))"

definition sso_answer ::
    "'s ext \<Rightarrow> authorize_request \<Rightarrow> string \<Rightarrow> auth_code \<Rightarrow> user \<Rightarrow> headers \<Rightarrow> (response, 's) act" where
  "sso_answer x q code ac u hs =
     try_io (save_auth_code x code ac) (\<lambda>_. sso_reply x q code ac u hs)"

definition issue_sso_code ::
    "'s ext \<Rightarrow> authorize_request \<Rightarrow> string \<Rightarrow> claims_request \<Rightarrow> idp_session \<Rightarrow> user \<Rightarrow> headers \<Rightarrow> (response, 's) act" where
  "issue_sso_code x q challenge claims sso u hs =
     try_io (sso_consent x q u) (\<lambda>needs_consent.
     if needs_consent \<and> prompt_of q = ''none''
     then ret (refuse q ''consent_required'' ''interaction required: client requires user consent'')
     else
       try_io (random_hex 32) (\<lambda>code.
       try_io (random_hex 16) (\<lambda>sid.
       try_io (random_hex 16) (\<lambda>csrf.
       try_io unix_now (\<lambda>now.
       sso_answer x q code (sso_code q challenge claims sso u needs_consent sid csrf now) u hs)))))"

section \<open>Asking for a sign-in\<close>

definition sign_in_session ::
    "authorize_request \<Rightarrow> string \<Rightarrow> u64 option \<Rightarrow> claims_request \<Rightarrow> string list \<Rightarrow> validated_hint option \<Rightarrow>
      string \<Rightarrow> u64 \<Rightarrow> auth_session" where
  "sign_in_session q challenge max_age claims acr hint sid now =
     \<lparr>as_client_id = ar_client_id q, as_redirect_uri = ar_redirect_uri q, as_code_challenge = challenge,
      as_code_challenge_method = asked_or q ''code_challenge_method'' ''S256'', as_state = ar_state q,
      as_scope = asked_or q ''scope'' ''openid'', as_nonce = asked_or q ''nonce'' [], as_max_age = max_age,
      as_acr_values = acr, as_requested_id_token_claims = cq_id_token_claims claims,
      as_requested_userinfo_claims = cq_userinfo_claims claims, as_hinted_user_id = map_option vh_user_id hint,
      as_hinted_email = (case hint of Some h \<Rightarrow> Some (vh_email h)
        | None \<Rightarrow> (case asked q ''login_hint'' of Some [] \<Rightarrow> None | h \<Rightarrow> h)),
      as_created_at = now, as_needs_consent = (prompt_of q = ''consent'' \<or> \<not> is_first_party q),
      as_prompt = (if prompt_of q = [] then None else Some (prompt_of q)), as_sid = Some sid\<rparr>"

definition cannot_be_satisfied :: string where
  "cannot_be_satisfied = ''prompt=none cannot be satisfied without user interaction''"

definition ask_login ::
    "'s ext \<Rightarrow> authorize_request \<Rightarrow> string \<Rightarrow> u64 option \<Rightarrow> claims_request \<Rightarrow> string list \<Rightarrow> validated_hint option \<Rightarrow>
      (response, 's) act" where
  "ask_login x q challenge max_age claims acr hint =
     (if prompt_of q = ''none'' then ret (refuse q ''login_required'' cannot_be_satisfied)
      else
        try_io (random_hex 16) (\<lambda>session_id.
        try_io (random_hex 16) (\<lambda>sid.
        try_io unix_now (\<lambda>now.
        try_io (save_auth_session x session_id (sign_in_session q challenge max_age claims acr hint sid now)) (\<lambda>_.
        try_io (login_page x session_id None) (\<lambda>r.
        try_io (create_flow_cookie x session_id) (\<lambda>cookie. ret (with_cookie cookie r))))))))"

section \<open>The handler\<close>

definition answer_request ::
    "'s ext \<Rightarrow> authorize_request \<Rightarrow> string \<Rightarrow> u64 option \<Rightarrow> claims_request \<Rightarrow> string list \<Rightarrow> validated_hint option \<Rightarrow>
      idp_session option \<Rightarrow> headers \<Rightarrow> (response, 's) act" where
  "answer_request x q challenge max_age claims acr hint sso hs = (case sso of
     None \<Rightarrow> ask_login x q challenge max_age claims acr hint
   | Some s \<Rightarrow> try_io (sso_account x hint acr s) (\<lambda>o1. case o1 of
        Some u \<Rightarrow> issue_sso_code x q challenge claims s u hs
      | None \<Rightarrow>
          if prompt_of q = ''none''
          then ret (refuse q (if acr_satisfied acr s then ''login_required'' else ''interaction_required'') cannot_be_satisfied)
          else ask_login x q challenge max_age claims acr hint))"

definition authorize_checked ::
    "'s ext \<Rightarrow> authorize_request \<Rightarrow> string \<Rightarrow> u64 option \<Rightarrow> headers \<Rightarrow> (response, 's) act" where
  "authorize_checked x q challenge max_age hs =
     try_io (sso_session x q max_age hs) (\<lambda>sso.
     if prompt_of q = ''none'' \<and> sso = None
     then ret (refuse q ''login_required'' ''prompt=none requires existing session'')
     else match_io (lift (parse_claims_param x (asked q ''claims'')))
       (\<lambda>claims. case requested_acr q claims of
          Inl refusal \<Rightarrow> ret refusal
        | Inr acr \<Rightarrow> match_io (validate_id_token_hint x (asked q ''id_token_hint'') (ar_issuer q) (ar_client_id q))
            (\<lambda>hint. answer_request x q challenge max_age claims acr hint sso hs)
            (\<lambda>_. ret (refuse q ''invalid_request'' ''invalid id_token_hint'')))
       (\<lambda>e. ret (refuse q ''invalid_request'' e)))"

definition authorize_known ::
    "'s ext \<Rightarrow> authorize_request \<Rightarrow> bool \<Rightarrow> headers \<Rightarrow> (response, 's) act" where
  "authorize_known x q used_par hs =
     (if \<not> registered_redirect (ar_client q) (ar_issuer q) (ar_redirect_uri q)
      then fail ''redirect_uri not registered for this client''
      else try_io (lift (check_request q used_par)) (\<lambda>c. case c of
        Inl refusal \<Rightarrow> ret refusal
      | Inr challenge \<Rightarrow> (case max_age_of q of
           Inl refusal \<Rightarrow> ret refusal
         | Inr max_age \<Rightarrow> authorize_checked x q challenge max_age hs)))"

definition authorize :: "'s ext \<Rightarrow> string \<Rightarrow> string \<Rightarrow> headers \<Rightarrow> (response, 's) act" where
  "authorize x query issuer hs =
     (let query_params = parse_query query in
      try_io (lift (check_no_duplicates query_params)) (\<lambda>_.
      try_io (request_params x query_params) (\<lambda>(params, used_par).
      try_io (lift (ok_or (form_value params ''client_id'') ''missing client_id'')) (\<lambda>client_id.
      try_io (lift (ok_or (form_value params ''redirect_uri'') ''missing redirect_uri'')) (\<lambda>redirect_uri.
      if has_control redirect_uri then fail ''redirect_uri contains invalid characters''
      else try_io (authorize_client x issuer client_id) (\<lambda>client.
        authorize_known x \<lparr>ar_params = params, ar_issuer = issuer, ar_client = client, ar_client_id = client_id,
            ar_redirect_uri = redirect_uri,
            ar_state = (case form_value params ''state'' of Some s \<Rightarrow> s | None \<Rightarrow> [])\<rparr> used_par hs))))))"

lemmas authorize_runs [code] =
  validate_id_token_hint_def [THEN fun_cong] pushed_params_def [THEN fun_cong] request_params_def [THEN fun_cong]
  authorize_client_def [THEN fun_cong] sso_session_def [THEN fun_cong] sso_account_def [THEN fun_cong]
  sso_consent_def [THEN fun_cong] sso_reply_def [THEN fun_cong] sso_answer_def [THEN fun_cong] issue_sso_code_def [THEN fun_cong]
  ask_login_def [THEN fun_cong] answer_request_def [THEN fun_cong] authorize_checked_def [THEN fun_cong]
  authorize_known_def [THEN fun_cong] authorize_def [THEN fun_cong]

section \<open>What each step touches\<close>

abbreviation code_at :: "string \<Rightarrow> addr" where "code_at c \<equiv> sess (''code:'' @ c)"
abbreviation client_at :: "string \<Rightarrow> addr" where "client_at i \<equiv> (''clients'', ''client:'' @ i)"

lemma frames_list [frames_intro]:
  "(v = [] \<Longrightarrow> frames view A m) \<Longrightarrow> (\<And>y ys. frames view A (k y ys)) \<Longrightarrow>
    frames view A (case v of [] \<Rightarrow> m | y # ys \<Rightarrow> k y ys)"
  by (cases v) auto

context jetcache
begin

lemma authorize_step_frames [frames_intro]:
  "(\<And>u. sess (''par:'' @ u) \<in> A) \<Longrightarrow> frames view A (request_params x ps)"
  "client_at ''lid-admin'' \<in> A \<Longrightarrow> frames view A (authorize_client x issuer i)"
  "(\<And>t. sess (''idp:'' @ t) \<in> A) \<Longrightarrow> frames view A (sso_session x q m hs)"
  "keys_addrs \<subseteq> A \<Longrightarrow> frames view A (validate_id_token_hint x h issuer i)"
  "frames view A (sso_account x hint acr sso)"
  "frames view A (sso_consent x q u)"
  "(\<And>i. sess (''session:'' @ i) \<in> A) \<Longrightarrow> frames view A (ask_login x q c m claims acr hint)"
  unfolding request_params_def pushed_params_def authorize_client_def ensure_admin_client_def sso_session_def
    validate_id_token_hint_def sso_account_def sso_consent_def ask_login_def
  by (intro frames_intro; simp)+

end

section \<open>Codes issued from a session\<close>

text \<open>The client of a request is the record of its identifier; the built-in one is stored when it is absent.\<close>

definition known_as :: "'s ext \<Rightarrow> 's view \<Rightarrow> 's \<Rightarrow> string \<Rightarrow> string \<Rightarrow> oidc_client \<Rightarrow> bool" where
  "known_as x view s issuer i client \<longleftrightarrow>
     (\<exists>n. rec_at x view oidc_client_of_json s (client_at i) = Some (client, n)) \<or>
     i = ''lid-admin'' \<and> rec_at x view oidc_client_of_json s (client_at i) = None \<and> client = admin_client issuer False"

definition consent_covers :: "'s ext \<Rightarrow> 's view \<Rightarrow> 's \<Rightarrow> string \<Rightarrow> string \<Rightarrow> string \<Rightarrow> bool" where
  "consent_covers x view s u i scope \<longleftrightarrow>
     (\<exists>k n. rec_at x view user_consent_of_json s (users_store, ''consent:'' @ u @ '':'' @ i) = Some (k, n) \<and>
       set (split_whitespace scope) \<subseteq> set (uc_scopes k))"

lemma touches_rec_at:
  "touches view A w w' \<Longrightarrow> table_ok a \<Longrightarrow> a \<notin> A \<Longrightarrow> rec_at x view d (w_kv w') a = Some e \<Longrightarrow>
    rec_at x view d (w_kv w) a = Some e"
  by (blast dest: touchesD survives_rec_at)

lemma touches_rec_at_None:
  "touches view A w w' \<Longrightarrow> table_ok a \<Longrightarrow> a \<notin> A \<Longrightarrow> rec_at x view d (w_kv w) a = None \<Longrightarrow>
    rec_at x view d (w_kv w') a = None"
  by (metis touches_rec_at option.exhaust option.distinct(1))

lemma consent_covers_touches:
  assumes t: "touches view A w w'" and a: "(users_store, ''consent:'' @ u @ '':'' @ i) \<notin> A"
    and c: "consent_covers x view (w_kv w') u i scope"
  shows "consent_covers x view (w_kv w) u i scope"
proof -
  have "table_ok (users_store, ''consent:'' @ u @ '':'' @ i)" by (simp add: table_ok_def)
  from touches_rec_at [OF t this a] c show ?thesis unfolding consent_covers_def by blast
qed

lemma admin_client_jwks: "cl_jwks (admin_client issuer dev_mode) \<noteq> Some JNull"
  by (simp add: admin_client_def builtin_client_def)

lemma touches_rec_at_not:
  "touches view A w w' \<Longrightarrow> table_ok a \<Longrightarrow> a \<notin> A \<Longrightarrow> rec_at x view d (w_kv w) a \<noteq> Some e \<Longrightarrow>
    rec_at x view d (w_kv w') a \<noteq> Some e"
  using touches_rec_at by blast

context gateway
begin

lemma authorize_client_Ok:
  assumes "authorize_client x issuer i w = (Ok c, w')"
  shows "known_as x view (w_kv w) issuer i c"
proof -
  from assms obtain o1 w1 where g: "get_client x i w = (Ok o1, w1)"
    and r: "(case o1 of Some c \<Rightarrow> ret c
      | None \<Rightarrow> if i = ''lid-admin'' then try_io (ensure_admin_client x issuer False) (\<lambda>_.
           try_io (get_client x i) (\<lambda>o2. lift (ok_or o2 (''unknown client_id: '' @ i))))
         else fail (''unknown client_id: '' @ i)) w1 = (Ok c, w')"
    unfolding authorize_client_def by (rule try_io_Ok)
  note g' = get_client_Ok [OF g]
  show ?thesis
  proof (cases o1)
    case (Some d)
    with r have "d = c" by simp
    with g' Some show ?thesis
      by (cases "rec_at x view oidc_client_of_json (w_kv w) (client_at i)") (auto simp: known_as_def)
  next
    case None
    with r have i: "i = ''lid-admin''" by (auto split: if_splits)
    with r None obtain u w2 where e: "ensure_admin_client x issuer False w1 = (Ok u, w2)"
      and r2: "try_io (get_client x i) (\<lambda>o2. lift (ok_or o2 (''unknown client_id: '' @ i))) w2 = (Ok c, w')"
      by (auto elim: try_io_Ok)
    from r2 obtain w3 where g2: "get_client x i w2 = (Ok (Some c), w3)"
      by (auto elim!: try_io_Ok simp: ok_or_Ok lift_Ok)
    have f: "frames view {} (get_client x i)" by (intro frames_intro)
    have none: "rec_at x view oidc_client_of_json (w_kv w) (client_at i) = None" using g' None by simp
    from touches_rec_at_None [OF framesD [OF f g] _ _ this]
    have none1: "rec_at x view oidc_client_of_json (w_kv w1) (client_at i) = None" by (simp add: table_ok_def)
    from e obtain o3 w4 where g3: "get_client x ''lid-admin'' w1 = (Ok o3, w4)"
      and r3: "(if o3 = Some (admin_client issuer False) then ret () else try_io get_config (\<lambda>c.
         kv_set x (clients_store c) ''client:lid-admin'' (oidc_client_to_json (admin_client issuer False)))) w4 = (Ok u, w2)"
      unfolding ensure_admin_client_def by (rule try_io_Ok)
    from get_client_Ok [OF g3] none1 i have "o3 = None" by simp
    with r3 have "kv_set x ''clients'' ''client:lid-admin'' (oidc_client_to_json (admin_client issuer False)) w4 = (Ok u, w2)"
      by (auto elim!: try_io_Ok simp: get_config_Ok)
    from kv_set_Ok [OF this] obtain n where
      "rec_at x view oidc_client_of_json (w_kv w2) (client_at i) = Some (admin_client issuer False, n)"
      using i by (auto simp: rec_at_encoded oidc_client_roundtrip admin_client_jwks)
    with get_client_Ok [OF g2] i none show ?thesis by (simp add: known_as_def)
  qed
qed

lemma has_user_consented_True:
  assumes "has_user_consented x u i scope w = (Ok True, w')"
  shows "consent_covers x view (w_kv w) u i scope"
proof -
  from assms obtain o1 w1 where g: "get_user_consent x u i w = (Ok o1, w1)"
    and r: "(case o1 of None \<Rightarrow> ret False | Some consent \<Rightarrow> (let requested = split_whitespace scope in
          if requested = [] then ret True
          else ret (list_all (\<lambda>req. req \<in> set (uc_scopes consent)) requested))) w1 = (Ok True, w')"
    unfolding has_user_consented_def by (rule try_io_Ok)
  from r obtain k where k: "o1 = Some k" by (cases o1) auto
  with r have "set (split_whitespace scope) \<subseteq> set (uc_scopes k)"
    by (auto simp: Let_def list_all_iff split: if_splits)
  moreover from kv_get_Some [OF g [unfolded get_user_consent_def Let_def k]]
  have "\<exists>n. rec_at x view user_consent_of_json (w_kv w) (users_store, ''consent:'' @ u @ '':'' @ i) = Some (k, n)" by simp
  ultimately show ?thesis unfolding consent_covers_def by blast
qed

lemma sso_consent_False:
  assumes "sso_consent x q u w = (Ok False, w')"
  shows "prompt_of q \<noteq> ''consent'' \<and> (is_first_party q \<or>
    consent_covers x view (w_kv w) (usr_id u) (ar_client_id q) (asked_or q ''scope'' ''openid''))"
proof (cases "prompt_of q = ''consent''")
  case True
  with assms show ?thesis by (simp add: sso_consent_def)
next
  case False
  with assms obtain b w1 where
    h: "or_else_io (has_user_consented x (usr_id u) (ar_client_id q) (asked_or q ''scope'' ''openid'')) False w = (Ok b, w1)"
    and b: "is_first_party q \<or> b" by (auto simp: sso_consent_def elim!: try_io_Ok)
  then show ?thesis using False by (auto dest!: or_else_run has_user_consented_True)
qed

end

lemma known_as_cong:
  "touches view A w w' \<Longrightarrow> client_at i \<notin> A \<Longrightarrow> known_as x view (w_kv w') issuer i c \<Longrightarrow>
    (\<exists>n. rec_at x view oidc_client_of_json (w_kv w) (client_at i) = Some (c, n)) \<or> i = ''lid-admin'' \<and> c = admin_client issuer False"
proof -
  assume t: "touches view A w w'" "client_at i \<notin> A" and k: "known_as x view (w_kv w') issuer i c"
  have ok: "table_ok (client_at i)" by (simp add: table_ok_def)
  from k show ?thesis unfolding known_as_def using touches_rec_at [OF t(1) ok t(2)] by blast
qed

context gateway
begin

lemma sso_answer_code:
  assumes run: "sso_answer x q code ac u hs w = (Ok r, w')"
    and now: "rec_at x view auth_code_of_json (w_kv w') (code_at c) = Some (e, n)"
    and before: "rec_at x view auth_code_of_json (w_kv w) (code_at c) \<noteq> Some (e, n)"
  shows "e = ac"
proof -
  from run obtain v w1 where s: "save_auth_code x code ac w = (Ok v, w1)"
    and r: "sso_reply x q code ac u hs w1 = (Ok r, w')"
    unfolding sso_answer_def by (rule try_io_Ok)
  have "frames view {a. \<exists>t. a = sess (''idp:'' @ t) \<or> a = sess (''acct:'' @ t)} (sso_reply x q code ac u hs)"
    unfolding sso_reply_def by (intro frames_intro; auto)
  from touches_rec_at [OF framesD [OF this r] _ _ now]
  have w1: "rec_at x view auth_code_of_json (w_kv w1) (code_at c) = Some (e, n)" by (auto simp: table_ok_def)
  have "frames view {code_at code} (save_auth_code x code ac)" by (intro frames_intro) simp
  from touches_rec_at [OF framesD [OF this s] _ _ w1] before have "c = code" by (auto simp: table_ok_def)
  with save_auth_code_Ok [OF s] w1 show ?thesis by auto
qed

lemma issue_sso_code_code:
  assumes run: "issue_sso_code x q challenge claims sso u hs w = (Ok r, w')"
    and now: "rec_at x view auth_code_of_json (w_kv w') (code_at c) = Some (e, n)"
    and before: "rec_at x view auth_code_of_json (w_kv w) (code_at c) \<noteq> Some (e, n)"
  shows "\<exists>needs sid csrf t. e = sso_code q challenge claims sso u needs sid csrf t \<and>
    (needs \<or> prompt_of q \<noteq> ''consent'' \<and> (is_first_party q \<or>
      consent_covers x view (w_kv w) (usr_id u) (ar_client_id q) (asked_or q ''scope'' ''openid'')))"
proof -
  from run obtain needs w1 where s: "sso_consent x q u w = (Ok needs, w1)"
    and r: "(if needs \<and> prompt_of q = ''none''
     then ret (refuse q ''consent_required'' ''interaction required: client requires user consent'')
     else
       try_io (random_hex 32) (\<lambda>code.
       try_io (random_hex 16) (\<lambda>sid.
       try_io (random_hex 16) (\<lambda>csrf.
       try_io unix_now (\<lambda>now.
       sso_answer x q code (sso_code q challenge claims sso u needs sid csrf now) u hs))))) w1 = (Ok r, w')"
    unfolding issue_sso_code_def by (rule try_io_Ok)
  have "frames view {} (sso_consent x q u)" by (intro frames_intro)
  from touches_rec_at_not [OF framesD [OF this s] _ _ before]
  have before1: "rec_at x view auth_code_of_json (w_kv w1) (code_at c) \<noteq> Some (e, n)" by (simp add: table_ok_def)
  show ?thesis
  proof (cases "needs \<and> prompt_of q = ''none''")
    case True
    with r now before1 show ?thesis by simp
  next
    case False
    from r [unfolded if_not_P [OF False]] obtain code sid csrf tm w2 where
      a: "sso_answer x q code (sso_code q challenge claims sso u needs sid csrf tm) u hs w2 = (Ok r, w')"
      and kv: "w_kv w2 = w_kv w1"
      by (elim try_io_Ok) (auto simp: random_hex_Ok unix_now_Ok)
    from sso_answer_code [OF a now] before1 kv have "e = sso_code q challenge claims sso u needs sid csrf tm" by simp
    moreover have "\<not> needs \<Longrightarrow> prompt_of q \<noteq> ''consent'' \<and> (is_first_party q \<or>
      consent_covers x view (w_kv w) (usr_id u) (ar_client_id q) (asked_or q ''scope'' ''openid''))"
      using s sso_consent_False by auto
    ultimately show ?thesis by blast
  qed
qed

lemma sso_account_Some:
  assumes "sso_account x hint acr sso w = (Ok (Some u), w')"
  shows "(\<forall>h. hint = Some h \<longrightarrow> vh_user_id h = is_user_id sso) \<and> acr_satisfied acr sso \<and> usr_status u = ''active'' \<and>
    (\<exists>n. rec_at x view user_of_json (w_kv w) (usr_at (is_user_id sso)) = Some (u, n))"
proof -
  from assms have g: "\<not> (hint \<noteq> None \<and> map_option vh_user_id hint \<noteq> Some (is_user_id sso) \<or> \<not> acr_satisfied acr sso)"
    unfolding sso_account_def by (auto split: if_splits)
  from assms obtain b w1 where r: "or_else_io (is_user_revoked x (is_user_id sso) (is_auth_time sso)) True w = (Ok b, w1)"
    and k: "(if b then ret None else match_io (get_user x (is_user_id sso))
          (\<lambda>o1. ret (case o1 of
             Some u \<Rightarrow> if usr_status u = ''active'' then Some u else None | None \<Rightarrow> None))
          (\<lambda>_. ret None)) w1 = (Ok (Some u), w')"
    unfolding sso_account_def if_not_P [OF g] by (rule try_io_Ok)
  from k have nb: "\<not> b" by auto
  from k [unfolded if_not_P [OF nb]] obtain w2 where "get_user x (is_user_id sso) w1 = (Ok (Some u), w2)"
    and act: "usr_status u = ''active''"
    by (elim match_io_cases) (auto split: option.splits if_splits)
  from get_user_Some [OF this(1)] obtain n where
    u: "rec_at x view user_of_json (w_kv w1) (usr_at (is_user_id sso)) = Some (u, n)" by blast
  have "frames view {} (or_else_io (is_user_revoked x (is_user_id sso) (is_auth_time sso)) True)" by (intro frames_intro)
  from touches_rec_at [OF framesD [OF this r] _ _ u]
  have "rec_at x view user_of_json (w_kv w) (usr_at (is_user_id sso)) = Some (u, n)" by (simp add: table_ok_def)
  with g act show ?thesis by auto
qed

lemma answer_request_code:
  assumes run: "answer_request x q challenge m claims acr hint sso hs w = (Ok r, w')"
    and now: "rec_at x view auth_code_of_json (w_kv w') (code_at c) = Some (e, n)"
    and before: "rec_at x view auth_code_of_json (w_kv w) (code_at c) \<noteq> Some (e, n)"
  shows "\<exists>v u k needs sid csrf t. sso = Some v \<and> e = sso_code q challenge claims v u needs sid csrf t \<and>
    (\<forall>h. hint = Some h \<longrightarrow> vh_user_id h = is_user_id v) \<and> acr_satisfied acr v \<and> usr_status u = ''active'' \<and>
    rec_at x view user_of_json (w_kv w) (usr_at (is_user_id v)) = Some (u, k) \<and>
    (needs \<or> prompt_of q \<noteq> ''consent'' \<and> (is_first_party q \<or>
      consent_covers x view (w_kv w) (usr_id u) (ar_client_id q) (asked_or q ''scope'' ''openid'')))"
proof -
  have ask: False if "ask_login x q challenge m claims acr hint w1 = (Ok r, w')"
      "rec_at x view auth_code_of_json (w_kv w1) (code_at c) \<noteq> Some (e, n)" for w1
  proof -
    have "frames view {a. \<exists>i. a = sess (''session:'' @ i)} (ask_login x q challenge m claims acr hint)"
      by (intro frames_intro) auto
    from touches_rec_at [OF framesD [OF this that(1)] _ _ now] that(2) show False by (auto simp: table_ok_def)
  qed
  show ?thesis
  proof (cases sso)
    case None
    with run ask before show ?thesis by (simp add: answer_request_def)
  next
    case (Some v)
    with run obtain o1 w1 where s: "sso_account x hint acr v w = (Ok o1, w1)"
      and r: "(case o1 of Some u \<Rightarrow> issue_sso_code x q challenge claims v u hs
      | None \<Rightarrow> if prompt_of q = ''none''
          then ret (refuse q (if acr_satisfied acr v then ''login_required'' else ''interaction_required'') cannot_be_satisfied)
          else ask_login x q challenge m claims acr hint) w1 = (Ok r, w')"
      by (simp add: answer_request_def) (erule try_io_Ok)
    have "frames view {} (sso_account x hint acr v)" by (intro frames_intro)
    note t = framesD [OF this s]
    from touches_rec_at_not [OF t _ _ before]
    have before1: "rec_at x view auth_code_of_json (w_kv w1) (code_at c) \<noteq> Some (e, n)" by (simp add: table_ok_def)
    show ?thesis
    proof (cases o1)
      case None
      with r ask [OF _ before1] now before1 show ?thesis by (cases "prompt_of q = ''none''") auto
    next
      case (Some u)
      with r have i: "issue_sso_code x q challenge claims v u hs w1 = (Ok r, w')" by simp
      have "consent_covers x view (w_kv w) a b d" if "consent_covers x view (w_kv w1) a b d" for a b d
        using that consent_covers_touches [OF t] by simp
      with issue_sso_code_code [OF i now before1] sso_account_Some [OF s [unfolded Some]] \<open>sso = Some v\<close>
      show ?thesis by blast
    qed
  qed
qed

end

lemma idp_record_touches:
  assumes t: "touches view A w w'" and a: "\<And>k. sess (''idp:'' @ k) \<notin> A" and r: "idp_record x view (w_kv w') t v"
  shows "idp_record x view (w_kv w) t v"
proof -
  have "table_ok (sess k)" for k by (simp add: table_ok_def)
  from touches_rec_at [OF t this a] r show ?thesis unfolding idp_record_def by blast
qed

lemma authorize_Ok:
  assumes "authorize x query issuer hs w = (Ok r, w')"
  obtains params used w1 i uri client w2
  where "request_params x (parse_query query) w = (Ok (params, used), w1)"
    and "form_value params ''client_id'' = Some i" and "form_value params ''redirect_uri'' = Some uri"
    and "authorize_client x issuer i w1 = (Ok client, w2)"
    and "authorize_known x \<lparr>ar_params = params, ar_issuer = issuer, ar_client = client, ar_client_id = i, ar_redirect_uri = uri,
      ar_state = (case form_value params ''state'' of Some s \<Rightarrow> s | None \<Rightarrow> [])\<rparr> used hs w2 = (Ok r, w')"
proof -
  from assms obtain p w1 where p: "request_params x (parse_query query) w = (Ok p, w1)"
    and k: "(case p of (params, used_par) \<Rightarrow>
      try_io (lift (ok_or (form_value params ''client_id'') ''missing client_id'')) (\<lambda>client_id.
      try_io (lift (ok_or (form_value params ''redirect_uri'') ''missing redirect_uri'')) (\<lambda>redirect_uri.
      if has_control redirect_uri then fail ''redirect_uri contains invalid characters''
      else try_io (authorize_client x issuer client_id) (\<lambda>client.
        authorize_known x \<lparr>ar_params = params, ar_issuer = issuer, ar_client = client, ar_client_id = client_id,
            ar_redirect_uri = redirect_uri,
            ar_state = (case form_value params ''state'' of Some s \<Rightarrow> s | None \<Rightarrow> [])\<rparr> used_par hs)))) w1 = (Ok r, w')"
    unfolding authorize_def Let_def by (elim try_io_Ok) (simp only: lift_Ok)
  obtain params used where pp: "p = (params, used)" by (cases p)
  from k obtain i uri where iu: "form_value params ''client_id'' = Some i" "form_value params ''redirect_uri'' = Some uri"
    unfolding pp by (auto elim!: try_io_Ok simp: lift_Ok ok_or_Ok)
  with k have "(if has_control uri then fail ''redirect_uri contains invalid characters''
      else try_io (authorize_client x issuer i) (\<lambda>client.
        authorize_known x \<lparr>ar_params = params, ar_issuer = issuer, ar_client = client, ar_client_id = i,
            ar_redirect_uri = uri,
            ar_state = (case form_value params ''state'' of Some s \<Rightarrow> s | None \<Rightarrow> [])\<rparr> used hs)) w1 = (Ok r, w')"
    unfolding pp by (simp add: ok_or_def)
  then have "try_io (authorize_client x issuer i) (\<lambda>client.
        authorize_known x \<lparr>ar_params = params, ar_issuer = issuer, ar_client = client, ar_client_id = i,
            ar_redirect_uri = uri,
            ar_state = (case form_value params ''state'' of Some s \<Rightarrow> s | None \<Rightarrow> [])\<rparr> used hs) w1 = (Ok r, w')"
    by (simp split: if_splits)
  then show ?thesis using that p pp iu by (elim try_io_Ok) blast
qed

lemma authorize_known_Ok:
  assumes "authorize_known x q used hs w = (Ok r, w')"
  obtains (refused) error description where "r = refuse q error description" and "w' = w"
      and "registered_redirect (ar_client q) (ar_issuer q) (ar_redirect_uri q)"
  | (checked) challenge m where "authorize_checked x q challenge m hs w = (Ok r, w')"
      and "registered_redirect (ar_client q) (ar_issuer q) (ar_redirect_uri q)"
      and "asked q ''code_challenge'' = Some challenge" and "challenge \<noteq> []"
      and "asked_or q ''code_challenge_method'' ''S256'' = ''S256''" and "max_age_of q = Inr m"
proof -
  from assms have reg: "registered_redirect (ar_client q) (ar_issuer q) (ar_redirect_uri q)"
    unfolding authorize_known_def by (auto split: if_splits)
  with assms obtain c where c: "check_request q used = Ok c"
    and k: "(case c of Inl refusal \<Rightarrow> ret refusal
      | Inr challenge \<Rightarrow> (case max_age_of q of Inl refusal \<Rightarrow> ret refusal
         | Inr max_age \<Rightarrow> authorize_checked x q challenge max_age hs)) w = (Ok r, w')"
    unfolding authorize_known_def by (auto elim!: try_io_Ok simp: lift_Ok)
  show ?thesis
  proof (cases c)
    case (Inl refusal)
    with c have "\<exists>e d. refusal = refuse q e d"
      by (auto simp: check_request_def split: option.splits if_splits)
    with k Inl refused [OF _ _ reg] show ?thesis by auto
  next
    case (Inr challenge)
    with c have ch: "asked q ''code_challenge'' = Some challenge" "challenge \<noteq> []"
      "asked_or q ''code_challenge_method'' ''S256'' = ''S256''"
      by (auto simp: check_request_def asked_or_def split: option.splits if_splits)
    show ?thesis
    proof (cases "max_age_of q")
      case (Inl refusal)
      then have "\<exists>e d. refusal = refuse q e d" by (auto simp: max_age_of_def split: option.splits)
      with k Inr Inl refused [OF _ _ reg] show ?thesis by auto
    next
      case (Inr m)
      with k \<open>c = Inr challenge\<close> show ?thesis by (intro checked [OF _ reg ch]) simp_all
    qed
  qed
qed

context gateway
begin

lemma sso_session_Some:
  assumes "sso_session x q m hs w = (Ok (Some v), w')"
  shows "prompt_of q \<noteq> ''login'' \<and> (\<exists>now. recent_enough m v now) \<and>
    (\<exists>w1. get_idp_session_from_headers x hs w = (Ok (Some v), w1))"
proof -
  from assms have p: "prompt_of q \<noteq> ''login''" by (auto simp: sso_session_def)
  with assms obtain o1 w1 where g: "get_idp_session_from_headers x hs w = (Ok o1, w1)"
    and k: "(case o1 of None \<Rightarrow> ret None
      | Some sso \<Rightarrow> if max_age = None then ret (Some sso)
          else try_io unix_now (\<lambda>now. ret (if recent_enough max_age sso now then Some sso else None))) w1 = (Ok (Some v), w')"
    if "m = max_age" for max_age
    unfolding sso_session_def by (auto elim!: try_io_Ok)
  from g k [OF refl] obtain s where s: "o1 = Some s" by (cases o1) auto
  with k [OF refl] have "s = v" "\<exists>now. recent_enough m v now"
    by (auto split: if_splits elim!: try_io_Ok simp: recent_enough_def unix_now_Ok)
  with p g [OF refl] s show ?thesis by auto
qed

lemma authorize_checked_code:
  assumes run: "authorize_checked x q challenge m hs w = (Ok r, w')"
    and now: "rec_at x view auth_code_of_json (w_kv w') (code_at c) = Some (e, n)"
    and before: "rec_at x view auth_code_of_json (w_kv w) (code_at c) \<noteq> Some (e, n)"
  shows "\<exists>v u k needs sid csrf t claims w1. get_idp_session_from_headers x hs w = (Ok (Some v), w1) \<and>
    prompt_of q \<noteq> ''login'' \<and> (\<exists>now. recent_enough m v now) \<and>
    e = sso_code q challenge claims v u needs sid csrf t \<and> usr_status u = ''active'' \<and>
    rec_at x view user_of_json (w_kv w) (usr_at (is_user_id v)) = Some (u, k) \<and>
    (needs \<or> prompt_of q \<noteq> ''consent'' \<and> (is_first_party q \<or>
      consent_covers x view (w_kv w) (usr_id u) (ar_client_id q) (asked_or q ''scope'' ''openid'')))"
proof -
  let ?I = "{a. \<exists>t. a = sess (''idp:'' @ t)}"
  from run obtain sso w1 where s: "sso_session x q m hs w = (Ok sso, w1)"
    and r: "(if prompt_of q = ''none'' \<and> sso = None
     then ret (refuse q ''login_required'' ''prompt=none requires existing session'')
     else match_io (lift (parse_claims_param x (asked q ''claims'')))
       (\<lambda>claims. case requested_acr q claims of
          Inl refusal \<Rightarrow> ret refusal
        | Inr acr \<Rightarrow> match_io (validate_id_token_hint x (asked q ''id_token_hint'') (ar_issuer q) (ar_client_id q))
            (\<lambda>hint. answer_request x q challenge m claims acr hint sso hs)
            (\<lambda>_. ret (refuse q ''invalid_request'' ''invalid id_token_hint'')))
       (\<lambda>e. ret (refuse q ''invalid_request'' e))) w1 = (Ok r, w')"
    unfolding authorize_checked_def by (rule try_io_Ok)
  have "frames view ?I (sso_session x q m hs)" by (intro frames_intro) auto
  note t1 = framesD [OF this s]
  from touches_rec_at_not [OF t1 _ _ before]
  have before1: "rec_at x view auth_code_of_json (w_kv w1) (code_at c) \<noteq> Some (e, n)" by (auto simp: table_ok_def)
  with r now obtain claims where r1: "(case requested_acr q claims of
          Inl refusal \<Rightarrow> ret refusal
        | Inr acr \<Rightarrow> match_io (validate_id_token_hint x (asked q ''id_token_hint'') (ar_issuer q) (ar_client_id q))
            (\<lambda>hint. answer_request x q challenge m claims acr hint sso hs)
            (\<lambda>_. ret (refuse q ''invalid_request'' ''invalid id_token_hint''))) w1 = (Ok r, w')"
    by (auto split: if_splits elim!: match_io_cases simp: lift_Ok)
  with now before1 obtain acr where r2:
    "match_io (validate_id_token_hint x (asked q ''id_token_hint'') (ar_issuer q) (ar_client_id q))
            (\<lambda>hint. answer_request x q challenge m claims acr hint sso hs)
            (\<lambda>_. ret (refuse q ''invalid_request'' ''invalid id_token_hint'')) w1 = (Ok r, w')"
    by (cases "requested_acr q claims") auto
  have fh: "frames view keys_addrs (validate_id_token_hint x (asked q ''id_token_hint'') (ar_issuer q) (ar_client_id q))"
    by (intro frames_intro) simp
  note hint_not = touches_rec_at_not [OF framesD [OF fh] _ _ before1]
  have no_err: False if "validate_id_token_hint x (asked q ''id_token_hint'') (ar_issuer q) (ar_client_id q) w1 = (Err e', w')" for e'
    using hint_not [OF that] now by (auto simp: table_ok_def)
  from r2 obtain hint w2 where h: "validate_id_token_hint x (asked q ''id_token_hint'') (ar_issuer q) (ar_client_id q) w1 = (Ok hint, w2)"
    and a: "answer_request x q challenge m claims acr hint sso hs w2 = (Ok r, w')"
    by (elim match_io_cases) (auto dest: no_err)
  have t2: "touches view (?I \<union> keys_addrs) w w2" by (rule touches_trans [OF t1 framesD [OF fh h]])
  from hint_not [OF h] have "rec_at x view auth_code_of_json (w_kv w2) (code_at c) \<noteq> Some (e, n)"
    by (simp add: table_ok_def)
  from answer_request_code [OF a now this] obtain v u k needs sid csrf t where
    v: "sso = Some v" "e = sso_code q challenge claims v u needs sid csrf t" "usr_status u = ''active''"
    and u: "rec_at x view user_of_json (w_kv w2) (usr_at (is_user_id v)) = Some (u, k)"
    and need: "needs \<or> prompt_of q \<noteq> ''consent'' \<and> (is_first_party q \<or>
      consent_covers x view (w_kv w2) (usr_id u) (ar_client_id q) (asked_or q ''scope'' ''openid''))" by blast
  from touches_rec_at [OF t2 _ _ u] have "rec_at x view user_of_json (w_kv w) (usr_at (is_user_id v)) = Some (u, k)"
    by (auto simp: table_ok_def)
  moreover have "consent_covers x view (w_kv w) a b d" if "consent_covers x view (w_kv w2) a b d" for a b d
    using that consent_covers_touches [OF t2] by auto
  ultimately show ?thesis using v need sso_session_Some [OF s [unfolded v(1)]] by blast
qed

end

lemma authorize_client_at:
  assumes gw: "gateway x view" and p: "request_params x ps w = (Ok y, w1)"
    and c: "authorize_client x issuer i w1 = (Ok client, w2)"
  shows "(\<exists>m. rec_at x view oidc_client_of_json (w_kv w) (client_at i) = Some (client, m)) \<or>
    i = ''lid-admin'' \<and> client = admin_client issuer False"
proof -
  let ?P = "{a. \<exists>u. a = sess (''par:'' @ u)}"
  have "frames view ?P (request_params x ps)"
    by (rule jetcache.authorize_step_frames(1) [OF gateway.axioms(1) [OF gw]]) simp
  from framesD [OF this p] have "touches view ?P w w1" .
  from known_as_cong [OF this _ gateway.authorize_client_Ok [OF gw c]] show ?thesis by simp
qed

lemma authorize_prelude_touches:
  assumes gw: "gateway x view" and p: "request_params x ps w = (Ok y, w1)"
    and c: "authorize_client x issuer i w1 = (Ok client, w2)"
  shows "touches view ({a. \<exists>u. a = sess (''par:'' @ u)} \<union> {client_at ''lid-admin''}) w w2"
proof -
  note J = gateway.axioms(1) [OF gw]
  have f1: "frames view {a. \<exists>u. a = sess (''par:'' @ u)} (request_params x ps)"
    by (rule jetcache.authorize_step_frames(1) [OF J]) simp
  have f2: "frames view {client_at ''lid-admin''} (authorize_client x issuer i)"
    by (rule jetcache.authorize_step_frames(2) [OF J]) simp
  from touches_trans [OF framesD [OF f1 p] framesD [OF f2 c]] show ?thesis .
qed

section \<open>Properties\<close>

text \<open>C40. A code issued without a sign-in rests on a live single sign-on session: whatever is asked, a code
  that the endpoint leaves on record carries a code challenge, names a redirect address registered for its
  client, belongs to the active user of the session whose cookie came with the request, keeps the time and
  methods of that sign-in, and waits for consent unless the client is first party or the user's recorded
  consent covers the scope; a request to sign in again issues none.\<close>

theorem sso_code_sound:
  assumes gw: "gateway x view" and run: "authorize x query issuer hs w = (Ok r, w')"
    and now: "rec_at x view auth_code_of_json (w_kv w') (code_at c) = Some (ac, n)"
    and before: "rec_at x view auth_code_of_json (w_kv w) (code_at c) \<noteq> Some (ac, n)"
  shows "\<exists>params used w1 client t v u k. request_params x (parse_query query) w = (Ok (params, used), w1) \<and>
    form_value params ''client_id'' = Some (ac_client_id ac) \<and>
    ((\<exists>m. rec_at x view oidc_client_of_json (w_kv w) (client_at (ac_client_id ac)) = Some (client, m)) \<or>
      ac_client_id ac = ''lid-admin'' \<and> client = admin_client issuer False) \<and>
    registered_redirect client issuer (ac_redirect_uri ac) \<and>
    form_value params ''code_challenge'' = Some (ac_code_challenge ac) \<and> ac_code_challenge ac \<noteq> [] \<and>
    ac_code_challenge_method ac = ''S256'' \<and> form_value params ''prompt'' \<noteq> Some ''login'' \<and>
    parse_cookie hs idp_cookie_name = Some t \<and> idp_record x view (w_kv w) t v \<and>
    ac_auth_time ac = is_auth_time v \<and> ac_amr ac = is_amr v \<and> ac_user_id ac = usr_id u \<and>
    rec_at x view user_of_json (w_kv w) (usr_at (is_user_id v)) = Some (u, k) \<and> usr_status u = ''active'' \<and>
    (ac_pending_consent ac \<or> form_value params ''prompt'' \<noteq> Some ''consent'' \<and>
      (cl_first_party client \<or> ac_client_id ac \<in> {''lid-admin'', ''lid-default''} \<or>
       consent_covers x view (w_kv w) (usr_id u) (ac_client_id ac) (ac_scope ac)))"
proof -
  from run obtain params used w1 i uri client w2 where p: "request_params x (parse_query query) w = (Ok (params, used), w1)"
    and f: "form_value params ''client_id'' = Some i" "form_value params ''redirect_uri'' = Some uri"
    and cl: "authorize_client x issuer i w1 = (Ok client, w2)"
    and k: "authorize_known x \<lparr>ar_params = params, ar_issuer = issuer, ar_client = client, ar_client_id = i, ar_redirect_uri = uri,
      ar_state = (case form_value params ''state'' of Some s \<Rightarrow> s | None \<Rightarrow> [])\<rparr> used hs w2 = (Ok r, w')"
    by (rule authorize_Ok)
  define q where "q = \<lparr>ar_params = params, ar_issuer = issuer, ar_client = client, ar_client_id = i, ar_redirect_uri = uri,
      ar_state = (case form_value params ''state'' of Some s \<Rightarrow> s | None \<Rightarrow> [])\<rparr>"
  have q: "ar_client q = client" "ar_client_id q = i" "ar_redirect_uri q = uri" "ar_issuer q = issuer"
    "asked q = form_value params" by (simp_all add: q_def asked_def fun_eq_iff)
  note t = authorize_prelude_touches [OF gw p cl]
  from touches_rec_at_not [OF t _ _ before]
  have before2: "rec_at x view auth_code_of_json (w_kv w2) (code_at c) \<noteq> Some (ac, n)" by (auto simp: table_ok_def)
  from k [folded q_def] obtain challenge m where ch: "authorize_checked x q challenge m hs w2 = (Ok r, w')"
    "registered_redirect client issuer uri" "form_value params ''code_challenge'' = Some challenge" "challenge \<noteq> []"
    "asked_or q ''code_challenge_method'' ''S256'' = ''S256''"
  proof (cases rule: authorize_known_Ok)
    case refused
    with now before2 show ?thesis by simp
  qed (use that q in simp)
  from gateway.authorize_checked_code [OF gw ch(1) now before2]
  obtain v u k needs sid csrf tm claims w3 where g: "get_idp_session_from_headers x hs w2 = (Ok (Some v), w3)"
    and e: "prompt_of q \<noteq> ''login''" "ac = sso_code q challenge claims v u needs sid csrf tm" "usr_status u = ''active''"
    and u: "rec_at x view user_of_json (w_kv w2) (usr_at (is_user_id v)) = Some (u, k)"
    and need: "needs \<or> prompt_of q \<noteq> ''consent'' \<and> (is_first_party q \<or>
      consent_covers x view (w_kv w2) (usr_id u) (ar_client_id q) (asked_or q ''scope'' ''openid''))" by blast
  from sso_session_sound [OF gw g] obtain tk where tk: "parse_cookie hs idp_cookie_name = Some tk"
    and rec: "idp_record x view (w_kv w2) tk v" by blast
  from idp_record_touches [OF t _ rec] have rec0: "idp_record x view (w_kv w) tk v" by auto
  from touches_rec_at [OF t _ _ u] have u0: "rec_at x view user_of_json (w_kv w) (usr_at (is_user_id v)) = Some (u, k)"
    by (auto simp: table_ok_def)
  have cov: "consent_covers x view (w_kv w) a b d" if "consent_covers x view (w_kv w2) a b d" for a b d
    using that consent_covers_touches [OF t] by auto
  have prompts: "form_value params ''prompt'' \<noteq> Some p" if "prompt_of q \<noteq> p" for p
    using that q by (auto simp: prompt_of_def asked_or_def)
  have ac: "ac_client_id ac = i" "ac_redirect_uri ac = uri" "ac_code_challenge ac = challenge" "ac_code_challenge_method ac = ''S256''"
    "ac_auth_time ac = is_auth_time v" "ac_amr ac = is_amr v" "ac_user_id ac = usr_id u" "ac_pending_consent ac = needs"
    "ac_scope ac = asked_or q ''scope'' ''openid''"
    using ch(5) by (simp_all add: e(2) sso_code_def q)
  from need cov prompts have c: "needs \<or> form_value params ''prompt'' \<noteq> Some ''consent'' \<and>
      (cl_first_party client \<or> i \<in> {''lid-admin'', ''lid-default''} \<or>
       consent_covers x view (w_kv w) (usr_id u) i (ac_scope ac))"
    unfolding is_first_party_def q ac by blast
  from authorize_client_at [OF gw p cl] show ?thesis
    using p f(1) ch tk rec0 u0 e(3) prompts [OF e(1)] c unfolding ac by blast
qed

definition sso_client :: oidc_client where
  "sso_client = demo_client\<lparr>cl_first_party := True\<rparr>"

definition sso_codes :: "(json \<times> char) list" where
  "sso_codes = session_codes @ [(oidc_client_to_json sso_client, CHR ''C''),
     (runtime_settings_to_json (default_runtime_settings\<lparr>rs_idp_session_ttl_seconds := Some 500\<rparr>), CHR ''R''),
     (idp_session_to_json (demo_session\<lparr>is_expires_at := 1500\<rparr>), CHR ''T'')]"

definition sso_enc :: "json \<Rightarrow> bytes" where "sso_enc j = short_text sso_codes j"
definition sso_dec :: "bytes \<Rightarrow> string + json" where "sso_dec s = long_text sso_codes s"
definition sso_ext :: "kv_map ext" where "sso_ext = coded sso_enc sso_dec"

lemma sso_gateway: "gateway sso_ext mem_view"
proof -
  have "codes_ok sso_codes" by code_simp
  then have "sso_dec (sso_enc j) = Inr j" for j
    unfolding sso_enc_def sso_dec_def by (rule long_short_text)
  then show ?thesis unfolding sso_ext_def by (rule coded_gateway)
qed

definition plain_rand :: "nat \<Rightarrow> nat \<Rightarrow> char" where "plain_rand n i = CHR ''a''"

abbreviation "sso_w \<equiv> (demo_world_at 1000 [(''users:user:u'', ''U'', 1),
  (full_key sessions_store (''idp:'' @ sha256_hex sso_ext ''tok''), ''S'', 1), (full_key ''clients'' ''client:app'', ''C'', 1),
  (full_key ''clients'' settings_key, ''R'', 1)])\<lparr>w_rand := plain_rand\<rparr>"

abbreviation sso_query :: string where
  "sso_query \<equiv> ''response_type=code&client_id=app&redirect_uri=https%3A%2F%2Fapp%2Fcb&code_challenge=ch&state=s''"

abbreviation sso_run :: "response res \<times> kv_map world" where
  "sso_run \<equiv> authorize sso_ext sso_query ''https://id'' session_headers sso_w"

abbreviation sso_code_value :: string where "sso_code_value \<equiv> hex_lower (replicate 32 (CHR ''a''))"

lemma sso_code_sound_witness:
  "\<exists>r w' ac n. sso_run = (Ok r, w') \<and>
     rec_at sso_ext mem_view auth_code_of_json (w_kv w') (code_at sso_code_value) = Some (ac, n) \<and>
     \<not> ac_pending_consent ac \<and> idp_record sso_ext mem_view (w_kv sso_w) ''tok'' demo_session"
proof -
  let ?now = "\<lambda>w. rec_at sso_ext mem_view auth_code_of_json (w_kv w) (code_at sso_code_value)"
  have "(case sso_run of (Ok r, w') \<Rightarrow> map_option (\<lambda>(ac, n). ac_pending_consent ac) (?now w') = Some False | _ \<Rightarrow> False)"
    by code_simp
  then obtain r w' ac n where run: "sso_run = (Ok r, w')" and now: "?now w' = Some (ac, n)" and p: "\<not> ac_pending_consent ac"
    by (cases sso_run; cases "fst sso_run") auto
  have "?now sso_w = None" by code_simp
  then have before: "?now sso_w \<noteq> Some (ac, n)" by simp
  have cookie: "parse_cookie session_headers idp_cookie_name = Some ''tok''" by code_simp
  have rec: "map_option fst (rec_at sso_ext mem_view idp_session_of_json (w_kv sso_w) (sess (''idp:'' @ sha256_hex sso_ext ''tok''))) = Some demo_session"
    by code_simp
  then have "idp_record sso_ext mem_view (w_kv sso_w) ''tok'' demo_session" unfolding idp_record_def by auto
  with sso_code_sound [OF sso_gateway run now before] run now p show ?thesis by blast
qed

end
