(* ===== verification/Spec2Isabelle.thy ===== *)
theory Spec2Isabelle
  imports Util Single_Use Store_Users Key_Manager Dpop Token_Properties Totp Session Store_Admin Par
    Theme Hooks Device Saml Authorize
begin

text \<open>
  A verification development for JetAuth, an OpenID Connect provider that runs as one component per
  request in front of a replicated key-value service. All file names are relative to
  \<open>src/oidc-gateway/src\<close> of the repository.

  \<^bold>\<open>The program.\<close> A request reaches a handler, which reads and writes records through \<open>store.rs\<close>; that file
  turns every operation into a request to the storage service and carries the revisions a session has
  seen. The handlers issue authorization codes, exchange them for tokens signed by \<open>key_manager.rs\<close>, and
  keep browser sessions. Nothing lives in memory between two requests: the storage service is the only
  shared state, and single use, rotation and rate limits rest on its create, compare-and-swap and
  compare-and-delete operations.

  \<^bold>\<open>The model.\<close> A computation of the gateway is a function of type \<open>('a, 's) act\<close> (\<open>World\<close>): it maps a world
  to a result and a world. A result is \<open>Ok\<close>, \<open>Err\<close> with the message of the source's error, or \<open>Panic\<close>. The
  world holds the state \<open>'s\<close> of the storage service, the clock readings and random bytes still to come, the
  configuration cache, the consistency tokens of the request, the audit log and the metrics. Text and bytes
  are strings, unsigned 64-bit integers are words of that width and wrap as in a release build. What is not
  in the repository is an argument of the definitions that use it: the record \<open>ext\<close> holds the storage
  service, the hash and signature primitives, the JSON text codec, URI parsing and the outgoing HTTP
  client; the script engine of the hooks and the fixed text of the HTML pages are arguments of their own.

  \<^bold>\<open>The theories.\<close>
  \<^item> \<open>Prelude\<close>, \<open>Json\<close>, \<open>Utf8\<close>, \<open>Ip_Addr\<close>: text, the result type and its combinators, JSON values with
    the derived decoders of serde, the standard library's UTF-8 and address parsers.
  \<^item> \<open>Store_Types\<close>, \<open>Admin_Types\<close>: the records of \<open>store.rs\<close> with encoding and decoding; decoding inverts
    encoding for each of them.
  \<^item> \<open>World\<close>, \<open>Kv\<close>: configuration, clock, random numbers, audit log; the request function \<open>ldb_request\<close> and
    the \<open>kv_*\<close> operations of \<open>store.rs\<close>.
  \<^item> \<open>Kv_Contract\<close>, \<open>Frames\<close>: the contract of the storage service as the locale \<open>jetcache\<close> over a view of its
    state, with one law per operation; what survives a computation (\<open>survives\<close>) and which addresses it may
    touch (\<open>frames\<close>). The locale \<open>gateway\<close> adds the laws of the codec.
  \<^item> \<open>Test_Server\<close>: the in-memory service the repository tests against; it satisfies the contract
    (interpretation \<open>mem_gateway\<close>), so no hypothesis of the library is void. \<open>Demo_World\<close> holds a concrete
    world for the witnesses.
  \<^item> \<open>Util\<close>: \<open>util.rs\<close>, form and query parsing, percent-encoding, escaping, the URL filter.
  \<^item> \<open>Store_Crypto\<close>, \<open>Store_Oauth\<close>, \<open>Store_Users\<close>, \<open>Store_Admin\<close>: the operations of \<open>store.rs\<close> (and
    \<open>region_authority.rs\<close>) by table: single-use values, codes, refresh tokens, clients, accounts,
    memberships, lockout, sessions, consent, the encryption migration, identity providers, SAML, SCIM, hooks.
  \<^item> \<open>Single_Use\<close>: any number of interleaved consumers of one code or refresh token, as a step relation.
  \<^item> \<open>Abuse\<close>: \<open>abuse.rs\<close>, the rate limiter, sequentially and under interleaving.
  \<^item> \<open>Totp\<close>: \<open>totp.rs\<close>, base32, one-time passwords, recovery codes.
  \<^item> \<open>Jwt\<close>, \<open>Key_Manager\<close>: \<open>jwt.rs\<close>, \<open>key_manager.rs\<close>, signatures, the key ring and its rotation.
  \<^item> \<open>Client_Auth\<close>, \<open>Dpop\<close>: \<open>client_auth.rs\<close>, \<open>dpop.rs\<close>.
  \<^item> \<open>Http\<close>, \<open>Service_Client\<close>, \<open>Backchannel\<close>: \<open>http_client.rs\<close>, the request metadata of \<open>logger.rs\<close>,
    \<open>service_client.rs\<close>, \<open>backchannel.rs\<close>.
  \<^item> \<open>Token\<close>, \<open>Token_Properties\<close>: \<open>token.rs\<close>, the four grants, claims, rotation, revocation, introspection.
  \<^item> \<open>Session\<close>: the cookies and sessions of \<open>account.rs\<close>. \<open>Par\<close>: \<open>par.rs\<close>. \<open>Theme\<close>: \<open>theme.rs\<close>.
    \<open>Hooks\<close>: \<open>hooks.rs\<close>.
  \<^item> \<open>Pages\<close>: the HTML templates of \<open>login.rs\<close> and \<open>device.rs\<close>, character for character, and the functions
    that fill them. \<open>Writes\<close>: which values a computation may put at an address, with one rule per combinator.
  \<^item> \<open>Device\<close>: \<open>device.rs\<close>, device codes, the page a user types the code into, and the approval.
  \<^item> \<open>Saml\<close>: \<open>saml/mod.rs\<close> and \<open>saml/keys.rs\<close>; the crates that parse, sign and write documents are the
    record \<open>saml_lib\<close>.
  \<^item> \<open>Login\<close>: \<open>login.rs\<close>, password, second factor, the end of a login for each kind of flow, consent.
  \<^item> \<open>Authorize\<close>: \<open>authorize.rs\<close>, validation of a request, single sign-on, the sign-in session.

  \<^bold>\<open>The properties.\<close> Single use is proved for arbitrary interleavings: at most one consumer of a code or
  refresh token succeeds, and the limiter admits at most its limit in a window. The token endpoint is proved
  sound grant by grant: a response with tokens implies every check of the specification, a replayed refresh
  token ends the sessions of its user, and no rotation extends a family past its absolute lifetime. The
  key ring is refined by an abstract generation counter with retired keys: rotation keeps every key it vouched
  for. A signed token verifies and is accepted by the resource side, and revocation cuts it off. Round trips
  cover percent-encoding, the authorization redirect, session cookies and base32. Some properties establish a
  defect: they show the inputs on which the code does not do what its comments promise.

  \<^bold>\<open>Bounds and fuel.\<close> Loops of the source with a fixed number of attempts (five compare-and-swap attempts,
  eight passes over custom style text) are structural recursions on the attempts left. Two loops of the
  source have no bound of their own: the pages of a key listing and the draws of a rejection sampler. They
  take their bound from \<open>ext\<close> (\<open>x_pages\<close>, \<open>x_draws\<close>) and a computation that exhausts it fails; the properties
  about computations that return hold for every bound, and the witnesses run within small ones.

  \<^bold>\<open>Not modelled.\<close> The administration interface (\<open>admin\<close>), the management API (\<open>management.rs\<close>) and the router
  (\<open>lib.rs\<close> beyond its configuration) are dispatch and HTML around the operations modelled here; the social
  and passkey sign-in paths rest on crates and remote services whose behaviour is not
  in the repository; the mail transport, the metrics exporter and the log writer only format and send. The
  constant-time comparison is modelled as equality: timing is not a value. The width of machine integers is
  kept, their overflow panic in a debug build is not.
\<close>

end
